(* ===== verification/Prelude.thy ===== *)
theory Prelude
  imports Main "HOL-Library.Word" "HOL-Library.AList"
begin

unbundle bit_operations_syntax

section \<open>Shared prelude: C++ values, errors and containers\<close>

text \<open>
  What every component of the development shares: the exceptions the C++ code can raise and a
  sum type for fallible calls, the operations of \<^verbatim>\<open>std::string\<close>, \<^verbatim>\<open>std::stoi\<close> and
  \<^verbatim>\<open>std::bitset\<close> that the sources use (an \<open>N\<close>-bit \<^verbatim>\<open>std::bitset\<close> is an
  \<open>N\<close>-bit word), the integer conversions, the contract of \<^verbatim>\<open>std::unordered_map\<close> as a
  locale with its implementation by association lists, and generic lemmas on these.
  \<open>cpp_simps\<close> collects the rewrite rules for fallible calls, \<open>bin_simps\<close> the rules for
  strings of binary digits.
\<close>

named_theorems cpp_simps "unfolding of fallible C++ calls"
named_theorems bin_simps "strings of binary digits"

subsection \<open>Errors as values\<close>

text \<open>
  \<open>OutOfRange\<close> and \<open>InvalidArgument\<close> are the standard library's exceptions;
  \<open>UndefinedBehaviour\<close> marks a step the language gives no meaning to (a null dereference,
  an index past the end). An exception that leaves a handler ends the block that runs it, so
  the state after it is not part of the model.
\<close>

datatype cpp_error = OutOfRange | InvalidArgument | UndefinedBehaviour

type_synonym 'a result = "cpp_error + 'a"

definition bindr :: "'a result \<Rightarrow> ('a \<Rightarrow> 'b result) \<Rightarrow> 'b result" where
  "bindr r f = (case r of Inl e \<Rightarrow> Inl e | Inr x \<Rightarrow> f x)"

lemma bindr_Inl [simp, cpp_simps]: "bindr (Inl e) f = Inl e"
  by (simp add: bindr_def)

lemma bindr_Inr [simp, cpp_simps]: "bindr (Inr x) f = f x"
  by (simp add: bindr_def)

lemma bindr_eq_Inr: "bindr r f = Inr y \<longleftrightarrow> (\<exists>x. r = Inr x \<and> f x = Inr y)"
  by (cases r) auto

lemma bindr_eq_Inl: "bindr r f = Inl e \<longleftrightarrow> r = Inl e \<or> (\<exists>x. r = Inr x \<and> f x = Inl e)"
  by (cases r) auto

lemma bindr_split:
  "P (bindr r f) \<longleftrightarrow> (\<forall>e. r = Inl e \<longrightarrow> P (Inl e)) \<and> (\<forall>x. r = Inr x \<longrightarrow> P (f x))"
  by (cases r) auto

lemma bindr_split_asm:
  "P (bindr r f) \<longleftrightarrow> \<not> ((\<exists>e. r = Inl e \<and> \<not> P (Inl e)) \<or> (\<exists>x. r = Inr x \<and> \<not> P (f x)))"
  by (cases r) auto

lemmas bindr_splits = bindr_split bindr_split_asm

fun mapr :: "('a \<Rightarrow> 'b result) \<Rightarrow> 'a list \<Rightarrow> 'b list result" where
  "mapr f [] = Inr []"
| "mapr f (x # xs) = bindr (f x) (\<lambda>y. bindr (mapr f xs) (\<lambda>ys. Inr (y # ys)))"

lemma mapr_total: "(\<And>x. x \<in> set xs \<Longrightarrow> f x = Inr (g x)) \<Longrightarrow> mapr f xs = Inr (map g xs)"
  by (induction xs) auto

subsection \<open>Integer conversions\<close>

text \<open>
  \<^verbatim>\<open>int32_t\<close> values are integers in \<open>- 2 ^ 31 ..< 2 ^ 31\<close>; \<open>to_int32\<close> is the conversion
  from a wider type, \<open>to_size_t\<close> the conversion of a signed value to the 64-bit
  \<^verbatim>\<open>size_t\<close>, which sends \<open>- 1\<close> to \<^verbatim>\<open>npos\<close>.
\<close>

definition to_int32 :: "int \<Rightarrow> int" where
  "to_int32 i = signed_take_bit 31 i"

definition to_size_t :: "int \<Rightarrow> nat" where
  "to_size_t i = nat (i mod 2 ^ 64)"

lemma to_int32_id [simp]: "- (2 ^ 31) \<le> i \<Longrightarrow> i < 2 ^ 31 \<Longrightarrow> to_int32 i = i"
  by (simp add: to_int32_def signed_take_bit_int_eq_self)

lemma to_int32_range: "- (2 ^ 31) \<le> to_int32 i \<and> to_int32 i < 2 ^ 31"
  using signed_take_bit_int_less_exp [of 31 i] signed_take_bit_int_greater_eq_minus_exp [of 31 i]
  by (simp add: to_int32_def)

lemma to_size_t_id [simp]: "0 \<le> i \<Longrightarrow> i < 2 ^ 64 \<Longrightarrow> to_size_t i = nat i"
  by (simp add: to_size_t_def)

lemma to_size_t_int [simp]: "n < 2 ^ 64 \<Longrightarrow> to_size_t (int n) = n"
  by (simp add: to_size_t_def)

lemma to_size_t_0 [simp]: "to_size_t 0 = 0"
  by (simp add: to_size_t_def)

lemma to_size_t_minus_one: "to_size_t (- 1) = 2 ^ 64 - 1"
  by (simp add: to_size_t_def)

subsection \<open>Strings of binary digits\<close>

definition is_bit_char :: "char \<Rightarrow> bool" where
  "is_bit_char c \<longleftrightarrow> c = CHR ''0'' \<or> c = CHR ''1''"

abbreviation bin_string :: "string \<Rightarrow> bool" where
  "bin_string s \<equiv> list_all is_bit_char s"

definition bit_char :: "bool \<Rightarrow> char" where
  "bit_char b = (if b then CHR ''1'' else CHR ''0'')"

abbreviation char_bit :: "char \<Rightarrow> bool" where
  "char_bit c \<equiv> c = CHR ''1''"

lemma is_bit_char_bit_char [simp, bin_simps]: "is_bit_char (bit_char b)"
  by (simp add: is_bit_char_def bit_char_def)

lemma char_bit_bit_char [simp, bin_simps]: "char_bit (bit_char b) = b"
  by (simp add: bit_char_def)

lemma bit_char_char_bit [simp, bin_simps]: "is_bit_char c \<Longrightarrow> bit_char (char_bit c) = c"
  by (auto simp: is_bit_char_def bit_char_def)

lemma bin_string_take [bin_simps, intro]: "bin_string s \<Longrightarrow> bin_string (take n s)"
  by (auto simp: list_all_iff dest: in_set_takeD)

lemma bin_string_drop [bin_simps, intro]: "bin_string s \<Longrightarrow> bin_string (drop n s)"
  by (auto simp: list_all_iff dest: in_set_dropD)

lemma bin_string_append [simp, bin_simps]:
  "bin_string (s @ t) \<longleftrightarrow> bin_string s \<and> bin_string t"
  by simp

lemma bin_string_map_bit_char [simp, bin_simps]: "bin_string (map (\<lambda>x. bit_char (f x)) xs)"
  by (simp add: list_all_iff)

lemma bin_string_concat: "(\<And>s. s \<in> set ss \<Longrightarrow> bin_string s) \<Longrightarrow> bin_string (concat ss)"
  by (auto simp: list_all_iff)

text \<open>The value of a list of binary digits, most significant first.\<close>

fun bin_value :: "string \<Rightarrow> nat" where
  "bin_value [] = 0"
| "bin_value (c # s) = (if char_bit c then 2 ^ length s else 0) + bin_value s"

lemma bin_value_append: "bin_value (s @ t) = bin_value s * 2 ^ length t + bin_value t"
  by (induction s) (auto simp: power_add algebra_simps)

lemma bin_value_bound: "bin_value s < 2 ^ length s"
  by (induction s) auto

lemma bin_value_inj:
  "length s = length t \<Longrightarrow> bin_string s \<Longrightarrow> bin_string t \<Longrightarrow> bin_value s = bin_value t \<Longrightarrow> s = t"
proof (induction s t rule: list_induct2)
  case Nil
  then show ?case by simp
next
  case (Cons c s d t)
  have "bin_value s < 2 ^ length s" "bin_value t < 2 ^ length s"
    using bin_value_bound [of s] bin_value_bound [of t] Cons.hyps by simp_all
  with Cons.prems Cons.hyps have "char_bit c = char_bit d" "bin_value s = bin_value t"
    by (auto split: if_splits)
  with Cons show ?case by (auto simp: is_bit_char_def)
qed

subsection \<open>The string operations of the standard library\<close>

definition substr :: "string \<Rightarrow> nat \<Rightarrow> nat \<Rightarrow> string result" where
  "substr s pos n = (if length s < pos then Inl OutOfRange else Inr (take n (drop pos s)))"

lemma substr_ok [simp, cpp_simps]: "pos \<le> length s \<Longrightarrow> substr s pos n = Inr (take n (drop pos s))"
  by (simp add: substr_def)

lemma substr_throws [simp, cpp_simps]: "length s < pos \<Longrightarrow> substr s pos n = Inl OutOfRange"
  by (simp add: substr_def)

text \<open>
  \<^verbatim>\<open>std::stoi(s, nullptr, 2)\<close>: leading white space, an optional sign, the longest run of binary
  digits; no digit raises \<^verbatim>\<open>invalid_argument\<close>, a value outside \<^verbatim>\<open>int\<close> raises
  \<^verbatim>\<open>out_of_range\<close>.
\<close>

definition is_space :: "char \<Rightarrow> bool" where
  "is_space c \<longleftrightarrow> c \<in> {CHR '' '', CHR 0x09, CHR 0x0A, CHR 0x0B, CHR 0x0C, CHR 0x0D}"

definition stoi_sign :: "string \<Rightarrow> bool \<times> string" where
  "stoi_sign s = (case s of
      [] \<Rightarrow> (False, [])
    | c # r \<Rightarrow> if c = CHR ''-'' then (True, r) else if c = CHR ''+'' then (False, r) else (False, s))"

definition stoi2 :: "string \<Rightarrow> int result" where
  "stoi2 s =
     (let (neg, r) = stoi_sign (dropWhile is_space s);
          ds = takeWhile is_bit_char r;
          v = (if neg then - int (bin_value ds) else int (bin_value ds))
      in if ds = [] then Inl InvalidArgument
         else if v < - (2 ^ 31) \<or> 2 ^ 31 \<le> v then Inl OutOfRange
         else Inr v)"

lemma stoi2_bin_string:
  assumes "bin_string s" and "s \<noteq> []" and "length s \<le> 31"
  shows "stoi2 s = Inr (int (bin_value s))"
proof -
  obtain c r where s: "s = c # r" and c: "is_bit_char c"
    using assms by (cases s) auto
  have "dropWhile is_space s = s"
    using c by (auto simp: s is_bit_char_def is_space_def)
  moreover have "stoi_sign s = (False, s)"
    using c by (auto simp: s is_bit_char_def stoi_sign_def)
  moreover have "takeWhile is_bit_char s = s"
    using assms(1) by (simp add: list_all_iff takeWhile_eq_all_conv)
  moreover have "int (bin_value s) < 2 ^ 31"
  proof -
    have "bin_value s < 2 ^ length s" by (rule bin_value_bound)
    also have "(2::nat) ^ length s \<le> 2 ^ 31" using assms(3) by (rule power_increasing) simp
    finally show ?thesis by (metis of_nat_less_iff of_nat_numeral of_nat_power)
  qed
  ultimately show ?thesis using assms(2) by (simp add: stoi2_def Let_def takeWhile_eq_all_conv [THEN iffD2])
qed

subsection \<open>Bitsets\<close>

text \<open>
  \<^verbatim>\<open>std::bitset<N>\<close> is an \<open>N\<close>-bit word. Construction from a string raises
  \<^verbatim>\<open>invalid_argument\<close> on a character other than a binary digit and reads the first
  \<open>min N (length s)\<close> characters, the last of them into bit 0.
\<close>

definition bits_to_word :: "bool list \<Rightarrow> 'n::len word" where
  "bits_to_word bs = horner_sum of_bool 2 (rev bs)"

definition bitset_of_string :: "string \<Rightarrow> ('n::len word) result" where
  "bitset_of_string s =
     (if bin_string s then Inr (bits_to_word (map char_bit (take LENGTH('n) s)))
      else Inl InvalidArgument)"

definition bitset_to_string :: "'n::len word \<Rightarrow> string" where
  "bitset_to_string w = map (\<lambda>i. bit_char (bit w (LENGTH('n) - 1 - i))) [0..<LENGTH('n)]"

lemma bit_bits_to_word:
  "bit (bits_to_word bs :: 'n::len word) k \<longleftrightarrow> k < LENGTH('n) \<and> k < length bs \<and> bs ! (length bs - 1 - k)"
  by (auto simp: bits_to_word_def bit_horner_sum_bit_word_iff rev_nth)

lemma length_bitset_to_string [simp]: "length (bitset_to_string (w :: 'n::len word)) = LENGTH('n)"
  by (simp add: bitset_to_string_def)

lemma bin_string_bitset_to_string [simp]: "bin_string (bitset_to_string w)"
  by (simp add: bitset_to_string_def)

lemma bitset_string_roundtrip: "bitset_of_string (bitset_to_string w) = Inr w"
proof -
  have "bits_to_word (map char_bit (bitset_to_string w)) = w"
    by (rule bit_word_eqI) (simp add: bit_bits_to_word bitset_to_string_def)
  then show ?thesis by (simp add: bitset_of_string_def)
qed

lemma string_bitset_roundtrip:
  assumes "bin_string s" and "length s = LENGTH('n::len)"
  shows "bitset_to_string (bits_to_word (map char_bit s) :: 'n word) = s"
proof (rule nth_equalityI)
  fix i
  assume i: "i < length (bitset_to_string (bits_to_word (map char_bit s) :: 'n word))"
  then have "is_bit_char (s ! i)" using assms by (simp add: list_all_length)
  with i assms show "bitset_to_string (bits_to_word (map char_bit s) :: 'n word) ! i = s ! i"
    by (simp add: bitset_to_string_def bit_bits_to_word)
qed (simp add: assms)

text \<open>Writing one bit of a bitset, \<^verbatim>\<open>b[i] = v\<close>.\<close>

definition bitset_put :: "nat \<Rightarrow> bool \<Rightarrow> 'n::len word \<Rightarrow> 'n word" where
  "bitset_put i v w = (if v then set_bit i w else unset_bit i w)"

lemma bit_bitset_put:
  "bit (bitset_put i v (w :: 'n::len word)) k \<longleftrightarrow> (if k = i \<and> k < LENGTH('n) then v else bit w k)"
  by (auto simp: bitset_put_def bit_set_bit_iff bit_unset_bit_iff dest: bit_imp_le_length)

subsection \<open>Unordered maps\<close>

text \<open>
  The contract of \<^verbatim>\<open>std::unordered_map\<close> that the code relies on: lookup after an assignment
  through \<^verbatim>\<open>operator[]\<close>, and the number of entries.
\<close>

locale std_map =
  fixes empty :: "'m"
    and lookup :: "'m \<Rightarrow> 'k \<Rightarrow> 'v option"
    and put :: "'k \<Rightarrow> 'v \<Rightarrow> 'm \<Rightarrow> 'm"
    and size_of :: "'m \<Rightarrow> nat"
    and wf :: "'m \<Rightarrow> bool"
  assumes wf_empty: "wf empty"
    and wf_put: "wf m \<Longrightarrow> wf (put k v m)"
    and lookup_empty: "lookup empty k = None"
    and lookup_put: "lookup (put k v m) = (lookup m)(k \<mapsto> v)"
    and finite_keys: "finite (dom (lookup m))"
    and size_keys: "wf m \<Longrightarrow> size_of m = card (dom (lookup m))"
begin

definition keys :: "'m \<Rightarrow> 'k set" where
  "keys m = dom (lookup m)"

lemma keys_put: "keys (put k v m) = insert k (keys m)"
  by (simp add: keys_def lookup_put)

lemma size_put: "wf m \<Longrightarrow> size_of (put k v m) = (if k \<in> keys m then size_of m else Suc (size_of m))"
  by (simp add: size_keys wf_put keys_put [unfolded keys_def] keys_def finite_keys insert_absorb
      card_insert_if del: dom_def)

text \<open>A map with as many entries as a finite set that holds all its keys has exactly that set as keys.\<close>

lemma full_keys: "wf m \<Longrightarrow> finite A \<Longrightarrow> keys m \<subseteq> A \<Longrightarrow> size_of m = card A \<Longrightarrow> keys m = A"
  by (simp add: keys_def size_keys card_subset_eq)

lemma missing_key_size:
  "wf m \<Longrightarrow> finite A \<Longrightarrow> size_of m = card A \<Longrightarrow> k \<in> A \<Longrightarrow> k \<notin> keys m \<Longrightarrow> \<exists>k'. k' \<in> keys m \<and> k' \<notin> A"
  using full_keys by blast

end

type_synonym ('k, 'v) umap = "('k \<times> 'v) list"

abbreviation umap_wf :: "('k, 'v) umap \<Rightarrow> bool" where
  "umap_wf m \<equiv> distinct (map fst m)"

interpretation umap: std_map "[]" map_of AList.update length umap_wf
proof unfold_locales
  fix m :: "('a \<times> 'b) list"
  assume "umap_wf m"
  then have "card (set (map fst m)) = length (map fst m)" by (rule distinct_card)
  then show "length m = card (dom (map_of m))" by (simp add: dom_map_of_conv_image_fst)
qed (simp_all add: update_conv' distinct_update finite_dom_map_of)

lemma map_of_update [simp]: "map_of (AList.update k v m) = (map_of m)(k \<mapsto> v)"
  by (rule umap.lookup_put)

lemma keys_umap [simp]: "umap.keys m = fst ` set m"
  by (simp add: umap.keys_def dom_map_of_conv_image_fst)

lemma umap_member_lookup: "k \<in> fst ` set m \<longleftrightarrow> map_of m k \<noteq> None"
  by (simp add: map_of_eq_None_iff)

subsection \<open>Lists\<close>

lemma take_drop_inside: "a \<le> i \<Longrightarrow> i + n \<le> a + b \<Longrightarrow> take n (drop (i - a) (take b (drop a s))) = take n (drop i s)"
  by (simp add: drop_take min_def)

lemma concat_map_take_drop:
  "(\<And>x. x \<in> set xs \<Longrightarrow> length (f x) = n) \<Longrightarrow> i < length xs \<Longrightarrow>
   take n (drop (i * n) (concat (map f xs))) = f (xs ! i)"
proof (induction xs arbitrary: i)
  case Nil
  then show ?case by simp
next
  case (Cons x xs)
  then show ?case by (cases i) (auto simp: drop_append)
qed

lemma length_concat_map_const:
  "(\<And>x. x \<in> set xs \<Longrightarrow> length (f x) = n) \<Longrightarrow> length (concat (map f xs)) = length xs * n"
  by (induction xs) auto

end
