(* ===== verification/Osnma_Constants.thy ===== *)
theory Osnma_Constants
  imports Prelude
begin

section \<open>Constants of the OSNMA message layout\<close>

text \<open>
  The macros and tables of \<^verbatim>\<open>security/libs/osnma/osnma_processor.h\<close>: offsets and lengths of the
  fields of the NMA header, the DSM header and the DSM-KROOT message, the order of word types
  in a Galileo E1 subframe and the tables that decode the number of blocks and the key size.
  Every offset is written as the sum the header writes. The lemmas evaluate the layout and show
  that the fields of block 0 tile it without gap or overlap.
\<close>

definition LIBOSNMA_OSNMA_DATA_LENGTH :: int where
  "LIBOSNMA_OSNMA_DATA_LENGTH = 40"

definition LIBOSNMA_NAV_DATA_LENGTH :: int where
  "LIBOSNMA_NAV_DATA_LENGTH = 128"

definition LIBOSNMA_WORD_TYPE_OFFSET :: int where
  "LIBOSNMA_WORD_TYPE_OFFSET = 0"

definition LIBOSNMA_WORD_TYPE_LENGTH :: int where
  "LIBOSNMA_WORD_TYPE_LENGTH = 6"

definition LIBOSNMA_NMA_HEADER_OFFSET :: int where
  "LIBOSNMA_NMA_HEADER_OFFSET = 0"

definition LIBOSNMA_NMA_HEADER_LENGTH :: int where
  "LIBOSNMA_NMA_HEADER_LENGTH = 8"

definition LIBOSNMA_NMAS_OFFSET :: int where
  "LIBOSNMA_NMAS_OFFSET = 0"

definition LIBOSNMA_NMAS_LENGTH :: int where
  "LIBOSNMA_NMAS_LENGTH = 2"

definition LIBOSNMA_CID_OFFSET :: int where
  "LIBOSNMA_CID_OFFSET = LIBOSNMA_NMAS_OFFSET + LIBOSNMA_NMAS_LENGTH"

definition LIBOSNMA_CID_LENGTH :: int where
  "LIBOSNMA_CID_LENGTH = 2"

definition LIBOSNMA_CPKS_OFFSET :: int where
  "LIBOSNMA_CPKS_OFFSET = LIBOSNMA_CID_OFFSET + LIBOSNMA_CID_LENGTH"

definition LIBOSNMA_CPKS_LENGTH :: int where
  "LIBOSNMA_CPKS_LENGTH = 3"

definition LIBOSNMA_NMAH_RESERVED_OFFSET :: int where
  "LIBOSNMA_NMAH_RESERVED_OFFSET = LIBOSNMA_CPKS_OFFSET + LIBOSNMA_CPKS_LENGTH"

definition LIBOSNMA_NMAH_RESERVED_LENGTH :: int where
  "LIBOSNMA_NMAH_RESERVED_LENGTH = 1"

definition LIBOSNMA_DSM_ID_OFFSET :: int where
  "LIBOSNMA_DSM_ID_OFFSET = LIBOSNMA_NMAH_RESERVED_OFFSET + LIBOSNMA_NMAH_RESERVED_LENGTH"

definition LIBOSNMA_DSM_ID_LENGTH :: int where
  "LIBOSNMA_DSM_ID_LENGTH = 4"

definition LIBOSNMA_DSM_BLOCK_ID_OFFSET :: int where
  "LIBOSNMA_DSM_BLOCK_ID_OFFSET = LIBOSNMA_DSM_ID_OFFSET + LIBOSNMA_DSM_ID_LENGTH"

definition LIBOSNMA_DSM_BLOCK_ID_LENGTH :: int where
  "LIBOSNMA_DSM_BLOCK_ID_LENGTH = 4"

definition LIBOSNMA_DSM_BLOCK_OFFSET :: int where
  "LIBOSNMA_DSM_BLOCK_OFFSET = LIBOSNMA_DSM_BLOCK_ID_OFFSET + LIBOSNMA_DSM_BLOCK_ID_LENGTH"

definition LIBOSNMA_DSM_BLOCK_LENGTH :: int where
  "LIBOSNMA_DSM_BLOCK_LENGTH = 104"

definition LIBOSNMA_DSM_KROOT_NB_BLOCKS_OFFSET :: int where
  "LIBOSNMA_DSM_KROOT_NB_BLOCKS_OFFSET = 0"

definition LIBOSNMA_DSM_KROOT_NB_BLOCKS_LENGTH :: int where
  "LIBOSNMA_DSM_KROOT_NB_BLOCKS_LENGTH = 4"

definition LIBOSNMA_DSM_KROOT_PKID_OFFSET :: int where
  "LIBOSNMA_DSM_KROOT_PKID_OFFSET = LIBOSNMA_DSM_KROOT_NB_BLOCKS_OFFSET + LIBOSNMA_DSM_KROOT_NB_BLOCKS_LENGTH"

definition LIBOSNMA_DSM_KROOT_PKID_LENGTH :: int where
  "LIBOSNMA_DSM_KROOT_PKID_LENGTH = 4"

definition LIBOSNMA_DSM_KROOT_CIDKR_OFFSET :: int where
  "LIBOSNMA_DSM_KROOT_CIDKR_OFFSET = LIBOSNMA_DSM_KROOT_PKID_OFFSET + LIBOSNMA_DSM_KROOT_PKID_LENGTH"

definition LIBOSNMA_DSM_KROOT_CIDKR_LENGTH :: int where
  "LIBOSNMA_DSM_KROOT_CIDKR_LENGTH = 2"

definition LIBOSNMA_DSM_KROOT_RESERVED_1_OFFSET :: int where
  "LIBOSNMA_DSM_KROOT_RESERVED_1_OFFSET = LIBOSNMA_DSM_KROOT_CIDKR_OFFSET + LIBOSNMA_DSM_KROOT_CIDKR_LENGTH"

definition LIBOSNMA_DSM_KROOT_RESERVED_1_LENGTH :: int where
  "LIBOSNMA_DSM_KROOT_RESERVED_1_LENGTH = 2"

definition LIBOSNMA_DSM_KROOT_HF_OFFSET :: int where
  "LIBOSNMA_DSM_KROOT_HF_OFFSET = LIBOSNMA_DSM_KROOT_RESERVED_1_OFFSET + LIBOSNMA_DSM_KROOT_RESERVED_1_LENGTH"

definition LIBOSNMA_DSM_KROOT_HF_LENGTH :: int where
  "LIBOSNMA_DSM_KROOT_HF_LENGTH = 2"

definition LIBOSNMA_DSM_KROOT_MF_OFFSET :: int where
  "LIBOSNMA_DSM_KROOT_MF_OFFSET = LIBOSNMA_DSM_KROOT_HF_OFFSET + LIBOSNMA_DSM_KROOT_HF_LENGTH"

definition LIBOSNMA_DSM_KROOT_MF_LENGTH :: int where
  "LIBOSNMA_DSM_KROOT_MF_LENGTH = 2"

definition LIBOSNMA_DSM_KROOT_KS_OFFSET :: int where
  "LIBOSNMA_DSM_KROOT_KS_OFFSET = LIBOSNMA_DSM_KROOT_MF_OFFSET + LIBOSNMA_DSM_KROOT_MF_LENGTH"

definition LIBOSNMA_DSM_KROOT_KS_LENGTH :: int where
  "LIBOSNMA_DSM_KROOT_KS_LENGTH = 4"

definition LIBOSNMA_DSM_KROOT_TS_OFFSET :: int where
  "LIBOSNMA_DSM_KROOT_TS_OFFSET = LIBOSNMA_DSM_KROOT_KS_OFFSET + LIBOSNMA_DSM_KROOT_KS_LENGTH"

definition LIBOSNMA_DSM_KROOT_TS_LENGTH :: int where
  "LIBOSNMA_DSM_KROOT_TS_LENGTH = 4"

definition LIBOSNMA_DSM_KROOT_MACLT_OFFSET :: int where
  "LIBOSNMA_DSM_KROOT_MACLT_OFFSET = LIBOSNMA_DSM_KROOT_TS_OFFSET + LIBOSNMA_DSM_KROOT_TS_LENGTH"

definition LIBOSNMA_DSM_KROOT_MACLT_LENGTH :: int where
  "LIBOSNMA_DSM_KROOT_MACLT_LENGTH = 8"

definition LIBOSNMA_DSM_KROOT_RESERVED_OFFSET :: int where
  "LIBOSNMA_DSM_KROOT_RESERVED_OFFSET = LIBOSNMA_DSM_KROOT_MACLT_OFFSET + LIBOSNMA_DSM_KROOT_MACLT_LENGTH"

definition LIBOSNMA_DSM_KROOT_RESERVED_LENGTH :: int where
  "LIBOSNMA_DSM_KROOT_RESERVED_LENGTH = 4"

definition LIBOSNMA_DSM_KROOT_WNK_OFFSET :: int where
  "LIBOSNMA_DSM_KROOT_WNK_OFFSET = LIBOSNMA_DSM_KROOT_RESERVED_OFFSET + LIBOSNMA_DSM_KROOT_RESERVED_LENGTH"

definition LIBOSNMA_DSM_KROOT_WNK_LENGTH :: int where
  "LIBOSNMA_DSM_KROOT_WNK_LENGTH = 12"

definition LIBOSNMA_DSM_KROOT_TOWHK_OFFSET :: int where
  "LIBOSNMA_DSM_KROOT_TOWHK_OFFSET = LIBOSNMA_DSM_KROOT_WNK_OFFSET + LIBOSNMA_DSM_KROOT_WNK_LENGTH"

definition LIBOSNMA_DSM_KROOT_TOWHK_LENGTH :: int where
  "LIBOSNMA_DSM_KROOT_TOWHK_LENGTH = 8"

definition LIBOSNMA_DSM_KROOT_ALPHA_OFFSET :: int where
  "LIBOSNMA_DSM_KROOT_ALPHA_OFFSET = LIBOSNMA_DSM_KROOT_TOWHK_OFFSET + LIBOSNMA_DSM_KROOT_TOWHK_LENGTH"

definition LIBOSNMA_DSM_KROOT_ALPHA_LENGTH :: int where
  "LIBOSNMA_DSM_KROOT_ALPHA_LENGTH = 48"

definition LIBOSNMA_DSM_BLOCK_CIDKR_TO_KROOT_LENGTH :: int where
  "LIBOSNMA_DSM_BLOCK_CIDKR_TO_KROOT_LENGTH = LIBOSNMA_DSM_BLOCK_LENGTH - LIBOSNMA_DSM_KROOT_CIDKR_OFFSET"

definition LIBOSNMA_MACK_MACSEQ_LENGTH :: int where
  "LIBOSNMA_MACK_MACSEQ_LENGTH = 12"

definition LIBOSNMA_MACK_RESERVED_2_LENGTH :: int where
  "LIBOSNMA_MACK_RESERVED_2_LENGTH = 4"

definition LIBOSNMA_MACK_TAG_INFO_LENGTH :: int where
  "LIBOSNMA_MACK_TAG_INFO_LENGTH = 16"

definition LIBOSNMA_MACK_TAG_INFO_PRN_D_LENGTH :: int where
  "LIBOSNMA_MACK_TAG_INFO_PRN_D_LENGTH = 8"

definition LIBOSNMA_MACK_TAG_INFO_ADKD_LENGTH :: int where
  "LIBOSNMA_MACK_TAG_INFO_ADKD_LENGTH = 4"

definition LIBOSNMA_MACK_TAG_INFO_RESERVED_2_LENGTH :: int where
  "LIBOSNMA_MACK_TAG_INFO_RESERVED_2_LENGTH = 4"

definition LIBOSNMA_DSM_ID_PKR_START_ID :: int where
  "LIBOSNMA_DSM_ID_PKR_START_ID = 12"

lemmas osnma_consts =
  LIBOSNMA_OSNMA_DATA_LENGTH_def LIBOSNMA_NAV_DATA_LENGTH_def
  LIBOSNMA_WORD_TYPE_OFFSET_def LIBOSNMA_WORD_TYPE_LENGTH_def
  LIBOSNMA_NMA_HEADER_OFFSET_def LIBOSNMA_NMA_HEADER_LENGTH_def
  LIBOSNMA_NMAS_OFFSET_def LIBOSNMA_NMAS_LENGTH_def
  LIBOSNMA_CID_OFFSET_def LIBOSNMA_CID_LENGTH_def
  LIBOSNMA_CPKS_OFFSET_def LIBOSNMA_CPKS_LENGTH_def
  LIBOSNMA_NMAH_RESERVED_OFFSET_def LIBOSNMA_NMAH_RESERVED_LENGTH_def
  LIBOSNMA_DSM_ID_OFFSET_def LIBOSNMA_DSM_ID_LENGTH_def
  LIBOSNMA_DSM_BLOCK_ID_OFFSET_def LIBOSNMA_DSM_BLOCK_ID_LENGTH_def
  LIBOSNMA_DSM_BLOCK_OFFSET_def LIBOSNMA_DSM_BLOCK_LENGTH_def
  LIBOSNMA_DSM_KROOT_NB_BLOCKS_OFFSET_def LIBOSNMA_DSM_KROOT_NB_BLOCKS_LENGTH_def
  LIBOSNMA_DSM_KROOT_PKID_OFFSET_def LIBOSNMA_DSM_KROOT_PKID_LENGTH_def
  LIBOSNMA_DSM_KROOT_CIDKR_OFFSET_def LIBOSNMA_DSM_KROOT_CIDKR_LENGTH_def
  LIBOSNMA_DSM_KROOT_RESERVED_1_OFFSET_def LIBOSNMA_DSM_KROOT_RESERVED_1_LENGTH_def
  LIBOSNMA_DSM_KROOT_HF_OFFSET_def LIBOSNMA_DSM_KROOT_HF_LENGTH_def
  LIBOSNMA_DSM_KROOT_MF_OFFSET_def LIBOSNMA_DSM_KROOT_MF_LENGTH_def
  LIBOSNMA_DSM_KROOT_KS_OFFSET_def LIBOSNMA_DSM_KROOT_KS_LENGTH_def
  LIBOSNMA_DSM_KROOT_TS_OFFSET_def LIBOSNMA_DSM_KROOT_TS_LENGTH_def
  LIBOSNMA_DSM_KROOT_MACLT_OFFSET_def LIBOSNMA_DSM_KROOT_MACLT_LENGTH_def
  LIBOSNMA_DSM_KROOT_RESERVED_OFFSET_def LIBOSNMA_DSM_KROOT_RESERVED_LENGTH_def
  LIBOSNMA_DSM_KROOT_WNK_OFFSET_def LIBOSNMA_DSM_KROOT_WNK_LENGTH_def
  LIBOSNMA_DSM_KROOT_TOWHK_OFFSET_def LIBOSNMA_DSM_KROOT_TOWHK_LENGTH_def
  LIBOSNMA_DSM_KROOT_ALPHA_OFFSET_def LIBOSNMA_DSM_KROOT_ALPHA_LENGTH_def
  LIBOSNMA_DSM_BLOCK_CIDKR_TO_KROOT_LENGTH_def LIBOSNMA_MACK_MACSEQ_LENGTH_def
  LIBOSNMA_MACK_RESERVED_2_LENGTH_def LIBOSNMA_MACK_TAG_INFO_LENGTH_def
  LIBOSNMA_MACK_TAG_INFO_PRN_D_LENGTH_def LIBOSNMA_MACK_TAG_INFO_ADKD_LENGTH_def
  LIBOSNMA_MACK_TAG_INFO_RESERVED_2_LENGTH_def LIBOSNMA_DSM_ID_PKR_START_ID_def

definition GALILEO_E1_INAV_WORD_SEQ :: "int list list" where
  "GALILEO_E1_INAV_WORD_SEQ =
     [[2], [4], [6], [7, 9], [8, 10], [17, 18, 0], [19, 20, 0], [16, 0], [0], [0], [1], [3], [5], [0],
      [16, 0]]"

definition DSM_KROOT_NB_BLOCKS_TABLE :: "(int, int) umap" where
  "DSM_KROOT_NB_BLOCKS_TABLE =
     [(0, - 1), (1, 7), (2, 8), (3, 9), (4, 10), (5, 11), (6, 12), (7, 13), (8, 14), (9, - 1),
      (10, - 1), (11, - 1), (12, - 1), (13, - 1), (14, - 1), (15, - 1)]"

definition DSM_KROOT_KS_TABLE :: "(int, int) umap" where
  "DSM_KROOT_KS_TABLE =
     [(0, 96), (1, 104), (2, 112), (3, 120), (4, 128), (5, 160), (6, 192), (7, 224), (8, 256),
      (9, - 1), (10, - 1), (11, - 1), (12, - 1), (13, - 1), (14, - 1), (15, - 1)]"

text \<open>\<^verbatim>\<open>unordered_map::at\<close> throws on a missing key.\<close>

definition umap_at :: "('k, 'v) umap \<Rightarrow> 'k \<Rightarrow> 'v result" where
  "umap_at m k = (case map_of m k of None \<Rightarrow> Inl OutOfRange | Some v \<Rightarrow> Inr v)"

subsection \<open>The layout\<close>

text \<open>The fields of block 0 of a DSM-KROOT as (offset, length), in the order of the message.\<close>

definition dsm_kroot_layout :: "(int \<times> int) list" where
  "dsm_kroot_layout =
    [(LIBOSNMA_DSM_KROOT_NB_BLOCKS_OFFSET, LIBOSNMA_DSM_KROOT_NB_BLOCKS_LENGTH),
     (LIBOSNMA_DSM_KROOT_PKID_OFFSET, LIBOSNMA_DSM_KROOT_PKID_LENGTH),
     (LIBOSNMA_DSM_KROOT_CIDKR_OFFSET, LIBOSNMA_DSM_KROOT_CIDKR_LENGTH),
     (LIBOSNMA_DSM_KROOT_RESERVED_1_OFFSET, LIBOSNMA_DSM_KROOT_RESERVED_1_LENGTH),
     (LIBOSNMA_DSM_KROOT_HF_OFFSET, LIBOSNMA_DSM_KROOT_HF_LENGTH),
     (LIBOSNMA_DSM_KROOT_MF_OFFSET, LIBOSNMA_DSM_KROOT_MF_LENGTH),
     (LIBOSNMA_DSM_KROOT_KS_OFFSET, LIBOSNMA_DSM_KROOT_KS_LENGTH),
     (LIBOSNMA_DSM_KROOT_TS_OFFSET, LIBOSNMA_DSM_KROOT_TS_LENGTH),
     (LIBOSNMA_DSM_KROOT_MACLT_OFFSET, LIBOSNMA_DSM_KROOT_MACLT_LENGTH),
     (LIBOSNMA_DSM_KROOT_RESERVED_OFFSET, LIBOSNMA_DSM_KROOT_RESERVED_LENGTH),
     (LIBOSNMA_DSM_KROOT_WNK_OFFSET, LIBOSNMA_DSM_KROOT_WNK_LENGTH),
     (LIBOSNMA_DSM_KROOT_TOWHK_OFFSET, LIBOSNMA_DSM_KROOT_TOWHK_LENGTH),
     (LIBOSNMA_DSM_KROOT_ALPHA_OFFSET, LIBOSNMA_DSM_KROOT_ALPHA_LENGTH)]"

fun tiles :: "int \<Rightarrow> (int \<times> int) list \<Rightarrow> int \<Rightarrow> bool" where
  "tiles a [] b = (a = b)"
| "tiles a ((off, len) # fs) b = (off = a \<and> 0 < len \<and> tiles (off + len) fs b)"

lemma dsm_kroot_layout_tiles: "tiles 0 dsm_kroot_layout LIBOSNMA_DSM_BLOCK_LENGTH"
  by (simp add: dsm_kroot_layout_def osnma_consts)

lemma hkroot_layout_tiles:
  "tiles 0 [(LIBOSNMA_NMAS_OFFSET, LIBOSNMA_NMAS_LENGTH), (LIBOSNMA_CID_OFFSET, LIBOSNMA_CID_LENGTH),
     (LIBOSNMA_CPKS_OFFSET, LIBOSNMA_CPKS_LENGTH),
     (LIBOSNMA_NMAH_RESERVED_OFFSET, LIBOSNMA_NMAH_RESERVED_LENGTH),
     (LIBOSNMA_DSM_ID_OFFSET, LIBOSNMA_DSM_ID_LENGTH),
     (LIBOSNMA_DSM_BLOCK_ID_OFFSET, LIBOSNMA_DSM_BLOCK_ID_LENGTH),
     (LIBOSNMA_DSM_BLOCK_OFFSET, LIBOSNMA_DSM_BLOCK_LENGTH)] 120"
  by (simp add: osnma_consts)

lemma word_seq_length [simp]: "length GALILEO_E1_INAV_WORD_SEQ = 15"
  by (simp add: GALILEO_E1_INAV_WORD_SEQ_def)

text \<open>Only the first page of a subframe carries word type 2.\<close>

lemma word_seq_start:
  assumes "i < 15" and "k < 15" and "(i = 0) \<noteq> (k = 0)" and "t \<in> set (GALILEO_E1_INAV_WORD_SEQ ! i)"
  shows "t \<notin> set (GALILEO_E1_INAV_WORD_SEQ ! k)"
proof -
  have "\<forall>j \<in> set [1..<15]. 2 \<notin> set (GALILEO_E1_INAV_WORD_SEQ ! j)" by code_simp
  then have two: "2 \<in> set (GALILEO_E1_INAV_WORD_SEQ ! j) \<Longrightarrow> j < 15 \<Longrightarrow> j = 0" for j
    by (cases "j = 0") auto
  have "set (GALILEO_E1_INAV_WORD_SEQ ! 0) = {2}" by (simp add: GALILEO_E1_INAV_WORD_SEQ_def)
  with assms two [of i] two [of k] show ?thesis by (cases "i = 0") auto
qed

lemma int_0_15_cases:
  assumes "0 \<le> (i::int)" and "i < 16"
  shows "i \<in> {0, 1, 2, 3, 4, 5, 6, 7, 8, 9, 10, 11, 12, 13, 14, 15}"
  using assms by (simp only: insert_iff empty_iff) presburger

lemma ks_table_range:
  assumes "0 \<le> i" and "i < 16"
  shows "\<exists>ks. umap_at DSM_KROOT_KS_TABLE i = Inr ks \<and> (ks = - 1 \<or> 96 \<le> ks \<and> ks \<le> 256 \<and> ks mod 8 = 0)"
  using int_0_15_cases [OF assms] by (auto simp: DSM_KROOT_KS_TABLE_def umap_at_def)

lemma nb_blocks_table_range:
  assumes "0 \<le> i" and "i < 16"
  shows "\<exists>nb. umap_at DSM_KROOT_NB_BLOCKS_TABLE i = Inr nb \<and> (nb = - 1 \<or> 7 \<le> nb \<and> nb \<le> 14)"
  using int_0_15_cases [OF assms] by (auto simp: DSM_KROOT_NB_BLOCKS_TABLE_def umap_at_def)

lemma ks_table_le: "umap_at DSM_KROOT_KS_TABLE i = Inr ks \<Longrightarrow> ks \<le> 256"
  by (auto simp: DSM_KROOT_KS_TABLE_def umap_at_def split: if_splits)

end
