(* ===== verification/Osnma_Utils.thy ===== *)
theory Osnma_Utils
  imports Prelude
begin

section \<open>OSNMA bit-string utilities\<close>

text \<open>
  The three helpers of \<^verbatim>\<open>security/libs/osnma/utils.cc\<close>: reading an integer out of a string of
  binary digits, packing such a string into bytes and unpacking bytes again. A byte is an 8-bit
  word. The lemmas give the value and the range of a field that lies inside the string, and the
  two round trips between strings and bytes.
\<close>

type_synonym byte = "8 word"

definition read_bin_string_as_int :: "string \<Rightarrow> int \<Rightarrow> int \<Rightarrow> int result" where
  "read_bin_string_as_int s start_i len =
     (let len' = (if len < 0 then to_int32 (int (to_size_t (int (length s) - start_i))) else len)
      in bindr (substr s (to_size_t start_i) (to_size_t len')) stoi2)"

definition byte_of_bin_string :: "string \<Rightarrow> byte result" where
  "byte_of_bin_string s = bindr (bitset_of_string s :: byte result) (\<lambda>b. Inr (b AND 0xFF))"

definition bin_string_to_byte_array :: "string \<Rightarrow> byte list result" where
  "bin_string_to_byte_array s =
     (let padding = (8 - length s mod 8) mod 8;
          padded = s @ replicate padding (CHR ''0'');
          n_bytes = length padded div 8
      in mapr (\<lambda>i. bindr (substr padded (i * 8) 8) byte_of_bin_string) [0..<n_bytes])"

definition byte_array_to_bin_str :: "byte list \<Rightarrow> string" where
  "byte_array_to_bin_str bytes = concat (map bitset_to_string bytes)"

subsection \<open>Reading a field\<close>

lemma read_field:
  assumes "bin_string s" and "i + n \<le> length s" and "0 < n" and "n \<le> 31" and "length s < 2 ^ 31"
  shows "read_bin_string_as_int s (int i) (int n) = Inr (int (bin_value (take n (drop i s))))"
proof -
  have "length (take n (drop i s)) = n" using assms by simp
  moreover have "bin_string (take n (drop i s))" using assms by auto
  ultimately have "stoi2 (take n (drop i s)) = Inr (int (bin_value (take n (drop i s))))"
    using assms by (intro stoi2_bin_string) auto
  then show ?thesis using assms by (simp add: read_bin_string_as_int_def Let_def)
qed

lemma read_field_range:
  assumes "bin_string s" and "i + n \<le> length s" and "0 < n" and "n \<le> 31" and "length s < 2 ^ 31"
  shows "\<exists>v. read_bin_string_as_int s (int i) (int n) = Inr v \<and> 0 \<le> v \<and> v < 2 ^ n"
proof -
  have "int (bin_value (take n (drop i s))) < int (2 ^ length (take n (drop i s)))"
    by (simp only: of_nat_less_iff bin_value_bound)
  also have "length (take n (drop i s)) = n" using assms by simp
  finally show ?thesis using read_field [OF assms] by auto
qed

lemma read_past_end:
  assumes "length s < i" and "i < 2 ^ 64"
  shows "read_bin_string_as_int s (int i) (int n) = Inl OutOfRange"
  using assms by (simp add: read_bin_string_as_int_def)

subsection \<open>Bytes and strings\<close>

lemma length_byte_array_to_bin_str [simp]:
  "length (byte_array_to_bin_str bs) = 8 * length bs"
  by (simp add: byte_array_to_bin_str_def length_concat_map_const [where n = 8])

lemma bin_string_byte_array_to_bin_str [simp]: "bin_string (byte_array_to_bin_str bs)"
  unfolding byte_array_to_bin_str_def by (rule bin_string_concat) auto

lemma byte_and_FF [simp]: "(b :: byte) AND 0xFF = b"
proof -
  have "(0xFF :: byte) = - 1" by simp
  then show ?thesis by (simp only: and.right_neutral)
qed

lemma byte_of_bin_string_ok:
  "bin_string s \<Longrightarrow> length s = 8 \<Longrightarrow> byte_of_bin_string s = Inr (bits_to_word (map char_bit s))"
  by (simp add: byte_of_bin_string_def bitset_of_string_def)

lemma byte_of_bin_string_bitset [simp]: "byte_of_bin_string (bitset_to_string (b :: byte)) = Inr b"
  by (simp add: byte_of_bin_string_def bitset_string_roundtrip)

lemma bin_string_to_byte_array_ok:
  assumes "bin_string s" and "length s = 8 * n"
  shows "bin_string_to_byte_array s =
    Inr (map (\<lambda>i. bits_to_word (map char_bit (take 8 (drop (i * 8) s)))) [0..<n])"
proof -
  have "mapr (\<lambda>i. bindr (substr s (i * 8) 8) byte_of_bin_string) [0..<n] =
      Inr (map (\<lambda>i. bits_to_word (map char_bit (take 8 (drop (i * 8) s)))) [0..<n])"
  proof (rule mapr_total)
    fix i
    assume "i \<in> set [0..<n]"
    then have "i * 8 \<le> length s" "length (take 8 (drop (i * 8) s)) = 8" using assms by auto
    moreover have "bin_string (take 8 (drop (i * 8) s))" using assms(1) by auto
    ultimately show "bindr (substr s (i * 8) 8) byte_of_bin_string =
        Inr (bits_to_word (map char_bit (take 8 (drop (i * 8) s))))"
      by (simp add: byte_of_bin_string_ok)
  qed
  with assms show ?thesis by (simp add: bin_string_to_byte_array_def)
qed

lemma pad_to_bytes: "n + (8 - n mod 8) mod 8 = 8 * ((n + 7) div 8)" for n :: nat
proof (cases "n mod 8 = 0")
  case True
  then obtain q where "n = 8 * q" by blast
  then show ?thesis by simp
next
  case False
  define q r where "q = n div 8" and "r = n mod 8"
  have n: "n = 8 * q + r" and r: "r < 8" "0 < r" using False by (simp_all add: q_def r_def)
  have "(n + 7) div 8 = q + 1" unfolding n using r by arith
  moreover have "(8 - r) mod 8 = 8 - r" using r by simp
  ultimately show ?thesis using r by (simp add: n)
qed

definition padded :: "string \<Rightarrow> string" where
  "padded s = s @ replicate ((8 - length s mod 8) mod 8) (CHR ''0'')"

lemma length_padded: "length (padded s) = 8 * ((length s + 7) div 8)"
  by (simp add: padded_def pad_to_bytes)

lemma bin_string_padded [simp]: "bin_string s \<Longrightarrow> bin_string (padded s)"
  by (simp add: padded_def) (simp add: list_all_length is_bit_char_def)

lemma bin_string_to_byte_array_unfold:
  "bin_string_to_byte_array s =
   mapr (\<lambda>i. bindr (substr (padded s) (i * 8) 8) byte_of_bin_string) [0..<(length s + 7) div 8]"
  by (simp add: bin_string_to_byte_array_def padded_def Let_def pad_to_bytes)

lemma padded_idem: "padded (padded s) = padded s"
  by (subst padded_def, subst length_padded) simp

lemma bin_string_to_byte_array_padded:
  "bin_string_to_byte_array s =
   bin_string_to_byte_array (padded s)"
  by (simp add: bin_string_to_byte_array_unfold [of s] bin_string_to_byte_array_unfold [of "padded s"]
      padded_idem length_padded)

text \<open>On binary strings packing never fails, and the number of bytes is the length over eight, rounded up.\<close>

lemma bin_string_to_byte_array_total:
  assumes "bin_string s"
  shows "\<exists>bs. bin_string_to_byte_array s = Inr bs \<and> length bs = (length s + 7) div 8"
proof -
  let ?t = "padded s"
  have "bin_string_to_byte_array ?t =
      Inr (map (\<lambda>i. bits_to_word (map char_bit (take 8 (drop (i * 8) ?t)))) [0..<(length s + 7) div 8])"
    by (rule bin_string_to_byte_array_ok [OF bin_string_padded [OF assms] length_padded])
  then show ?thesis by (subst bin_string_to_byte_array_padded) simp
qed

lemma bytes_string_roundtrip:
  "bin_string_to_byte_array (byte_array_to_bin_str bs) = Inr bs"
proof -
  let ?s = "byte_array_to_bin_str bs"
  have "take 8 (drop (i * 8) ?s) = bitset_to_string (bs ! i)" if "i < length bs" for i
    using that concat_map_take_drop [of bs bitset_to_string 8 i]
    by (simp add: byte_array_to_bin_str_def)
  moreover have "bits_to_word (map char_bit (bitset_to_string b)) = b" for b :: byte
    using bitset_string_roundtrip [of b] by (simp add: bitset_of_string_def)
  ultimately have "map (\<lambda>i. bits_to_word (map char_bit (take 8 (drop (i * 8) ?s)))) [0..<length bs] = bs"
    by (intro nth_equalityI) auto
  then show ?thesis by (simp add: bin_string_to_byte_array_ok [where n = "length bs"])
qed

lemma concat_chunks:
  "length s = n * m \<Longrightarrow> concat (map (\<lambda>i. take n (drop (i * n) s)) [0..<m]) = s"
proof (induction m arbitrary: s)
  case 0
  then show ?case by simp
next
  case (Suc m)
  have "concat (map (\<lambda>i. take n (drop (i * n) (take (n * m) s))) [0..<m]) = take (n * m) s"
    by (rule Suc.IH) (simp add: Suc.prems)
  moreover have "take n (drop (i * n) (take (n * m) s)) = take n (drop (i * n) s)" if "i < m" for i
  proof -
    have "i * n + n \<le> n * m" using that by (metis Suc_leI mult.commute mult_Suc mult_le_mono1 add.commute)
    then show ?thesis by (simp add: take_drop min_absorb1 add.commute)
  qed
  then have "map (\<lambda>i. take n (drop (i * n) (take (n * m) s))) [0..<m] =
      map (\<lambda>i. take n (drop (i * n) s)) [0..<m]" by simp
  ultimately have "concat (map (\<lambda>i. take n (drop (i * n) s)) [0..<m]) = take (n * m) s" by simp
  moreover have "take n (drop (m * n) s) = drop (n * m) s" using Suc.prems by (simp add: mult.commute)
  ultimately show ?case by (simp add: append_take_drop_id)
qed

lemma string_bytes_roundtrip:
  assumes "bin_string s" and "8 dvd length s"
  shows "\<exists>bs. bin_string_to_byte_array s = Inr bs \<and> byte_array_to_bin_str bs = s"
proof -
  obtain n where n: "length s = 8 * n" using assms(2) by blast
  let ?w = "\<lambda>i. bits_to_word (map char_bit (take 8 (drop (i * 8) s))) :: byte"
  have "bitset_to_string (?w i) = take 8 (drop (i * 8) s)" if "i < n" for i
    using assms(1) n that by (intro string_bitset_roundtrip) auto
  then have "map (\<lambda>i. bitset_to_string (?w i)) [0..<n] = map (\<lambda>i. take 8 (drop (i * 8) s)) [0..<n]"
    by simp
  then have "byte_array_to_bin_str (map ?w [0..<n]) = concat (map (\<lambda>i. take 8 (drop (i * 8) s)) [0..<n])"
    by (simp add: byte_array_to_bin_str_def comp_def del: map_eq_conv)
  also have "\<dots> = s" using n by (rule concat_chunks)
  finally show ?thesis using bin_string_to_byte_array_ok [OF assms(1) n] by blast
qed

lemma mapr_invalid:
  "\<exists>x \<in> set xs. f x = Inl InvalidArgument \<Longrightarrow> (\<And>x. x \<in> set xs \<Longrightarrow> f x = Inl InvalidArgument \<or> (\<exists>b. f x = Inr b))
   \<Longrightarrow> mapr f xs = Inl InvalidArgument"
proof (induction xs)
  case Nil
  then show ?case by simp
next
  case (Cons y ys)
  then show ?case by (cases "f y = Inl InvalidArgument") fastforce+
qed

lemma chunk_nth: "i < length t \<Longrightarrow> take 8 (drop (i div 8 * 8) t) ! (i mod 8) = t ! i"
  by simp

lemma byte_of_bin_string_cases: "byte_of_bin_string s = Inl InvalidArgument \<or> (\<exists>b. byte_of_bin_string s = Inr b)"
  by (simp add: byte_of_bin_string_def bitset_of_string_def)

lemma pack_invalid:
  assumes t: "length t = 8 * n" and i: "i < length t" and c: "\<not> is_bit_char (t ! i)"
  shows "mapr (\<lambda>j. bindr (substr t (j * 8) 8) byte_of_bin_string) [0..<n] = Inl InvalidArgument"
    (is "mapr ?f _ = _")
proof (rule mapr_invalid)
  have n: "i div 8 < n" using t i by simp
  let ?c = "take 8 (drop (i div 8 * 8) t)"
  have "length ?c = 8" using t n by simp
  moreover have "?c ! (i mod 8) = t ! i" using i by (rule chunk_nth)
  ultimately have "\<not> bin_string ?c" using c unfolding list_all_length by (metis mod_less_divisor zero_less_numeral)
  then have "byte_of_bin_string ?c = Inl InvalidArgument"
    by (simp add: byte_of_bin_string_def bitset_of_string_def)
  then show "\<exists>x \<in> set [0..<n]. ?f x = Inl InvalidArgument"
    using n t by (intro bexI [of _ "i div 8"]) simp_all
next
  fix j
  assume "j \<in> set [0..<n]"
  then have "j * 8 \<le> length t" using t by simp
  then show "?f j = Inl InvalidArgument \<or> (\<exists>b. ?f j = Inr b)"
    by (simp add: byte_of_bin_string_cases)
qed

text \<open>A character other than a binary digit makes the packing throw.\<close>

lemma bin_string_to_byte_array_invalid:
  assumes "i < length s" and "\<not> is_bit_char (s ! i)"
  shows "bin_string_to_byte_array s = Inl InvalidArgument"
proof -
  have "i < length (padded s)" "\<not> is_bit_char (padded s ! i)"
    using assms by (simp_all add: padded_def nth_append)
  from pack_invalid [OF length_padded this] show ?thesis
    by (simp add: bin_string_to_byte_array_unfold)
qed

end
