(* ===== verification/Osnma_Keys.thy ===== *)
theory Osnma_Keys
  imports Osnma_Utils
begin

section \<open>Loading the OSNMA public keys\<close>

text \<open>
  The key store of \<^verbatim>\<open>OSNMAProcessor\<close>: \<^verbatim>\<open>load_keys\<close>, \<^verbatim>\<open>get_key_info_from_xml\<close> and
  \<^verbatim>\<open>load_public_key_from_file\<close> of \<^verbatim>\<open>security/libs/osnma/osnma_processor.cc\<close>. The file
  system (boost), the XML parser (pugixml) and the key import (GnuTLS) are fields of the record
  \<open>keys_env\<close>, an argument of every operation that calls them. The lemmas show where a stored
  key comes from and that it carries one of the two supported signature algorithms.
\<close>

datatype KeyType = merkle_tree | public_key | key_error

record osnma_xml_key_info =
  ki_type :: KeyType
  ki_id :: "int option" \<comment> \<open>\<open>None\<close>: never assigned, an indeterminate value\<close>
  ki_filename :: string
  ki_algorithm :: string

datatype gnutls_sign_algorithm = GNUTLS_SIGN_ECDSA_SHA256 | GNUTLS_SIGN_ECDSA_SHA512 | GNUTLS_SIGN_OTHER nat

record 'k public_key_info =
  pk_key :: 'k
  pk_algorithm :: gnutls_sign_algorithm

type_synonym 'k key_store = "(int, 'k public_key_info) umap"

text \<open>What the code reads of the first child of the XML body.\<close>

record xml_key_node =
  node_name :: string
  node_PKID :: int
  node_File :: string
  node_PKType :: string

record dir_entry =
  entry_path :: string
  entry_is_regular_file :: bool
  entry_extension :: string

record 'k keys_env =
  fs_exists :: "string \<Rightarrow> bool"
  fs_is_directory :: "string \<Rightarrow> bool"
  fs_directory :: "string \<Rightarrow> dir_entry list"
  fs_sibling :: "string \<Rightarrow> string \<Rightarrow> string"
  xml_load_file :: "string \<Rightarrow> xml_key_node option"
  gnutls_load_file :: "string \<Rightarrow> int \<times> byte list"
  gnutls_pubkey_import :: "byte list \<Rightarrow> int \<times> 'k"

definition get_key_info_from_xml :: "('k, 'z) keys_env_scheme \<Rightarrow> string \<Rightarrow> osnma_xml_key_info" where
  "get_key_info_from_xml env filename =
     (case xml_load_file env filename of
        None \<Rightarrow> \<lparr>ki_type = key_error, ki_id = None, ki_filename = [], ki_algorithm = []\<rparr>
      | Some node \<Rightarrow>
          if node_name node = ''MerkleTree''
          then \<lparr>ki_type = merkle_tree, ki_id = None, ki_filename = [], ki_algorithm = []\<rparr>
          else if node_name node = ''PublicKey''
          then \<lparr>ki_type = public_key, ki_id = Some (node_PKID node), ki_filename = node_File node,
                 ki_algorithm = node_PKType node\<rparr>
          else \<lparr>ki_type = key_error, ki_id = None, ki_filename = [], ki_algorithm = []\<rparr>)"

text \<open>
  With a type string other than the two known ones the local variable \<^verbatim>\<open>sign_algorithm\<close> is read
  without having been assigned.
\<close>

definition sign_algorithm_of :: "string \<Rightarrow> gnutls_sign_algorithm result" where
  "sign_algorithm_of a =
     (if a = ''ECDSA P-256/SHA-256'' then Inr GNUTLS_SIGN_ECDSA_SHA256
      else if a = ''ECDSA P-521/SHA-512'' then Inr GNUTLS_SIGN_ECDSA_SHA512
      else Inl UndefinedBehaviour)"

definition load_public_key_from_file ::
  "('k, 'z) keys_env_scheme \<Rightarrow> osnma_xml_key_info \<Rightarrow> 'k key_store \<Rightarrow> 'k key_store result" where
  "load_public_key_from_file env key_info keys =
     (let (err, key_pem) = gnutls_load_file env (ki_filename key_info)
      in if err \<noteq> 0 then Inr keys
         else let (err, key) = gnutls_pubkey_import env key_pem
              in if err \<noteq> 0 then Inr keys
                 else bindr (sign_algorithm_of (ki_algorithm key_info)) (\<lambda>alg.
                      case ki_id key_info of
                        None \<Rightarrow> Inl UndefinedBehaviour
                      | Some kid \<Rightarrow> Inr (AList.update kid \<lparr>pk_key = key, pk_algorithm = alg\<rparr> keys)))"

definition load_entry :: "('k, 'z) keys_env_scheme \<Rightarrow> dir_entry \<Rightarrow> 'k key_store \<Rightarrow> 'k key_store result" where
  "load_entry env entry keys =
     (if \<not> entry_is_regular_file entry \<or> entry_extension entry \<noteq> ''.xml'' then Inr keys
      else let key_info = get_key_info_from_xml env (entry_path entry)
           in if ki_type key_info = public_key
              then load_public_key_from_file env
                     (key_info\<lparr>ki_filename := fs_sibling env (entry_path entry) (ki_filename key_info)\<rparr>) keys
              else Inr keys)"

fun load_entries :: "('k, 'z) keys_env_scheme \<Rightarrow> dir_entry list \<Rightarrow> 'k key_store \<Rightarrow> 'k key_store result" where
  "load_entries env [] keys = Inr keys"
| "load_entries env (e # es) keys = bindr (load_entry env e keys) (load_entries env es)"

definition load_keys :: "('k, 'z) keys_env_scheme \<Rightarrow> string \<Rightarrow> 'k key_store \<Rightarrow> 'k key_store result" where
  "load_keys env keys_dir keys =
     (if \<not> fs_exists env keys_dir \<or> \<not> fs_is_directory env keys_dir then Inr keys
      else load_entries env (fs_directory env keys_dir) keys)"

subsection \<open>Where a stored key comes from\<close>

text \<open>
  \<open>key_origin env e kid k\<close>: the directory entry \<open>e\<close> is an XML file that declares the public
  key \<open>kid\<close>, its PEM file loads and imports without error as the key of \<open>k\<close>, and the
  algorithm of \<open>k\<close> is the one the file names.
\<close>

definition key_origin :: "('k, 'z) keys_env_scheme \<Rightarrow> dir_entry \<Rightarrow> int \<Rightarrow> 'k public_key_info \<Rightarrow> bool" where
  "key_origin env e kid k \<longleftrightarrow>
     entry_is_regular_file e \<and> entry_extension e = ''.xml'' \<and>
     (\<exists>node pem. xml_load_file env (entry_path e) = Some node \<and> node_name node = ''PublicKey'' \<and>
        node_PKID node = kid \<and>
        gnutls_load_file env (fs_sibling env (entry_path e) (node_File node)) = (0, pem) \<and>
        gnutls_pubkey_import env pem = (0, pk_key k) \<and>
        sign_algorithm_of (node_PKType node) = Inr (pk_algorithm k))"

lemma load_entry_cases:
  assumes "load_entry env e keys = Inr keys'"
  shows "keys' = keys \<or> (\<exists>kid key alg. key_origin env e kid \<lparr>pk_key = key, pk_algorithm = alg\<rparr>
      \<and> keys' = AList.update kid \<lparr>pk_key = key, pk_algorithm = alg\<rparr> keys)"
  using assms
  by (auto simp: load_entry_def load_public_key_from_file_def get_key_info_from_xml_def key_origin_def
      Let_def bindr_eq_Inr split: if_splits option.splits prod.splits)

lemma load_entries_origin:
  "load_entries env es keys = Inr keys' \<Longrightarrow> map_of keys' kid = Some k \<Longrightarrow>
   map_of keys kid = Some k \<or> (\<exists>e \<in> set es. key_origin env e kid k)"
proof (induction es arbitrary: keys)
  case Nil
  then show ?case by simp
next
  case (Cons e es)
  then obtain keys1 where step: "load_entry env e keys = Inr keys1"
    and rest: "load_entries env es keys1 = Inr keys'" by (auto simp: bindr_eq_Inr)
  from Cons.IH [OF rest Cons.prems(2)] load_entry_cases [OF step]
  show ?case by (auto split: if_splits)
qed

lemma load_keys_origin:
  assumes "load_keys env d [] = Inr keys" and "map_of keys kid = Some k"
  shows "\<exists>e \<in> set (fs_directory env d). key_origin env e kid k"
  using assms load_entries_origin [of env _ "[]" keys kid k]
  by (auto simp: load_keys_def split: if_splits)

lemma load_entries_wf: "load_entries env es keys = Inr keys' \<Longrightarrow> umap_wf keys \<Longrightarrow> umap_wf keys'"
proof (induction es arbitrary: keys)
  case Nil
  then show ?case by simp
next
  case (Cons e es)
  then show ?case
    by (auto simp: bindr_eq_Inr dest!: load_entry_cases intro: distinct_update)
qed

text \<open>An imported key whose algorithm is unknown makes the load read an unassigned variable.\<close>

lemma load_entry_unknown_algorithm:
  assumes "entry_is_regular_file e" and "entry_extension e = ''.xml''"
    and "xml_load_file env (entry_path e) = Some node" and "node_name node = ''PublicKey''"
    and "gnutls_load_file env (fs_sibling env (entry_path e) (node_File node)) = (0, pem)"
    and "gnutls_pubkey_import env pem = (0, key)"
    and "node_PKType node \<notin> {''ECDSA P-256/SHA-256'', ''ECDSA P-521/SHA-512''}"
  shows "load_entry env e keys = Inl UndefinedBehaviour"
  using assms by (simp add: load_entry_def load_public_key_from_file_def get_key_info_from_xml_def
      sign_algorithm_of_def)

end
