(* ===== verification/Ieee754.thy ===== *)
theory Ieee754
  imports Prelude "HOL-Library.Log_Nat"
begin

section \<open>Binary floating point\<close>

text \<open>
  The values of \<^verbatim>\<open>float\<close> and \<^verbatim>\<open>double\<close> variables as rational numbers, with the rounding of
  IEEE 754 (to nearest, ties to even) applied after each operation. \<open>rnd p emin\<close> rounds to
  \<open>p\<close> significant bits, with \<open>2 powi emin\<close> the least unit in the last place, so gradual
  underflow is included. Infinities, NaNs and the sign of zero are outside the model: the
  components that use it keep every value far below the overflow threshold.
\<close>

type_synonym double = rat
type_synonym float32 = rat

definition round_even :: "rat \<Rightarrow> int" where
  "round_even x =
     (let f = \<lfloor>x\<rfloor>; d = x - of_int f
      in if d < 1 / 2 then f else if 1 / 2 < d then f + 1 else if even f then f else f + 1)"

definition ilog2 :: "rat \<Rightarrow> int" where
  "ilog2 q =
     (let nd = quotient_of \<bar>q\<bar>; e = bitlen (fst nd) - bitlen (snd nd)
      in if \<bar>q\<bar> < 2 powi e then e - 1 else e)"

definition rnd :: "nat \<Rightarrow> int \<Rightarrow> rat \<Rightarrow> rat" where
  "rnd p emin q =
     (if q = 0 then 0
      else let u = 2 powi (max (ilog2 q - int p + 1) emin) in of_int (round_even (q / u)) * u)"

definition to_double :: "rat \<Rightarrow> double" where
  "to_double = rnd 53 (- 1074)"

definition to_float :: "rat \<Rightarrow> float32" where
  "to_float = rnd 24 (- 149)"

definition dmul :: "double \<Rightarrow> double \<Rightarrow> double" where
  "dmul x y = to_double (x * y)"

definition dadd :: "double \<Rightarrow> double \<Rightarrow> double" where
  "dadd x y = to_double (x + y)"

definition dsub :: "double \<Rightarrow> double \<Rightarrow> double" where
  "dsub x y = to_double (x - y)"

definition ddiv :: "double \<Rightarrow> double \<Rightarrow> double" where
  "ddiv x y = to_double (x / y)"

definition fadd :: "float32 \<Rightarrow> float32 \<Rightarrow> float32" where
  "fadd x y = to_float (x + y)"

definition fsub :: "float32 \<Rightarrow> float32 \<Rightarrow> float32" where
  "fsub x y = to_float (x - y)"

subsection \<open>The binary exponent\<close>

lemma bitlen_bounds_rat:
  assumes "0 < n"
  shows "2 powi (bitlen n - 1) \<le> (of_int n :: rat)" and "(of_int n :: rat) < 2 powi (bitlen n)"
proof -
  have pos: "0 < bitlen n" using assms bitlen_eq_zero_iff [of n] bitlen_nonneg [of n] by simp
  have b: "2 ^ nat (bitlen n - 1) \<le> n" "n < 2 ^ nat (bitlen n)"
    using bitlen_bounds [OF assms] by auto
  have "(2::rat) powi (bitlen n - 1) = of_int (2 ^ nat (bitlen n - 1))"
    using pos by (simp add: power_int_def)
  also have "\<dots> \<le> of_int n" using b(1) by (simp only: of_int_le_iff)
  finally show "2 powi (bitlen n - 1) \<le> (of_int n :: rat)" .
  have "(of_int n :: rat) < of_int (2 ^ nat (bitlen n))" using b(2) by (simp only: of_int_less_iff)
  also have "\<dots> = 2 powi (bitlen n)" using pos by (simp add: power_int_def)
  finally show "(of_int n :: rat) < 2 powi (bitlen n)" .
qed

lemma ilog2_bounds:
  assumes "q \<noteq> 0"
  shows "2 powi (ilog2 q) \<le> \<bar>q\<bar>" and "\<bar>q\<bar> < 2 powi (ilog2 q + 1)"
proof -
  obtain n d where nd: "quotient_of \<bar>q\<bar> = (n, d)" by (cases "quotient_of \<bar>q\<bar>")
  have d: "0 < d" using quotient_of_denom_pos [OF nd] .
  have q: "\<bar>q\<bar> = of_int n / of_int d" by (rule quotient_of_div [OF nd])
  have n: "0 < n"
  proof -
    have "0 < (of_int n / of_int d :: rat)" using assms q by simp
    then show ?thesis using d by (simp add: zero_less_divide_iff)
  qed
  let ?e = "bitlen n - bitlen d"
  have up: "\<bar>q\<bar> < 2 powi (?e + 1)"
  proof -
    have "\<bar>q\<bar> < 2 powi bitlen n / of_int d"
      unfolding q using bitlen_bounds_rat(2) [OF n] d by (simp add: divide_strict_right_mono)
    also have "\<dots> \<le> 2 powi bitlen n / 2 powi (bitlen d - 1)"
      using bitlen_bounds_rat(1) [OF d] d by (intro divide_left_mono) auto
    also have "\<dots> = 2 powi (?e + 1)" by (simp flip: power_int_diff add: algebra_simps)
    finally show ?thesis .
  qed
  have lo: "2 powi (?e - 1) \<le> \<bar>q\<bar>"
  proof -
    have "2 powi (?e - 1) = 2 powi (bitlen n - 1) / (2::rat) powi bitlen d"
      by (simp flip: power_int_diff add: algebra_simps)
    also have "\<dots> \<le> of_int n / 2 powi bitlen d"
      using bitlen_bounds_rat(1) [OF n] by (simp add: divide_right_mono)
    also have "\<dots> \<le> of_int n / of_int d"
      using bitlen_bounds_rat(2) [OF d] d n by (intro divide_left_mono) auto
    finally show ?thesis unfolding q .
  qed
  show "2 powi (ilog2 q) \<le> \<bar>q\<bar>" "\<bar>q\<bar> < 2 powi (ilog2 q + 1)"
    using up lo by (auto simp: ilog2_def nd Let_def)
qed

lemma powi_less_imp: "(2::rat) powi a < 2 powi b \<Longrightarrow> a < b"
  by (metis linorder_not_le order_less_irrefl order_less_le_trans power_int_increasing one_le_numeral)

subsection \<open>Rounding is exact on representable values\<close>

lemma round_even_int [simp]: "round_even (of_int m) = m"
  by (simp add: round_even_def)

lemma round_even_error: "\<bar>of_int (round_even x) - x\<bar> \<le> 1 / 2"
proof -
  have "of_int \<lfloor>x\<rfloor> \<le> x" "x < of_int \<lfloor>x\<rfloor> + 1" by linarith+
  then have d: "0 \<le> x - of_int \<lfloor>x\<rfloor>" "x - of_int \<lfloor>x\<rfloor> < 1" by simp_all
  show ?thesis
    using d by (simp add: round_even_def Let_def abs_le_iff algebra_simps)
qed

lemma powi_of_nat_int: "0 \<le> j \<Longrightarrow> (2::rat) powi j = of_int (2 ^ nat j)"
  by (simp add: power_int_def)

theorem rnd_exact:
  assumes m: "\<bar>m\<bar> < 2 ^ p" and k: "emin \<le> k"
  shows "rnd p emin (of_int m * 2 powi k) = of_int m * 2 powi k"
proof (cases "m = 0")
  case True
  then show ?thesis by (simp add: rnd_def)
next
  case False
  let ?q = "of_int m * 2 powi k :: rat"
  have q0: "?q \<noteq> 0" using False by simp
  have "2 powi (ilog2 ?q) \<le> \<bar>?q\<bar>" by (rule ilog2_bounds(1) [OF q0])
  also have "\<bar>?q\<bar> = of_int \<bar>m\<bar> * 2 powi k" by (simp add: abs_mult)
  also have "\<dots> < of_int (2 ^ p) * 2 powi k"
    using m by (intro mult_strict_right_mono) (simp_all only: of_int_less_iff, simp)
  also have "\<dots> = (2::rat) powi (int p + k)" by (simp add: power_int_add)
  finally have "ilog2 ?q < int p + k" by (rule powi_less_imp)
  then have u: "max (ilog2 ?q - int p + 1) emin \<le> k" (is "?u \<le> k") using k by simp
  have "?q / 2 powi ?u = of_int m * 2 powi (k - ?u)"
    by (simp add: power_int_diff)
  also have "\<dots> = of_int (m * 2 ^ nat (k - ?u))"
    using u by (simp add: powi_of_nat_int)
  finally have "round_even (?q / 2 powi ?u) = m * 2 ^ nat (k - ?u)" by (simp only: round_even_int)
  then have "rnd p emin ?q = of_int (m * 2 ^ nat (k - ?u)) * 2 powi ?u"
    using q0 by (simp add: rnd_def Let_def)
  also have "\<dots> = of_int m * (2 powi (k - ?u) * 2 powi ?u)"
    using u by (simp add: powi_of_nat_int)
  also have "\<dots> = ?q" by (simp flip: power_int_add)
  finally show ?thesis .
qed

lemma to_double_int [simp]: "\<bar>m\<bar> < 2 ^ 53 \<Longrightarrow> to_double (of_int m) = of_int m"
  using rnd_exact [of m 53 "- 1074" 0] by (simp add: to_double_def)

lemma to_float_int [simp]: "\<bar>m\<bar> < 2 ^ 24 \<Longrightarrow> to_float (of_int m) = of_int m"
  using rnd_exact [of m 24 "- 149" 0] by (simp add: to_float_def)

lemma to_double_zero [simp]: "to_double 0 = 0"
  by (simp add: to_double_def rnd_def)

lemma to_float_zero [simp]: "to_float 0 = 0"
  by (simp add: to_float_def rnd_def)

text \<open>The relative error of one rounding in the normal range.\<close>

theorem rnd_error:
  assumes "q \<noteq> 0" and "emin \<le> ilog2 q - int p + 1"
  shows "\<bar>rnd p emin q - q\<bar> \<le> \<bar>q\<bar> * 2 powi (- int p)"
proof -
  let ?u = "2 powi (ilog2 q - int p + 1) :: rat"
  have u: "rnd p emin q = of_int (round_even (q / ?u)) * ?u"
    using assms by (simp add: rnd_def Let_def max_absorb1)
  have "rnd p emin q - q = (of_int (round_even (q / ?u)) - q / ?u) * ?u"
    unfolding u by (simp add: left_diff_distrib)
  then have "\<bar>rnd p emin q - q\<bar> = \<bar>of_int (round_even (q / ?u)) - q / ?u\<bar> * ?u"
    by (simp add: abs_mult)
  also have "\<dots> \<le> 1 / 2 * ?u"
    using round_even_error by (intro mult_right_mono) auto
  also have "\<dots> = 2 powi (ilog2 q) * 2 powi (- int p)"
    by (simp flip: power_int_add add: power_int_add_1' algebra_simps)
      (simp add: power_int_add power_int_diff)
  also have "\<dots> \<le> \<bar>q\<bar> * 2 powi (- int p)"
    using ilog2_bounds(1) [OF assms(1)] by (intro mult_right_mono) auto
  finally show ?thesis .
qed

text \<open>The absolute error of one rounding to double in a bounded range.\<close>

lemma to_double_error:
  assumes "2 powi (- 100) \<le> q" and "q \<le> 2 powi k"
  shows "\<bar>to_double q - q\<bar> \<le> 2 powi (k - 53)"
proof -
  have q: "0 < q" using assms(1) by (rule order_less_le_trans [rotated]) simp
  have "(2::rat) powi (- 100) < 2 powi (ilog2 q + 1)"
    using assms(1) ilog2_bounds(2) [of q] q by simp
  then have "- 100 < ilog2 q + 1" by (rule powi_less_imp)
  then have "\<bar>to_double q - q\<bar> \<le> \<bar>q\<bar> * 2 powi (- int 53)"
    unfolding to_double_def using q by (intro rnd_error) auto
  also have "\<dots> \<le> 2 powi k * 2 powi (- int 53)"
    using assms(2) q by (intro mult_right_mono) auto
  also have "\<dots> = 2 powi (k - 53)" by (subst power_int_add [symmetric]) simp_all
  finally show ?thesis .
qed

text \<open>A value that differs from a non-integral fraction by less than its denominator has the same ceiling.\<close>

lemma ceiling_stable:
  fixes t s :: rat and n d :: int
  assumes t: "t = of_int n / of_int d" and d: "0 < d" and notint: "n mod d \<noteq> 0"
    and close: "\<bar>s - t\<bar> < 1 / of_int d"
  shows "\<lceil>s\<rceil> = \<lceil>t\<rceil>"
proof -
  have n: "(of_int n :: rat) = of_int d * of_int (n div d) + of_int (n mod d)"
    by (metis mult_div_mod_eq of_int_add of_int_mult)
  have r: "1 \<le> n mod d" "n mod d \<le> d - 1"
    using notint d pos_mod_bound [OF d, of n] pos_mod_sign [OF d, of n] by linarith+
  have t': "t = of_int (n div d) + of_int (n mod d) / of_int d"
    unfolding t using d by (subst n) (simp add: add_divide_distrib)
  have "1 / (of_int d :: rat) \<le> of_int (n mod d) / of_int d"
    using r(1) d by (simp add: divide_right_mono)
  moreover have "of_int (n mod d) / of_int d \<le> 1 - 1 / (of_int d :: rat)"
  proof -
    have "(of_int (n mod d) :: rat) \<le> of_int (d - 1)" using r(2) by (simp only: of_int_le_iff)
    then have "of_int (n mod d) / of_int d \<le> (of_int (d - 1) :: rat) / of_int d"
      using d by (intro divide_right_mono) auto
    also have "\<dots> = 1 - 1 / of_int d" using d by (simp add: diff_divide_distrib)
    finally show ?thesis .
  qed
  moreover define f u where "f = of_int (n mod d) / (of_int d :: rat)" and "u = 1 / (of_int d :: rat)"
  ultimately have f: "u \<le> f" "f \<le> 1 - u" "t = of_int (n div d) + f" "0 < u" "s - t < u" "t - s < u"
    using close t' d by (simp_all add: abs_less_iff)
  then have "of_int (n div d) < s" "s \<le> of_int (n div d) + 1"
    "of_int (n div d) < t" "t \<le> of_int (n div d) + 1" by linarith+
  then have "\<lceil>s\<rceil> = n div d + 1" "\<lceil>t\<rceil> = n div d + 1" by (auto simp: ceiling_eq_iff)
  then show ?thesis by simp
qed

subsection \<open>Rounding is monotone and odd\<close>

lemma round_even_mono:
  assumes "x \<le> y"
  shows "round_even x \<le> round_even y"
proof (cases "\<lfloor>x\<rfloor> = \<lfloor>y\<rfloor>")
  case True
  then show ?thesis using assms by (simp add: round_even_def Let_def)
next
  case False
  then have "\<lfloor>x\<rfloor> + 1 \<le> \<lfloor>y\<rfloor>" using floor_mono [OF assms] by simp
  moreover have "round_even x \<le> \<lfloor>x\<rfloor> + 1" "\<lfloor>y\<rfloor> \<le> round_even y" by (simp_all add: round_even_def Let_def)
  ultimately show ?thesis by linarith
qed

lemma round_even_minus: "round_even (- x) = - round_even x"
proof (cases "x = of_int \<lfloor>x\<rfloor>")
  case True
  then have "- x = of_int (- \<lfloor>x\<rfloor>)" by simp
  then show ?thesis by (metis True round_even_int)
next
  case False
  then have lt: "of_int \<lfloor>x\<rfloor> < x" "x < of_int \<lfloor>x\<rfloor> + 1" by linarith+
  then have "\<lfloor>- x\<rfloor> = - \<lfloor>x\<rfloor> - 1" by (simp add: floor_eq_iff)
  then show ?thesis using lt by (auto simp: round_even_def Let_def)
qed

lemma ilog2_minus [simp]: "ilog2 (- q) = ilog2 q"
  by (simp add: ilog2_def)

lemma rnd_minus: "rnd p emin (- q) = - rnd p emin q"
  by (simp add: rnd_def Let_def round_even_minus)

lemma ilog2_mono:
  assumes "0 < q" and "q \<le> r"
  shows "ilog2 q \<le> ilog2 r"
proof -
  have "2 powi ilog2 q \<le> \<bar>q\<bar>" "\<bar>r\<bar> < 2 powi (ilog2 r + 1)" using assms ilog2_bounds(1) [of q] ilog2_bounds(2) [of r] by simp_all
  then have "(2::rat) powi ilog2 q < 2 powi (ilog2 r + 1)" using assms by simp
  then show ?thesis using powi_less_imp by fastforce
qed

lemma powi_div_int:
  assumes "u \<le> k"
  shows "(2::rat) powi k / 2 powi u = of_int (2 ^ nat (k - u))"
  using assms by (simp add: powi_of_nat_int flip: power_int_diff)

text \<open>Rounding does not cross a power of two that the unit divides.\<close>

lemma rnd_mono_pos:
  assumes q: "0 < q" and r: "q \<le> r" and p: "0 < p"
  shows "rnd p emin q \<le> rnd p emin r"
proof -
  let ?e = "\<lambda>x. max (ilog2 x - int p + 1) emin"
  have e: "?e q \<le> ?e r" using ilog2_mono [OF q r] by simp
  have rnd: "rnd p emin x = of_int (round_even (x / 2 powi ?e x)) * 2 powi ?e x" if "0 < x" for x
    using that by (simp add: rnd_def Let_def)
  show ?thesis
  proof (cases "?e q = ?e r")
    case True
    have "round_even (q / 2 powi ?e q) \<le> round_even (r / 2 powi ?e r)"
      unfolding True using r by (intro round_even_mono divide_right_mono) auto
    then show ?thesis using q r True by (simp add: rnd mult_right_mono)
  next
    case False
    then have lt: "?e q < ?e r" using e by linarith
    then have er: "?e r = ilog2 r - int p + 1" "ilog2 q < ilog2 r" by auto
    let ?k = "ilog2 r"
    have "q < 2 powi (ilog2 q + 1)" using ilog2_bounds(2) [of q] q by simp
    also have "\<dots> \<le> 2 powi ?k" using er by (intro power_int_increasing) auto
    finally have qk: "q \<le> 2 powi ?k" by simp
    have rk: "2 powi ?k \<le> r" using ilog2_bounds(1) [of r] q r by simp
    have "round_even (q / 2 powi ?e q) \<le> round_even (2 powi ?k / 2 powi ?e q)"
      using qk by (intro round_even_mono divide_right_mono) auto
    also have "\<dots> = 2 ^ nat (?k - ?e q)" using lt er p by (subst powi_div_int) (auto simp flip: of_int_power)
    finally have "of_int (round_even (q / 2 powi ?e q)) \<le> (of_int (2 ^ nat (?k - ?e q)) :: rat)" by (simp only: of_int_le_iff)
    then have "rnd p emin q \<le> of_int (2 ^ nat (?k - ?e q)) * 2 powi ?e q"
      using q by (simp only: rnd) (intro mult_right_mono, auto)
    also have "\<dots> = 2 powi ?k" using lt er p by (subst powi_div_int [symmetric]) auto
    also have "\<dots> = of_int (2 ^ nat (?k - ?e r)) * 2 powi ?e r" using er p by (subst powi_div_int [symmetric]) auto
    also have "\<dots> \<le> rnd p emin r"
    proof -
      have "2 ^ nat (?k - ?e r) = round_even (2 powi ?k / 2 powi ?e r)" using er p by (subst powi_div_int) (auto simp flip: of_int_power)
      also have "\<dots> \<le> round_even (r / 2 powi ?e r)" using rk by (intro round_even_mono divide_right_mono) auto
      finally have "(of_int (2 ^ nat (?k - ?e r)) :: rat) \<le> of_int (round_even (r / 2 powi ?e r))" by (simp only: of_int_le_iff)
      then show ?thesis using q r by (simp only: rnd) (intro mult_right_mono, auto)
    qed
    finally show ?thesis .
  qed
qed

lemma rnd_nonneg:
  assumes "0 \<le> q"
  shows "0 \<le> rnd p emin q"
proof -
  have "0 \<le> round_even (q / 2 powi e)" for e using round_even_mono [of 0 "q / 2 powi e"] round_even_int [of 0] assms by simp
  then show ?thesis by (simp add: rnd_def Let_def)
qed

theorem rnd_mono:
  assumes "q \<le> r" and p: "0 < p"
  shows "rnd p emin q \<le> rnd p emin r"
proof -
  consider "0 < q" | "q \<le> 0" "0 \<le> r" | "r < 0" by linarith
  then show ?thesis
  proof cases
    case 1
    then show ?thesis using rnd_mono_pos assms by blast
  next
    case 2
    then show ?thesis using rnd_nonneg [of r p emin] rnd_nonneg [of "- q" p emin] by (simp add: rnd_minus)
  next
    case 3
    then show ?thesis using rnd_mono_pos [of "- r" "- q" p emin] assms by (simp add: rnd_minus)
  qed
qed

lemma to_float_mono: "x \<le> y \<Longrightarrow> to_float x \<le> to_float y"
  by (simp add: to_float_def rnd_mono)

lemma to_double_mono: "x \<le> y \<Longrightarrow> to_double x \<le> to_double y"
  by (simp add: to_double_def rnd_mono)

end
