(* ===== verification/Osnma_Dsm.thy ===== *)
theory Osnma_Dsm
  imports Osnma_Constants Osnma_Keys Ieee754
begin

section \<open>DSM-KROOT messages\<close>

text \<open>
  \<^verbatim>\<open>OSNMA_DSMMessage\<close> (\<^verbatim>\<open>osnma_dsm_message.h\<close>) and
  \<^verbatim>\<open>OSNMAProcessor::process_dsm_kroot_block\<close> (\<^verbatim>\<open>osnma_processor.cc\<close>): collecting the blocks of a
  digital signature message, assembling it when as many blocks as announced have arrived, and
  checking its padding and its ECDSA signature. GnuTLS is the record \<open>gnutls\<close>, an argument.
  What the method prints is the list of \<open>osnma_log\<close> values it returns; the last of them,
  \<open>KrootVerified\<close>, is the only sign of success besides the flag \<open>is_processed\<close>.
\<close>

record osnma_dsm_message =
  nb_blocks :: int
  nma_header :: string
  id_block_map :: "(int, string) umap"
  is_processed :: bool

text \<open>\<^verbatim>\<open>new OSNMA_DSMMessage()\<close> value-initialises the object: numbers and flags are zero.\<close>

definition new_dsm_message :: osnma_dsm_message where
  "new_dsm_message = \<lparr>nb_blocks = 0, nma_header = [], id_block_map = [], is_processed = False\<rparr>"

record 'k gnutls =
  gnutls_hash_sha256 :: "byte list \<Rightarrow> byte list"
  gnutls_encode_rs_value :: "byte list \<Rightarrow> byte list \<Rightarrow> int \<times> byte list"
  gnutls_pubkey_verify_data2 :: "'k \<Rightarrow> gnutls_sign_algorithm \<Rightarrow> byte list \<Rightarrow> byte list \<Rightarrow> int"
  GNUTLS_E_PK_SIG_VERIFY_FAILED :: int

datatype osnma_log =
    NoPublicKey int
  | NewDsmKroot int string string string string
  | PadMatches
  | PadMismatch string string
  | SigEncodingError
  | InvalidKrootSignature
  | KrootVerified int int int

subsection \<open>Collecting blocks\<close>

definition dsm_store_block :: "int \<Rightarrow> string \<Rightarrow> string \<Rightarrow> osnma_dsm_message \<Rightarrow> osnma_dsm_message result" where
  "dsm_store_block block_id dsm_kroot_block header dsm =
     (let dsm1 = dsm\<lparr>nma_header := header,
                     id_block_map := AList.update block_id dsm_kroot_block (id_block_map dsm)\<rparr>
      in if block_id = 0
         then bindr (read_bin_string_as_int dsm_kroot_block LIBOSNMA_DSM_KROOT_NB_BLOCKS_OFFSET
                LIBOSNMA_DSM_KROOT_NB_BLOCKS_LENGTH) (\<lambda>idx.
              bindr (umap_at DSM_KROOT_NB_BLOCKS_TABLE idx) (\<lambda>nb.
              Inr (dsm1\<lparr>nb_blocks := nb\<rparr>)))
         else Inr dsm1)"

definition is_message_ready :: "osnma_dsm_message \<Rightarrow> bool" where
  "is_message_ready dsm \<longleftrightarrow>
     to_int32 (int (length (id_block_map dsm))) = nb_blocks dsm \<and> nb_blocks dsm \<noteq> 0"

text \<open>\<^verbatim>\<open>operator[]\<close> inserts an empty string for a key that is not there.\<close>

definition umap_index :: "'k \<Rightarrow> ('k, string) umap \<Rightarrow> string \<times> ('k, string) umap" where
  "umap_index k m = (case map_of m k of Some v \<Rightarrow> (v, m) | None \<Rightarrow> ([], AList.update k [] m))"

fun assemble_blocks :: "int list \<Rightarrow> (int, string) umap \<Rightarrow> string \<times> (int, string) umap" where
  "assemble_blocks [] m = ([], m)"
| "assemble_blocks (i # is) m =
     (let (b, m1) = umap_index i m; (s, m2) = assemble_blocks is m1 in (b @ s, m2))"

definition dsm_block_ids :: "int \<Rightarrow> int list" where
  "dsm_block_ids nb = map int [0..<nat nb]"

subsection \<open>The fields of the assembled message\<close>

record dsm_kroot_fields =
  kr_nb_blocks_table_index :: int
  kr_pkid :: int
  kr_cidkr :: int
  kr_hf :: int
  kr_mf :: int
  kr_ks_table_index :: int
  kr_ts_table_index :: int
  kr_maclt :: int
  kr_wnk :: int
  kr_towhk :: int
  kr_alpha :: string

definition parse_dsm_kroot :: "string \<Rightarrow> dsm_kroot_fields result" where
  "parse_dsm_kroot msg =
     bindr (read_bin_string_as_int msg LIBOSNMA_DSM_KROOT_NB_BLOCKS_OFFSET LIBOSNMA_DSM_KROOT_NB_BLOCKS_LENGTH) (\<lambda>nb.
     bindr (read_bin_string_as_int msg LIBOSNMA_DSM_KROOT_PKID_OFFSET LIBOSNMA_DSM_KROOT_PKID_LENGTH) (\<lambda>pkid.
     bindr (read_bin_string_as_int msg LIBOSNMA_DSM_KROOT_CIDKR_OFFSET LIBOSNMA_DSM_KROOT_CIDKR_LENGTH) (\<lambda>cidkr.
     bindr (read_bin_string_as_int msg LIBOSNMA_DSM_KROOT_HF_OFFSET LIBOSNMA_DSM_KROOT_HF_LENGTH) (\<lambda>hf.
     bindr (read_bin_string_as_int msg LIBOSNMA_DSM_KROOT_MF_OFFSET LIBOSNMA_DSM_KROOT_MF_LENGTH) (\<lambda>mf.
     bindr (read_bin_string_as_int msg LIBOSNMA_DSM_KROOT_KS_OFFSET LIBOSNMA_DSM_KROOT_KS_LENGTH) (\<lambda>ks.
     bindr (read_bin_string_as_int msg LIBOSNMA_DSM_KROOT_TS_OFFSET LIBOSNMA_DSM_KROOT_TS_LENGTH) (\<lambda>ts.
     bindr (read_bin_string_as_int msg LIBOSNMA_DSM_KROOT_MACLT_OFFSET LIBOSNMA_DSM_KROOT_MACLT_LENGTH) (\<lambda>maclt.
     bindr (read_bin_string_as_int msg LIBOSNMA_DSM_KROOT_WNK_OFFSET LIBOSNMA_DSM_KROOT_WNK_LENGTH) (\<lambda>wnk.
     bindr (read_bin_string_as_int msg LIBOSNMA_DSM_KROOT_TOWHK_OFFSET LIBOSNMA_DSM_KROOT_TOWHK_LENGTH) (\<lambda>towhk.
     bindr (substr msg (to_size_t LIBOSNMA_DSM_KROOT_ALPHA_OFFSET) (to_size_t LIBOSNMA_DSM_KROOT_ALPHA_LENGTH)) (\<lambda>alpha.
     Inr \<lparr>kr_nb_blocks_table_index = nb, kr_pkid = pkid, kr_cidkr = cidkr, kr_hf = hf, kr_mf = mf,
          kr_ks_table_index = ks, kr_ts_table_index = ts, kr_maclt = maclt, kr_wnk = wnk,
          kr_towhk = towhk, kr_alpha = alpha\<rparr>)))))))))))"

subsection \<open>Padding and signature\<close>

definition signature_length :: "gnutls_sign_algorithm \<Rightarrow> int option" where
  "signature_length alg =
     (case alg of GNUTLS_SIGN_ECDSA_SHA256 \<Rightarrow> Some 512
      | GNUTLS_SIGN_ECDSA_SHA512 \<Rightarrow> Some 1056
      | GNUTLS_SIGN_OTHER _ \<Rightarrow> None)"

text \<open>
  The length of the padding: the total length is computed in double precision, rounded up to a
  whole number of blocks.
\<close>

definition dsm_l_dk :: "int \<Rightarrow> int \<Rightarrow> int" where
  "dsm_l_dk ks l_ds =
     (let sig_and_key_length = to_double (of_int (ks + l_ds))
      in to_int32 \<lfloor>dmul (of_int LIBOSNMA_DSM_BLOCK_LENGTH)
           (of_int \<lceil>dadd 1 (ddiv sig_and_key_length (of_int LIBOSNMA_DSM_BLOCK_LENGTH))\<rceil>)\<rfloor>)"

definition dsm_pad_length :: "int \<Rightarrow> int \<Rightarrow> int" where
  "dsm_pad_length ks l_ds = dsm_l_dk ks l_ds - LIBOSNMA_DSM_BLOCK_LENGTH - ks - l_ds"

definition check_signature ::
  "('k, 'z) gnutls_scheme \<Rightarrow> 'k public_key_info \<Rightarrow> dsm_kroot_fields \<Rightarrow> byte list \<Rightarrow> byte list
    \<Rightarrow> bool \<times> osnma_log list" where
  "check_signature gt key f m_bytes sig_bytes =
     (let half = length sig_bytes div 2;
          signature_r = take half sig_bytes;
          signature_s = take half (drop half sig_bytes);
          (err, signature) = gnutls_encode_rs_value gt signature_r signature_s
      in if err \<noteq> 0 then (False, [SigEncodingError])
         else let err = gnutls_pubkey_verify_data2 gt (pk_key key) (pk_algorithm key) m_bytes signature
              in if err < 0
                 then (False, if err = GNUTLS_E_PK_SIG_VERIFY_FAILED gt then [InvalidKrootSignature] else [])
                 else (True, [KrootVerified (kr_cidkr f) (kr_wnk f) (kr_towhk f)]))"

definition check_dsm_kroot ::
  "('k, 'z) gnutls_scheme \<Rightarrow> 'k public_key_info \<Rightarrow> string \<Rightarrow> string \<Rightarrow> dsm_kroot_fields \<Rightarrow> int \<Rightarrow> int
    \<Rightarrow> (bool \<times> osnma_log list) result" where
  "check_dsm_kroot gt key header msg f ks l_ds =
     (let pad_length = dsm_pad_length ks l_ds in
      bindr (substr msg (to_size_t LIBOSNMA_DSM_BLOCK_LENGTH) (to_size_t ks)) (\<lambda>root_key_binstr.
      bindr (substr msg (to_size_t (LIBOSNMA_DSM_BLOCK_LENGTH + ks)) (to_size_t l_ds)) (\<lambda>sig_binstr.
      bindr (substr msg (to_size_t (LIBOSNMA_DSM_BLOCK_LENGTH + ks + l_ds)) (to_size_t pad_length)) (\<lambda>pad_binstr.
      bindr (substr msg (to_size_t LIBOSNMA_DSM_KROOT_CIDKR_OFFSET)
               (to_size_t LIBOSNMA_DSM_BLOCK_CIDKR_TO_KROOT_LENGTH)) (\<lambda>chain_info.
      let m = header @ chain_info @ root_key_binstr;
          logs = [NewDsmKroot (kr_cidkr f) root_key_binstr sig_binstr pad_binstr m]
      in
      bindr (bin_string_to_byte_array m) (\<lambda>m_bytes.
      bindr (bin_string_to_byte_array sig_binstr) (\<lambda>sig_bytes.
      bindr (bin_string_to_byte_array (m @ sig_binstr)) (\<lambda>t_bytes.
      bindr (substr (byte_array_to_bin_str (gnutls_hash_sha256 gt t_bytes)) 0 (to_size_t pad_length)) (\<lambda>t_digest_trunc.
      if t_digest_trunc = pad_binstr
      then let (ok, sig_logs) = check_signature gt key f m_bytes sig_bytes in Inr (ok, logs @ PadMatches # sig_logs)
      else Inr (False, logs @ [PadMismatch t_digest_trunc pad_binstr]))))))))))"

definition verify_dsm_kroot ::
  "('k, 'z) gnutls_scheme \<Rightarrow> 'k key_store \<Rightarrow> string \<Rightarrow> string \<Rightarrow> (bool \<times> osnma_log list) result" where
  "verify_dsm_kroot gt keys header msg =
     bindr (parse_dsm_kroot msg) (\<lambda>f.
     bindr (umap_at DSM_KROOT_KS_TABLE (kr_ks_table_index f)) (\<lambda>ks.
     case map_of keys (kr_pkid f) of
       None \<Rightarrow> Inr (False, [NoPublicKey (kr_pkid f)])
     | Some key \<Rightarrow>
         (case signature_length (pk_algorithm key) of
            None \<Rightarrow> Inr (False, [])
          | Some l_ds \<Rightarrow> check_dsm_kroot gt key header msg f ks l_ds)))"

subsection \<open>The whole method\<close>

type_synonym dsm_map = "(int, osnma_dsm_message) umap"

definition process_dsm_kroot_block ::
  "('k, 'z) gnutls_scheme \<Rightarrow> 'k key_store \<Rightarrow> int \<Rightarrow> int \<Rightarrow> string \<Rightarrow> string \<Rightarrow> dsm_map
    \<Rightarrow> (dsm_map \<times> osnma_log list) result" where
  "process_dsm_kroot_block gt keys dsm_id block_id dsm_kroot_block header dsms =
     (let dsms0 = (if map_of dsms dsm_id = None then AList.update dsm_id new_dsm_message dsms else dsms);
          dsm0 = the (map_of dsms0 dsm_id)
      in if is_processed dsm0 then Inr (dsms0, [])
         else bindr (dsm_store_block block_id dsm_kroot_block header dsm0) (\<lambda>dsm1.
              if \<not> is_message_ready dsm1 then Inr (AList.update dsm_id dsm1 dsms0, [])
              else let (msg, blocks) = assemble_blocks (dsm_block_ids (nb_blocks dsm1)) (id_block_map dsm1);
                       dsm2 = dsm1\<lparr>id_block_map := blocks\<rparr>
                   in bindr (verify_dsm_kroot gt keys (nma_header dsm2) msg) (\<lambda>(ok, logs).
                      Inr (AList.update dsm_id
                             (if ok then dsm2\<lparr>is_processed := True\<rparr> else dsm2) dsms0, logs))))"

subsection \<open>Padding arithmetic\<close>

text \<open>
  For every key size and signature length the code can meet, the double-precision computation
  gives the exact number of whole blocks, and the padding is shorter than a block.
\<close>

abbreviation valid_ks :: "int \<Rightarrow> bool" where
  "valid_ks ks \<equiv> ks \<in> {96, 104, 112, 120, 128, 160, 192, 224, 256}"

abbreviation valid_l_ds :: "int \<Rightarrow> bool" where
  "valid_l_ds l \<equiv> l \<in> {512, 1056}"

lemma double_ceil_blocks:
  assumes "0 < x" and "x < 2 ^ 15"
  shows "\<lceil>dadd 1 (ddiv (to_double (of_int x)) 104)\<rceil> = \<lceil>1 + (of_int x :: rat) / 104\<rceil>"
proof -
  have dx: "to_double (of_int x) = of_int x" using assms by (intro to_double_int) auto
  let ?q = "of_int x / 104 :: rat"
  have q: "1 / 104 \<le> ?q" "?q \<le> 2 ^ 9"
  proof -
    have "(1::rat) \<le> of_int x" using assms(1) by simp
    then show "1 / 104 \<le> ?q" by (intro divide_right_mono) auto
    have "(of_int x :: rat) \<le> of_int (2 ^ 15)" using assms(2) by (simp only: of_int_le_iff)
    then show "?q \<le> 2 ^ 9" by simp
  qed
  show ?thesis
  proof (cases "x mod 104 = 0")
    case True
    then obtain k where k: "x = 104 * k" by blast
    with assms have "to_double (of_int k) = of_int k" "to_double (of_int (1 + k)) = of_int (1 + k)"
      by (intro to_double_int; simp)+
    then show ?thesis using dx by (simp add: dadd_def ddiv_def k)
  next
    case False
    define r where "r = to_double ?q"
    have tiny: "(2::rat) powi (- 100) \<le> 1 / 104" by (simp add: power_int_minus)
    have "\<bar>r - ?q\<bar> \<le> 2 powi (9 - 53)"
      unfolding r_def using q tiny by (intro to_double_error) simp_all
    then have e1: "\<bar>r - ?q\<bar> \<le> 1 / 1000" by (rule order_trans) (simp add: power_int_minus)
    then have r: "1 / 104 \<le> 1 + r" "1 + r \<le> 2 powi 10"
      using q unfolding abs_le_iff by simp_all
    have "\<bar>to_double (1 + r) - (1 + r)\<bar> \<le> 2 powi (10 - 53)"
      using r tiny by (intro to_double_error) linarith+
    then have "\<bar>to_double (1 + r) - (1 + r)\<bar> \<le> 1 / 1000"
      by (rule order_trans) (simp add: power_int_minus)
    with e1 have close: "\<bar>to_double (1 + r) - (1 + ?q)\<bar> < 1 / of_int 104"
      unfolding of_int_numeral by linarith
    have "(104 + x) mod 104 \<noteq> 0" using False by simp
    then have "\<lceil>to_double (1 + r)\<rceil> = \<lceil>1 + ?q\<rceil>"
      by (intro ceiling_stable [OF _ _ _ close, of "104 + x"]) simp_all
    then show ?thesis by (simp only: dx dadd_def ddiv_def r_def)
  qed
qed

lemma dsm_l_dk_exact:
  assumes "0 < ks + l" and "ks + l < 2 ^ 15"
  shows "dsm_l_dk ks l = 104 * \<lceil>1 + (of_int (ks + l) :: rat) / 104\<rceil>"
proof -
  define c where "c = \<lceil>1 + (of_int (ks + l) :: rat) / 104\<rceil>"
  define y where "y = (of_int (ks + l) :: rat)"
  have "0 < y" "y < of_int (2 ^ 15)"
    unfolding y_def using assms by (simp_all only: of_int_less_iff of_int_0_less_iff)
  then have "0 < 1 + y / 104" "1 + y / 104 \<le> of_int 400" by simp_all
  then have c: "0 < c" "c \<le> 400" unfolding c_def y_def by (simp_all only: zero_less_ceiling ceiling_le_iff)
  have "dmul 104 (of_int c) = of_int (104 * c)"
    using c to_double_int [of "104 * c"] by (simp add: dmul_def)
  moreover have "to_int32 (104 * c) = 104 * c" using c by (intro to_int32_id) auto
  moreover have "\<lceil>dadd 1 (ddiv (to_double (of_int (ks + l))) 104)\<rceil> = c"
    unfolding c_def by (rule double_ceil_blocks) fact+
  ultimately show ?thesis unfolding c_def [symmetric]
    by (simp only: dsm_l_dk_def Let_def LIBOSNMA_DSM_BLOCK_LENGTH_def of_int_numeral floor_of_int)
qed

lemma dsm_pad_length_exact:
  assumes "0 < ks + l" and "ks + l < 2 ^ 15"
  shows "0 \<le> dsm_pad_length ks l" and "dsm_pad_length ks l < LIBOSNMA_DSM_BLOCK_LENGTH"
    and "(ks + l + dsm_pad_length ks l) mod LIBOSNMA_DSM_BLOCK_LENGTH = 0"
proof -
  define c where "c = \<lceil>1 + (of_int (ks + l) :: rat) / 104\<rceil>"
  have pad: "dsm_pad_length ks l = 104 * (c - 1) - (ks + l)"
    by (simp only: dsm_pad_length_def dsm_l_dk_exact [OF assms] LIBOSNMA_DSM_BLOCK_LENGTH_def c_def)
      simp
  define y where "y = (of_int (ks + l) :: rat)"
  have "1 + y / 104 \<le> of_int c" "of_int c < 1 + y / 104 + 1" unfolding c_def y_def by linarith+
  then have "y \<le> of_int (104 * (c - 1))" "of_int (104 * (c - 1)) < y + of_int 104"
    unfolding of_int_mult of_int_diff of_int_numeral of_int_1 by (simp_all add: field_simps)
  then have "ks + l \<le> 104 * (c - 1)" "104 * (c - 1) < ks + l + 104"
    unfolding y_def of_int_add [symmetric] by (simp_all only: of_int_le_iff of_int_less_iff)
  then show "0 \<le> dsm_pad_length ks l" "dsm_pad_length ks l < LIBOSNMA_DSM_BLOCK_LENGTH"
    "(ks + l + dsm_pad_length ks l) mod LIBOSNMA_DSM_BLOCK_LENGTH = 0"
    by (simp_all add: pad LIBOSNMA_DSM_BLOCK_LENGTH_def)
qed

subsection \<open>Assembling\<close>

definition block_at :: "(int, string) umap \<Rightarrow> int \<Rightarrow> string" where
  "block_at m i = (case map_of m i of Some v \<Rightarrow> v | None \<Rightarrow> [])"

lemma assemble_blocks_complete:
  "set is \<subseteq> fst ` set m \<Longrightarrow> assemble_blocks is m = (concat (map (block_at m) is), m)"
proof (induction "is")
  case Nil
  then show ?case by simp
next
  case (Cons i "is")
  then obtain v where "map_of m i = Some v" by (auto simp: umap_member_lookup)
  with Cons show ?case by (simp add: umap_index_def block_at_def)
qed

lemma assemble_blocks_Cons:
  "fst (assemble_blocks (i # is) m) = fst (umap_index i m) @ fst (assemble_blocks is (snd (umap_index i m)))"
  "snd (assemble_blocks (i # is) m) = snd (assemble_blocks is (snd (umap_index i m)))"
  by (simp_all add: Let_def split_def)

lemma assemble_blocks_keys: "fst ` set (snd (assemble_blocks is m)) = fst ` set m \<union> set is"
proof (induction "is" arbitrary: m)
  case Nil
  then show ?case by simp
next
  case (Cons i "is")
  have "fst ` set (snd (umap_index i m)) = insert i (fst ` set m)"
    using umap.keys_put [of i "[]" m]
    by (auto simp: umap_index_def umap_member_lookup split: option.splits)
  then show ?case
    using Cons.IH [of "snd (umap_index i m)"]
    by (simp only: assemble_blocks_Cons list.set) (simp only: Un_insert_left Un_insert_right)
qed

lemma umap_index_wf: "umap_wf m \<Longrightarrow> umap_wf (snd (umap_index i m))"
  by (auto simp: umap_index_def distinct_update split: option.splits)

lemma assemble_blocks_wf: "umap_wf m \<Longrightarrow> umap_wf (snd (assemble_blocks is m))"
proof (induction "is" arbitrary: m)
  case Nil
  then show ?case by simp
next
  case (Cons i "is")
  then show ?case by (simp only: assemble_blocks_Cons umap_index_wf)
qed

lemma dsm_block_ids_set: "set (dsm_block_ids nb) = {0..<nb}"
proof -
  have "x \<in> int ` {0..<nat nb}" if "0 \<le> x" "x < nb" for x
    using that by (intro image_eqI [of _ _ "nat x"]) auto
  then show ?thesis by (auto simp: dsm_block_ids_def)
qed

lemma umap_size: "umap_wf m \<Longrightarrow> length m = card (fst ` set m)"
  by (metis distinct_card length_map list.set_map)

text \<open>
  When the number of stored blocks equals the announced number but one of the announced blocks
  is missing, assembling stores an empty block for it and the map outgrows the announced number.
\<close>

lemma assemble_missing_grows:
  assumes wf: "umap_wf (id_block_map dsm)" and ready: "is_message_ready dsm"
    and small: "length (id_block_map dsm) < 2 ^ 31"
    and i: "0 \<le> i" "i < nb_blocks dsm" and missing: "i \<notin> fst ` set (id_block_map dsm)"
  shows "nb_blocks dsm < int (length (snd (assemble_blocks (dsm_block_ids (nb_blocks dsm)) (id_block_map dsm))))"
proof -
  let ?m = "id_block_map dsm" and ?ids = "dsm_block_ids (nb_blocks dsm)"
  have nb: "int (length ?m) = nb_blocks dsm" using ready small by (simp add: is_message_ready_def)
  have "insert i (fst ` set ?m) \<subseteq> fst ` set (snd (assemble_blocks ?ids ?m))"
    using i by (simp add: assemble_blocks_keys dsm_block_ids_set)
  then have "card (insert i (fst ` set ?m)) \<le> card (fst ` set (snd (assemble_blocks ?ids ?m)))"
    by (intro card_mono) auto
  then have "Suc (length ?m) \<le> length (snd (assemble_blocks ?ids ?m))"
    using missing wf by (simp add: umap_size [OF wf] umap_size [OF assemble_blocks_wf [OF wf]])
  then show ?thesis using nb by simp
qed

end
