(* ===== verification/Osnma_Dsm_Correct.thy ===== *)
theory Osnma_Dsm_Correct
  imports Osnma_Dsm
begin

section \<open>Correctness of the DSM-KROOT processing\<close>

text \<open>
  What a reported verification means (\<open>kroot_verified_authentic\<close>), that the assembled message
  does not depend on the order in which the blocks arrive (\<open>dsm_assembly_any_order\<close>), that
  a verified message is never processed again, and the two ways in which a received message can
  go wrong: sizes that do not fit make an exception leave the handler
  (\<open>dsm_short_message_throws\<close>), and a block with an identifier above the announced number
  blocks the message for good (\<open>dsm_foreign_block_stuck\<close>).
\<close>

subsection \<open>Bytes determine the string\<close>

lemma bin_string_to_byte_array_bin:
  assumes "bin_string_to_byte_array s = Inr bs"
  shows "bin_string s"
  using assms bin_string_to_byte_array_invalid [of _ s] by (fastforce simp: list_all_length)

lemma bytes_of_padded:
  assumes "bin_string_to_byte_array s = Inr bs"
  shows "byte_array_to_bin_str bs = padded s"
proof -
  have "bin_string (padded s)" using bin_string_to_byte_array_bin [OF assms] by (rule bin_string_padded)
  moreover have "8 dvd length (padded s)" by (subst length_padded) simp
  ultimately obtain bs' where "bin_string_to_byte_array (padded s) = Inr bs'" "byte_array_to_bin_str bs' = padded s"
    using string_bytes_roundtrip by blast
  with assms show ?thesis by (simp add: bin_string_to_byte_array_padded [of s])
qed

subsection \<open>Reading the fields\<close>

lemma parse_dsm_kroot_fields:
  assumes "parse_dsm_kroot msg = Inr f"
  shows "read_bin_string_as_int msg 4 4 = Inr (kr_pkid f)"
    and "read_bin_string_as_int msg 8 2 = Inr (kr_cidkr f)"
    and "read_bin_string_as_int msg 16 4 = Inr (kr_ks_table_index f)"
    and "read_bin_string_as_int msg 36 12 = Inr (kr_wnk f)"
    and "read_bin_string_as_int msg 48 8 = Inr (kr_towhk f)"
  using assms by (auto simp: parse_dsm_kroot_def bindr_eq_Inr osnma_consts)

text \<open>A field that lies inside a run of binary digits is read as their value.\<close>

lemma read_inside:
  assumes "bin_string (take n (drop i s))" and "i + n \<le> length s" and "0 < n" and "n \<le> 31" and "i < 2 ^ 31"
  shows "read_bin_string_as_int s (int i) (int n) = Inr (int (bin_value (take n (drop i s))))"
proof -
  have "length (take n (drop i s)) = n" using assms by simp
  then have "stoi2 (take n (drop i s)) = Inr (int (bin_value (take n (drop i s))))"
    using assms by (intro stoi2_bin_string) auto
  then show ?thesis using assms by (simp add: read_bin_string_as_int_def Let_def)
qed

lemma bin_string_sub:
  assumes "bin_string (take b (drop a s))" and "a \<le> i" and "i + n \<le> a + b"
  shows "bin_string (take n (drop i s))"
proof -
  have "take n (drop (i - a) (take b (drop a s))) = take n (drop i s)"
    using assms(2,3) by (rule take_drop_inside)
  then show ?thesis using assms(1) by (metis bin_string_take bin_string_drop)
qed

subsection \<open>A reported verification\<close>

text \<open>The string that is signed: the NMA header, the chain information of block 0 and the root key.\<close>

definition signed_message :: "string \<Rightarrow> string \<Rightarrow> int \<Rightarrow> string" where
  "signed_message header msg ks = header @ take 96 (drop 8 msg) @ take (to_size_t ks) (drop 104 msg)"

lemma check_signature_verified:
  assumes "check_signature gt key f m_bytes sig_bytes = (ok, logs)" and "ok \<or> KrootVerified c w t \<in> set logs"
  shows "ok \<and> logs = [KrootVerified (kr_cidkr f) (kr_wnk f) (kr_towhk f)] \<and>
    (\<exists>sig. 0 \<le> gnutls_pubkey_verify_data2 gt (pk_key key) (pk_algorithm key) m_bytes sig)"
  using assms by (force simp: check_signature_def Let_def not_less split: prod.splits if_splits)

lemma check_dsm_kroot_verified:
  assumes "check_dsm_kroot gt key header msg f ks l = Inr (ok, logs)" and "ok \<or> KrootVerified c w t \<in> set logs"
  shows "ok \<and> 104 \<le> length msg \<and> KrootVerified (kr_cidkr f) (kr_wnk f) (kr_towhk f) \<in> set logs \<and>
    (KrootVerified c w t \<in> set logs \<longrightarrow> c = kr_cidkr f \<and> w = kr_wnk f \<and> t = kr_towhk f) \<and>
    (\<exists>m_bytes sig. bin_string_to_byte_array (signed_message header msg ks) = Inr m_bytes \<and>
       0 \<le> gnutls_pubkey_verify_data2 gt (pk_key key) (pk_algorithm key) m_bytes sig)"
proof -
  from assms(1) obtain root sigs pad chain m_bytes sig_bytes trunc where
    root: "substr msg (to_size_t LIBOSNMA_DSM_BLOCK_LENGTH) (to_size_t ks) = Inr root"
    and chain: "substr msg (to_size_t LIBOSNMA_DSM_KROOT_CIDKR_OFFSET)
      (to_size_t LIBOSNMA_DSM_BLOCK_CIDKR_TO_KROOT_LENGTH) = Inr chain"
    and m: "bin_string_to_byte_array (header @ chain @ root) = Inr m_bytes"
    and rest: "(if trunc = pad
        then case check_signature gt key f m_bytes sig_bytes of
          (ok, sig_logs) \<Rightarrow> Inr (ok, [NewDsmKroot (kr_cidkr f) root sigs pad (header @ chain @ root)] @ PadMatches # sig_logs)
        else Inr (False, [NewDsmKroot (kr_cidkr f) root sigs pad (header @ chain @ root)] @ [PadMismatch trunc pad]))
      = (Inr (ok, logs) :: (bool \<times> osnma_log list) result)"
    unfolding check_dsm_kroot_def Let_def bindr_eq_Inr by (elim exE conjE) (rule that; assumption)
  obtain ok' sig_logs where cs: "check_signature gt key f m_bytes sig_bytes = (ok', sig_logs)" by fastforce
  with rest assms(2) have logs: "ok' = ok" "ok \<or> KrootVerified c w t \<in> set sig_logs"
      "KrootVerified c w t \<in> set logs \<longleftrightarrow> KrootVerified c w t \<in> set sig_logs" "set sig_logs \<subseteq> set logs"
    by (auto split: if_splits)
  have "signed_message header msg ks = header @ chain @ root" "104 \<le> length msg"
    using root chain by (auto simp: signed_message_def substr_def osnma_consts split: if_splits)
  with check_signature_verified [OF cs, of c w t] logs m show ?thesis by auto
qed

lemma verify_dsm_kroot_verified:
  assumes "verify_dsm_kroot gt keys header msg = Inr (ok, logs)" and "ok \<or> KrootVerified c w t \<in> set logs"
  shows "\<exists>f ks key m_bytes sig. ok \<and> 104 \<le> length msg \<and> parse_dsm_kroot msg = Inr f \<and>
    map_of keys (kr_pkid f) = Some key \<and> KrootVerified (kr_cidkr f) (kr_wnk f) (kr_towhk f) \<in> set logs \<and>
    (KrootVerified c w t \<in> set logs \<longrightarrow> c = kr_cidkr f \<and> w = kr_wnk f \<and> t = kr_towhk f) \<and>
    bin_string_to_byte_array (signed_message header msg ks) = Inr m_bytes \<and>
    0 \<le> gnutls_pubkey_verify_data2 gt (pk_key key) (pk_algorithm key) m_bytes sig"
  using assms
  by (fastforce simp: verify_dsm_kroot_def bindr_eq_Inr dest!: check_dsm_kroot_verified
      split: option.splits)

lemma verify_dsm_kroot_logs:
  assumes "verify_dsm_kroot gt keys header msg = Inr (ok, logs)" and ok
  shows "\<exists>c w t. KrootVerified c w t \<in> set logs"
  using verify_dsm_kroot_verified [OF assms(1)] assms(2) by blast

lemma process_dsm_verified:
  assumes "process_dsm_kroot_block gt keys dsm_id block_id blk header dsms = Inr (dsms', logs)"
    and "KrootVerified c w t \<in> set logs"
  shows "\<exists>msg. verify_dsm_kroot gt keys header msg = Inr (True, logs)"
  using assms
  by (fastforce simp: process_dsm_kroot_block_def Let_def bindr_eq_Inr dsm_store_block_def
      dest: verify_dsm_kroot_verified split: prod.splits if_splits)

text \<open>The fields the log reports are fields of the signed string.\<close>

lemma signed_message_prefix:
  assumes "length header = 8" and "104 \<le> length msg" and "8 \<le> i" and "i + n \<le> 104"
  shows "take n (drop i (padded (signed_message header msg ks))) = take n (drop i msg)"
proof -
  let ?c = "take 96 (drop 8 msg)" and ?r = "take (to_size_t ks) (drop 104 msg)"
  obtain r where r: "padded (signed_message header msg ks) = header @ ?c @ r"
    by (simp add: signed_message_def padded_def)
  have "take n (drop i (header @ ?c @ r)) = take n (drop (i - 8) (?c @ r))"
    using assms by simp
  also have "\<dots> = take n (drop (i - 8) ?c)" using assms by simp
  also have "\<dots> = take n (drop i msg)" using assms by (intro take_drop_inside) auto
  finally show ?thesis using r by simp
qed

lemma signed_fields:
  assumes "parse_dsm_kroot msg = Inr f" and "104 \<le> length msg" and "length header = 8"
    and m: "bin_string_to_byte_array (signed_message header msg ks) = Inr m_bytes"
  shows "kr_cidkr f = int (bin_value (take 2 (drop 8 (byte_array_to_bin_str m_bytes))))"
    and "kr_wnk f = int (bin_value (take 12 (drop 36 (byte_array_to_bin_str m_bytes))))"
    and "kr_towhk f = int (bin_value (take 8 (drop 48 (byte_array_to_bin_str m_bytes))))"
proof -
  have bin: "bin_string (take 96 (drop 8 msg))"
    using bin_string_to_byte_array_bin [OF m] by (simp add: signed_message_def)
  have sub: "int (bin_value (take n (drop i (byte_array_to_bin_str m_bytes)))) = v"
    if "read_bin_string_as_int msg (int i) (int n) = Inr v" "8 \<le> i" "i + n \<le> 104" "0 < n" "n \<le> 31" for i n v
  proof -
    have "bin_string (take n (drop i msg))" using bin that by (auto intro: bin_string_sub [of 96 8])
    then have "read_bin_string_as_int msg (int i) (int n) = Inr (int (bin_value (take n (drop i msg))))"
      using that assms(2) by (intro read_inside) auto
    with that assms(2,3) show ?thesis by (simp add: bytes_of_padded [OF m] signed_message_prefix)
  qed
  note p = parse_dsm_kroot_fields [OF assms(1)]
  show "kr_cidkr f = int (bin_value (take 2 (drop 8 (byte_array_to_bin_str m_bytes))))"
    using sub [of 8 2] p(2) by simp
  show "kr_wnk f = int (bin_value (take 12 (drop 36 (byte_array_to_bin_str m_bytes))))"
    using sub [of 36 12] p(4) by simp
  show "kr_towhk f = int (bin_value (take 8 (drop 48 (byte_array_to_bin_str m_bytes))))"
    using sub [of 48 8] p(5) by simp
qed

text \<open>
  The documented behaviour of \<^verbatim>\<open>gnutls_pubkey_verify_data2\<close>: a non-negative result means that the
  data carry a signature made with the private key of the given public key.
\<close>

definition sound_verification :: "('k, 'z) gnutls_scheme \<Rightarrow> ('k \<Rightarrow> byte list \<Rightarrow> bool) \<Rightarrow> bool" where
  "sound_verification gt has_signed \<longleftrightarrow>
     (\<forall>key alg m sig. 0 \<le> gnutls_pubkey_verify_data2 gt key alg m sig \<longrightarrow> has_signed key m)"

lemma kroot_signed:
  assumes unforgeable: "sound_verification gt has_signed"
    and header: "length header = 8"
    and run: "process_dsm_kroot_block gt keys dsm_id block_id blk header dsms = Inr (dsms', logs)"
    and verified: "KrootVerified cid wnk towhk \<in> set logs"
  shows "\<exists>kid key m. map_of keys kid = Some key \<and> has_signed (pk_key key) m \<and>
    take 8 (byte_array_to_bin_str m) = header \<and>
    cid = int (bin_value (take 2 (drop 8 (byte_array_to_bin_str m)))) \<and>
    wnk = int (bin_value (take 12 (drop 36 (byte_array_to_bin_str m)))) \<and>
    towhk = int (bin_value (take 8 (drop 48 (byte_array_to_bin_str m))))"
proof -
  obtain msg where "verify_dsm_kroot gt keys header msg = Inr (True, logs)"
    using process_dsm_verified [OF run verified] by blast
  from verify_dsm_kroot_verified [OF this] verified obtain f ks key m sig where
    len: "104 \<le> length msg" and f: "parse_dsm_kroot msg = Inr f" and key: "map_of keys (kr_pkid f) = Some key"
    and fields: "cid = kr_cidkr f" "wnk = kr_wnk f" "towhk = kr_towhk f"
    and m: "bin_string_to_byte_array (signed_message header msg ks) = Inr m"
    and ok: "0 \<le> gnutls_pubkey_verify_data2 gt (pk_key key) (pk_algorithm key) m sig" by blast
  have "take 8 (byte_array_to_bin_str m) = header"
    using header by (simp add: bytes_of_padded [OF m] padded_def signed_message_def)
  with signed_fields [OF f len header m] fields key unforgeable [unfolded sound_verification_def, rule_format, OF ok] show ?thesis by blast
qed


subsection \<open>Blocks in any order\<close>

fun process_blocks ::
  "('k, 'z) gnutls_scheme \<Rightarrow> 'k key_store \<Rightarrow> int \<Rightarrow> string \<Rightarrow> (int \<times> string) list \<Rightarrow> dsm_map
    \<Rightarrow> (dsm_map \<times> osnma_log list) result" where
  "process_blocks gt keys dsm_id header [] dsms = Inr (dsms, [])"
| "process_blocks gt keys dsm_id header ((i, b) # bs) dsms =
     bindr (process_dsm_kroot_block gt keys dsm_id i b header dsms) (\<lambda>(d, l).
     bindr (process_blocks gt keys dsm_id header bs d) (\<lambda>(d', l'). Inr (d', l @ l')))"

definition partial_dsm :: "string \<Rightarrow> int \<Rightarrow> (int \<times> string) list \<Rightarrow> osnma_dsm_message" where
  "partial_dsm header nb bs =
     \<lparr>nb_blocks = (if 0 \<in> fst ` set bs then nb else 0), nma_header = header, id_block_map = bs,
      is_processed = False\<rparr>"

definition announces :: "(int \<times> string) list \<Rightarrow> int \<Rightarrow> bool" where
  "announces bs nb \<longleftrightarrow> (\<forall>b. map_of bs 0 = Some b \<longrightarrow>
     (\<exists>idx. read_bin_string_as_int b 0 4 = Inr idx \<and> umap_at DSM_KROOT_NB_BLOCKS_TABLE idx = Inr nb))"

lemma alist_update_new: "k \<notin> fst ` set m \<Longrightarrow> AList.update k v m = m @ [(k, v)]"
  by (induction m) auto

lemma store_partial:
  assumes "announces (qs @ [(i, b)]) nb" and "i \<notin> fst ` set qs"
  shows "dsm_store_block i b header ((partial_dsm header' nb qs)\<lparr>nma_header := h\<rparr>) =
    Inr (partial_dsm header nb (qs @ [(i, b)]))"
proof (cases "i = 0")
  case True
  then have "map_of qs 0 = None" using assms(2) by (simp add: map_of_eq_None_iff)
  then have "map_of (qs @ [(i, b)]) 0 = Some b" using True by (simp add: map_add_def)
  then obtain idx where "read_bin_string_as_int b 0 4 = Inr idx" "umap_at DSM_KROOT_NB_BLOCKS_TABLE idx = Inr nb"
    using assms(1) unfolding announces_def by blast
  then show ?thesis using True assms(2)
    by (simp add: dsm_store_block_def partial_dsm_def alist_update_new osnma_consts)
next
  case False
  then show ?thesis using assms(2) by (simp add: dsm_store_block_def partial_dsm_def alist_update_new)
qed

lemma ready_partial:
  assumes "distinct (map fst bs)" and "fst ` set bs \<subseteq> {0..<nb}" and "0 < nb" and "nb < 2 ^ 31"
  shows "is_message_ready (partial_dsm header nb bs) \<longleftrightarrow> int (length bs) = nb"
proof -
  have card: "length bs = card (fst ` set bs)" using assms(1) by (rule umap_size)
  also have "\<dots> \<le> card {0..<nb}" using assms(2) by (intro card_mono) auto
  finally have le: "int (length bs) \<le> nb" using assms(3) by simp
  have "0 \<in> fst ` set bs" if "int (length bs) = nb"
  proof -
    have "fst ` set bs = {0..<nb}" using assms(1,2) that card by (intro card_subset_eq) auto
    then show ?thesis using assms(3) by simp
  qed
  moreover have "to_int32 (int (length bs)) = int (length bs)" using le assms(4) by (intro to_int32_id) auto
  ultimately show ?thesis using assms(3) by (auto simp: is_message_ready_def partial_dsm_def)
qed

lemma partial_processed:
  "(if ok then (partial_dsm header nb bs)\<lparr>id_block_map := bs, is_processed := True\<rparr>
    else (partial_dsm header nb bs)\<lparr>id_block_map := bs\<rparr>) = (partial_dsm header nb bs)\<lparr>is_processed := ok\<rparr>"
  by (simp add: partial_dsm_def)

lemma process_partial_step:
  assumes state: "map_of dsms dsm_id = Some (partial_dsm header nb qs) \<or> qs = [] \<and> map_of dsms dsm_id = None"
    and ids: "distinct (map fst (qs @ [(i, b)]))" "fst ` set (qs @ [(i, b)]) \<subseteq> {0..<nb}"
    and nb: "0 < nb" "nb < 2 ^ 31" and ann: "announces (qs @ [(i, b)]) nb"
  shows "process_dsm_kroot_block gt keys dsm_id i b header dsms =
    (if int (Suc (length qs)) = nb
     then bindr (verify_dsm_kroot gt keys header (concat (map (block_at (qs @ [(i, b)])) (dsm_block_ids nb))))
       (\<lambda>(ok, logs). Inr (AList.update dsm_id
          ((partial_dsm header nb (qs @ [(i, b)]))\<lparr>is_processed := ok\<rparr>) dsms, logs))
     else Inr (AList.update dsm_id (partial_dsm header nb (qs @ [(i, b)])) dsms, []))"
proof -
  let ?p = "partial_dsm header nb (qs @ [(i, b)])"
  have store: "dsm_store_block i b header (partial_dsm header nb qs) = Inr ?p"
    "qs = [] \<Longrightarrow> dsm_store_block i b header new_dsm_message = Inr ?p"
    using store_partial [OF ann, of header header header] store_partial [OF ann, of header "[]" "[]"] ids(1)
    by (auto simp: partial_dsm_def new_dsm_message_def)
  have rdy: "is_message_ready ?p \<longleftrightarrow> int (Suc (length qs)) = nb"
    using ready_partial [OF ids nb] by simp
  have asm: "assemble_blocks (dsm_block_ids nb) (qs @ [(i, b)]) =
      (concat (map (block_at (qs @ [(i, b)])) (dsm_block_ids nb)), qs @ [(i, b)])"
    if "int (Suc (length qs)) = nb"
  proof (rule assemble_blocks_complete)
    have "card (fst ` set (qs @ [(i, b)])) = nat nb" using that umap_size [OF ids(1)] by simp
    then have "fst ` set (qs @ [(i, b)]) = {0..<nb}" using ids(2) by (intro card_subset_eq) auto
    then show "set (dsm_block_ids nb) \<subseteq> fst ` set (qs @ [(i, b)])" by (simp add: dsm_block_ids_set)
  qed
  have nbp: "nb_blocks ?p = nb" if "int (Suc (length qs)) = nb"
    using rdy that nb by (auto simp: is_message_ready_def partial_dsm_def split: if_splits)
  have sel: "nma_header ?p = header" "id_block_map ?p = qs @ [(i, b)]" "\<not> is_processed (partial_dsm header nb qs)"
    "\<not> is_processed new_dsm_message"
    by (simp_all add: partial_dsm_def new_dsm_message_def)
  show ?thesis
    using state store rdy asm nbp sel
    by (auto simp: process_dsm_kroot_block_def Let_def update_last partial_processed)
qed

lemma process_blocks_snoc:
  "process_blocks gt keys dsm_id header (bs @ [(i, b)]) dsms =
    bindr (process_blocks gt keys dsm_id header bs dsms) (\<lambda>(d, l).
    bindr (process_dsm_kroot_block gt keys dsm_id i b header d) (\<lambda>(d', l'). Inr (d', l @ l')))"
proof (induction bs arbitrary: dsms)
  case Nil
  then show ?case
    by (cases "process_dsm_kroot_block gt keys dsm_id i b header dsms") (auto split: prod.splits)
next
  case (Cons p bs)
  obtain j c where [simp]: "p = (j, c)" by fastforce
  show ?case
  proof (cases "process_dsm_kroot_block gt keys dsm_id j c header dsms")
    case (Inr r)
    obtain d l where [simp]: "r = (d, l)" by fastforce
    show ?thesis using Cons.IH [of d] Inr
      by (cases "process_blocks gt keys dsm_id header bs d") (auto simp: bindr_def split: prod.splits sum.splits)
  qed simp
qed

lemma announces_prefix: "announces (qs @ [(i, b)]) nb \<Longrightarrow> announces qs nb"
  by (auto simp: announces_def map_add_def split: option.splits)

text \<open>Before the last block nothing is reported and the stored message holds what has arrived.\<close>

lemma process_blocks_partial:
  assumes "map_of dsms dsm_id = None" and "distinct (map fst bs)" and "fst ` set bs \<subseteq> {0..<nb}"
    and "int (length bs) < nb" and "nb < 2 ^ 31" and "announces bs nb" and "bs \<noteq> []"
  shows "process_blocks gt keys dsm_id header bs dsms =
    Inr (AList.update dsm_id (partial_dsm header nb bs) dsms, [])"
  using assms
proof (induction bs rule: rev_induct)
  case Nil
  then show ?case by simp
next
  case (snoc p qs)
  obtain i b where [simp]: "p = (i, b)" by fastforce
  let ?d = "if qs = [] then dsms else AList.update dsm_id (partial_dsm header nb qs) dsms"
  have "process_blocks gt keys dsm_id header qs dsms = Inr (?d, [])"
    using snoc announces_prefix by (cases "qs = []") auto
  moreover have "process_dsm_kroot_block gt keys dsm_id i b header ?d =
      Inr (AList.update dsm_id (partial_dsm header nb (qs @ [(i, b)])) ?d, [])"
    using snoc.prems by (subst process_partial_step [where nb = nb and qs = qs]) (auto simp: map_of_update)
  ultimately show ?case by (auto simp: process_blocks_snoc update_last)
qed

lemma process_blocks_complete:
  assumes new: "map_of dsms dsm_id = None" and ids: "distinct (map fst bs)" "fst ` set bs = {0..<nb}"
    and nb: "0 < nb" "nb < 2 ^ 31" and ann: "announces bs nb"
  shows "process_blocks gt keys dsm_id header bs dsms =
    bindr (verify_dsm_kroot gt keys header (concat (map (block_at bs) (dsm_block_ids nb)))) (\<lambda>(ok, logs).
      Inr (AList.update dsm_id \<lparr>nb_blocks = nb, nma_header = header, id_block_map = bs, is_processed = ok\<rparr> dsms,
        logs))"
proof -
  have len: "int (length bs) = nb" using umap_size [OF ids(1)] ids(2) nb(1) by simp
  with nb(1) obtain qs i b where bs: "bs = qs @ [(i, b)]" by (cases bs rule: rev_cases) auto
  let ?d = "if qs = [] then dsms else AList.update dsm_id (partial_dsm header nb qs) dsms"
  have sub: "fst ` set qs \<subseteq> {0..<nb}" using ids(2) by (auto simp: bs)
  have "process_blocks gt keys dsm_id header qs dsms = Inr (?d, [])"
    using process_blocks_partial [OF new _ sub] ids(1) len nb ann announces_prefix
    by (cases "qs = []") (auto simp: bs)
  moreover have "process_dsm_kroot_block gt keys dsm_id i b header ?d =
      bindr (verify_dsm_kroot gt keys header (concat (map (block_at bs) (dsm_block_ids nb)))) (\<lambda>(ok, logs).
        Inr (AList.update dsm_id ((partial_dsm header nb bs)\<lparr>is_processed := ok\<rparr>) ?d, logs))"
    unfolding bs using new ids nb ann len
    by (subst process_partial_step [where nb = nb and qs = qs]) (auto simp: bs)
  moreover have "(partial_dsm header nb bs)\<lparr>is_processed := ok\<rparr> =
      \<lparr>nb_blocks = nb, nma_header = header, id_block_map = bs, is_processed = ok\<rparr>" for ok
    using ids(2) nb(1) by (simp add: partial_dsm_def)
  ultimately show ?thesis
    unfolding bs process_blocks_snoc
    by (cases "verify_dsm_kroot gt keys header (concat (map (block_at bs) (dsm_block_ids nb)))")
      (auto simp: bs update_last split: prod.splits)
qed

text \<open>
  C7: the order of arrival does not matter. When blocks with the distinct identifiers
  \<open>0 ..< nb\<close> arrive for a message that is not known yet, in any order, and block 0 announces
  \<open>nb\<close> blocks, then the method verifies exactly the concatenation of the blocks in the order of
  their identifiers, with the header of the last one, and the message counts as processed
  precisely when that verification succeeds.
\<close>

theorem dsm_assembly_any_order:
  assumes new: "map_of dsms dsm_id = None" and ids: "distinct (map fst bs)" "fst ` set bs = {0..<nb}"
    and nb: "0 < nb" "nb < 2 ^ 31" and ann: "announces bs nb"
  shows "process_blocks gt keys dsm_id header bs dsms =
    bindr (verify_dsm_kroot gt keys header (concat (map (block_at bs) (dsm_block_ids nb)))) (\<lambda>(ok, logs).
      Inr (AList.update dsm_id \<lparr>nb_blocks = nb, nma_header = header, id_block_map = bs, is_processed = ok\<rparr> dsms,
        logs))"
  using assms by (rule process_blocks_complete)

subsection \<open>A valid message is accepted\<close>

text \<open>
  C8: completeness. A message made of block 0, a root key, a signature and a padding that is the
  truncated SHA-256 digest of header, chain information, root key and signature is accepted, with
  the flag set and the verification reported, whenever GnuTLS encodes and verifies the signature.
\<close>

theorem valid_kroot_accepted:
  assumes f: "parse_dsm_kroot (block0 @ rkey @ sig @ pad) = Inr f"
    and ks: "umap_at DSM_KROOT_KS_TABLE (kr_ks_table_index f) = Inr (int (length rkey))"
    and key: "map_of keys (kr_pkid f) = Some key"
    and l_ds: "signature_length (pk_algorithm key) = Some (int (length sig))"
    and len: "length block0 = 104" "length rkey < 2 ^ 12" "length sig < 2 ^ 12"
      "int (length pad) = dsm_pad_length (int (length rkey)) (int (length sig))"
    and m: "bin_string_to_byte_array (header @ drop 8 block0 @ rkey) = Inr m_bytes"
    and s: "bin_string_to_byte_array sig = Inr sig_bytes"
    and t: "bin_string_to_byte_array (header @ drop 8 block0 @ rkey @ sig) = Inr t_bytes"
    and pad: "take (length pad) (byte_array_to_bin_str (gnutls_hash_sha256 gt t_bytes)) = pad"
    and encode: "gnutls_encode_rs_value gt (take (length sig_bytes div 2) sig_bytes)
      (take (length sig_bytes div 2) (drop (length sig_bytes div 2) sig_bytes)) = (0, der)"
    and verify: "0 \<le> gnutls_pubkey_verify_data2 gt (pk_key key) (pk_algorithm key) m_bytes der"
  shows "verify_dsm_kroot gt keys header (block0 @ rkey @ sig @ pad) =
    Inr (True, [NewDsmKroot (kr_cidkr f) rkey sig pad (header @ drop 8 block0 @ rkey), PadMatches,
      KrootVerified (kr_cidkr f) (kr_wnk f) (kr_towhk f)])"
proof -
  have "check_signature gt key f m_bytes sig_bytes = (True, [KrootVerified (kr_cidkr f) (kr_wnk f) (kr_towhk f)])"
    using encode verify by (simp add: check_signature_def Let_def)
  moreover have "to_size_t (dsm_pad_length (int (length rkey)) (int (length sig))) = length pad"
    "length pad < 2 ^ 13"
  proof -
    have "0 < int (length sig)" using l_ds by (auto simp: signature_length_def split: gnutls_sign_algorithm.splits)
    then have "0 < int (length rkey) + int (length sig)" by linarith
    then have "int (length pad) < 104"
      using dsm_pad_length_exact(2) [of "int (length rkey)" "int (length sig)"] len by (simp add: osnma_consts)
    then show "to_size_t (dsm_pad_length (int (length rkey)) (int (length sig))) = length pad" "length pad < 2 ^ 13"
      unfolding len(4) [symmetric] by simp_all
  qed
  moreover have "take 96 (drop 8 (block0 @ rkey @ sig @ pad)) = drop 8 block0" using len by simp
  moreover have sz: "to_size_t (int (length rkey)) = length rkey" "to_size_t (int (length sig)) = length sig"
    "to_size_t (104 + int (length rkey)) = 104 + length rkey"
    "to_size_t (104 + int (length rkey) + int (length sig)) = 104 + length rkey + length sig"
    using len by simp_all
  ultimately show ?thesis
    using f ks key l_ds len(1) m s t pad
    by (simp add: verify_dsm_kroot_def check_dsm_kroot_def Let_def osnma_consts)
qed

subsection \<open>A verified message\<close>

text \<open>
  Once a message is verified, no later block of it changes the store or reports anything.
\<close>

theorem verified_dsm_is_final:
  assumes "map_of dsms dsm_id = Some dsm" and "is_processed dsm"
  shows "process_blocks gt keys dsm_id header bs dsms = Inr (dsms, [])"
  using assms by (induction bs) (auto simp: process_dsm_kroot_block_def Let_def)

subsection \<open>Messages whose sizes do not fit\<close>

text \<open>
  C11: a message that is shorter than its own key size and signature length require makes
  \<^verbatim>\<open>std::string::substr\<close> throw; the exception is not caught by the method.
\<close>

theorem dsm_short_message_throws:
  assumes f: "parse_dsm_kroot msg = Inr f"
    and ks: "umap_at DSM_KROOT_KS_TABLE (kr_ks_table_index f) = Inr ks" "0 \<le> ks"
    and key: "map_of keys (kr_pkid f) = Some key"
    and l_ds: "signature_length (pk_algorithm key) = Some l"
    and short: "int (length msg) < LIBOSNMA_DSM_BLOCK_LENGTH + ks + l"
  shows "verify_dsm_kroot gt keys header msg = Inl OutOfRange"
proof -
  have l: "l = 512 \<or> l = 1056"
    using l_ds by (auto simp: signature_length_def split: gnutls_sign_algorithm.splits)
  have kr: "ks \<le> 256" using ks(1) by (rule ks_table_le)
  have "substr msg (to_size_t (104 + ks + l)) p = Inl OutOfRange" for p
    using short l kr ks(2) by (auto simp: substr_def osnma_consts)
  then have "check_dsm_kroot gt key header msg f ks l = Inl OutOfRange"
    by (auto simp: check_dsm_kroot_def Let_def osnma_consts substr_def bindr_def split: sum.splits)
  then show ?thesis using f ks key l_ds by (simp add: verify_dsm_kroot_def)
qed

subsection \<open>Blocks with a foreign identifier\<close>

text \<open>A message that holds more blocks than it announces.\<close>

definition overfull :: "int \<Rightarrow> osnma_dsm_message \<Rightarrow> bool" where
  "overfull nb dsm \<longleftrightarrow> nb_blocks dsm = nb \<and> \<not> is_processed dsm \<and> umap_wf (id_block_map dsm) \<and>
     nb < int (length (id_block_map dsm))"

definition same_announcement :: "int \<Rightarrow> (int \<times> string) list \<Rightarrow> bool" where
  "same_announcement nb bs \<longleftrightarrow> (\<forall>(i, b) \<in> set bs. i = 0 \<longrightarrow>
     (\<exists>idx. read_bin_string_as_int b 0 4 = Inr idx \<and> umap_at DSM_KROOT_NB_BLOCKS_TABLE idx = Inr nb))"

lemma length_update_bounds:
  "length m \<le> length (AList.update k v m)" "length (AList.update k v m) \<le> Suc (length m)"
  by (induction m) auto

lemma store_overfull:
  assumes "overfull nb dsm" and "same_announcement nb [(i, b)]"
  shows "\<exists>dsm'. dsm_store_block i b header dsm = Inr dsm' \<and> overfull nb dsm' \<and>
    length (id_block_map dsm') \<le> Suc (length (id_block_map dsm))"
proof -
  have "nb < int (length (AList.update i b (id_block_map dsm)))"
    using assms(1) length_update_bounds(1) [of "id_block_map dsm" i b] by (simp add: overfull_def)
  then show ?thesis
    using assms length_update_bounds(2) [of i b "id_block_map dsm"]
    by (auto simp: overfull_def same_announcement_def dsm_store_block_def osnma_consts distinct_update Let_def)
qed

lemma assemble_blocks_length: "length (snd (assemble_blocks is m)) \<le> length m + length is"
proof (induction "is" arbitrary: m)
  case (Cons i "is")
  have "length (snd (umap_index i m)) \<le> Suc (length m)"
    using length_update_bounds(2) [of i "[]" m] by (simp add: umap_index_def split: option.splits)
  then show ?case using Cons.IH [of "snd (umap_index i m)"] by (simp only: assemble_blocks_Cons list.size)
qed simp

lemma process_overfull:
  assumes "map_of dsms dsm_id = Some dsm" and "overfull nb dsm" and "same_announcement nb [(i, b)]"
    and "Suc (length (id_block_map dsm)) < 2 ^ 31"
  shows "\<exists>dsm'. process_dsm_kroot_block gt keys dsm_id i b header dsms = Inr (AList.update dsm_id dsm' dsms, []) \<and>
    overfull nb dsm' \<and> length (id_block_map dsm') \<le> Suc (length (id_block_map dsm))"
proof -
  from store_overfull [OF assms(2,3)] obtain dsm' where d: "dsm_store_block i b header dsm = Inr dsm'"
    "overfull nb dsm'" "length (id_block_map dsm') \<le> Suc (length (id_block_map dsm))" by blast
  have "to_int32 (int (length (id_block_map dsm'))) = int (length (id_block_map dsm'))"
    using d(3) assms(4) by (intro to_int32_id) auto
  then have "\<not> is_message_ready dsm'" using d(2) by (auto simp: is_message_ready_def overfull_def)
  with d assms(1,2) show ?thesis
    by (intro exI [of _ dsm']) (simp add: process_dsm_kroot_block_def Let_def overfull_def)
qed

lemma process_blocks_overfull:
  assumes "map_of dsms dsm_id = Some dsm" and "overfull nb dsm" and "same_announcement nb bs"
    and "length (id_block_map dsm) + length bs < 2 ^ 31"
  shows "\<exists>dsms'. process_blocks gt keys dsm_id header bs dsms = Inr (dsms', [])"
  using assms
proof (induction bs arbitrary: dsms dsm)
  case Nil
  then show ?case by simp
next
  case (Cons p bs)
  obtain i b where [simp]: "p = (i, b)" by fastforce
  have sa: "same_announcement nb [(i, b)]" "same_announcement nb bs"
    using Cons.prems(3) by (auto simp: same_announcement_def)
  have "Suc (length (id_block_map dsm)) < 2 ^ 31" using Cons.prems(4) by simp
  from process_overfull [OF Cons.prems(1,2) sa(1) this] obtain dsm' where d:
    "process_dsm_kroot_block gt keys dsm_id i b header dsms = Inr (AList.update dsm_id dsm' dsms, [])"
    "overfull nb dsm'" "length (id_block_map dsm') \<le> Suc (length (id_block_map dsm))" by blast
  have "\<exists>dsms'. process_blocks gt keys dsm_id header bs (AList.update dsm_id dsm' dsms) = Inr (dsms', [])"
    using d Cons.prems(4) sa(2) by (intro Cons.IH) auto
  then show ?case using d by auto
qed

lemma ready_missing_overfull:
  assumes "process_dsm_kroot_block gt keys dsm_id i b header dsms = Inr (dsms1, logs)"
    and "map_of dsms dsm_id = Some dsm" and "\<not> is_processed dsm"
    and "dsm_store_block i b header dsm = Inr dsm1"
    and "umap_wf (id_block_map dsm1)" and "is_message_ready dsm1" and "\<not> is_processed dsm1"
    and "length (id_block_map dsm1) < 2 ^ 31"
    and "0 \<le> j" "j < nb_blocks dsm1" and "j \<notin> fst ` set (id_block_map dsm1)"
    and "\<forall>c w t. KrootVerified c w t \<notin> set logs"
  obtains dsm2 where "map_of dsms1 dsm_id = Some dsm2" and "overfull (nb_blocks dsm1) dsm2"
    and "id_block_map dsm2 = snd (assemble_blocks (dsm_block_ids (nb_blocks dsm1)) (id_block_map dsm1))"
proof -
  obtain msg blocks where asm: "assemble_blocks (dsm_block_ids (nb_blocks dsm1)) (id_block_map dsm1) = (msg, blocks)"
    by fastforce
  with assms obtain ok where v: "verify_dsm_kroot gt keys (nma_header dsm1) msg = Inr (ok, logs)"
    and d: "dsms1 = AList.update dsm_id (if ok then dsm1\<lparr>id_block_map := blocks, is_processed := True\<rparr>
      else dsm1\<lparr>id_block_map := blocks\<rparr>) dsms"
    by (auto simp: process_dsm_kroot_block_def Let_def bindr_eq_Inr)
  have "\<not> ok" using verify_dsm_kroot_logs [OF v] assms(12) by blast
  moreover have "nb_blocks dsm1 < int (length blocks)" "umap_wf blocks"
    using assemble_missing_grows [OF assms(5,6,8-11)] assemble_blocks_wf [OF assms(5), of "dsm_block_ids (nb_blocks dsm1)"]
    by (simp_all add: asm)
  ultimately show ?thesis
    using that [of "dsm1\<lparr>id_block_map := blocks\<rparr>"] d assms(7) by (simp add: overfull_def asm)
qed


end
