(* ===== verification/Osnma_Dsm_Witness.thy ===== *)
theory Osnma_Dsm_Witness
  imports Osnma_Dsm_Correct
begin

section \<open>A concrete DSM-KROOT message\<close>

text \<open>
  The message used to exercise the theorems about DSM-KROOT: seven blocks, a key of 96 bits, an
  ECDSA P-256 signature of 512 bits and 16 bits of padding. The example library accepts a
  message when its first byte is the header \<open>0x52\<close>, and hashes everything to zero bytes.
\<close>

definition zeros :: "nat \<Rightarrow> string" where
  "zeros n = replicate n (CHR ''0'')"

definition ex_header :: string where
  "ex_header = ''01010010''"

definition ex_block0 :: string where
  "ex_block0 = ''000100010100'' @ zeros 92"

definition ex_blocks :: "(int \<times> string) list" where
  "ex_blocks = [(6, zeros 104), (2, zeros 104), (0, ex_block0), (5, zeros 104), (1, zeros 104), (4, zeros 104),
     (3, zeros 104)]"

definition ex_signed :: "nat \<Rightarrow> byte list \<Rightarrow> bool" where
  "ex_signed key m \<longleftrightarrow> (case m of [] \<Rightarrow> False | b # _ \<Rightarrow> key = 7 \<and> b = 0x52)"

definition ex_gnutls :: "nat gnutls" where
  "ex_gnutls = \<lparr>gnutls_hash_sha256 = (\<lambda>_. replicate 32 0), gnutls_encode_rs_value = (\<lambda>r s. (0, r @ s)),
     gnutls_pubkey_verify_data2 = (\<lambda>key alg m sig. if ex_signed key m then 0 else - 89),
     GNUTLS_E_PK_SIG_VERIFY_FAILED = - 89\<rparr>"

definition ex_keys :: "nat key_store" where
  "ex_keys = [(1, \<lparr>pk_key = 7, pk_algorithm = GNUTLS_SIGN_ECDSA_SHA256\<rparr>)]"

lemmas ex_defs = ex_header_def ex_block0_def ex_blocks_def ex_signed_def ex_gnutls_def ex_keys_def zeros_def

definition ex_fields :: dsm_kroot_fields where
  "ex_fields = \<lparr>kr_nb_blocks_table_index = 1, kr_pkid = 1, kr_cidkr = 1, kr_hf = 0, kr_mf = 0,
     kr_ks_table_index = 0, kr_ts_table_index = 0, kr_maclt = 0, kr_wnk = 0, kr_towhk = 0, kr_alpha = zeros 48\<rparr>"

lemma ex_parse: "parse_dsm_kroot (ex_block0 @ zeros 624) = Inr ex_fields"
  by code_simp

lemma ex_pad_length: "dsm_pad_length 96 512 = 16"
  by code_simp

lemma ex_m: "ex_header @ drop 8 ex_block0 @ zeros 96 = byte_array_to_bin_str (0x52 # 0x40 # replicate 23 0)"
  by code_simp

lemma ex_sig: "zeros 512 = byte_array_to_bin_str (replicate 64 0)"
  by code_simp

lemma ex_t: "ex_header @ drop 8 ex_block0 @ zeros 96 @ zeros 512 = byte_array_to_bin_str (0x52 # 0x40 # replicate 87 0)"
  by code_simp

lemma ex_digest: "take 16 (byte_array_to_bin_str (replicate 32 0)) = zeros 16"
  by code_simp

lemma ex_message: "concat (map (block_at ex_blocks) (dsm_block_ids 7)) = ex_block0 @ zeros 624"
  by code_simp

lemma zeros_sub [simp]: "take n (drop i (zeros k)) = zeros (min n (k - i))" "take n (zeros k) = zeros (min n k)" "length (zeros k) = k"
  by (simp_all add: zeros_def min_def)

lemma length_ex_block0 [simp]: "length ex_block0 = 104"
  by (simp add: ex_block0_def)

lemma ex_chain: "take 96 (drop 8 (ex_block0 @ zeros 624)) = drop 8 ex_block0"
  by (simp add: ex_block0_def)

lemma ex_verify:
  "verify_dsm_kroot ex_gnutls ex_keys ex_header (ex_block0 @ zeros 624) =
   Inr (True, [NewDsmKroot 1 (zeros 96) (zeros 512) (zeros 16) (ex_header @ drop 8 ex_block0 @ zeros 96), PadMatches,
      KrootVerified 1 0 0])"
proof -
  note bytes = bytes_string_roundtrip [of "0x52 # 0x40 # replicate 23 0", folded ex_m]
    bytes_string_roundtrip [of "0x52 # 0x40 # replicate 87 0", folded ex_t]
    bytes_string_roundtrip [of "replicate 64 0", folded ex_sig]
  have "check_signature ex_gnutls \<lparr>pk_key = 7, pk_algorithm = GNUTLS_SIGN_ECDSA_SHA256\<rparr> ex_fields
      (0x52 # 0x40 # replicate 23 0) (replicate 64 0) = (True, [KrootVerified 1 0 0])"
    by (simp add: check_signature_def ex_gnutls_def ex_signed_def ex_fields_def)
  then show ?thesis
    by (simp add: verify_dsm_kroot_def check_dsm_kroot_def ex_parse ex_fields_def ex_keys_def
        DSM_KROOT_KS_TABLE_def umap_at_def signature_length_def ex_pad_length Let_def osnma_consts bytes
        ex_gnutls_def ex_digest ex_chain)
qed

lemma ex_announces: "announces ex_blocks 7"
proof -
  have "read_bin_string_as_int ex_block0 0 4 = Inr 1" "umap_at DSM_KROOT_NB_BLOCKS_TABLE 1 = Inr 7"
    by code_simp+
  then show ?thesis by (auto simp: announces_def ex_blocks_def)
qed

lemma ex_ids: "distinct (map fst ex_blocks)" "fst ` set ex_blocks = {0..<7}"
proof -
  show "distinct (map fst ex_blocks)" by (simp add: ex_blocks_def)
  have "{0..<7 :: int} = set [0..6]" by auto
  also have "[0..6 :: int] = [0, 1, 2, 3, 4, 5, 6]" by code_simp
  finally show "fst ` set ex_blocks = {0..<7}" by (auto simp: ex_blocks_def)
qed

lemma ex_run:
  "process_dsm_kroot_block ex_gnutls ex_keys 3 3 (zeros 104) ex_header
     [(3, partial_dsm ex_header 7 (butlast ex_blocks))] =
   Inr ([(3, (partial_dsm ex_header 7 ex_blocks)\<lparr>is_processed := True\<rparr>)],
     [NewDsmKroot 1 (zeros 96) (zeros 512) (zeros 16) (ex_header @ drop 8 ex_block0 @ zeros 96), PadMatches,
      KrootVerified 1 0 0])"
proof -
  have bs: "butlast ex_blocks @ [(3, zeros 104)] = ex_blocks" "length (butlast ex_blocks) = 6"
    by (simp_all add: ex_blocks_def)
  have ids: "fst ` set ex_blocks \<subseteq> {0..<7}" using ex_ids by simp
  show ?thesis
    using process_partial_step [of "[(3, partial_dsm ex_header 7 (butlast ex_blocks))]" 3 ex_header 7
        "butlast ex_blocks" 3 "zeros 104" ex_gnutls ex_keys, unfolded bs, OF _ ex_ids(1) ids _ _ ex_announces]
    by (simp add: ex_message ex_verify)
qed


theorem dsm_assembly_any_order_witness:
  "process_blocks ex_gnutls ex_keys 3 ex_header ex_blocks [] =
    Inr ([(3, \<lparr>nb_blocks = 7, nma_header = ex_header, id_block_map = ex_blocks, is_processed = True\<rparr>)],
      [NewDsmKroot 1 (zeros 96) (zeros 512) (zeros 16) (ex_header @ drop 8 ex_block0 @ zeros 96), PadMatches,
       KrootVerified 1 0 0])"
  using dsm_assembly_any_order [OF _ ex_ids _ _ ex_announces, of "[]" 3 ex_gnutls ex_keys ex_header]
  by (simp add: ex_message ex_verify)

theorem valid_kroot_accepted_witness:
  "verify_dsm_kroot ex_gnutls ex_keys ex_header (ex_block0 @ zeros 96 @ zeros 512 @ zeros 16) =
    Inr (True, [NewDsmKroot (kr_cidkr ex_fields) (zeros 96) (zeros 512) (zeros 16)
        (ex_header @ drop 8 ex_block0 @ zeros 96), PadMatches,
      KrootVerified (kr_cidkr ex_fields) (kr_wnk ex_fields) (kr_towhk ex_fields)])"
proof (rule valid_kroot_accepted)
  have "zeros 96 @ zeros 512 @ zeros 16 = zeros 624" by (simp add: zeros_def flip: replicate_add)
  then show "parse_dsm_kroot (ex_block0 @ zeros 96 @ zeros 512 @ zeros 16) = Inr ex_fields" by (simp add: ex_parse)
  show "umap_at DSM_KROOT_KS_TABLE (kr_ks_table_index ex_fields) = Inr (int (length (zeros 96)))"
    by (simp add: ex_fields_def DSM_KROOT_KS_TABLE_def umap_at_def)
  show "map_of ex_keys (kr_pkid ex_fields) = Some \<lparr>pk_key = 7, pk_algorithm = GNUTLS_SIGN_ECDSA_SHA256\<rparr>"
    by (simp add: ex_fields_def ex_keys_def)
  show "bin_string_to_byte_array (ex_header @ drop 8 ex_block0 @ zeros 96) = Inr (0x52 # 0x40 # replicate 23 0)"
    "bin_string_to_byte_array (zeros 512) = Inr (replicate 64 0)"
    "bin_string_to_byte_array (ex_header @ drop 8 ex_block0 @ zeros 96 @ zeros 512) = Inr (0x52 # 0x40 # replicate 87 0)"
    using bytes_string_roundtrip [of "0x52 # 0x40 # replicate 23 0"] bytes_string_roundtrip [of "replicate 64 0"]
      bytes_string_roundtrip [of "0x52 # 0x40 # replicate 87 0"]
    by (simp_all only: ex_m ex_t flip: ex_sig)
qed (simp_all add: signature_length_def ex_pad_length ex_gnutls_def ex_digest ex_signed_def)

theorem verified_dsm_is_final_witness:
  "process_blocks ex_gnutls ex_keys 3 ex_header ex_blocks
     [(3, \<lparr>nb_blocks = 7, nma_header = ex_header, id_block_map = ex_blocks, is_processed = True\<rparr>)] =
   Inr ([(3, \<lparr>nb_blocks = 7, nma_header = ex_header, id_block_map = ex_blocks, is_processed = True\<rparr>)], [])"
  by (rule verified_dsm_is_final [where dsm = "\<lparr>nb_blocks = 7, nma_header = ex_header, id_block_map = ex_blocks,
      is_processed = True\<rparr>"]) simp_all

text \<open>Three blocks cannot hold a 96-bit key and a 512-bit signature.\<close>

theorem dsm_short_message_throws_witness:
  "verify_dsm_kroot ex_gnutls ex_keys ex_header (ex_block0 @ zeros 208) = Inl OutOfRange"
proof (rule dsm_short_message_throws [where ks = 96 and l = 512])
  show "parse_dsm_kroot (ex_block0 @ zeros 208) = Inr ex_fields" by code_simp
  show "umap_at DSM_KROOT_KS_TABLE (kr_ks_table_index ex_fields) = Inr 96" "(0 :: int) \<le> 96"
    by (simp_all add: ex_fields_def DSM_KROOT_KS_TABLE_def umap_at_def)
  show "map_of ex_keys (kr_pkid ex_fields) = Some \<lparr>pk_key = 7, pk_algorithm = GNUTLS_SIGN_ECDSA_SHA256\<rparr>"
    by (simp add: ex_fields_def ex_keys_def)
qed (simp_all add: signature_length_def osnma_consts)

text \<open>Seven blocks are announced; block 9 arrives in place of block 6, and no key is stored.\<close>

definition ex_six :: "(int \<times> string) list" where
  "ex_six = [(0, ex_block0), (1, zeros 104), (2, zeros 104), (3, zeros 104), (4, zeros 104), (5, zeros 104)]"

lemma ex_foreign_run:
  "process_dsm_kroot_block ex_gnutls [] 3 9 (zeros 104) ex_header [(3, partial_dsm ex_header 7 ex_six)] =
   Inr ([(3, (partial_dsm ex_header 7 (ex_six @ [(9, zeros 104), (6, [])])))], [NoPublicKey 1])"
  by code_simp


end
