(* ===== verification/Osnma_Subframe.thy ===== *)
theory Osnma_Subframe
  imports Osnma_Utils
begin

section \<open>OSNMA subframes\<close>

text \<open>
  \<^verbatim>\<open>OSNMASubframe\<close> of \<^verbatim>\<open>security/libs/osnma/osnma_subframe.h/.cc\<close>: the HKROOT and MACK
  messages of one satellite, assembled from the 40 bits of OSNMA data of the pages of a
  30-second subframe, and the navigation words the pages carry. \<open>add_page\<close> is the
  method of that name. The lemmas show that after
  \<open>n \<le> 15\<close> pages the messages are the concatenation of the pages' fields, that the
  fifteenth page completes the subframe and that a complete subframe is never changed again.
  The locale \<open>page_assembler\<close> is the contract the processor relies on.
\<close>

definition LIBOSNMA_PAGES_IN_SUBFRAME :: nat where
  "LIBOSNMA_PAGES_IN_SUBFRAME = 15"

definition LIBOSNMA_HKROOT_FIELD_LENGTH :: nat where
  "LIBOSNMA_HKROOT_FIELD_LENGTH = 8"

definition LIBOSNMA_MACK_FIELD_LENGTH :: nat where
  "LIBOSNMA_MACK_FIELD_LENGTH = 32"

definition LIBOSNMA_HKROOT_MESSAGE_LENGTH :: nat where
  "LIBOSNMA_HKROOT_MESSAGE_LENGTH = LIBOSNMA_PAGES_IN_SUBFRAME * LIBOSNMA_HKROOT_FIELD_LENGTH"

definition LIBOSNMA_MACK_MESSAGE_LENGTH :: nat where
  "LIBOSNMA_MACK_MESSAGE_LENGTH = LIBOSNMA_PAGES_IN_SUBFRAME * LIBOSNMA_MACK_FIELD_LENGTH"

lemmas subframe_consts =
  LIBOSNMA_PAGES_IN_SUBFRAME_def LIBOSNMA_HKROOT_FIELD_LENGTH_def LIBOSNMA_MACK_FIELD_LENGTH_def
  LIBOSNMA_HKROOT_MESSAGE_LENGTH_def LIBOSNMA_MACK_MESSAGE_LENGTH_def

record osnma_subframe =
  hkroot_message :: string
  mack_message :: string
  nav_data_map :: "(int, string) umap"

definition new_subframe :: osnma_subframe where
  "new_subframe = \<lparr>hkroot_message = [], mack_message = [], nav_data_map = []\<rparr>"

definition get_hkroot_message :: "osnma_subframe \<Rightarrow> string" where
  "get_hkroot_message sf = hkroot_message sf"

definition get_mack_message :: "osnma_subframe \<Rightarrow> string" where
  "get_mack_message sf = mack_message sf"

definition get_nav_data_map :: "osnma_subframe \<Rightarrow> (int, string) umap" where
  "get_nav_data_map sf = nav_data_map sf"

text \<open>\<open>add_page\<close> returns the updated object and the flag that the subframe is ready.\<close>

definition add_page :: "int \<Rightarrow> string \<Rightarrow> string \<Rightarrow> osnma_subframe \<Rightarrow> (osnma_subframe \<times> bool) result" where
  "add_page word_type osnma_data nav_data sf =
     (if LIBOSNMA_HKROOT_MESSAGE_LENGTH \<le> length (hkroot_message sf)
         \<and> LIBOSNMA_MACK_MESSAGE_LENGTH \<le> length (mack_message sf)
      then Inr (sf, True)
      else bindr (substr osnma_data 0 LIBOSNMA_HKROOT_FIELD_LENGTH) (\<lambda>hkroot_field.
           bindr (substr osnma_data LIBOSNMA_HKROOT_FIELD_LENGTH LIBOSNMA_MACK_FIELD_LENGTH) (\<lambda>mack_field.
           let sf' = sf\<lparr>hkroot_message := hkroot_message sf @ hkroot_field,
                        mack_message := mack_message sf @ mack_field,
                        nav_data_map := AList.update word_type nav_data (nav_data_map sf)\<rparr>
           in Inr (sf', length (hkroot_message sf') = LIBOSNMA_HKROOT_MESSAGE_LENGTH
                        \<and> length (mack_message sf') = LIBOSNMA_MACK_MESSAGE_LENGTH))))"

subsection \<open>Pages and assembled messages\<close>

text \<open>
  A page is the triple of the arguments of \<open>add_page\<close>. \<open>subframe_of ps\<close> is the abstract
  content of a subframe that received the pages \<open>ps\<close>: the fields in order.
\<close>

type_synonym page = "int \<times> string \<times> string"

definition hkroot_of :: "page list \<Rightarrow> string" where
  "hkroot_of ps = concat (map (\<lambda>(t, d, n). take 8 d) ps)"

definition mack_of :: "page list \<Rightarrow> string" where
  "mack_of ps = concat (map (\<lambda>(t, d, n). take 32 (drop 8 d)) ps)"

definition nav_of :: "page list \<Rightarrow> (int, string) umap" where
  "nav_of ps = fold (\<lambda>(t, d, n). AList.update t n) ps []"

definition subframe_of :: "page list \<Rightarrow> osnma_subframe" where
  "subframe_of ps = \<lparr>hkroot_message = hkroot_of ps, mack_message = mack_of ps, nav_data_map = nav_of ps\<rparr>"

definition page_ok :: "page \<Rightarrow> bool" where
  "page_ok p \<longleftrightarrow> length (fst (snd p)) = 40"

lemma subframe_of_Nil: "subframe_of [] = new_subframe"
  by (simp add: subframe_of_def new_subframe_def hkroot_of_def mack_of_def nav_of_def)

lemma length_hkroot_of: "list_all page_ok ps \<Longrightarrow> length (hkroot_of ps) = 8 * length ps"
  by (induction ps) (auto simp: hkroot_of_def page_ok_def)

lemma length_mack_of: "list_all page_ok ps \<Longrightarrow> length (mack_of ps) = 32 * length ps"
  by (induction ps) (auto simp: mack_of_def page_ok_def)

lemma bin_string_hkroot_of:
  "(\<And>t d n. (t, d, n) \<in> set ps \<Longrightarrow> bin_string d) \<Longrightarrow> bin_string (hkroot_of ps)"
  unfolding hkroot_of_def by (rule bin_string_concat) auto

text \<open>One page appends its fields; the flag says whether it was the fifteenth.\<close>

lemma add_page_subframe_of:
  assumes "list_all page_ok ps" and "page_ok (t, d, n)" and "length ps < 15"
  shows "add_page t d n (subframe_of ps) = Inr (subframe_of (ps @ [(t, d, n)]), length ps = 14)"
  using assms length_hkroot_of [OF assms(1)] length_mack_of [OF assms(1)]
  by (auto simp: add_page_def subframe_consts subframe_of_def hkroot_of_def mack_of_def nav_of_def
      page_ok_def Let_def)

lemma add_page_full:
  assumes "list_all page_ok ps" and "length ps = 15"
  shows "add_page t d n (subframe_of ps) = Inr (subframe_of ps, True)"
  using assms length_hkroot_of [OF assms(1)] length_mack_of [OF assms(1)]
  by (simp add: add_page_def subframe_consts subframe_of_def)

subsection \<open>The contract of a page assembler\<close>

text \<open>
  What the processor relies on: an assembler starts empty, accepts every well-formed page until
  its capacity is reached, reports readiness with the last of them, and its content is a function
  of the pages it was given. \<open>add_all\<close> feeds a list of pages.
\<close>

locale page_assembler =
  fixes start :: "'s"
    and add :: "'p \<Rightarrow> 's \<Rightarrow> ('s \<times> bool) result"
    and content :: "'p list \<Rightarrow> 's"
    and ok :: "'p \<Rightarrow> bool"
    and capacity :: nat
  assumes content_start: "content [] = start"
    and add_content: "list_all ok ps \<Longrightarrow> ok p \<Longrightarrow> length ps < capacity \<Longrightarrow>
      add p (content ps) = Inr (content (ps @ [p]), Suc (length ps) = capacity)"
begin

primrec add_all :: "'p list \<Rightarrow> 's \<Rightarrow> bool \<Rightarrow> ('s \<times> bool) result" where
  "add_all [] s r = Inr (s, r)"
| "add_all (p # ps) s r = bindr (add p s) (\<lambda>(s', r'). add_all ps s' r')"

lemma add_all_content:
  "list_all ok (qs @ ps) \<Longrightarrow> length qs + length ps \<le> capacity \<Longrightarrow> ps \<noteq> [] \<Longrightarrow>
   add_all ps (content qs) r = Inr (content (qs @ ps), length qs + length ps = capacity)"
proof (induction ps arbitrary: qs r)
  case Nil
  then show ?case by simp
next
  case (Cons p ps)
  then have step: "add p (content qs) = Inr (content (qs @ [p]), Suc (length qs) = capacity)"
    by (intro add_content) auto
  show ?case
  proof (cases "ps = []")
    case False
    then have "add_all ps (content (qs @ [p])) (Suc (length qs) = capacity) =
        Inr (content ((qs @ [p]) @ ps), length (qs @ [p]) + length ps = capacity)"
      using Cons.prems by (intro Cons.IH) auto
    then show ?thesis by (simp add: step)
  qed (simp add: step)
qed

lemma add_all_full:
  "list_all ok ps \<Longrightarrow> length ps = capacity \<Longrightarrow> ps \<noteq> [] \<Longrightarrow> add_all ps start r = Inr (content ps, True)"
  using add_all_content [of "[]" ps r] by (simp add: content_start)

end

interpretation subframe: page_assembler new_subframe "\<lambda>(t, d, n). add_page t d n" subframe_of page_ok 15
proof unfold_locales
  show "subframe_of [] = new_subframe" by (rule subframe_of_Nil)
qed (auto simp: add_page_subframe_of)

text \<open>
  Fifteen well-formed pages fed one after the other to a new subframe make it ready, and
  its HKROOT message (120 bits) and MACK message (480 bits) are the concatenations of the
  pages' fields in their order.
\<close>

theorem subframe_assembles_messages:
  assumes "list_all page_ok ps" and "length ps = 15"
  shows "\<exists>sf. subframe.add_all ps new_subframe False = Inr (sf, True) \<and>
    get_hkroot_message sf = hkroot_of ps \<and> get_mack_message sf = mack_of ps \<and>
    get_nav_data_map sf = nav_of ps \<and>
    length (get_hkroot_message sf) = LIBOSNMA_HKROOT_MESSAGE_LENGTH \<and>
    length (get_mack_message sf) = LIBOSNMA_MACK_MESSAGE_LENGTH"
proof -
  have "ps \<noteq> []" using assms(2) by auto
  from subframe.add_all_full [OF assms this] show ?thesis
    using assms length_hkroot_of length_mack_of
    by (intro exI [of _ "subframe_of ps"])
      (simp add: subframe_of_def get_hkroot_message_def get_mack_message_def get_nav_data_map_def subframe_consts)
qed

definition ex_page :: "int \<Rightarrow> page" where
  "ex_page t = (t, replicate 8 (CHR ''1'') @ replicate 32 (CHR ''0''), [])"

theorem subframe_assembles_messages_witness:
  "\<exists>sf. subframe.add_all (map ex_page [1..15]) new_subframe False = Inr (sf, True) \<and>
    get_hkroot_message sf = replicate 120 (CHR ''1'') \<and> get_mack_message sf = replicate 480 (CHR ''0'')"
proof -
  have "list_all page_ok (map ex_page [1..15])" "length (map ex_page [1..15]) = 15"
    by (auto simp: list_all_iff page_ok_def ex_page_def)
  moreover have "hkroot_of (map ex_page [1..15]) = replicate 120 (CHR ''1'')"
    "mack_of (map ex_page [1..15]) = replicate 480 (CHR ''0'')" by code_simp+
  ultimately show ?thesis using subframe_assembles_messages [of "map ex_page [1..15]"] by auto
qed

end
