(* ===== verification/Osnma_Processor.thy ===== *)
theory Osnma_Processor
  imports Osnma_Subframe Osnma_Dsm_Correct
begin

section \<open>The OSNMA processor\<close>

text \<open>
  \<^verbatim>\<open>OSNMAProcessor\<close> of \<^verbatim>\<open>security/libs/osnma/osnma_processor.cc\<close> and the GNU Radio block
  that feeds it, \<^verbatim>\<open>security/gnuradio_blocks/galileo_osnma_worker.cc\<close>. The record
  \<open>osnma_processor\<close> has the four members of the class; a pointer to a subframe is an option,
  \<open>None\<close> the null pointer. \<open>feed_page\<close> checks the sizes and the position of the page in the
  word sequence, adds the page to the subframe of the satellite and hands a complete
  subframe to \<open>process_subframe\<close>.
\<close>

record 'k osnma_processor =
  public_keys :: "'k key_store"
  prns_next_word_seq_ind :: "(int, nat) umap"
  prn_current_subframe_map :: "(int, osnma_subframe option) umap"
  dsm_id_dsm_message_map :: dsm_map

definition new_osnma_processor :: "('k, 'z) keys_env_scheme \<Rightarrow> string \<Rightarrow> 'k osnma_processor result" where
  "new_osnma_processor env keys_dir =
     bindr (load_keys env keys_dir []) (\<lambda>keys.
     Inr \<lparr>public_keys = keys, prns_next_word_seq_ind = [], prn_current_subframe_map = [],
          dsm_id_dsm_message_map = []\<rparr>)"

definition reset_current_subframe :: "int \<Rightarrow> 'k osnma_processor \<Rightarrow> 'k osnma_processor" where
  "reset_current_subframe prn st =
     (let st1 = st\<lparr>prns_next_word_seq_ind := AList.update prn 0 (prns_next_word_seq_ind st)\<rparr>;
          st2 = (if map_of (prn_current_subframe_map st1) prn \<noteq> None
                    \<and> map_of (prn_current_subframe_map st1) prn \<noteq> Some None
                 then st1\<lparr>prn_current_subframe_map := AList.update prn None (prn_current_subframe_map st1)\<rparr>
                 else st1)
      in st2\<lparr>prn_current_subframe_map := AList.update prn (Some new_subframe) (prn_current_subframe_map st2)\<rparr>)"

definition process_subframe ::
  "('k, 'z) gnutls_scheme \<Rightarrow> osnma_subframe \<Rightarrow> 'k osnma_processor \<Rightarrow> ('k osnma_processor \<times> osnma_log list) result" where
  "process_subframe gt subframe st =
     (let hkroot = get_hkroot_message subframe in
      bindr (read_bin_string_as_int hkroot LIBOSNMA_NMAS_OFFSET LIBOSNMA_NMAS_LENGTH) (\<lambda>nmas.
      if nmas \<noteq> 1 \<and> nmas \<noteq> 2 then Inr (st, [])
      else
      bindr (read_bin_string_as_int hkroot LIBOSNMA_CID_OFFSET LIBOSNMA_CID_OFFSET) (\<lambda>cid.
      bindr (read_bin_string_as_int hkroot LIBOSNMA_CPKS_OFFSET LIBOSNMA_CPKS_LENGTH) (\<lambda>cpks.
      bindr (read_bin_string_as_int hkroot LIBOSNMA_DSM_ID_OFFSET LIBOSNMA_DSM_ID_LENGTH) (\<lambda>dsm_id.
      bindr (read_bin_string_as_int hkroot LIBOSNMA_DSM_BLOCK_ID_OFFSET LIBOSNMA_DSM_BLOCK_ID_LENGTH) (\<lambda>dsm_block_id.
      bindr (substr hkroot (to_size_t LIBOSNMA_NMA_HEADER_OFFSET) (to_size_t LIBOSNMA_NMA_HEADER_LENGTH)) (\<lambda>header.
      bindr (substr hkroot (to_size_t LIBOSNMA_DSM_BLOCK_OFFSET) (to_size_t LIBOSNMA_DSM_BLOCK_LENGTH)) (\<lambda>dsm_block.
      if LIBOSNMA_DSM_ID_PKR_START_ID \<le> dsm_id then Inr (st, [])
      else bindr (process_dsm_kroot_block gt (public_keys st) dsm_id dsm_block_id dsm_block header
                    (dsm_id_dsm_message_map st)) (\<lambda>(dsms, logs).
           Inr (st\<lparr>dsm_id_dsm_message_map := dsms\<rparr>, logs))))))))))"

text \<open>
  The page is added to the subframe the map points to. The index of the next word is a
  \<^verbatim>\<open>uint8_t\<close>; an index past the end of the word sequence, or a null pointer, would be
  undefined behaviour.
\<close>

definition feed_page ::
  "('k, 'z) gnutls_scheme \<Rightarrow> int \<Rightarrow> string \<Rightarrow> string \<Rightarrow> 'k osnma_processor
    \<Rightarrow> ('k osnma_processor \<times> osnma_log list) result" where
  "feed_page gt prn osnma_data nav_data st =
     (if int (length osnma_data) \<noteq> LIBOSNMA_OSNMA_DATA_LENGTH \<or> int (length nav_data) \<noteq> LIBOSNMA_NAV_DATA_LENGTH
      then Inr (reset_current_subframe prn st, [])
      else
        let st1 = (if map_of (prns_next_word_seq_ind st) prn = None then reset_current_subframe prn st else st)
        in
        bindr (read_bin_string_as_int nav_data LIBOSNMA_WORD_TYPE_OFFSET LIBOSNMA_WORD_TYPE_LENGTH) (\<lambda>word_type.
        let next_word_seq_ind = the (map_of (prns_next_word_seq_ind st1) prn)
        in if length GALILEO_E1_INAV_WORD_SEQ \<le> next_word_seq_ind then Inl UndefinedBehaviour
           else if word_type \<notin> set (GALILEO_E1_INAV_WORD_SEQ ! next_word_seq_ind)
           then Inr (reset_current_subframe prn st1, [])
           else
             let next' = (next_word_seq_ind + 1) mod length GALILEO_E1_INAV_WORD_SEQ mod 256;
                 st2 = st1\<lparr>prns_next_word_seq_ind := AList.update prn next' (prns_next_word_seq_ind st1)\<rparr>
             in case map_of (prn_current_subframe_map st1) prn of
                  Some (Some subframe) \<Rightarrow>
                    bindr (add_page word_type osnma_data nav_data subframe) (\<lambda>(subframe', ready).
                    let st3 = st2\<lparr>prn_current_subframe_map :=
                                    AList.update prn (Some subframe') (prn_current_subframe_map st2)\<rparr>
                    in if ready
                       then bindr (process_subframe gt subframe' st3) (\<lambda>(st4, logs).
                            Inr (reset_current_subframe prn st4, logs))
                       else Inr (st3, []))
                | _ \<Rightarrow> Inl UndefinedBehaviour))"

text \<open>\<^verbatim>\<open>Galileo_OSNMA\<close> (\<^verbatim>\<open>core/system_parameters/galileo_osnma.h\<close>) and the message handler of the block.\<close>

record galileo_osnma =
  osnma_PRN :: int
  OSNMA_data :: string
  osnma_nav_data :: string

definition msg_handler_telemetry_to_OSNMA ::
  "('k, 'z) gnutls_scheme \<Rightarrow> galileo_osnma \<Rightarrow> 'k osnma_processor \<Rightarrow> ('k osnma_processor \<times> osnma_log list) result" where
  "msg_handler_telemetry_to_OSNMA gt msg st = feed_page gt (osnma_PRN msg) (OSNMA_data msg) (osnma_nav_data msg) st"

text \<open>The destructor deletes every object once; it returns what it frees.\<close>

definition delete_osnma_processor ::
  "'k osnma_processor \<Rightarrow> osnma_subframe list \<times> osnma_dsm_message list \<times> 'k list" where
  "delete_osnma_processor st =
     (List.map_filter snd (prn_current_subframe_map st), map snd (dsm_id_dsm_message_map st),
      map (pk_key \<circ> snd) (public_keys st))"

end
