(* ===== verification/Osnma_Processor_Correct.thy ===== *)
theory Osnma_Processor_Correct
  imports Osnma_Processor
begin

section \<open>Correctness of the OSNMA processor\<close>

text \<open>
  The abstract specification of the processor keeps, for every satellite, the list of pages
  collected since the last reset, and the store of DSM messages. \<open>spec_feed\<close> is one step of it,
  \<open>proc_rel\<close> relates it to the maps of the implementation, and \<open>feed_page_refines\<close> is the
  simulation step. From it follow the absence of undefined behaviour in every reachable state,
  the delivery of the block a complete subframe carries, and the authenticity of what a whole
  run reports.
\<close>

type_synonym collected = "int \<Rightarrow> page list"

definition process_hkroot ::
  "('k, 'z) gnutls_scheme \<Rightarrow> 'k key_store \<Rightarrow> string \<Rightarrow> dsm_map \<Rightarrow> (dsm_map \<times> osnma_log list) result" where
  "process_hkroot gt keys hkroot dsms =
     bindr (process_subframe gt \<lparr>hkroot_message = hkroot, mack_message = [], nav_data_map = []\<rparr>
       \<lparr>public_keys = keys, prns_next_word_seq_ind = [], prn_current_subframe_map = [],
        dsm_id_dsm_message_map = dsms\<rparr>)
       (\<lambda>(st, logs). Inr (dsm_id_dsm_message_map st, logs))"

definition spec_feed ::
  "('k, 'z) gnutls_scheme \<Rightarrow> 'k key_store \<Rightarrow> int \<Rightarrow> string \<Rightarrow> string \<Rightarrow> collected \<times> dsm_map
    \<Rightarrow> ((collected \<times> dsm_map) \<times> osnma_log list) result" where
  "spec_feed gt keys prn d n = (\<lambda>(coll, dsms).
     if length d \<noteq> 40 \<or> length n \<noteq> 128 then Inr ((coll(prn := []), dsms), [])
     else bindr (read_bin_string_as_int n 0 6) (\<lambda>t.
       let ps = coll prn in
       if t \<notin> set (GALILEO_E1_INAV_WORD_SEQ ! length ps) then Inr ((coll(prn := []), dsms), [])
       else if length ps = 14
       then bindr (process_hkroot gt keys (hkroot_of (ps @ [(t, d, n)])) dsms) (\<lambda>(dsms', logs).
              Inr ((coll(prn := []), dsms'), logs))
       else Inr ((coll(prn := ps @ [(t, d, n)]), dsms), [])))"

definition satellite_rel :: "'k osnma_processor \<Rightarrow> int \<Rightarrow> page list \<Rightarrow> bool" where
  "satellite_rel st prn ps \<longleftrightarrow>
     (case map_of (prns_next_word_seq_ind st) prn of
        None \<Rightarrow> ps = []
      | Some i \<Rightarrow> i = length ps \<and> i < 15 \<and> list_all page_ok ps \<and>
          map_of (prn_current_subframe_map st) prn = Some (Some (subframe_of ps)))"

definition proc_rel :: "'k osnma_processor \<Rightarrow> collected \<Rightarrow> bool" where
  "proc_rel st coll \<longleftrightarrow> (\<forall>prn. satellite_rel st prn (coll prn))"

subsection \<open>The operations under the relation\<close>

lemma reset_fields [simp]:
  "map_of (prns_next_word_seq_ind (reset_current_subframe prn st)) = (map_of (prns_next_word_seq_ind st))(prn \<mapsto> 0)"
  "map_of (prn_current_subframe_map (reset_current_subframe prn st)) =
     (map_of (prn_current_subframe_map st))(prn \<mapsto> Some new_subframe)"
  "public_keys (reset_current_subframe prn st) = public_keys st"
  "dsm_id_dsm_message_map (reset_current_subframe prn st) = dsm_id_dsm_message_map st"
  by (simp_all add: reset_current_subframe_def Let_def)

lemma satellite_rel_cong:
  "map_of (prns_next_word_seq_ind st') q = map_of (prns_next_word_seq_ind st) q \<Longrightarrow>
   map_of (prn_current_subframe_map st') q = map_of (prn_current_subframe_map st) q \<Longrightarrow>
   satellite_rel st' q ps = satellite_rel st q ps"
  by (simp add: satellite_rel_def split: option.splits)

lemma proc_rel_set:
  assumes "proc_rel st coll" and "satellite_rel st' prn ps"
    and "\<And>q. q \<noteq> prn \<Longrightarrow> map_of (prns_next_word_seq_ind st') q = map_of (prns_next_word_seq_ind st) q"
    and "\<And>q. q \<noteq> prn \<Longrightarrow> map_of (prn_current_subframe_map st') q = map_of (prn_current_subframe_map st) q"
  shows "proc_rel st' (coll(prn := ps))"
  unfolding proc_rel_def
proof
  fix q
  show "satellite_rel st' q ((coll(prn := ps)) q)"
    using assms satellite_rel_cong [of st' q st "coll q"] by (cases "q = prn") (auto simp: proc_rel_def)
qed

lemma reset_rel:
  assumes "proc_rel st coll"
    and "\<And>q. q \<noteq> prn \<Longrightarrow> map_of (prns_next_word_seq_ind st') q = map_of (prns_next_word_seq_ind st) q"
    and "\<And>q. q \<noteq> prn \<Longrightarrow> map_of (prn_current_subframe_map st') q = map_of (prn_current_subframe_map st) q"
  shows "proc_rel (reset_current_subframe prn st') (coll(prn := []))"
  using assms by (intro proc_rel_set [OF assms(1)]) (auto simp: satellite_rel_def subframe.content_start)

lemma process_subframe_hkroot:
  "process_subframe gt sf st =
    bindr (process_hkroot gt (public_keys st) (get_hkroot_message sf) (dsm_id_dsm_message_map st)) (\<lambda>(dsms, logs).
      Inr (st\<lparr>dsm_id_dsm_message_map := dsms\<rparr>, logs))"
  unfolding process_hkroot_def process_subframe_def Let_def get_hkroot_message_def
  by (auto simp: bindr_def split: sum.splits if_splits)

lemma reset_in_rel:
  assumes "proc_rel st coll" and "map_of (prns_next_word_seq_ind st) prn = None"
  shows "proc_rel (reset_current_subframe prn st) coll"
proof -
  have "coll prn = []" using assms by (auto simp: proc_rel_def satellite_rel_def dest!: spec [of _ prn])
  then have "coll(prn := []) = coll" by auto
  with reset_rel [OF assms(1), of prn st] show ?thesis by simp
qed

definition refines ::
  "('k osnma_processor \<times> osnma_log list) result \<Rightarrow> ((collected \<times> dsm_map) \<times> osnma_log list) result
    \<Rightarrow> 'k key_store \<Rightarrow> bool" where
  "refines c a keys \<longleftrightarrow>
     (case a of
        Inl e \<Rightarrow> c = Inl e
      | Inr ((coll, dsms), logs) \<Rightarrow> \<exists>st. c = Inr (st, logs) \<and> proc_rel st coll \<and>
          dsm_id_dsm_message_map st = dsms \<and> public_keys st = keys)"

text \<open>
  One page: the step after the initial reset, when the satellite has an index.
\<close>

definition feed_known ::
  "('k, 'z) gnutls_scheme \<Rightarrow> int \<Rightarrow> string \<Rightarrow> string \<Rightarrow> 'k osnma_processor
    \<Rightarrow> ('k osnma_processor \<times> osnma_log list) result" where
  "feed_known gt prn d n st1 =
     bindr (read_bin_string_as_int n 0 6) (\<lambda>t.
       let i = the (map_of (prns_next_word_seq_ind st1) prn)
       in if 15 \<le> i then Inl UndefinedBehaviour
          else if t \<notin> set (GALILEO_E1_INAV_WORD_SEQ ! i) then Inr (reset_current_subframe prn st1, [])
          else let st2 = st1\<lparr>prns_next_word_seq_ind := AList.update prn ((i + 1) mod 15 mod 256) (prns_next_word_seq_ind st1)\<rparr>
               in case map_of (prn_current_subframe_map st1) prn of
                    Some (Some sf) \<Rightarrow>
                      bindr (add_page t d n sf) (\<lambda>(sf', ready).
                      let st3 = st2\<lparr>prn_current_subframe_map := AList.update prn (Some sf') (prn_current_subframe_map st2)\<rparr>
                      in if ready
                         then bindr (process_subframe gt sf' st3) (\<lambda>(st4, logs). Inr (reset_current_subframe prn st4, logs))
                         else Inr (st3, []))
                  | _ \<Rightarrow> Inl UndefinedBehaviour)"

lemma feed_page_known:
  "length d = 40 \<Longrightarrow> length n = 128 \<Longrightarrow>
   feed_page gt prn d n st = feed_known gt prn d n
     (if map_of (prns_next_word_seq_ind st) prn = None then reset_current_subframe prn st else st)"
  by (simp only: feed_page_def feed_known_def osnma_consts word_seq_length of_nat_numeral Let_def simp_thms if_False)

lemma feed_known_refines:
  assumes rel: "proc_rel st coll" and known: "map_of (prns_next_word_seq_ind st) prn \<noteq> None"
    and len: "length d = 40" "length n = 128"
  shows "refines (feed_known gt prn d n st)
    (spec_feed gt (public_keys st) prn d n (coll, dsm_id_dsm_message_map st)) (public_keys st)"
proof (cases "read_bin_string_as_int n 0 6")
  case (Inl e)
  then show ?thesis by (simp add: feed_known_def spec_feed_def refines_def len)
next
  case t: (Inr t)
  let ?ps = "coll prn"
  have "satellite_rel st prn ?ps" using rel by (simp add: proc_rel_def)
  with known have i: "map_of (prns_next_word_seq_ind st) prn = Some (length ?ps)" "length ?ps < 15"
    "list_all page_ok ?ps" "map_of (prn_current_subframe_map st) prn = Some (Some (subframe_of ?ps))"
    by (auto simp: satellite_rel_def)
  have ok: "page_ok (t, d, n)" using len by (simp add: page_ok_def)
  note add = add_page_subframe_of [OF i(3) ok i(2)]
  show ?thesis
  proof (cases "t \<in> set (GALILEO_E1_INAV_WORD_SEQ ! length ?ps)")
    case False
    then show ?thesis using t i reset_rel [OF rel, of prn st]
      by (simp add: feed_known_def spec_feed_def refines_def len)
  next
    case True
    show ?thesis
    proof (cases "length ?ps = 14")
      case False
      have "proc_rel (st\<lparr>prns_next_word_seq_ind := AList.update prn (Suc (length ?ps)) (prns_next_word_seq_ind st),
          prn_current_subframe_map := AList.update prn (Some (subframe_of (?ps @ [(t, d, n)])))
            (prn_current_subframe_map st)\<rparr>) (coll(prn := ?ps @ [(t, d, n)]))"
        using i False ok by (intro proc_rel_set [OF rel]) (auto simp: satellite_rel_def)
      then show ?thesis using t i True False by (simp add: feed_known_def spec_feed_def refines_def len add)
    next
      case 14: True
      let ?sf = "subframe_of (?ps @ [(t, d, n)])"
      let ?st3 = "st\<lparr>prns_next_word_seq_ind := AList.update prn 0 (prns_next_word_seq_ind st),
          prn_current_subframe_map := AList.update prn (Some ?sf) (prn_current_subframe_map st)\<rparr>"
      have "proc_rel (reset_current_subframe prn (?st3\<lparr>dsm_id_dsm_message_map := x\<rparr>)) (coll(prn := []))" for x
        by (intro reset_rel [OF rel]) simp_all
      moreover have "get_hkroot_message ?sf = hkroot_of (?ps @ [(t, d, n)])"
        by (simp add: get_hkroot_message_def subframe_of_def)
      ultimately show ?thesis using t i True 14
        by (auto simp: feed_known_def spec_feed_def refines_def len add process_subframe_hkroot bindr_def
            split: sum.splits)
    qed
  qed
qed

lemma feed_page_simulates:
  assumes "proc_rel st coll"
  shows "refines (feed_page gt prn d n st)
    (spec_feed gt (public_keys st) prn d n (coll, dsm_id_dsm_message_map st)) (public_keys st)"
proof (cases "length d = 40 \<and> length n = 128")
  case False
  then show ?thesis using reset_rel [OF assms, of prn st]
    by (auto simp: feed_page_def spec_feed_def refines_def osnma_consts)
next
  case True
  let ?st = "if map_of (prns_next_word_seq_ind st) prn = None then reset_current_subframe prn st else st"
  have "proc_rel ?st coll" using reset_in_rel assms by auto
  moreover have "map_of (prns_next_word_seq_ind ?st) prn \<noteq> None" by simp
  ultimately show ?thesis using True feed_known_refines [of ?st coll prn d n gt] by (auto simp: feed_page_known)
qed

text \<open>
  C4: refinement. Every page the processor is fed has the effect the specification prescribes:
  a page of the wrong size or out of the word sequence empties the satellite's list, a page in
  sequence is appended, and the fifteenth hands the concatenated HKROOT fields to the DSM
  processing; exceptions are the same.
\<close>

theorem feed_page_refines:
  assumes "proc_rel st coll"
  shows "refines (feed_page gt prn d n st)
    (spec_feed gt (public_keys st) prn d n (coll, dsm_id_dsm_message_map st)) (public_keys st)"
  using assms by (rule feed_page_simulates)

subsection \<open>Runs\<close>

fun run_messages ::
  "('k, 'z) gnutls_scheme \<Rightarrow> galileo_osnma list \<Rightarrow> 'k osnma_processor \<Rightarrow> ('k osnma_processor \<times> osnma_log list) result" where
  "run_messages gt [] st = Inr (st, [])"
| "run_messages gt (m # ms) st =
     bindr (msg_handler_telemetry_to_OSNMA gt m st) (\<lambda>(st', logs).
     bindr (run_messages gt ms st') (\<lambda>(st'', logs'). Inr (st'', logs @ logs')))"

text \<open>The states a worker can be in: constructed, then fed messages that return.\<close>

inductive osnma_reachable ::
  "('k, 'y) keys_env_scheme \<Rightarrow> string \<Rightarrow> ('k, 'z) gnutls_scheme \<Rightarrow> 'k osnma_processor \<Rightarrow> bool"
  for env dir gt where
  start: "new_osnma_processor env dir = Inr st \<Longrightarrow> osnma_reachable env dir gt st"
| message: "osnma_reachable env dir gt st \<Longrightarrow> msg_handler_telemetry_to_OSNMA gt m st = Inr (st', logs) \<Longrightarrow>
    osnma_reachable env dir gt st'"

lemma feed_page_step:
  assumes "proc_rel st coll" and "feed_page gt prn d n st = Inr (st', logs)"
  shows "\<exists>coll'. proc_rel st' coll' \<and> public_keys st' = public_keys st \<and>
    spec_feed gt (public_keys st) prn d n (coll, dsm_id_dsm_message_map st) =
      Inr ((coll', dsm_id_dsm_message_map st'), logs)"
  using feed_page_simulates [OF assms(1), of gt prn d n] assms(2)
  by (auto simp: refines_def split: sum.splits)

lemma new_processor_rel: "new_osnma_processor env dir = Inr st \<Longrightarrow> proc_rel st (\<lambda>_. [])"
  by (auto simp: new_osnma_processor_def bindr_eq_Inr proc_rel_def satellite_rel_def)

lemma reachable_rel:
  assumes "osnma_reachable env dir gt st"
  shows "(\<exists>coll. proc_rel st coll) \<and> load_keys env dir [] = Inr (public_keys st)"
  using assms
proof (induction rule: osnma_reachable.induct)
  case (start st)
  then show ?case using new_processor_rel [OF start] by (auto simp: new_osnma_processor_def bindr_eq_Inr)
next
  case (message st m st' logs)
  then show ?case by (metis feed_page_step msg_handler_telemetry_to_OSNMA_def)
qed

subsection \<open>No undefined behaviour\<close>

definition defined :: "'a result \<Rightarrow> bool" where
  "defined r \<longleftrightarrow> r \<noteq> Inl UndefinedBehaviour"

lemma defined_Inr [simp]: "defined (Inr x)"
  by (simp add: defined_def)

lemma defined_bindr: "defined r \<Longrightarrow> (\<And>x. r = Inr x \<Longrightarrow> defined (f x)) \<Longrightarrow> defined (bindr r f)"
  by (cases r) (auto simp: defined_def)

lemma defined_substr: "defined (substr s i n)"
  by (simp add: substr_def defined_def)

lemma defined_stoi2: "defined (stoi2 s)"
  by (simp add: stoi2_def Let_def defined_def split: prod.splits)

lemma defined_read: "defined (read_bin_string_as_int s i n)"
  unfolding read_bin_string_as_int_def Let_def by (intro defined_bindr defined_substr defined_stoi2)

lemma defined_umap_at: "defined (umap_at m k)"
  by (simp add: umap_at_def defined_def split: option.splits)

lemma defined_mapr: "(\<And>x. defined (f x)) \<Longrightarrow> defined (mapr f xs)"
  by (induction xs) (auto intro!: defined_bindr)

lemma defined_byte: "defined (byte_of_bin_string s)"
  using byte_of_bin_string_cases [of s] by (auto simp: defined_def)

lemma defined_bytes: "defined (bin_string_to_byte_array s)"
  unfolding bin_string_to_byte_array_def Let_def by (intro defined_mapr defined_bindr defined_substr defined_byte)

lemmas defined_calls = defined_bindr defined_substr defined_read defined_umap_at defined_bytes defined_Inr

lemma defined_check: "defined (check_dsm_kroot gt key header msg f ks l)"
  unfolding check_dsm_kroot_def Let_def by (intro defined_calls) (auto split: prod.splits)

lemma defined_verify: "defined (verify_dsm_kroot gt keys header msg)"
  unfolding verify_dsm_kroot_def parse_dsm_kroot_def
  by (intro defined_calls) (auto simp: defined_check split: option.splits)

lemma defined_process_dsm: "defined (process_dsm_kroot_block gt keys dsm_id i b header dsms)"
proof -
  have "defined (dsm_store_block i b header dsm)" for dsm
    unfolding dsm_store_block_def Let_def by (auto intro!: defined_calls)
  then show ?thesis
    unfolding process_dsm_kroot_block_def Let_def
    by (auto intro!: defined_bindr defined_verify split: prod.splits)
qed

lemma defined_process_hkroot: "defined (process_hkroot gt keys hkroot dsms)"
  unfolding process_hkroot_def process_subframe_def Let_def
  by (intro defined_bindr) (auto intro!: defined_calls defined_process_dsm split: prod.splits if_splits)

lemma defined_spec_feed: "defined (spec_feed gt keys prn d n s)"
  unfolding spec_feed_def Let_def
  by (auto intro!: defined_bindr defined_read defined_process_hkroot split: prod.splits)

text \<open>
  C5: safety. In every state a worker can reach from its construction, no message makes the
  handler index the word sequence past its end or dereference a null subframe, whatever the
  message holds.
\<close>

theorem osnma_never_undefined:
  assumes "osnma_reachable env dir gt st"
  shows "msg_handler_telemetry_to_OSNMA gt m st \<noteq> Inl UndefinedBehaviour"
proof -
  obtain coll where "proc_rel st coll" using reachable_rel [OF assms] by blast
  from feed_page_simulates [OF this, of gt "osnma_PRN m" "OSNMA_data m" "osnma_nav_data m"]
  show ?thesis
    using defined_spec_feed [of gt "public_keys st" "osnma_PRN m" "OSNMA_data m" "osnma_nav_data m"]
    by (auto simp: refines_def msg_handler_telemetry_to_OSNMA_def defined_def split: sum.splits)
qed

subsection \<open>A complete subframe\<close>

definition field_value :: "nat \<Rightarrow> nat \<Rightarrow> string \<Rightarrow> int" where
  "field_value i n s = int (bin_value (take n (drop i s)))"

lemma process_hkroot_binary:
  assumes "bin_string hk" and "length hk = 120"
  shows "process_hkroot gt keys hk dsms =
    (if field_value 0 2 hk \<in> {1, 2} \<and> field_value 8 4 hk < 12
     then process_dsm_kroot_block gt keys (field_value 8 4 hk) (field_value 12 4 hk) (drop 16 hk) (take 8 hk) dsms
     else Inr (dsms, []))"
proof -
  have r: "read_bin_string_as_int hk (int i) (int n) = Inr (field_value i n hk)"
    if "i + n \<le> 120" "0 < n" "n \<le> 31" for i n
    using read_field [of hk i n] assms that by (simp add: field_value_def)
  have "read_bin_string_as_int hk 0 2 = Inr (field_value 0 2 hk)" "read_bin_string_as_int hk 2 2 = Inr (field_value 2 2 hk)"
    "read_bin_string_as_int hk 4 3 = Inr (field_value 4 3 hk)" "read_bin_string_as_int hk 8 4 = Inr (field_value 8 4 hk)"
    "read_bin_string_as_int hk 12 4 = Inr (field_value 12 4 hk)"
    using r [of 0 2] r [of 2 2] r [of 4 3] r [of 8 4] r [of 12 4] by simp_all
  moreover have "take 104 (drop 16 hk) = drop 16 hk" using assms(2) by simp
  ultimately show ?thesis
    using assms(2)
    by (auto simp: process_hkroot_def process_subframe_def get_hkroot_message_def Let_def osnma_consts bindr_def
        split: sum.splits)
qed

fun spec_run ::
  "('k, 'z) gnutls_scheme \<Rightarrow> 'k key_store \<Rightarrow> galileo_osnma list \<Rightarrow> collected \<times> dsm_map
    \<Rightarrow> ((collected \<times> dsm_map) \<times> osnma_log list) result" where
  "spec_run gt keys [] s = Inr (s, [])"
| "spec_run gt keys (m # ms) s =
     bindr (spec_feed gt keys (osnma_PRN m) (OSNMA_data m) (osnma_nav_data m) s) (\<lambda>(s', logs).
     bindr (spec_run gt keys ms s') (\<lambda>(s'', logs'). Inr (s'', logs @ logs')))"

lemma run_refines:
  "proc_rel st coll \<Longrightarrow>
   refines (run_messages gt ms st) (spec_run gt (public_keys st) ms (coll, dsm_id_dsm_message_map st)) (public_keys st)"
proof (induction ms arbitrary: st coll)
  case Nil
  then show ?case by (simp add: refines_def)
next
  case (Cons m ms)
  let ?a = "spec_feed gt (public_keys st) (osnma_PRN m) (OSNMA_data m) (osnma_nav_data m) (coll, dsm_id_dsm_message_map st)"
  have step: "refines (msg_handler_telemetry_to_OSNMA gt m st) ?a (public_keys st)"
    using feed_page_simulates [OF Cons.prems] by (simp add: msg_handler_telemetry_to_OSNMA_def)
  show ?case
  proof (cases ?a)
    case (Inl e)
    then show ?thesis using step by (simp add: refines_def)
  next
    case (Inr r)
    obtain coll' dsms' logs where r: "r = ((coll', dsms'), logs)" by (metis prod.exhaust)
    with step Inr obtain st' where st': "msg_handler_telemetry_to_OSNMA gt m st = Inr (st', logs)" "proc_rel st' coll'"
      "dsm_id_dsm_message_map st' = dsms'" "public_keys st' = public_keys st"
      by (auto simp: refines_def)
    show ?thesis using Cons.IH [OF st'(2)] st' Inr r
      by (auto simp: refines_def bindr_def split: sum.splits prod.splits)
  qed
qed

lemma spec_run_append:
  "spec_run gt keys (ms @ ns) s =
    bindr (spec_run gt keys ms s) (\<lambda>(s', logs). bindr (spec_run gt keys ns s') (\<lambda>(s'', logs'). Inr (s'', logs @ logs')))"
proof (induction ms arbitrary: s)
  case Nil
  then show ?case by (cases "spec_run gt keys ns s") (auto split: prod.splits)
next
  case (Cons m ms)
  then show ?case
    by (cases "spec_feed gt keys (osnma_PRN m) (OSNMA_data m) (osnma_nav_data m) s")
      (auto simp: bindr_def split: sum.splits prod.splits)
qed

definition page_of :: "galileo_osnma \<Rightarrow> page" where
  "page_of m = (field_value 0 6 (osnma_nav_data m), OSNMA_data m, osnma_nav_data m)"

text \<open>A message that is the page of satellite \<open>prn\<close> at place \<open>i\<close> of the word sequence.\<close>

definition in_place :: "int \<Rightarrow> nat \<Rightarrow> galileo_osnma \<Rightarrow> bool" where
  "in_place prn i m \<longleftrightarrow> osnma_PRN m = prn \<and> length (OSNMA_data m) = 40 \<and> length (osnma_nav_data m) = 128 \<and>
     bin_string (OSNMA_data m) \<and> bin_string (osnma_nav_data m) \<and>
     field_value 0 6 (osnma_nav_data m) \<in> set (GALILEO_E1_INAV_WORD_SEQ ! i)"

lemma spec_feed_in_place:
  assumes "in_place prn (length (coll prn)) m"
  shows "spec_feed gt keys (osnma_PRN m) (OSNMA_data m) (osnma_nav_data m) (coll, dsms) =
    (if length (coll prn) = 14
     then bindr (process_hkroot gt keys (hkroot_of (coll prn @ [page_of m])) dsms) (\<lambda>(dsms', logs).
            Inr ((coll(prn := []), dsms'), logs))
     else Inr ((coll(prn := coll prn @ [page_of m]), dsms), []))"
proof -
  have "read_bin_string_as_int (osnma_nav_data m) 0 6 = Inr (field_value 0 6 (osnma_nav_data m))"
    using assms read_field [of "osnma_nav_data m" 0 6] by (simp add: in_place_def field_value_def)
  then show ?thesis using assms by (simp add: spec_feed_def in_place_def page_of_def)
qed

lemma spec_run_in_place:
  assumes "\<And>i. i < length ms \<Longrightarrow> in_place prn i (ms ! i)" and "length ms < 15" and "coll prn = []"
  shows "spec_run gt keys ms (coll, dsms) = Inr ((coll(prn := map page_of ms), dsms), [])"
  using assms
proof (induction ms rule: rev_induct)
  case Nil
  then show ?case by (auto simp: fun_upd_idem)
next
  case (snoc m ms)
  have "in_place prn i (ms ! i)" if "i < length ms" for i
    using snoc.prems(1) [of i] that by (simp add: nth_append)
  then have ih: "spec_run gt keys ms (coll, dsms) = Inr ((coll(prn := map page_of ms), dsms), [])"
    using snoc.prems by (intro snoc.IH) auto
  have "in_place prn (length ms) m" using snoc.prems(1) [of "length ms"] by simp
  then have "spec_feed gt keys (osnma_PRN m) (OSNMA_data m) (osnma_nav_data m) (coll(prn := map page_of ms), dsms) =
      Inr ((coll(prn := map page_of (ms @ [m])), dsms), [])"
    using snoc.prems(2) spec_feed_in_place [of prn "coll(prn := map page_of ms)" m gt keys dsms] by simp
  with ih show ?case by (simp add: spec_run_append fun_upd_def)
qed

lemma spec_run_subframe:
  assumes seq: "\<And>i. i < 15 \<Longrightarrow> in_place prn i (ms ! i)" and len: "length ms = 15" and empty: "coll prn = []"
  shows "spec_run gt keys ms (coll, dsms) =
    bindr (process_hkroot gt keys (hkroot_of (map page_of ms)) dsms) (\<lambda>(dsms', logs). Inr ((coll(prn := []), dsms'), logs))"
proof -
  obtain qs m where ms: "ms = qs @ [m]" "length qs = 14" using len by (cases ms rule: rev_cases) auto
  have "in_place prn i (qs ! i)" if "i < length qs" for i
    using seq [of i] that by (simp add: ms nth_append)
  then have pre: "spec_run gt keys qs (coll, dsms) = Inr ((coll(prn := map page_of qs), dsms), [])"
    using ms(2) empty by (intro spec_run_in_place) auto
  have "in_place prn 14 m" using seq [of 14] by (simp add: ms nth_append)
  then show ?thesis
    using pre ms spec_feed_in_place [of prn "coll(prn := map page_of qs)" m gt keys dsms]
    by (cases "process_hkroot gt keys (hkroot_of (map page_of ms)) dsms") (auto simp: spec_run_append)
qed

lemma hkroot_of_page_of: "hkroot_of (map page_of ms) = concat (map (\<lambda>m. take 8 (OSNMA_data m)) ms)"
  by (simp add: hkroot_of_def page_of_def comp_def)

text \<open>
  C9: functional behaviour of a subframe. When a satellite for which no page is pending sends
  the fifteen pages of a subframe in order, the handler passes exactly the 104-bit block, its
  DSM and block identifiers and the NMA header that the fifteen HKROOT fields carry to the
  DSM-KROOT processing, provided the status is ``test'' or ``operational'' and the identifier is one
  of a DSM-KROOT; otherwise the subframe changes nothing. Afterwards the satellite starts afresh.
\<close>

theorem subframe_delivers_block:
  assumes reach: "osnma_reachable env dir gt st"
    and fresh: "map_of (prns_next_word_seq_ind st) prn \<in> {None, Some 0}"
    and len: "length ms = 15" and seq: "\<forall>i < 15. in_place prn i (ms ! i)"
    and hk: "hk = concat (map (\<lambda>m. take 8 (OSNMA_data m)) ms)"
  shows "case (if field_value 0 2 hk \<in> {1, 2} \<and> field_value 8 4 hk < 12
      then process_dsm_kroot_block gt (public_keys st) (field_value 8 4 hk) (field_value 12 4 hk) (drop 16 hk)
             (take 8 hk) (dsm_id_dsm_message_map st)
      else Inr (dsm_id_dsm_message_map st, [])) of
    Inl e \<Rightarrow> run_messages gt ms st = Inl e
  | Inr (dsms', logs) \<Rightarrow> \<exists>st'. run_messages gt ms st = Inr (st', logs) \<and> dsm_id_dsm_message_map st' = dsms' \<and>
      public_keys st' = public_keys st \<and> map_of (prns_next_word_seq_ind st') prn \<in> {None, Some 0}"
    (is "case ?R of Inl e \<Rightarrow> _ | Inr r \<Rightarrow> _ r")
proof -
  obtain coll where rel: "proc_rel st coll" using reachable_rel [OF reach] by blast
  then have "satellite_rel st prn (coll prn)" by (simp add: proc_rel_def)
  with fresh have empty: "coll prn = []" by (auto simp: satellite_rel_def)
  have "list_all page_ok (map page_of ms)" "bin_string hk"
  proof -
    have "in_place prn i (ms ! i)" if "i < 15" for i using seq that by blast
    then have "\<exists>i. in_place prn i m" if "m \<in> set ms" for m using that len by (metis in_set_conv_nth)
    then show "list_all page_ok (map page_of ms)" "bin_string hk"
      unfolding hk by (fastforce simp: list_all_iff page_ok_def page_of_def in_place_def dest: in_set_takeD)+
  qed
  moreover from this have "length hk = 120"
    using length_hkroot_of [of "map page_of ms"] len by (simp add: hkroot_of_page_of hk)
  ultimately have ph: "process_hkroot gt (public_keys st) hk (dsm_id_dsm_message_map st) = ?R"
    by (intro process_hkroot_binary)
  have ref: "refines (run_messages gt ms st)
      (bindr ?R (\<lambda>(dsms', logs). Inr ((coll(prn := []), dsms'), logs))) (public_keys st)"
    using run_refines [OF rel, of gt ms] spec_run_subframe [of prn ms coll gt "public_keys st"] seq len empty ph
    by (simp add: hkroot_of_page_of hk [symmetric])
  have idx: "map_of (prns_next_word_seq_ind st') prn \<in> {None, Some 0}" if "proc_rel st' (coll(prn := []))"
    for st' :: "'a osnma_processor"
    using that by (cases "map_of (prns_next_word_seq_ind st') prn")
      (auto simp: proc_rel_def satellite_rel_def dest!: spec [of _ prn])
  show ?thesis
  proof (cases ?R)
    case (Inl e)
    then show ?thesis using ref by (simp add: refines_def)
  next
    case (Inr r)
    then show ?thesis using ref idx by (cases r) (auto simp: refines_def)
  qed
qed

subsection \<open>Losing synchronisation\<close>

lemma spec_run_dropped:
  assumes "\<And>m. m \<in> set ms \<Longrightarrow> \<exists>i. in_place prn i m \<and> 0 < i \<and> i < 15" and "coll prn = []"
  shows "spec_run gt keys ms (coll, dsms) = Inr ((coll, dsms), [])"
  using assms
proof (induction ms)
  case Nil
  then show ?case by simp
next
  case (Cons m ms)
  then obtain i where m: "in_place prn i m" "0 < i" "i < 15" by auto
  then have "field_value 0 6 (osnma_nav_data m) \<notin> set (GALILEO_E1_INAV_WORD_SEQ ! 0)"
    using word_seq_start [of i 0] by (auto simp: in_place_def)
  moreover have "read_bin_string_as_int (osnma_nav_data m) 0 6 = Inr (field_value 0 6 (osnma_nav_data m))"
    using m(1) read_field [of "osnma_nav_data m" 0 6] by (simp add: in_place_def field_value_def)
  ultimately have "spec_feed gt keys (osnma_PRN m) (OSNMA_data m) (osnma_nav_data m) (coll, dsms) = Inr ((coll, dsms), [])"
    using m(1) Cons.prems(2) by (simp add: spec_feed_def in_place_def fun_upd_idem)
  moreover have "spec_run gt keys ms (coll, dsms) = Inr ((coll, dsms), [])" using Cons by auto
  ultimately show ?case by simp
qed

text \<open>
  C10: when a satellite has pages pending, a complete, well-formed subframe in the right order
  is lost: its first page is out of sequence, the reset drops it instead of starting the new
  subframe with it, and the fourteen others no longer fit. No block is delivered and nothing is
  reported; the satellite is in sync again only after the subframe.
\<close>

theorem resynchronisation_loses_subframe:
  assumes reach: "osnma_reachable env dir gt st"
    and pending: "map_of (prns_next_word_seq_ind st) prn = Some k" "k \<noteq> 0"
    and len: "length ms = 15" and seq: "\<forall>i < 15. in_place prn i (ms ! i)"
  shows "\<exists>st'. run_messages gt ms st = Inr (st', []) \<and> dsm_id_dsm_message_map st' = dsm_id_dsm_message_map st \<and>
    map_of (prns_next_word_seq_ind st') prn \<in> {None, Some 0}"
proof -
  obtain coll where rel: "proc_rel st coll" using reachable_rel [OF reach] by blast
  then have "satellite_rel st prn (coll prn)" by (simp add: proc_rel_def)
  with pending have k: "length (coll prn) = k" "k < 15" by (auto simp: satellite_rel_def)
  obtain m qs where ms: "ms = m # qs" using len by (cases ms) auto
  have m: "in_place prn 0 m" using seq [rule_format, of 0] ms by simp
  then have "field_value 0 6 (osnma_nav_data m) \<notin> set (GALILEO_E1_INAV_WORD_SEQ ! k)"
    using k pending(2) word_seq_start [of 0 k] by (auto simp: in_place_def)
  moreover have "read_bin_string_as_int (osnma_nav_data m) 0 6 = Inr (field_value 0 6 (osnma_nav_data m))"
    using m read_field [of "osnma_nav_data m" 0 6] by (simp add: in_place_def field_value_def)
  ultimately have "spec_feed gt (public_keys st) (osnma_PRN m) (OSNMA_data m) (osnma_nav_data m)
      (coll, dsm_id_dsm_message_map st) = Inr ((coll(prn := []), dsm_id_dsm_message_map st), [])"
    using m k by (simp add: spec_feed_def in_place_def)
  moreover have "spec_run gt (public_keys st) qs (coll(prn := []), dsm_id_dsm_message_map st) =
      Inr ((coll(prn := []), dsm_id_dsm_message_map st), [])"
  proof (rule spec_run_dropped)
    fix q
    assume "q \<in> set qs"
    then obtain i where "q = qs ! i" "i < length qs" by (auto simp: in_set_conv_nth)
    then show "\<exists>i. in_place prn i q \<and> 0 < i \<and> i < 15"
      using seq [rule_format, of "Suc i"] len ms by (intro exI [of _ "Suc i"]) simp
  qed simp
  ultimately have "refines (run_messages gt ms st) (Inr ((coll(prn := []), dsm_id_dsm_message_map st), []))
      (public_keys st)"
    using run_refines [OF rel, of gt ms] by (simp add: ms fun_upd_def)
  then obtain st' where st': "run_messages gt ms st = Inr (st', [])" "proc_rel st' (coll(prn := []))"
    "dsm_id_dsm_message_map st' = dsm_id_dsm_message_map st" by (auto simp: refines_def)
  then have "satellite_rel st' prn []" by (auto simp: proc_rel_def dest!: spec [of _ prn])
  then have "map_of (prns_next_word_seq_ind st') prn \<in> {None, Some 0}"
    by (cases "map_of (prns_next_word_seq_ind st') prn") (auto simp: satellite_rel_def)
  with st' show ?thesis by blast
qed

subsection \<open>Satellites do not disturb each other\<close>

text \<open>
  A message of one satellite leaves the pages collected for every other satellite as they are.
\<close>

theorem satellites_independent:
  assumes "msg_handler_telemetry_to_OSNMA gt m st = Inr (st', logs)" and "osnma_PRN m \<noteq> q"
  shows "map_of (prns_next_word_seq_ind st') q = map_of (prns_next_word_seq_ind st) q \<and>
    map_of (prn_current_subframe_map st') q = map_of (prn_current_subframe_map st) q"
  using assms
  by (auto simp: msg_handler_telemetry_to_OSNMA_def feed_page_def Let_def bindr_eq_Inr process_subframe_hkroot
      split: if_splits option.splits prod.splits)

subsection \<open>Authenticity of a whole run\<close>

lemma spec_feed_verified:
  assumes rel: "proc_rel st coll" and run: "feed_page gt prn d n st = Inr (st', logs)"
    and ver: "KrootVerified c w t \<in> set logs"
  shows "\<exists>hk dsm_id block_id blk dsms dsms'. length hk = 120 \<and>
    process_dsm_kroot_block gt (public_keys st) dsm_id block_id blk (take 8 hk) dsms = Inr (dsms', logs)"
proof -
  from feed_page_step [OF rel run] obtain coll' where sp: "spec_feed gt (public_keys st) prn d n
      (coll, dsm_id_dsm_message_map st) = Inr ((coll', dsm_id_dsm_message_map st'), logs)" by blast
  have "satellite_rel st prn (coll prn)" using rel by (simp add: proc_rel_def)
  then have ok: "list_all page_ok (coll prn)" by (auto simp: satellite_rel_def split: option.splits)
  from sp ver obtain wt where d: "length d = 40" "length (coll prn) = 14"
    and ph: "process_hkroot gt (public_keys st) (hkroot_of (coll prn @ [(wt, d, n)])) (dsm_id_dsm_message_map st) =
      Inr (dsm_id_dsm_message_map st', logs)"
    by (auto simp: spec_feed_def Let_def bindr_eq_Inr split: if_splits)
  have "length (hkroot_of (coll prn @ [(wt, d, n)])) = 120"
    using ok d length_hkroot_of [of "coll prn @ [(wt, d, n)]"] by (simp add: page_ok_def)
  with ph ver show ?thesis
    by (auto simp: process_hkroot_def process_subframe_def get_hkroot_message_def Let_def bindr_eq_Inr osnma_consts
        split: if_splits) blast+
qed

lemma run_verified:
  "proc_rel st coll \<Longrightarrow> run_messages gt ms st = Inr (st', logs) \<Longrightarrow> KrootVerified c w t \<in> set logs \<Longrightarrow>
   \<exists>hk dsm_id block_id blk dsms dsms' logs'. length hk = 120 \<and> KrootVerified c w t \<in> set logs' \<and>
    process_dsm_kroot_block gt (public_keys st) dsm_id block_id blk (take 8 hk) dsms = Inr (dsms', logs')"
proof (induction ms arbitrary: st coll logs)
  case Nil
  then show ?case by simp
next
  case (Cons m ms)
  from Cons.prems(2) obtain st1 l1 l2 where
    step: "feed_page gt (osnma_PRN m) (OSNMA_data m) (osnma_nav_data m) st = Inr (st1, l1)"
    and rest: "run_messages gt ms st1 = Inr (st', l2)" and logs: "logs = l1 @ l2"
    by (auto simp: bindr_eq_Inr msg_handler_telemetry_to_OSNMA_def)
  from feed_page_step [OF Cons.prems(1) step] obtain coll1 where
    rel1: "proc_rel st1 coll1" and "public_keys st1 = public_keys st" by blast
  moreover have "KrootVerified c w t \<in> set l1 \<or> KrootVerified c w t \<in> set l2" using Cons.prems(3) logs by simp
  ultimately show ?case
    using Cons.IH [OF rel1 rest] spec_feed_verified [OF Cons.prems(1) step, of c w t] by (elim disjE) (metis, simp)
qed

text \<open>
  C2: end-to-end authenticity. Whatever pages a worker is fed after its construction, when it
  reports a verified root key then a file of the key directory declares a key, read from its PEM
  file, that has signed a string which carries the reported chain identifier, week number
  and time of week behind an NMA header.
\<close>

theorem osnma_authentic:
  assumes unforgeable: "sound_verification gt has_signed"
    and start: "new_osnma_processor env dir = Inr st" and run: "run_messages gt ms st = Inr (st', logs)"
    and verified: "KrootVerified cid wnk towhk \<in> set logs"
  shows "\<exists>e \<in> set (fs_directory env dir). \<exists>kid key m. key_origin env e kid key \<and> has_signed (pk_key key) m \<and>
    cid = field_value 8 2 (byte_array_to_bin_str m) \<and> wnk = field_value 36 12 (byte_array_to_bin_str m) \<and>
    towhk = field_value 48 8 (byte_array_to_bin_str m)"
proof -
  have keys: "load_keys env dir [] = Inr (public_keys st)"
    using start by (auto simp: new_osnma_processor_def bindr_eq_Inr)
  from run_verified [OF new_processor_rel [OF start] run verified] obtain hk dsm_id block_id blk dsms dsms' logs'
    where hk: "length hk = 120" and logs': "KrootVerified cid wnk towhk \<in> set logs'"
    and p: "process_dsm_kroot_block gt (public_keys st) dsm_id block_id blk (take 8 hk) dsms = Inr (dsms', logs')"
    by blast
  have "length (take 8 hk) = 8" using hk by simp
  from kroot_signed [OF unforgeable this p logs'] obtain kid key m where "map_of (public_keys st) kid = Some key"
    "has_signed (pk_key key) m" "cid = field_value 8 2 (byte_array_to_bin_str m)"
    "wnk = field_value 36 12 (byte_array_to_bin_str m)" "towhk = field_value 48 8 (byte_array_to_bin_str m)"
    unfolding field_value_def by blast
  with load_keys_origin [OF keys] show ?thesis by blast
qed

subsection \<open>A transmitted root key\<close>

text \<open>
  \<open>carries prn dsm_id header i b ms\<close>: the fifteen messages \<open>ms\<close> are a subframe of satellite
  \<open>prn\<close> that carries block \<open>i\<close> with content \<open>b\<close> of the DSM-KROOT \<open>dsm_id\<close> under the given header.
\<close>

definition carries :: "int \<Rightarrow> int \<Rightarrow> string \<Rightarrow> int \<Rightarrow> string \<Rightarrow> galileo_osnma list \<Rightarrow> bool" where
  "carries prn dsm_id header i b ms \<longleftrightarrow>
     length ms = 15 \<and> (\<forall>k < 15. in_place prn k (ms ! k)) \<and> dsm_id < 12 \<and>
     (let hk = concat (map (\<lambda>m. take 8 (OSNMA_data m)) ms)
      in field_value 0 2 hk \<in> {1, 2} \<and> field_value 8 4 hk = dsm_id \<and> field_value 12 4 hk = i \<and>
         take 8 hk = header \<and> drop 16 hk = b)"

lemma in_place_hkroot:
  assumes "length ms = 15" and "\<forall>k < 15. in_place prn k (ms ! k)"
  shows "bin_string (concat (map (\<lambda>m. take 8 (OSNMA_data m)) ms))"
    and "length (concat (map (\<lambda>m. take 8 (OSNMA_data m)) ms)) = 120"
proof -
  have ok: "length (OSNMA_data m) = 40 \<and> bin_string (OSNMA_data m)" if "m \<in> set ms" for m
    using that assms by (metis in_place_def in_set_conv_nth)
  then show "bin_string (concat (map (\<lambda>m. take 8 (OSNMA_data m)) ms))"
    by (intro bin_string_concat) auto
  show "length (concat (map (\<lambda>m. take 8 (OSNMA_data m)) ms)) = 120"
    using assms(1) ok by (subst length_concat_map_const [where n = 8]) auto
qed

lemma spec_run_carries:
  assumes "carries prn dsm_id header i b ms" and "coll prn = []"
  shows "spec_run gt keys ms (coll, dsms) =
    bindr (process_dsm_kroot_block gt keys dsm_id i b header dsms) (\<lambda>(dsms', logs). Inr ((coll, dsms'), logs))"
proof -
  let ?hk = "concat (map (\<lambda>m. take 8 (OSNMA_data m)) ms)"
  have c: "length ms = 15" "\<forall>k < 15. in_place prn k (ms ! k)" using assms(1) by (simp_all add: carries_def)
  then have "process_hkroot gt keys ?hk dsms = process_dsm_kroot_block gt keys dsm_id i b header dsms"
    using assms(1) in_place_hkroot [OF c] by (auto simp: process_hkroot_binary carries_def Let_def)
  moreover have "coll(prn := []) = coll" using assms(2) by auto
  ultimately show ?thesis
    using spec_run_subframe [of prn ms coll gt keys dsms] c assms(2) by (simp add: hkroot_of_page_of)
qed

lemma spec_run_blocks:
  assumes "\<And>prn ms i b. (prn, ms, i, b) \<in> set subs \<Longrightarrow> carries prn dsm_id header i b ms" and "\<And>prn. coll prn = []"
  shows "spec_run gt keys (concat (map (\<lambda>(prn, ms, i, b). ms) subs)) (coll, dsms) =
    bindr (process_blocks gt keys dsm_id header (map (\<lambda>(prn, ms, i, b). (i, b)) subs) dsms)
      (\<lambda>(dsms', logs). Inr ((coll, dsms'), logs))"
  using assms(1)
proof (induction subs arbitrary: dsms)
  case Nil
  then show ?case by simp
next
  case (Cons s subs)
  obtain prn ms i b where s: "s = (prn, ms, i, b)" by (cases s)
  then have "spec_run gt keys ms (coll, dsms) =
      bindr (process_dsm_kroot_block gt keys dsm_id i b header dsms) (\<lambda>(dsms', logs). Inr ((coll, dsms'), logs))"
    using Cons.prems assms(2) by (intro spec_run_carries) auto
  with Cons.IH [OF Cons.prems] show ?case
    by (simp add: s spec_run_append bindr_def split: sum.splits prod.splits)
qed

lemma kroot_run:
  assumes start: "new_osnma_processor env dir = Inr st"
    and subs: "\<forall>(prn, ms, i, b) \<in> set subs. carries prn dsm_id header i b ms"
    and bs: "bs = map (\<lambda>(prn, ms, i, b). (i, b)) subs" "distinct (map fst bs)" "fst ` set bs = {0..<nb}"
    and nb: "0 < nb" "nb < 2 ^ 31" "announces bs nb"
    and verify: "verify_dsm_kroot gt (public_keys st) header (concat (map (block_at bs) (dsm_block_ids nb))) =
      Inr (ok, logs)"
  shows "\<exists>st'. run_messages gt (concat (map (\<lambda>(prn, ms, i, b). ms) subs)) st = Inr (st', logs) \<and>
    map_of (dsm_id_dsm_message_map st') dsm_id =
      Some \<lparr>nb_blocks = nb, nma_header = header, id_block_map = bs, is_processed = ok\<rparr>"
proof -
  have rel: "proc_rel st (\<lambda>_. [])" and dsms: "dsm_id_dsm_message_map st = []"
    using new_processor_rel [OF start] start by (auto simp: new_osnma_processor_def bindr_eq_Inr)
  have "spec_run gt (public_keys st) (concat (map (\<lambda>(prn, ms, i, b). ms) subs)) (\<lambda>_. [], []) =
      bindr (process_blocks gt (public_keys st) dsm_id header bs []) (\<lambda>(dsms', logs). Inr ((\<lambda>_. [], dsms'), logs))"
    unfolding bs(1) using subs by (intro spec_run_blocks) auto
  moreover have "process_blocks gt (public_keys st) dsm_id header bs [] =
      Inr ([(dsm_id, \<lparr>nb_blocks = nb, nma_header = header, id_block_map = bs, is_processed = ok\<rparr>)], logs)"
    using process_blocks_complete [OF _ bs(2,3) nb, of "[]" dsm_id gt "public_keys st" header] verify by simp
  ultimately show ?thesis
    using run_refines [OF rel, of gt "concat (map (\<lambda>(prn, ms, i, b). ms) subs)"]
    by (auto simp: refines_def dsms)
qed

text \<open>
  C3: a transmitted root key is verified. When the subframes a newly constructed worker receives
  carry the blocks \<open>0 ..< nb\<close> of one DSM-KROOT, in any order and from any satellites, then
  the worker reports exactly what the verification of the concatenated blocks gives, and records its
  outcome.
\<close>

theorem transmitted_kroot_verified:
  assumes start: "new_osnma_processor env dir = Inr st"
    and subs: "\<forall>(prn, ms, i, b) \<in> set subs. carries prn dsm_id header i b ms"
    and bs: "bs = map (\<lambda>(prn, ms, i, b). (i, b)) subs" "distinct (map fst bs)" "fst ` set bs = {0..<nb}"
    and nb: "0 < nb" "nb < 2 ^ 31" "announces bs nb"
    and verify: "verify_dsm_kroot gt (public_keys st) header (concat (map (block_at bs) (dsm_block_ids nb))) =
      Inr (ok, logs)"
  shows "\<exists>st'. run_messages gt (concat (map (\<lambda>(prn, ms, i, b). ms) subs)) st = Inr (st', logs) \<and>
    map_of (dsm_id_dsm_message_map st') dsm_id =
      Some \<lparr>nb_blocks = nb, nma_header = header, id_block_map = bs, is_processed = ok\<rparr>"
  by (rule kroot_run [OF assms])

end
