(* ===== verification/Osnma_Processor_Witness.thy ===== *)
theory Osnma_Processor_Witness
  imports Osnma_Dsm_Witness Osnma_Processor_Correct
begin

section \<open>A concrete OSNMA transmission\<close>

text \<open>
  The example message of \<open>Osnma_Dsm_Witness\<close>, transmitted as seven subframes by seven satellites to a
  worker that has loaded one key from its directory.
\<close>

definition bits_of :: "nat \<Rightarrow> int \<Rightarrow> string" where
  "bits_of n v = map (\<lambda>i. if bit v (n - 1 - i) then CHR ''1'' else CHR ''0'') [0..<n]"

definition ex_types :: "int list" where
  "ex_types = [2, 4, 6, 7, 8, 17, 19, 16, 0, 0, 1, 3, 5, 0, 16]"

definition ex_hkroot :: "int \<Rightarrow> string \<Rightarrow> string" where
  "ex_hkroot i b = ex_header @ bits_of 4 3 @ bits_of 4 i @ b"

definition ex_subframe :: "int \<Rightarrow> int \<Rightarrow> string \<Rightarrow> galileo_osnma list" where
  "ex_subframe prn i b = map (\<lambda>(k, t). \<lparr>osnma_PRN = prn, OSNMA_data = take 8 (drop (8 * k) (ex_hkroot i b)) @ zeros 32,
     osnma_nav_data = bits_of 6 t @ zeros 122\<rparr>) (List.enumerate 0 ex_types)"

definition ex_subs :: "(int \<times> galileo_osnma list \<times> int \<times> string) list" where
  "ex_subs = map (\<lambda>(i, b). (i + 11, ex_subframe (i + 11) i b, i, b)) ex_blocks"

definition ex_env :: "nat keys_env" where
  "ex_env = \<lparr>fs_exists = (\<lambda>p. p = ''keys''), fs_is_directory = (\<lambda>p. p = ''keys''),
     fs_directory = (\<lambda>_. [\<lparr>entry_path = ''keys/k1.xml'', entry_is_regular_file = True, entry_extension = ''.xml''\<rparr>]),
     fs_sibling = (\<lambda>_ f. ''keys/'' @ f),
     xml_load_file = (\<lambda>_. Some \<lparr>node_name = ''PublicKey'', node_PKID = 1, node_File = ''k1.pem'',
        node_PKType = ''ECDSA P-256/SHA-256''\<rparr>),
     gnutls_load_file = (\<lambda>f. if f = ''keys/k1.pem'' then (0, [1]) else (- 64, [])),
     gnutls_pubkey_import = (\<lambda>b. (0, 7))\<rparr>"

definition ex_start :: "nat osnma_processor" where
  "ex_start = \<lparr>public_keys = ex_keys, prns_next_word_seq_ind = [], prn_current_subframe_map = [],
     dsm_id_dsm_message_map = []\<rparr>"

lemma ex_new: "new_osnma_processor ex_env ''keys'' = Inr ex_start"
  by code_simp

lemma ex_nav: "\<forall>k < 15. length (bits_of 6 (ex_types ! k) @ zeros 122) = 128 \<and> bin_string (bits_of 6 (ex_types ! k) @ zeros 122) \<and>
    field_value 0 6 (bits_of 6 (ex_types ! k) @ zeros 122) \<in> set (GALILEO_E1_INAV_WORD_SEQ ! k)"
  by code_simp

lemma ex_block_id: "0 \<le> i \<Longrightarrow> i < 16 \<Longrightarrow> int (bin_value (bits_of 4 i)) = i"
proof -
  have "\<forall>i \<in> {0, 1, 2, 3, 4, 5, 6, 7, 8, 9, 10, 11, 12, 13, 14, 15}. int (bin_value (bits_of 4 i)) = i" by code_simp
  then show "0 \<le> i \<Longrightarrow> i < 16 \<Longrightarrow> int (bin_value (bits_of 4 i)) = i" using int_0_15_cases by blast
qed

lemma length_bits_of [simp]: "length (bits_of n v) = n"
  by (simp add: bits_of_def)

lemma bin_string_bits_of [simp]: "bin_string (bits_of n v)"
  by (auto simp: bits_of_def list_all_iff is_bit_char_def)

lemma length_ex_types: "length ex_types = 15"
  by (simp add: ex_types_def)

lemma ex_subframe_carries:
  assumes "bin_string b" and "length b = 104" and "0 \<le> i" and "i < 16"
  shows "carries prn 3 ex_header i b (ex_subframe prn i b)"
proof -
  let ?hk = "ex_hkroot i b"
  have hk: "bin_string ?hk" "length ?hk = 120"
    using assms(1,2) by (simp_all add: ex_hkroot_def ex_header_def is_bit_char_def)
  have len: "length (ex_subframe prn i b) = 15" by (simp add: ex_subframe_def length_ex_types)
  have nth: "ex_subframe prn i b ! k = \<lparr>osnma_PRN = prn, OSNMA_data = take 8 (drop (8 * k) ?hk) @ zeros 32,
      osnma_nav_data = bits_of 6 (ex_types ! k) @ zeros 122\<rparr>" if "k < 15" for k
    using that by (simp add: ex_subframe_def nth_enumerate_eq length_ex_types)
  have place: "in_place prn k (ex_subframe prn i b ! k)" if "k < 15" for k
  proof -
    have "8 * k + 8 \<le> 120" using that by simp
    then have "length (take 8 (drop (8 * k) ?hk) @ zeros 32) = 40" using hk(2) by simp
    moreover have "bin_string (take 8 (drop (8 * k) ?hk) @ zeros 32)"
      using hk(1) by (auto simp: zeros_def list_all_iff is_bit_char_def dest!: in_set_takeD in_set_dropD)
    ultimately show ?thesis using ex_nav that nth [OF that] by (simp add: in_place_def)
  qed
  have "map (\<lambda>m. take 8 (OSNMA_data m)) (ex_subframe prn i b) = map (\<lambda>k. take 8 (drop (k * 8) ?hk)) [0..<15]"
    using hk(2) by (intro nth_equalityI) (auto simp: len nth mult.commute)
  then have cat: "concat (map (\<lambda>m. take 8 (OSNMA_data m)) (ex_subframe prn i b)) = ?hk"
    using concat_chunks [of ?hk 8 15] hk(2) by simp
  have "field_value 0 2 ?hk = 1" "take 8 ?hk = ex_header" "drop 16 ?hk = b"
    by (simp_all add: ex_hkroot_def ex_header_def field_value_def)
  moreover have "field_value 8 4 ?hk = 3" "field_value 12 4 ?hk = i"
    using ex_block_id [of 3] ex_block_id [OF assms(3,4)]
    by (simp_all add: ex_hkroot_def ex_header_def field_value_def)
  ultimately show ?thesis using len place cat by (simp add: carries_def)
qed

lemma ex_carries: "\<forall>(prn, ms, i, b) \<in> set ex_subs. carries prn 3 ex_header i b ms"
proof -
  have "bin_string (zeros n)" for n by (simp add: zeros_def list_all_iff is_bit_char_def)
  then have "bin_string b \<and> length b = 104 \<and> 0 \<le> i \<and> i < 16" if "(i, b) \<in> set ex_blocks" for i b
    using that by (auto simp: ex_blocks_def ex_block0_def is_bit_char_def)
  then show ?thesis by (fastforce simp: ex_subs_def intro!: ex_subframe_carries)
qed

lemma ex_subs_blocks: "map (\<lambda>(prn, ms, i, b). (i, b)) ex_subs = ex_blocks"
  by (simp add: ex_subs_def comp_def split_def)

lemma ex_sound: "sound_verification ex_gnutls ex_signed"
  by (simp add: sound_verification_def ex_gnutls_def)

lemma ex_verify_blocks:
  "verify_dsm_kroot ex_gnutls (public_keys ex_start) ex_header (concat (map (block_at ex_blocks) (dsm_block_ids 7))) =
   Inr (True, [NewDsmKroot 1 (zeros 96) (zeros 512) (zeros 16) (ex_header @ drop 8 ex_block0 @ zeros 96), PadMatches,
      KrootVerified 1 0 0])"
  using ex_verify by (simp add: ex_message ex_start_def)

theorem transmitted_kroot_verified_witness:
  "\<exists>st'. run_messages ex_gnutls (concat (map (\<lambda>(prn, ms, i, b). ms) ex_subs)) ex_start =
      Inr (st', [NewDsmKroot 1 (zeros 96) (zeros 512) (zeros 16) (ex_header @ drop 8 ex_block0 @ zeros 96), PadMatches,
        KrootVerified 1 0 0]) \<and>
    map_of (dsm_id_dsm_message_map st') 3 =
      Some \<lparr>nb_blocks = 7, nma_header = ex_header, id_block_map = ex_blocks, is_processed = True\<rparr>"
  using transmitted_kroot_verified [OF ex_new ex_carries ex_subs_blocks [symmetric] ex_ids _ _ ex_announces
      ex_verify_blocks] by simp

lemma ex_run_all:
  "\<exists>st'. run_messages ex_gnutls (concat (map (\<lambda>(prn, ms, i, b). ms) ex_subs)) ex_start =
      Inr (st', [NewDsmKroot 1 (zeros 96) (zeros 512) (zeros 16) (ex_header @ drop 8 ex_block0 @ zeros 96), PadMatches,
        KrootVerified 1 0 0])"
proof -
  have "spec_run ex_gnutls ex_keys (concat (map (\<lambda>(prn, ms, i, b). ms) ex_subs)) (\<lambda>_. [], []) =
      bindr (process_blocks ex_gnutls ex_keys 3 ex_header ex_blocks []) (\<lambda>(dsms', logs). Inr ((\<lambda>_. [], dsms'), logs))"
    unfolding ex_subs_blocks [symmetric] using ex_carries by (intro spec_run_blocks) auto
  moreover have "process_blocks ex_gnutls ex_keys 3 ex_header ex_blocks [] =
      bindr (verify_dsm_kroot ex_gnutls ex_keys ex_header (concat (map (block_at ex_blocks) (dsm_block_ids 7))))
        (\<lambda>(ok, logs). Inr (AList.update 3 \<lparr>nb_blocks = 7, nma_header = ex_header, id_block_map = ex_blocks,
          is_processed = ok\<rparr> [], logs))"
    by (rule process_blocks_complete [OF _ ex_ids _ _ ex_announces]) simp_all
  ultimately show ?thesis
    using run_refines [OF new_processor_rel [OF ex_new], of ex_gnutls "concat (map (\<lambda>(prn, ms, i, b). ms) ex_subs)"]
    by (auto simp: refines_def ex_message ex_verify ex_start_def)
qed

theorem osnma_authentic_witness:
  "\<exists>e \<in> set (fs_directory ex_env ''keys''). \<exists>kid key m. key_origin ex_env e kid key \<and> ex_signed (pk_key key) m \<and>
    1 = field_value 8 2 (byte_array_to_bin_str m) \<and> 0 = field_value 36 12 (byte_array_to_bin_str m) \<and>
    0 = field_value 48 8 (byte_array_to_bin_str m)"
proof -
  obtain st' where run: "run_messages ex_gnutls (concat (map (\<lambda>(prn, ms, i, b). ms) ex_subs)) ex_start =
      Inr (st', [NewDsmKroot 1 (zeros 96) (zeros 512) (zeros 16) (ex_header @ drop 8 ex_block0 @ zeros 96), PadMatches,
        KrootVerified 1 0 0])" using ex_run_all by blast
  show ?thesis by (rule osnma_authentic [OF ex_sound ex_new run]) simp
qed

lemma ex_reachable: "osnma_reachable ex_env ''keys'' ex_gnutls ex_start"
  by (rule osnma_reachable.start [OF ex_new])

lemma ex_start_rel: "proc_rel ex_start (\<lambda>_. [])"
  by (rule new_processor_rel [OF ex_new])

theorem feed_page_refines_witness:
  "refines (feed_page ex_gnutls 11 (zeros 40) (zeros 128) ex_start)
    (spec_feed ex_gnutls (public_keys ex_start) 11 (zeros 40) (zeros 128) (\<lambda>_. [], dsm_id_dsm_message_map ex_start))
    (public_keys ex_start)"
  by (rule feed_page_refines [OF ex_start_rel])

theorem osnma_never_undefined_witness:
  "msg_handler_telemetry_to_OSNMA ex_gnutls \<lparr>osnma_PRN = 11, OSNMA_data = zeros 40, osnma_nav_data = zeros 128\<rparr> ex_start
    \<noteq> Inl UndefinedBehaviour"
  by (rule osnma_never_undefined [OF ex_reachable])

lemma ex_first_subframe: "length (ex_subframe 11 0 ex_block0) = 15" "\<forall>i < 15. in_place 11 i (ex_subframe 11 0 ex_block0 ! i)"
  "concat (map (\<lambda>m. take 8 (OSNMA_data m)) (ex_subframe 11 0 ex_block0)) = ex_hkroot 0 ex_block0"
  by code_simp+

lemma ex_hkroot_fields: "field_value 0 2 (ex_hkroot 0 ex_block0) = 1" "field_value 8 4 (ex_hkroot 0 ex_block0) = 3"
  "field_value 12 4 (ex_hkroot 0 ex_block0) = 0" "drop 16 (ex_hkroot 0 ex_block0) = ex_block0"
  "take 8 (ex_hkroot 0 ex_block0) = ex_header"
  by code_simp+

lemma ex_first_block: "process_dsm_kroot_block ex_gnutls ex_keys 3 0 ex_block0 ex_header [] =
    Inr ([(3, partial_dsm ex_header 7 [(0, ex_block0)])], [])"
  by code_simp

theorem subframe_delivers_block_witness:
  "\<exists>st'. run_messages ex_gnutls (ex_subframe 11 0 ex_block0) ex_start = Inr (st', []) \<and>
    dsm_id_dsm_message_map st' = [(3, partial_dsm ex_header 7 [(0, ex_block0)])]"
  using subframe_delivers_block [OF ex_reachable _ ex_first_subframe(1,2) ex_first_subframe(3) [symmetric]]
  by (simp add: ex_start_def ex_hkroot_fields ex_first_block) blast

definition ex_first_page :: galileo_osnma where
  "ex_first_page = \<lparr>osnma_PRN = 11, OSNMA_data = zeros 40, osnma_nav_data = bits_of 6 2 @ zeros 122\<rparr>"

definition ex_pending :: "nat osnma_processor" where
  "ex_pending = ex_start\<lparr>prns_next_word_seq_ind := [(11, 1)],
     prn_current_subframe_map := [(11, Some (subframe_of [(2, zeros 40, bits_of 6 2 @ zeros 122)]))]\<rparr>"

lemma ex_one_page: "msg_handler_telemetry_to_OSNMA ex_gnutls ex_first_page ex_start = Inr (ex_pending, [])"
  by code_simp

theorem resynchronisation_loses_subframe_witness:
  "\<exists>st'. run_messages ex_gnutls (ex_subframe 11 0 ex_block0) ex_pending = Inr (st', []) \<and>
    dsm_id_dsm_message_map st' = dsm_id_dsm_message_map ex_pending \<and>
    map_of (prns_next_word_seq_ind st') 11 \<in> {None, Some 0}"
  by (rule resynchronisation_loses_subframe [OF osnma_reachable.message [OF ex_reachable ex_one_page], of 11 1])
    (simp_all add: ex_first_subframe(1) ex_first_subframe(2) [rule_format] ex_pending_def)

theorem satellites_independent_witness:
  "map_of (prns_next_word_seq_ind ex_pending) 12 = map_of (prns_next_word_seq_ind ex_start) 12 \<and>
    map_of (prn_current_subframe_map ex_pending) 12 = map_of (prn_current_subframe_map ex_start) 12"
  by (rule satellites_independent [OF ex_one_page]) (simp add: ex_first_page_def)

end
