(* ===== verification/Math_Constants.thy ===== *)
theory Math_Constants
  imports Ieee754
begin

section \<open>Numerical constants\<close>

text \<open>
  The constants of \<^verbatim>\<open>core/system_parameters/MATH_CONSTANTS.h\<close>. A decimal literal denotes the double
  nearest to it. \<open>two_n_table\<close> pairs the scale factors \<^verbatim>\<open>TWO_N*\<close> and \<^verbatim>\<open>TWO_P*\<close> with the power of
  two that their comments name.
\<close>

definition GNSS_OMEGA_EARTH_DOT :: double where
  "GNSS_OMEGA_EARTH_DOT = to_double (72921151467 / 10 ^ 15)"

definition SPEED_OF_LIGHT_M_S :: double where
  "SPEED_OF_LIGHT_M_S = to_double (299792458)"

definition SPEED_OF_LIGHT_M_MS :: double where
  "SPEED_OF_LIGHT_M_MS = to_double (299792458 / 10 ^ 3)"

definition GPS_GM :: double where
  "GPS_GM = to_double (398600500000000)"

definition GPS_F :: double where
  "GPS_F = to_double (- 4442807633 / 10 ^ 19)"

definition GALILEO_GM :: double where
  "GALILEO_GM = to_double (398600441800000)"

definition GALILEO_F :: double where
  "GALILEO_F = to_double (- 4442807309 / 10 ^ 19)"

definition GLONASS_OMEGA_EARTH_DOT :: double where
  "GLONASS_OMEGA_EARTH_DOT = to_double (7292115 / 10 ^ 11)"

definition GLONASS_GM :: double where
  "GLONASS_GM = to_double (398600440000000)"

definition BEIDOU_OMEGA_EARTH_DOT :: double where
  "BEIDOU_OMEGA_EARTH_DOT = to_double (7292115 / 10 ^ 11)"

definition BEIDOU_GM :: double where
  "BEIDOU_GM = to_double (398600441800000)"

definition BEIDOU_F :: double where
  "BEIDOU_F = to_double (- 4442807309 / 10 ^ 19)"

definition GNSS_PI :: double where
  "GNSS_PI = to_double (31415926535898 / 10 ^ 13)"

definition HALF_PI :: double where
  "HALF_PI = ddiv GNSS_PI 2"

definition TWO_PI :: double where
  "TWO_PI = dmul 2 GNSS_PI"

definition TWO_P3 :: double where
  "TWO_P3 = to_double (8)"

definition TWO_P4 :: double where
  "TWO_P4 = to_double (16)"

definition TWO_P8 :: double where
  "TWO_P8 = to_double (256)"

definition TWO_P11 :: double where
  "TWO_P11 = to_double (2048)"

definition TWO_P12 :: double where
  "TWO_P12 = to_double (4096)"

definition TWO_P14 :: double where
  "TWO_P14 = to_double (16384)"

definition TWO_P16 :: double where
  "TWO_P16 = to_double (65536)"

definition TWO_P19 :: double where
  "TWO_P19 = to_double (524288)"

definition TWO_P31 :: double where
  "TWO_P31 = to_double (2147483648)"

definition TWO_P32 :: double where
  "TWO_P32 = to_double (4294967296)"

definition TWO_P56 :: double where
  "TWO_P56 = to_double (72057594037927940)"

definition TWO_P57 :: double where
  "TWO_P57 = to_double (144115188075855900)"

definition TWO_N2 :: double where
  "TWO_N2 = to_double (25 / 10 ^ 2)"

definition TWO_N5 :: double where
  "TWO_N5 = to_double (3125 / 10 ^ 5)"

definition TWO_N6 :: double where
  "TWO_N6 = to_double (15625 / 10 ^ 6)"

definition TWO_N8 :: double where
  "TWO_N8 = to_double (390625 / 10 ^ 8)"

definition TWO_N9 :: double where
  "TWO_N9 = to_double (1953125 / 10 ^ 9)"

definition TWO_N10 :: double where
  "TWO_N10 = to_double (9765625 / 10 ^ 10)"

definition TWO_N11 :: double where
  "TWO_N11 = to_double (48828125 / 10 ^ 11)"

definition TWO_N14 :: double where
  "TWO_N14 = to_double (6103515625 / 10 ^ 14)"

definition TWO_N15 :: double where
  "TWO_N15 = to_double (30517578125 / 10 ^ 15)"

definition TWO_N16 :: double where
  "TWO_N16 = to_double (152587890625 / 10 ^ 16)"

definition TWO_N17 :: double where
  "TWO_N17 = to_double (762939453125 / 10 ^ 17)"

definition TWO_N18 :: double where
  "TWO_N18 = to_double (3814697265625 / 10 ^ 18)"

definition TWO_N19 :: double where
  "TWO_N19 = to_double (19073486328125 / 10 ^ 19)"

definition TWO_N20 :: double where
  "TWO_N20 = to_double (95367431640625 / 10 ^ 20)"

definition TWO_N21 :: double where
  "TWO_N21 = to_double (476837158203125 / 10 ^ 21)"

definition TWO_N22 :: double where
  "TWO_N22 = to_double (2384185791015625 / 10 ^ 22)"

definition TWO_N23 :: double where
  "TWO_N23 = to_double (119209289550781 / 10 ^ 21)"

definition TWO_N24 :: double where
  "TWO_N24 = to_double (5960464477539063 / 10 ^ 23)"

definition TWO_N25 :: double where
  "TWO_N25 = to_double (2980232238769531 / 10 ^ 23)"

definition TWO_N26 :: double where
  "TWO_N26 = to_double (1490116119384765 / 10 ^ 24)"

definition TWO_N27 :: double where
  "TWO_N27 = to_double (7450580596923828 / 10 ^ 24)"

definition TWO_N29 :: double where
  "TWO_N29 = to_double (1862645149230957 / 10 ^ 24)"

definition TWO_N30 :: double where
  "TWO_N30 = to_double (9313225746154785 / 10 ^ 25)"

definition TWO_N31 :: double where
  "TWO_N31 = to_double (4656612873077393 / 10 ^ 25)"

definition TWO_N32 :: double where
  "TWO_N32 = to_double (2328306436538696 / 10 ^ 25)"

definition TWO_N33 :: double where
  "TWO_N33 = to_double (1164153218269348 / 10 ^ 25)"

definition TWO_N34 :: double where
  "TWO_N34 = to_double (582076609134674 / 10 ^ 25)"

definition TWO_N35 :: double where
  "TWO_N35 = to_double (291038304567337 / 10 ^ 25)"

definition TWO_N38 :: double where
  "TWO_N38 = to_double (3637978807091713 / 10 ^ 27)"

definition TWO_N39 :: double where
  "TWO_N39 = to_double (1818989403545856 / 10 ^ 27)"

definition TWO_N40 :: double where
  "TWO_N40 = to_double (909494701772928 / 10 ^ 27)"

definition TWO_N43 :: double where
  "TWO_N43 = to_double (113686837721616 / 10 ^ 27)"

definition TWO_N44 :: double where
  "TWO_N44 = to_double (5684341886080802 / 10 ^ 29)"

definition TWO_N46 :: double where
  "TWO_N46 = to_double (14210854715202 / 10 ^ 27)"

definition TWO_N48 :: double where
  "TWO_N48 = to_double (3552713678800501 / 10 ^ 30)"

definition TWO_N50 :: double where
  "TWO_N50 = to_double (8881784197001252 / 10 ^ 31)"

definition TWO_N51 :: double where
  "TWO_N51 = to_double (444089209850063 / 10 ^ 30)"

definition TWO_N55 :: double where
  "TWO_N55 = to_double (2775557561562891 / 10 ^ 32)"

definition TWO_N57 :: double where
  "TWO_N57 = to_double (6938893903907228 / 10 ^ 33)"

definition TWO_N59 :: double where
  "TWO_N59 = to_double (173472347597681 / 10 ^ 32)"

definition TWO_N60 :: double where
  "TWO_N60 = to_double (8673617379884036 / 10 ^ 34)"

definition TWO_N66 :: double where
  "TWO_N66 = to_double (13552527156068805425093160010874271392822265625 / 10 ^ 66)"

definition TWO_N68 :: double where
  "TWO_N68 = to_double (3388131789017201 / 10 ^ 36)"

definition PI_TWO_N19 :: double where
  "PI_TWO_N19 = to_double (5992112452678286 / 10 ^ 21)"

definition PI_TWO_N43 :: double where
  "PI_TWO_N43 = to_double (3571577341960839 / 10 ^ 28)"

definition PI_TWO_N31 :: double where
  "PI_TWO_N31 = to_double (146291807926716 / 10 ^ 23)"

definition PI_TWO_N38 :: double where
  "PI_TWO_N38 = to_double (1142904749427469 / 10 ^ 26)"

definition PI_TWO_N23 :: double where
  "PI_TWO_N23 = to_double (3745070282923929 / 10 ^ 22)"

definition D2R :: double where
  "D2R = ddiv GNSS_PI 180"

definition R2D :: double where
  "R2D = ddiv 180 GNSS_PI"

definition SC2RAD :: double where
  "SC2RAD = GNSS_PI"

definition AS2R :: double where
  "AS2R = ddiv D2R 3600"

definition AU :: double where
  "AU = to_double (149597870691)"

definition two_n_table :: "(double \<times> int) list" where
  "two_n_table =
    [(TWO_P3, 3), (TWO_P4, 4), (TWO_P8, 8), (TWO_P11, 11), (TWO_P12, 12), (TWO_P14, 14),
     (TWO_P16, 16), (TWO_P19, 19), (TWO_P31, 31), (TWO_P32, 32), (TWO_P56, 56), (TWO_P57, 57),
     (TWO_N2, - 2), (TWO_N5, - 5), (TWO_N6, - 6), (TWO_N8, - 8), (TWO_N9, - 9), (TWO_N10, - 10),
     (TWO_N11, - 11), (TWO_N14, - 14), (TWO_N15, - 15), (TWO_N16, - 16), (TWO_N17, - 17),
     (TWO_N18, - 18), (TWO_N19, - 19), (TWO_N20, - 20), (TWO_N21, - 21), (TWO_N22, - 22),
     (TWO_N23, - 23), (TWO_N24, - 24), (TWO_N25, - 25), (TWO_N27, - 27), (TWO_N29, - 29),
     (TWO_N30, - 30), (TWO_N31, - 31), (TWO_N32, - 32), (TWO_N33, - 33), (TWO_N34, - 34),
     (TWO_N35, - 35), (TWO_N38, - 38), (TWO_N39, - 39), (TWO_N40, - 40), (TWO_N43, - 43),
     (TWO_N44, - 44), (TWO_N46, - 46), (TWO_N48, - 48), (TWO_N50, - 50), (TWO_N51, - 51),
     (TWO_N55, - 55), (TWO_N57, - 57), (TWO_N59, - 59), (TWO_N60, - 60), (TWO_N66, - 66),
     (TWO_N68, - 68)]"

definition close_power :: "double \<Rightarrow> int \<Rightarrow> bool" where
  "close_power c k \<longleftrightarrow> \<bar>c - 2 powi k\<bar> \<le> 2 powi k / 10 ^ 12"

lemma to_double_close:
  assumes "- 90 \<le> k" and "\<bar>q - 2 powi k\<bar> \<le> 2 powi k / 10 ^ 13"
  shows "close_power (to_double q) k"
proof -
  define p where "p = (2 powi k :: rat)"
  have "(2::rat) powi (- 100) \<le> 2 powi (k - 1)" using assms(1) by (intro power_int_increasing) auto
  also have "\<dots> = p / 2" by (simp add: p_def power_int_diff)
  finally have p: "2 powi (- 100) \<le> p / 2" .
  have "0 < p" by (simp add: p_def)
  then have "p / 2 \<le> q" "q \<le> 2 * p" using assms(2) unfolding p_def [symmetric] abs_le_iff by simp_all
  moreover have "2 * p = 2 powi (k + 1)" by (simp add: p_def power_int_add)
  ultimately have "\<bar>to_double q - q\<bar> \<le> 2 powi (k + 1 - 53)" using p by (intro to_double_error) auto
  also have "k + 1 - 53 = k + (- 52)" by simp
  also have "2 powi (k + (- 52)) = p / 2 ^ 52" by (subst power_int_add) (simp_all add: p_def power_int_minus divide_simps)
  finally show ?thesis using assms(2) \<open>0 < p\<close> unfolding close_power_def p_def [symmetric] abs_le_iff by simp
qed

lemma TWO_P3_close: "close_power TWO_P3 (3)"
  unfolding TWO_P3_def by (rule to_double_close) (simp_all add: power_int_minus)

lemma TWO_P4_close: "close_power TWO_P4 (4)"
  unfolding TWO_P4_def by (rule to_double_close) (simp_all add: power_int_minus)

lemma TWO_P8_close: "close_power TWO_P8 (8)"
  unfolding TWO_P8_def by (rule to_double_close) (simp_all add: power_int_minus)

lemma TWO_P11_close: "close_power TWO_P11 (11)"
  unfolding TWO_P11_def by (rule to_double_close) (simp_all add: power_int_minus)

lemma TWO_P12_close: "close_power TWO_P12 (12)"
  unfolding TWO_P12_def by (rule to_double_close) (simp_all add: power_int_minus)

lemma TWO_P14_close: "close_power TWO_P14 (14)"
  unfolding TWO_P14_def by (rule to_double_close) (simp_all add: power_int_minus)

lemma TWO_P16_close: "close_power TWO_P16 (16)"
  unfolding TWO_P16_def by (rule to_double_close) (simp_all add: power_int_minus)

lemma TWO_P19_close: "close_power TWO_P19 (19)"
  unfolding TWO_P19_def by (rule to_double_close) (simp_all add: power_int_minus)

lemma TWO_P31_close: "close_power TWO_P31 (31)"
  unfolding TWO_P31_def by (rule to_double_close) (simp_all add: power_int_minus)

lemma TWO_P32_close: "close_power TWO_P32 (32)"
  unfolding TWO_P32_def by (rule to_double_close) (simp_all add: power_int_minus)

lemma TWO_P56_close: "close_power TWO_P56 (56)"
  unfolding TWO_P56_def by (rule to_double_close) (simp_all add: power_int_minus)

lemma TWO_P57_close: "close_power TWO_P57 (57)"
  unfolding TWO_P57_def by (rule to_double_close) (simp_all add: power_int_minus)

lemma TWO_N2_close: "close_power TWO_N2 (- 2)"
  unfolding TWO_N2_def by (rule to_double_close) (simp_all add: power_int_minus)

lemma TWO_N5_close: "close_power TWO_N5 (- 5)"
  unfolding TWO_N5_def by (rule to_double_close) (simp_all add: power_int_minus)

lemma TWO_N6_close: "close_power TWO_N6 (- 6)"
  unfolding TWO_N6_def by (rule to_double_close) (simp_all add: power_int_minus)

lemma TWO_N8_close: "close_power TWO_N8 (- 8)"
  unfolding TWO_N8_def by (rule to_double_close) (simp_all add: power_int_minus)

lemma TWO_N9_close: "close_power TWO_N9 (- 9)"
  unfolding TWO_N9_def by (rule to_double_close) (simp_all add: power_int_minus)

lemma TWO_N10_close: "close_power TWO_N10 (- 10)"
  unfolding TWO_N10_def by (rule to_double_close) (simp_all add: power_int_minus)

lemma TWO_N11_close: "close_power TWO_N11 (- 11)"
  unfolding TWO_N11_def by (rule to_double_close) (simp_all add: power_int_minus)

lemma TWO_N14_close: "close_power TWO_N14 (- 14)"
  unfolding TWO_N14_def by (rule to_double_close) (simp_all add: power_int_minus)

lemma TWO_N15_close: "close_power TWO_N15 (- 15)"
  unfolding TWO_N15_def by (rule to_double_close) (simp_all add: power_int_minus)

lemma TWO_N16_close: "close_power TWO_N16 (- 16)"
  unfolding TWO_N16_def by (rule to_double_close) (simp_all add: power_int_minus)

lemma TWO_N17_close: "close_power TWO_N17 (- 17)"
  unfolding TWO_N17_def by (rule to_double_close) (simp_all add: power_int_minus)

lemma TWO_N18_close: "close_power TWO_N18 (- 18)"
  unfolding TWO_N18_def by (rule to_double_close) (simp_all add: power_int_minus)

lemma TWO_N19_close: "close_power TWO_N19 (- 19)"
  unfolding TWO_N19_def by (rule to_double_close) (simp_all add: power_int_minus)

lemma TWO_N20_close: "close_power TWO_N20 (- 20)"
  unfolding TWO_N20_def by (rule to_double_close) (simp_all add: power_int_minus)

lemma TWO_N21_close: "close_power TWO_N21 (- 21)"
  unfolding TWO_N21_def by (rule to_double_close) (simp_all add: power_int_minus)

lemma TWO_N22_close: "close_power TWO_N22 (- 22)"
  unfolding TWO_N22_def by (rule to_double_close) (simp_all add: power_int_minus)

lemma TWO_N23_close: "close_power TWO_N23 (- 23)"
  unfolding TWO_N23_def by (rule to_double_close) (simp_all add: power_int_minus)

lemma TWO_N24_close: "close_power TWO_N24 (- 24)"
  unfolding TWO_N24_def by (rule to_double_close) (simp_all add: power_int_minus)

lemma TWO_N25_close: "close_power TWO_N25 (- 25)"
  unfolding TWO_N25_def by (rule to_double_close) (simp_all add: power_int_minus)

lemma TWO_N27_close: "close_power TWO_N27 (- 27)"
  unfolding TWO_N27_def by (rule to_double_close) (simp_all add: power_int_minus)

lemma TWO_N29_close: "close_power TWO_N29 (- 29)"
  unfolding TWO_N29_def by (rule to_double_close) (simp_all add: power_int_minus)

lemma TWO_N30_close: "close_power TWO_N30 (- 30)"
  unfolding TWO_N30_def by (rule to_double_close) (simp_all add: power_int_minus)

lemma TWO_N31_close: "close_power TWO_N31 (- 31)"
  unfolding TWO_N31_def by (rule to_double_close) (simp_all add: power_int_minus)

lemma TWO_N32_close: "close_power TWO_N32 (- 32)"
  unfolding TWO_N32_def by (rule to_double_close) (simp_all add: power_int_minus)

lemma TWO_N33_close: "close_power TWO_N33 (- 33)"
  unfolding TWO_N33_def by (rule to_double_close) (simp_all add: power_int_minus)

lemma TWO_N34_close: "close_power TWO_N34 (- 34)"
  unfolding TWO_N34_def by (rule to_double_close) (simp_all add: power_int_minus)

lemma TWO_N35_close: "close_power TWO_N35 (- 35)"
  unfolding TWO_N35_def by (rule to_double_close) (simp_all add: power_int_minus)

lemma TWO_N38_close: "close_power TWO_N38 (- 38)"
  unfolding TWO_N38_def by (rule to_double_close) (simp_all add: power_int_minus)

lemma TWO_N39_close: "close_power TWO_N39 (- 39)"
  unfolding TWO_N39_def by (rule to_double_close) (simp_all add: power_int_minus)

lemma TWO_N40_close: "close_power TWO_N40 (- 40)"
  unfolding TWO_N40_def by (rule to_double_close) (simp_all add: power_int_minus)

lemma TWO_N43_close: "close_power TWO_N43 (- 43)"
  unfolding TWO_N43_def by (rule to_double_close) (simp_all add: power_int_minus)

lemma TWO_N44_close: "close_power TWO_N44 (- 44)"
  unfolding TWO_N44_def by (rule to_double_close) (simp_all add: power_int_minus)

lemma TWO_N46_close: "close_power TWO_N46 (- 46)"
  unfolding TWO_N46_def by (rule to_double_close) (simp_all add: power_int_minus)

lemma TWO_N48_close: "close_power TWO_N48 (- 48)"
  unfolding TWO_N48_def by (rule to_double_close) (simp_all add: power_int_minus)

lemma TWO_N50_close: "close_power TWO_N50 (- 50)"
  unfolding TWO_N50_def by (rule to_double_close) (simp_all add: power_int_minus)

lemma TWO_N51_close: "close_power TWO_N51 (- 51)"
  unfolding TWO_N51_def by (rule to_double_close) (simp_all add: power_int_minus)

lemma TWO_N55_close: "close_power TWO_N55 (- 55)"
  unfolding TWO_N55_def by (rule to_double_close) (simp_all add: power_int_minus)

lemma TWO_N57_close: "close_power TWO_N57 (- 57)"
  unfolding TWO_N57_def by (rule to_double_close) (simp_all add: power_int_minus)

lemma TWO_N59_close: "close_power TWO_N59 (- 59)"
  unfolding TWO_N59_def by (rule to_double_close) (simp_all add: power_int_minus)

lemma TWO_N60_close: "close_power TWO_N60 (- 60)"
  unfolding TWO_N60_def by (rule to_double_close) (simp_all add: power_int_minus)

lemma TWO_N66_close: "close_power TWO_N66 (- 66)"
  unfolding TWO_N66_def by (rule to_double_close) (simp_all add: power_int_minus)

lemma TWO_N68_close: "close_power TWO_N68 (- 68)"
  unfolding TWO_N68_def by (rule to_double_close) (simp_all add: power_int_minus)

lemmas two_n_close =
  TWO_P3_close TWO_P4_close TWO_P8_close TWO_P11_close TWO_P12_close
  TWO_P14_close TWO_P16_close TWO_P19_close TWO_P31_close TWO_P32_close
  TWO_P56_close TWO_P57_close TWO_N2_close TWO_N5_close TWO_N6_close
  TWO_N8_close TWO_N9_close TWO_N10_close TWO_N11_close TWO_N14_close
  TWO_N15_close TWO_N16_close TWO_N17_close TWO_N18_close TWO_N19_close
  TWO_N20_close TWO_N21_close TWO_N22_close TWO_N23_close TWO_N24_close
  TWO_N25_close TWO_N27_close TWO_N29_close TWO_N30_close
  TWO_N31_close TWO_N32_close TWO_N33_close TWO_N34_close TWO_N35_close
  TWO_N38_close TWO_N39_close TWO_N40_close TWO_N43_close TWO_N44_close
  TWO_N46_close TWO_N48_close TWO_N50_close TWO_N51_close TWO_N55_close
  TWO_N57_close TWO_N59_close TWO_N60_close TWO_N66_close TWO_N68_close


end
