(* ===== verification/Nav_Bits.thy ===== *)
theory Nav_Bits
  imports Prelude
begin

section \<open>Reading bit fields of navigation messages\<close>

text \<open>
  The navigation-message classes read their fields with the same five loops
  (\<^verbatim>\<open>read_navigation_unsigned\<close>, \<^verbatim>\<open>_signed\<close>, \<^verbatim>\<open>_bool\<close>, \<^verbatim>\<open>read_octet_unsigned\<close>,
  \<^verbatim>\<open>read_page_type_unsigned\<close>): a parameter is a list of slices (first bit counted from 1 at the
  left, number of bits), the message a bitset whose bit 0 is the rightmost. The loops shift the
  accumulator left and insert one bit at a time. The locale \<open>nav_reader\<close> is what the decoders rely
  on; \<open>slice_string\<close> is the abstract value of a parameter, the concatenation of its slices.
\<close>

type_synonym slices = "(nat \<times> nat) list"

definition slice_positions :: "nat \<Rightarrow> slices \<Rightarrow> nat list" where
  "slice_positions n p = concat (map (\<lambda>(f, l). map (\<lambda>j. n - f - j) [0..<l]) p)"

definition insert_bit :: "bool \<Rightarrow> 'a::len word \<Rightarrow> 'a word" where
  "insert_bit b v = (let v = push_bit 1 v in if b then v + 1 else v)"

definition read_bits :: "'n::len word \<Rightarrow> slices \<Rightarrow> 'a::len word" where
  "read_bits bits p = fold (\<lambda>i. insert_bit (bit bits i)) (slice_positions LENGTH('n) p) 0"

definition insert_signed_bit :: "bool \<Rightarrow> 64 word \<Rightarrow> 64 word" where
  "insert_signed_bit b v = (let v = (v * 2) AND 0xFFFFFFFFFFFFFFFE in if b then v + 1 else v)"

definition read_signed_bits :: "'n::len word \<Rightarrow> slices \<Rightarrow> 64 word" where
  "read_signed_bits bits p =
     (let v = (if bit bits (LENGTH('n) - fst (hd p)) then 0 XOR 0xFFFFFFFFFFFFFFFF else 0 AND 0)
      in fold (\<lambda>i. insert_signed_bit (bit bits i)) (slice_positions LENGTH('n) p) v)"

definition read_bit :: "'n::len word \<Rightarrow> slices \<Rightarrow> bool" where
  "read_bit bits p = bit bits (LENGTH('n) - fst (hd p))"

subsection \<open>The value of a parameter\<close>

lemma int_bin_value_bound: "int (bin_value s) < 2 ^ length s"
  by (metis bin_value_bound of_nat_less_iff of_nat_numeral of_nat_power)

definition in_range :: "nat \<Rightarrow> slices \<Rightarrow> bool" where
  "in_range n p \<longleftrightarrow> p \<noteq> [] \<and> list_all (\<lambda>(f, l). 1 \<le> f \<and> 1 \<le> l \<and> f + l \<le> n + 1) p"

definition slices_length :: "slices \<Rightarrow> nat" where
  "slices_length p = sum_list (map snd p)"

definition slice_string :: "string \<Rightarrow> slices \<Rightarrow> string" where
  "slice_string s p = concat (map (\<lambda>(f, l). take l (drop (f - 1) s)) p)"

definition signed_value :: "string \<Rightarrow> int" where
  "signed_value s = (if char_bit (hd s) then int (bin_value s) - 2 ^ length s else int (bin_value s))"

lemma length_slice_string: "in_range (length s) p \<Longrightarrow> length (slice_string s p) = slices_length p"
proof -
  assume "in_range (length s) p"
  then have "list_all (\<lambda>(f, l). 1 \<le> f \<and> 1 \<le> l \<and> f + l \<le> length s + 1) p" by (simp add: in_range_def)
  then show ?thesis by (induction p) (auto simp: slice_string_def slices_length_def)
qed

lemma slice_string_positions:
  assumes "in_range LENGTH('n) p"
  shows "map (\<lambda>i. bit_char (bit bits i)) (slice_positions LENGTH('n) p) =
    slice_string (bitset_to_string (bits :: 'n::len word)) p"
proof -
  have sl: "map (\<lambda>j. bit_char (bit bits (LENGTH('n) - (f + j)))) [0..<l] =
      take l (drop (f - Suc 0) (bitset_to_string bits))" if "Suc 0 \<le> f" "f + l \<le> Suc LENGTH('n)" for f l
    using that by (intro nth_equalityI) (auto simp: bitset_to_string_def)
  have "list_all (\<lambda>(f, l). 1 \<le> f \<and> 1 \<le> l \<and> f + l \<le> LENGTH('n) + 1) p" using assms by (simp add: in_range_def)
  then show ?thesis
    by (induction p) (auto simp: slice_positions_def slice_string_def comp_def sl)
qed

lemma fold_insert_bit:
  "fold (\<lambda>i. insert_bit (bit bits i)) is (v :: 'a::len word) =
   v * 2 ^ length is + of_nat (bin_value (map (\<lambda>i. bit_char (bit bits i)) is))"
proof (induction "is" arbitrary: v)
  case Nil
  then show ?case by simp
next
  case (Cons i "is")
  then show ?case by (simp add: insert_bit_def Let_def push_bit_eq_mult algebra_simps)
qed

lemma even_mask: "(v * 2 :: 64 word) AND 0xFFFFFFFFFFFFFFFE = v * 2"
proof -
  have "(0xFFFFFFFFFFFFFFFE :: 64 word) = NOT 1" by simp
  moreover have "v * 2 = push_bit 1 v" by (simp add: push_bit_eq_mult)
  moreover have "push_bit 1 v AND NOT 1 = push_bit 1 v"
  proof (rule bit_word_eqI)
    fix n
    assume "n < LENGTH(64)"
    then show "bit (push_bit 1 v AND NOT 1) n = bit (push_bit 1 v) n"
      by (cases "n = 0") (auto simp: bit_simps bit_0 even_and_iff)
  qed
  ultimately show ?thesis by (simp only:)
qed

lemma fold_insert_signed_bit:
  "fold (\<lambda>i. insert_signed_bit (bit bits i)) is v =
   v * 2 ^ length is + of_nat (bin_value (map (\<lambda>i. bit_char (bit bits i)) is))"
proof (induction "is" arbitrary: v)
  case Nil
  then show ?case by simp
next
  case (Cons i "is")
  then show ?case by (simp add: insert_signed_bit_def Let_def even_mask algebra_simps)
qed

lemma length_slice_positions: "length (slice_positions n p) = slices_length p"
  by (induction p) (auto simp: slice_positions_def slices_length_def)

text \<open>The unsigned loop gives the binary value of the parameter when the accumulator is wide enough.\<close>

lemma read_bits_value:
  assumes "in_range LENGTH('n) p" and "slices_length p \<le> LENGTH('a)"
  shows "unat (read_bits (bits :: 'n::len word) p :: 'a::len word) = bin_value (slice_string (bitset_to_string bits) p)"
proof -
  let ?s = "slice_string (bitset_to_string bits) p"
  have "read_bits bits p = (of_nat (bin_value ?s) :: 'a word)"
    by (simp add: read_bits_def fold_insert_bit slice_string_positions [OF assms(1)])
  moreover have "bin_value ?s < 2 ^ LENGTH('a)"
  proof -
    have "bin_value ?s < 2 ^ length ?s" by (rule bin_value_bound)
    also have "\<dots> \<le> 2 ^ LENGTH('a)" using assms length_slice_string [of "bitset_to_string bits" p] by simp
    finally show ?thesis .
  qed
  ultimately show ?thesis by (simp add: unsigned_of_nat take_bit_nat_eq_self)
qed

lemma read_bit_value:
  assumes "in_range LENGTH('n) p"
  shows "read_bit (bits :: 'n::len word) p = char_bit (hd (slice_string (bitset_to_string bits) p))"
proof -
  obtain f l r where p: "p = (f, l) # r" using assms by (cases p) (auto simp: in_range_def)
  have "1 \<le> f" "1 \<le> l" "f + l \<le> LENGTH('n) + 1" using assms by (simp_all add: in_range_def p)
  then have "f - 1 < LENGTH('n)" "LENGTH('n) - 1 - (f - 1) = LENGTH('n) - f" "0 < l" "1 \<le> f" by linarith+
  then show ?thesis
    by (simp add: read_bit_def p slice_string_def hd_append hd_take hd_drop_conv_nth bitset_to_string_def)
qed

text \<open>The signed loop gives the two's complement value of the parameter.\<close>

lemma read_signed_bits_value:
  assumes r: "in_range LENGTH('n) p" and len: "slices_length p \<le> 63"
  shows "sint (read_signed_bits (bits :: 'n::len word) p) = signed_value (slice_string (bitset_to_string bits) p)"
proof -
  let ?s = "slice_string (bitset_to_string bits) p" and ?n = "slices_length p"
  have ls: "length ?s = ?n" using length_slice_string [of "bitset_to_string bits" p] r by simp
  have bv: "int (bin_value ?s) < 2 ^ ?n" using int_bin_value_bound [of ?s] unfolding ls .
  have p63: "(2::int) ^ ?n \<le> 2 ^ 63" using len by (intro power_increasing) auto
  have bounds: "- m \<le> (if c then b - q else b) \<and> (if c then b - q else b) < m" if "0 \<le> b" "b < q" "q \<le> m"
    for b q m :: int and c using that by simp
  have m1: "(0xFFFFFFFFFFFFFFFF :: 64 word) = - 1" by simp
  have w: "read_signed_bits bits p =
      (if read_bit bits p then (- 1) * 2 ^ ?n else 0) + of_nat (bin_value ?s)"
    unfolding read_signed_bits_def Let_def fold_insert_signed_bit slice_string_positions [OF r]
      length_slice_positions read_bit_def m1 by simp
  have "read_signed_bits bits p = word_of_int (signed_value ?s)"
    by (simp add: w signed_value_def read_bit_value [OF r] ls)
  moreover have "- (2 ^ 63) \<le> signed_value ?s" "signed_value ?s < 2 ^ 63"
    using bounds [of "int (bin_value ?s)" "2 ^ ?n" "2 ^ 63"] bv p63 unfolding signed_value_def ls by auto
  ultimately show ?thesis by (simp add: signed_of_int signed_take_bit_int_eq_self)
qed

lemma signed_value_bound:
  assumes "s \<noteq> []"
  shows "- (2 ^ (length s - 1)) \<le> signed_value s \<and> signed_value s < 2 ^ (length s - 1)"
proof -
  obtain c t where s: "s = c # t" using assms by (cases s) auto
  define b q where "b = int (bin_value t)" and "q = (2 :: int) ^ length t"
  have "0 \<le> b" "b < q" unfolding b_def q_def by (simp, rule int_bin_value_bound)
  moreover have "signed_value s = (if char_bit c then b - q else b)"
    by (simp add: signed_value_def s b_def q_def)
  ultimately show ?thesis by (simp add: s flip: q_def)
qed

text \<open>A field read into a word of its own width is the text of its slices.\<close>

lemma bit_insert_bit:
  "bit (insert_bit b (v :: 'a::len word)) k \<longleftrightarrow> k < LENGTH('a) \<and> (if k = 0 then b else bit v (k - 1))"
proof -
  have "push_bit 1 v OR 1 = push_bit 1 v + 1"
    by (rule disjunctive_add [symmetric]) (simp only: bit_push_bit_iff bit_1_iff, auto)
  then have "insert_bit b v = (if b then push_bit 1 v OR 1 else push_bit 1 v)"
    unfolding insert_bit_def Let_def by (cases b) simp_all
  then show ?thesis
    by (auto simp add: bit_or_iff bit_push_bit_iff bit_1_iff simp del: push_bit_Suc push_bit_numeral dest: bit_imp_le_length)
qed

lemma bit_fold_insert_bit:
  "bit (fold (\<lambda>i. insert_bit (bit bits i)) is (v :: 'a::len word)) k \<longleftrightarrow>
   k < LENGTH('a) \<and> (if k < length is then bit bits (is ! (length is - 1 - k)) else bit v (k - length is))"
proof (induction "is" arbitrary: v k)
  case Nil
  then show ?case by (auto dest: bit_imp_le_length)
next
  case (Cons i "is")
  then show ?case
    by (auto simp: bit_insert_bit nth_Cons' dest: bit_imp_le_length)
qed

lemma bitset_to_string_read_bits:
  assumes "in_range LENGTH('n) p" and "slices_length p = LENGTH('a)"
  shows "bitset_to_string (read_bits (bits :: 'n::len word) p :: 'a::len word) = slice_string (bitset_to_string bits) p"
proof -
  let ?is = "slice_positions LENGTH('n) p"
  have len: "length ?is = LENGTH('a)" using assms(2) by (simp add: length_slice_positions)
  have "bitset_to_string (read_bits bits p :: 'a word) = map (\<lambda>i. bit_char (bit bits i)) ?is"
    by (rule nth_equalityI) (auto simp: bitset_to_string_def len read_bits_def bit_fold_insert_bit)
  then show ?thesis by (simp add: slice_string_positions [OF assms(1)])
qed

lemma bitset_to_string_inj: "bitset_to_string v = bitset_to_string w \<Longrightarrow> v = w"
  by (metis bitset_string_roundtrip sum.inject(2))

text \<open>The signed loop of the F/NAV message starts from 60 ones, which four shifts turn into a full sign extension.\<close>

definition read_short_signed_bits :: "'n::len word \<Rightarrow> slices \<Rightarrow> 64 word" where
  "read_short_signed_bits bits p =
     (let v = (if bit bits (LENGTH('n) - fst (hd p)) then 0 XOR 0x0FFFFFFFFFFFFFFF else 0 AND 0)
      in fold (\<lambda>i. insert_signed_bit (bit bits i)) (slice_positions LENGTH('n) p) v)"

lemma short_sign_extension:
  assumes "4 \<le> slices_length p"
  shows "read_short_signed_bits bits p = read_signed_bits bits p"
proof -
  obtain k where k: "slices_length p = 4 + k" using assms by (metis le_Suc_ex)
  have "(0x0FFFFFFFFFFFFFFF :: 64 word) * 2 ^ 4 = 0xFFFFFFFFFFFFFFFF * 2 ^ 4" by simp
  then have eq: "(0x0FFFFFFFFFFFFFFF :: 64 word) * 2 ^ slices_length p = 0xFFFFFFFFFFFFFFFF * 2 ^ slices_length p"
    unfolding k power_add mult.assoc [symmetric] by (rule arg_cong)
  show ?thesis
    unfolding read_short_signed_bits_def read_signed_bits_def Let_def fold_insert_signed_bit length_slice_positions
    by (cases "bit bits (LENGTH('a) - fst (hd p))") (simp_all only: if_True if_False xor.left_neutral eq)
qed

subsection \<open>The contract of a reader\<close>

text \<open>
  What a decoder relies on: the message has a text of binary digits, and the two readers return
  the unsigned and the two's complement value of the slices of that text. \<open>min_signed\<close> is the length
  from which on the signed reader can be trusted: the F/NAV reader extends the sign by 60 bits only.
\<close>

locale nav_reader =
  fixes width :: nat
    and min_signed :: nat
    and text_of :: "'m \<Rightarrow> string"
    and read_u :: "'m \<Rightarrow> slices \<Rightarrow> 64 word"
    and read_s :: "'m \<Rightarrow> slices \<Rightarrow> 64 word"
  assumes text_length: "length (text_of m) = width"
    and read_u_value: "in_range width p \<Longrightarrow> slices_length p \<le> 64 \<Longrightarrow>
      unat (read_u m p) = bin_value (slice_string (text_of m) p)"
    and read_s_value: "in_range width p \<Longrightarrow> min_signed \<le> slices_length p \<Longrightarrow> slices_length p \<le> 63 \<Longrightarrow>
      sint (read_s m p) = signed_value (slice_string (text_of m) p)"
begin

lemma slice_length: "in_range width p \<Longrightarrow> length (slice_string (text_of m) p) = slices_length p"
  using length_slice_string [of "text_of m" p] text_length by simp

lemma read_u_int:
  "in_range width p \<Longrightarrow> slices_length p \<le> 64 \<Longrightarrow> uint (read_u m p) = int (bin_value (slice_string (text_of m) p))"
  by (simp add: uint_nat read_u_value)

lemma read_u_bound:
  assumes "in_range width p" and "slices_length p \<le> 64"
  shows "uint (read_u m p) < 2 ^ slices_length p"
  using int_bin_value_bound [of "slice_string (text_of m) p"]
  unfolding read_u_int [OF assms] slice_length [OF assms(1)] .

lemma read_u_int32:
  assumes "in_range width p" and "slices_length p \<le> 31"
  shows "to_int32 (uint (read_u m p)) = int (bin_value (slice_string (text_of m) p))"
    and "0 \<le> to_int32 (uint (read_u m p))" and "to_int32 (uint (read_u m p)) < 2 ^ slices_length p"
proof -
  have b: "uint (read_u m p) < 2 ^ slices_length p" using assms by (intro read_u_bound) auto
  also have "(2::int) ^ slices_length p \<le> 2 ^ 31" using assms(2) by (intro power_increasing) auto
  finally have "uint (read_u m p) < 2 ^ 31" .
  moreover have "0 \<le> uint (read_u m p)" by simp
  ultimately have "to_int32 (uint (read_u m p)) = uint (read_u m p)" by (intro to_int32_id) linarith+
  then show "to_int32 (uint (read_u m p)) = int (bin_value (slice_string (text_of m) p))"
    "0 \<le> to_int32 (uint (read_u m p))" "to_int32 (uint (read_u m p)) < 2 ^ slices_length p"
    using b assms by (simp_all add: read_u_int)
qed

lemma read_s_bound:
  assumes "in_range width p" and "min_signed \<le> slices_length p" and "slices_length p \<le> 63"
  shows "- (2 ^ (slices_length p - 1)) \<le> sint (read_s m p)" and "sint (read_s m p) < 2 ^ (slices_length p - 1)"
proof -
  have "0 < slices_length p" using assms(1) by (cases p) (auto simp: in_range_def slices_length_def)
  then have "slice_string (text_of m) p \<noteq> []" using slice_length [OF assms(1), of m] by auto
  from signed_value_bound [OF this]
  show "- (2 ^ (slices_length p - 1)) \<le> sint (read_s m p)" "sint (read_s m p) < 2 ^ (slices_length p - 1)"
    by (simp_all add: read_s_value [OF assms] slice_length [OF assms(1)])
qed

end

end
