(* ===== verification/Galileo_INAV.thy ===== *)
theory Galileo_INAV
  imports Math_Constants Nav_Bits
begin

section \<open>Layout of the Galileo I/NAV message\<close>

text \<open>
  The constants of \<^verbatim>\<open>core/system_parameters/Galileo_INAV.h\<close>: page sizes, synchronisation patterns,
  and for every parameter its slices and its scale factor. The lemmas show that the fields of
  each word type lie inside the 128 bits of a word and do not overlap.
\<close>

definition GALILEO_INAV_PAGE_PART_WITH_PREABLE_SECONDS :: double where
  "GALILEO_INAV_PAGE_PART_WITH_PREABLE_SECONDS = to_double (204 / 100)"

definition GALILEO_INAV_PAGE_SYMBOLS :: nat where
  "GALILEO_INAV_PAGE_SYMBOLS = 500"

definition GALILEO_INAV_PREAMBLE_LENGTH_BITS :: nat where
  "GALILEO_INAV_PREAMBLE_LENGTH_BITS = 10"

definition GALILEO_INAV_PREAMBLE_PERIOD_SYMBOLS :: nat where
  "GALILEO_INAV_PREAMBLE_PERIOD_SYMBOLS = 250"

definition GALILEO_INAV_PAGE_PART_SYMBOLS :: nat where
  "GALILEO_INAV_PAGE_PART_SYMBOLS = 250"

definition GALILEO_INAV_PAGE_PART_SECONDS :: nat where
  "GALILEO_INAV_PAGE_PART_SECONDS = 1"

definition GALILEO_INAV_PAGE_PART_MS :: nat where
  "GALILEO_INAV_PAGE_PART_MS = 1000"

definition GALILEO_INAV_PAGE_SECONDS :: nat where
  "GALILEO_INAV_PAGE_SECONDS = 2"

definition GALILEO_INAV_INTERLEAVER_ROWS :: nat where
  "GALILEO_INAV_INTERLEAVER_ROWS = 8"

definition GALILEO_INAV_INTERLEAVER_COLS :: nat where
  "GALILEO_INAV_INTERLEAVER_COLS = 30"

definition GALILEO_TELEMETRY_RATE_BITS_SECOND :: nat where
  "GALILEO_TELEMETRY_RATE_BITS_SECOND = 250"

definition GALILEO_PAGE_TYPE_BITS :: nat where
  "GALILEO_PAGE_TYPE_BITS = 6"

definition GALILEO_DATA_JK_BITS :: nat where
  "GALILEO_DATA_JK_BITS = 128"

definition GALILEO_DATA_FRAME_BITS :: nat where
  "GALILEO_DATA_FRAME_BITS = 196"

definition GALILEO_DATA_FRAME_BYTES :: nat where
  "GALILEO_DATA_FRAME_BYTES = 25"

definition GALILEO_INAV_PREAMBLE :: string where
  "GALILEO_INAV_PREAMBLE = ''0101100000''"

definition TYPE_BIT :: slices where
  "TYPE_BIT = [(1, 6)]"

definition PAGE_TYPE_BIT :: slices where
  "PAGE_TYPE_BIT = [(1, 6)]"

definition IOD_NAV_1_BIT :: slices where
  "IOD_NAV_1_BIT = [(7, 10)]"

definition T0_E_1_BIT :: slices where
  "T0_E_1_BIT = [(17, 14)]"

definition T0E_1_LSB :: int where
  "T0E_1_LSB = 60"

definition M0_1_BIT :: slices where
  "M0_1_BIT = [(31, 32)]"

definition M0_1_LSB :: double where
  "M0_1_LSB = PI_TWO_N31"

definition E_1_BIT :: slices where
  "E_1_BIT = [(63, 32)]"

definition E_1_LSB :: double where
  "E_1_LSB = TWO_N33"

definition A_1_BIT :: slices where
  "A_1_BIT = [(95, 32)]"

definition A_1_LSB_GAL :: double where
  "A_1_LSB_GAL = TWO_N19"

definition IOD_NAV_2_BIT :: slices where
  "IOD_NAV_2_BIT = [(7, 10)]"

definition OMEGA_0_2_BIT :: slices where
  "OMEGA_0_2_BIT = [(17, 32)]"

definition OMEGA_0_2_LSB :: double where
  "OMEGA_0_2_LSB = PI_TWO_N31"

definition I_0_2_BIT :: slices where
  "I_0_2_BIT = [(49, 32)]"

definition I_0_2_LSB :: double where
  "I_0_2_LSB = PI_TWO_N31"

definition OMEGA_2_BIT :: slices where
  "OMEGA_2_BIT = [(81, 32)]"

definition OMEGA_2_LSB :: double where
  "OMEGA_2_LSB = PI_TWO_N31"

definition I_DOT_2_BIT :: slices where
  "I_DOT_2_BIT = [(113, 14)]"

definition I_DOT_2_LSB :: double where
  "I_DOT_2_LSB = PI_TWO_N43"

definition IOD_NAV_3_BIT :: slices where
  "IOD_NAV_3_BIT = [(7, 10)]"

definition OMEGA_DOT_3_BIT :: slices where
  "OMEGA_DOT_3_BIT = [(17, 24)]"

definition OMEGA_DOT_3_LSB :: double where
  "OMEGA_DOT_3_LSB = PI_TWO_N43"

definition DELTA_N_3_BIT :: slices where
  "DELTA_N_3_BIT = [(41, 16)]"

definition DELTA_N_3_LSB :: double where
  "DELTA_N_3_LSB = PI_TWO_N43"

definition C_UC_3_BIT :: slices where
  "C_UC_3_BIT = [(57, 16)]"

definition C_UC_3_LSB :: double where
  "C_UC_3_LSB = TWO_N29"

definition C_US_3_BIT :: slices where
  "C_US_3_BIT = [(73, 16)]"

definition C_US_3_LSB :: double where
  "C_US_3_LSB = TWO_N29"

definition C_RC_3_BIT :: slices where
  "C_RC_3_BIT = [(89, 16)]"

definition C_RC_3_LSB :: double where
  "C_RC_3_LSB = TWO_N5"

definition C_RS_3_BIT :: slices where
  "C_RS_3_BIT = [(105, 16)]"

definition C_RS_3_LSB :: double where
  "C_RS_3_LSB = TWO_N5"

definition SISA_3_BIT :: slices where
  "SISA_3_BIT = [(121, 8)]"

definition IOD_NAV_4_BIT :: slices where
  "IOD_NAV_4_BIT = [(7, 10)]"

definition SV_ID_PRN_4_BIT :: slices where
  "SV_ID_PRN_4_BIT = [(17, 6)]"

definition C_IC_4_BIT :: slices where
  "C_IC_4_BIT = [(23, 16)]"

definition C_IC_4_LSB :: double where
  "C_IC_4_LSB = TWO_N29"

definition C_IS_4_BIT :: slices where
  "C_IS_4_BIT = [(39, 16)]"

definition C_IS_4_LSB :: double where
  "C_IS_4_LSB = TWO_N29"

definition T0C_4_BIT :: slices where
  "T0C_4_BIT = [(55, 14)]"

definition T0C_4_LSB :: int where
  "T0C_4_LSB = 60"

definition AF0_4_BIT :: slices where
  "AF0_4_BIT = [(69, 31)]"

definition AF0_4_LSB :: double where
  "AF0_4_LSB = TWO_N34"

definition AF1_4_BIT :: slices where
  "AF1_4_BIT = [(100, 21)]"

definition AF1_4_LSB :: double where
  "AF1_4_LSB = TWO_N46"

definition AF2_4_BIT :: slices where
  "AF2_4_BIT = [(121, 6)]"

definition AF2_4_LSB :: double where
  "AF2_4_LSB = TWO_N59"

definition SPARE_4_BIT :: slices where
  "SPARE_4_BIT = [(127, 2)]"

definition AI0_5_BIT :: slices where
  "AI0_5_BIT = [(7, 11)]"

definition AI0_5_LSB :: double where
  "AI0_5_LSB = TWO_N2"

definition AI1_5_BIT :: slices where
  "AI1_5_BIT = [(18, 11)]"

definition AI1_5_LSB :: double where
  "AI1_5_LSB = TWO_N8"

definition AI2_5_BIT :: slices where
  "AI2_5_BIT = [(29, 14)]"

definition AI2_5_LSB :: double where
  "AI2_5_LSB = TWO_N15"

definition REGION1_5_BIT :: slices where
  "REGION1_5_BIT = [(43, 1)]"

definition REGION2_5_BIT :: slices where
  "REGION2_5_BIT = [(44, 1)]"

definition REGION3_5_BIT :: slices where
  "REGION3_5_BIT = [(45, 1)]"

definition REGION4_5_BIT :: slices where
  "REGION4_5_BIT = [(46, 1)]"

definition REGION5_5_BIT :: slices where
  "REGION5_5_BIT = [(47, 1)]"

definition BGD_E1_E5A_5_BIT :: slices where
  "BGD_E1_E5A_5_BIT = [(48, 10)]"

definition BGD_E1_E5A_5_LSB :: double where
  "BGD_E1_E5A_5_LSB = TWO_N32"

definition BGD_E1_E5B_5_BIT :: slices where
  "BGD_E1_E5B_5_BIT = [(58, 10)]"

definition BGD_E1_E5B_5_LSB :: double where
  "BGD_E1_E5B_5_LSB = TWO_N32"

definition E5B_HS_5_BIT :: slices where
  "E5B_HS_5_BIT = [(68, 2)]"

definition E1_B_HS_5_BIT :: slices where
  "E1_B_HS_5_BIT = [(70, 2)]"

definition E5B_DVS_5_BIT :: slices where
  "E5B_DVS_5_BIT = [(72, 1)]"

definition E1_B_DVS_5_BIT :: slices where
  "E1_B_DVS_5_BIT = [(73, 1)]"

definition WN_5_BIT :: slices where
  "WN_5_BIT = [(74, 12)]"

definition TOW_5_BIT :: slices where
  "TOW_5_BIT = [(86, 20)]"

definition SPARE_5_BIT :: slices where
  "SPARE_5_BIT = [(106, 23)]"

definition A0_6_BIT :: slices where
  "A0_6_BIT = [(7, 32)]"

definition A0_6_LSB :: double where
  "A0_6_LSB = TWO_N30"

definition A1_6_BIT :: slices where
  "A1_6_BIT = [(39, 24)]"

definition A1_6_LSB :: double where
  "A1_6_LSB = TWO_N50"

definition DELTA_T_LS_6_BIT :: slices where
  "DELTA_T_LS_6_BIT = [(63, 8)]"

definition T0T_6_BIT :: slices where
  "T0T_6_BIT = [(71, 8)]"

definition T0T_6_LSB :: int where
  "T0T_6_LSB = 3600"

definition W_NOT_6_BIT :: slices where
  "W_NOT_6_BIT = [(79, 8)]"

definition WN_LSF_6_BIT :: slices where
  "WN_LSF_6_BIT = [(87, 8)]"

definition DN_6_BIT :: slices where
  "DN_6_BIT = [(95, 3)]"

definition DELTA_T_LSF_6_BIT :: slices where
  "DELTA_T_LSF_6_BIT = [(98, 8)]"

definition TOW_6_BIT :: slices where
  "TOW_6_BIT = [(106, 20)]"

definition IOD_A_7_BIT :: slices where
  "IOD_A_7_BIT = [(7, 4)]"

definition WN_A_7_BIT :: slices where
  "WN_A_7_BIT = [(11, 2)]"

definition T0A_7_BIT :: slices where
  "T0A_7_BIT = [(13, 10)]"

definition T0A_7_LSB :: int where
  "T0A_7_LSB = 600"

definition SVI_D1_7_BIT :: slices where
  "SVI_D1_7_BIT = [(23, 6)]"

definition DELTA_A_7_BIT :: slices where
  "DELTA_A_7_BIT = [(29, 13)]"

definition DELTA_A_7_LSB :: double where
  "DELTA_A_7_LSB = TWO_N9"

definition E_7_BIT :: slices where
  "E_7_BIT = [(42, 11)]"

definition E_7_LSB :: double where
  "E_7_LSB = TWO_N16"

definition OMEGA_7_BIT :: slices where
  "OMEGA_7_BIT = [(53, 16)]"

definition OMEGA_7_LSB :: double where
  "OMEGA_7_LSB = TWO_N15"

definition DELTA_I_7_BIT :: slices where
  "DELTA_I_7_BIT = [(69, 11)]"

definition DELTA_I_7_LSB :: double where
  "DELTA_I_7_LSB = TWO_N14"

definition OMEGA0_7_BIT :: slices where
  "OMEGA0_7_BIT = [(80, 16)]"

definition OMEGA0_7_LSB :: double where
  "OMEGA0_7_LSB = TWO_N15"

definition OMEGA_DOT_7_BIT :: slices where
  "OMEGA_DOT_7_BIT = [(96, 11)]"

definition OMEGA_DOT_7_LSB :: double where
  "OMEGA_DOT_7_LSB = TWO_N33"

definition M0_7_BIT :: slices where
  "M0_7_BIT = [(107, 16)]"

definition M0_7_LSB :: double where
  "M0_7_LSB = TWO_N15"

definition IOD_A_8_BIT :: slices where
  "IOD_A_8_BIT = [(7, 4)]"

definition AF0_8_BIT :: slices where
  "AF0_8_BIT = [(11, 16)]"

definition AF0_8_LSB :: double where
  "AF0_8_LSB = TWO_N19"

definition AF1_8_BIT :: slices where
  "AF1_8_BIT = [(27, 13)]"

definition AF1_8_LSB :: double where
  "AF1_8_LSB = TWO_N38"

definition E5B_HS_8_BIT :: slices where
  "E5B_HS_8_BIT = [(40, 2)]"

definition E1_B_HS_8_BIT :: slices where
  "E1_B_HS_8_BIT = [(42, 2)]"

definition SVI_D2_8_BIT :: slices where
  "SVI_D2_8_BIT = [(44, 6)]"

definition DELTA_A_8_BIT :: slices where
  "DELTA_A_8_BIT = [(50, 13)]"

definition DELTA_A_8_LSB :: double where
  "DELTA_A_8_LSB = TWO_N9"

definition E_8_BIT :: slices where
  "E_8_BIT = [(63, 11)]"

definition E_8_LSB :: double where
  "E_8_LSB = TWO_N16"

definition OMEGA_8_BIT :: slices where
  "OMEGA_8_BIT = [(74, 16)]"

definition OMEGA_8_LSB :: double where
  "OMEGA_8_LSB = TWO_N15"

definition DELTA_I_8_BIT :: slices where
  "DELTA_I_8_BIT = [(90, 11)]"

definition DELTA_I_8_LSB :: double where
  "DELTA_I_8_LSB = TWO_N14"

definition OMEGA0_8_BIT :: slices where
  "OMEGA0_8_BIT = [(101, 16)]"

definition OMEGA0_8_LSB :: double where
  "OMEGA0_8_LSB = TWO_N15"

definition OMEGA_DOT_8_BIT :: slices where
  "OMEGA_DOT_8_BIT = [(117, 11)]"

definition OMEGA_DOT_8_LSB :: double where
  "OMEGA_DOT_8_LSB = TWO_N33"

definition IOD_A_9_BIT :: slices where
  "IOD_A_9_BIT = [(7, 4)]"

definition WN_A_9_BIT :: slices where
  "WN_A_9_BIT = [(11, 2)]"

definition T0A_9_BIT :: slices where
  "T0A_9_BIT = [(13, 10)]"

definition T0A_9_LSB :: int where
  "T0A_9_LSB = 600"

definition M0_9_BIT :: slices where
  "M0_9_BIT = [(23, 16)]"

definition M0_9_LSB :: double where
  "M0_9_LSB = TWO_N15"

definition AF0_9_BIT :: slices where
  "AF0_9_BIT = [(39, 16)]"

definition AF0_9_LSB :: double where
  "AF0_9_LSB = TWO_N19"

definition AF1_9_BIT :: slices where
  "AF1_9_BIT = [(55, 13)]"

definition AF1_9_LSB :: double where
  "AF1_9_LSB = TWO_N38"

definition E5B_HS_9_BIT :: slices where
  "E5B_HS_9_BIT = [(68, 2)]"

definition E1_B_HS_9_BIT :: slices where
  "E1_B_HS_9_BIT = [(70, 2)]"

definition SVI_D3_9_BIT :: slices where
  "SVI_D3_9_BIT = [(72, 6)]"

definition DELTA_A_9_BIT :: slices where
  "DELTA_A_9_BIT = [(78, 13)]"

definition DELTA_A_9_LSB :: double where
  "DELTA_A_9_LSB = TWO_N9"

definition E_9_BIT :: slices where
  "E_9_BIT = [(91, 11)]"

definition E_9_LSB :: double where
  "E_9_LSB = TWO_N16"

definition OMEGA_9_BIT :: slices where
  "OMEGA_9_BIT = [(102, 16)]"

definition OMEGA_9_LSB :: double where
  "OMEGA_9_LSB = TWO_N15"

definition DELTA_I_9_BIT :: slices where
  "DELTA_I_9_BIT = [(118, 11)]"

definition DELTA_I_9_LSB :: double where
  "DELTA_I_9_LSB = TWO_N14"

definition IOD_A_10_BIT :: slices where
  "IOD_A_10_BIT = [(7, 4)]"

definition OMEGA0_10_BIT :: slices where
  "OMEGA0_10_BIT = [(11, 16)]"

definition OMEGA0_10_LSB :: double where
  "OMEGA0_10_LSB = TWO_N15"

definition OMEGA_DOT_10_BIT :: slices where
  "OMEGA_DOT_10_BIT = [(27, 11)]"

definition OMEGA_DOT_10_LSB :: double where
  "OMEGA_DOT_10_LSB = TWO_N33"

definition M0_10_BIT :: slices where
  "M0_10_BIT = [(38, 16)]"

definition M0_10_LSB :: double where
  "M0_10_LSB = TWO_N15"

definition AF0_10_BIT :: slices where
  "AF0_10_BIT = [(54, 16)]"

definition AF0_10_LSB :: double where
  "AF0_10_LSB = TWO_N19"

definition AF1_10_BIT :: slices where
  "AF1_10_BIT = [(70, 13)]"

definition AF1_10_LSB :: double where
  "AF1_10_LSB = TWO_N38"

definition E5B_HS_10_BIT :: slices where
  "E5B_HS_10_BIT = [(83, 2)]"

definition E1_B_HS_10_BIT :: slices where
  "E1_B_HS_10_BIT = [(85, 2)]"

definition A_0_G_10_BIT :: slices where
  "A_0_G_10_BIT = [(87, 16)]"

definition A_0G_10_LSB :: double where
  "A_0G_10_LSB = TWO_N35"

definition A_1_G_10_BIT :: slices where
  "A_1_G_10_BIT = [(103, 12)]"

definition A_1G_10_LSB :: double where
  "A_1G_10_LSB = TWO_N51"

definition T_0_G_10_BIT :: slices where
  "T_0_G_10_BIT = [(115, 8)]"

definition T_0_G_10_LSB :: int where
  "T_0_G_10_LSB = 3600"

definition WN_0_G_10_BIT :: slices where
  "WN_0_G_10_BIT = [(123, 6)]"

definition CED_DeltaAred_LSB :: double where
  "CED_DeltaAred_LSB = TWO_P8"

definition CED_DeltaAred_BIT :: slices where
  "CED_DeltaAred_BIT = [(7, 5)]"

definition CED_exred_LSB :: double where
  "CED_exred_LSB = TWO_N22"

definition CED_exred_BIT :: slices where
  "CED_exred_BIT = [(12, 13)]"

definition CED_eyred_LSB :: double where
  "CED_eyred_LSB = TWO_N22"

definition CED_eyred_BIT :: slices where
  "CED_eyred_BIT = [(25, 13)]"

definition CED_Deltai0red_LSB :: double where
  "CED_Deltai0red_LSB = TWO_N22"

definition CED_Deltai0red_BIT :: slices where
  "CED_Deltai0red_BIT = [(38, 17)]"

definition CED_Omega0red_LSB :: double where
  "CED_Omega0red_LSB = TWO_N22"

definition CED_Omega0red_BIT :: slices where
  "CED_Omega0red_BIT = [(55, 23)]"

definition CED_lambda0red_LSB :: double where
  "CED_lambda0red_LSB = TWO_N22"

definition CED_lambda0red_BIT :: slices where
  "CED_lambda0red_BIT = [(78, 23)]"

definition CED_af0red_LSB :: double where
  "CED_af0red_LSB = TWO_N26"

definition CED_af0red_BIT :: slices where
  "CED_af0red_BIT = [(101, 22)]"

definition CED_af1red_LSB :: double where
  "CED_af1red_LSB = TWO_N35"

definition CED_af1red_BIT :: slices where
  "CED_af1red_BIT = [(123, 6)]"

definition RS_IODNAV_LSBS :: slices where
  "RS_IODNAV_LSBS = [(15, 2)]"

definition INAV_RS_SUBVECTOR_LENGTH :: nat where
  "INAV_RS_SUBVECTOR_LENGTH = 15"

definition INAV_RS_PARITY_VECTOR_LENGTH :: nat where
  "INAV_RS_PARITY_VECTOR_LENGTH = 60"

definition INAV_RS_INFO_VECTOR_LENGTH :: nat where
  "INAV_RS_INFO_VECTOR_LENGTH = 58"

definition INAV_RS_BUFFER_LENGTH :: nat where
  "INAV_RS_BUFFER_LENGTH = 118"

definition BITS_IN_OCTET :: nat where
  "BITS_IN_OCTET = 8"

definition FIRST_RS_BIT :: nat where
  "FIRST_RS_BIT = 7"

definition FIRST_RS_BIT_AFTER_IODNAV :: nat where
  "FIRST_RS_BIT_AFTER_IODNAV = 17"

definition TIME_0_BIT :: slices where
  "TIME_0_BIT = [(7, 2)]"

definition WN_0_BIT :: slices where
  "WN_0_BIT = [(97, 12)]"

definition TOW_0_BIT :: slices where
  "TOW_0_BIT = [(109, 20)]"

definition GALILEO_INAV_PLAIN_SSP1 :: string where
  "GALILEO_INAV_PLAIN_SSP1 = ''00000100''"

definition GALILEO_INAV_PLAIN_SSP2 :: string where
  "GALILEO_INAV_PLAIN_SSP2 = ''00101011''"

definition GALILEO_INAV_PLAIN_SSP3 :: string where
  "GALILEO_INAV_PLAIN_SSP3 = ''00101111''"

definition GALILEO_INAV_ENCODED_SSP1 :: string where
  "GALILEO_INAV_ENCODED_SSP1 = ''1110100100100101''"

definition GALILEO_INAV_ENCODED_SSP2 :: string where
  "GALILEO_INAV_ENCODED_SSP2 = ''0110110001001110''"

definition GALILEO_INAV_ENCODED_SSP3 :: string where
  "GALILEO_INAV_ENCODED_SSP3 = ''1101000000111110''"

lemmas inav_bits =
  TYPE_BIT_def PAGE_TYPE_BIT_def IOD_NAV_1_BIT_def T0_E_1_BIT_def M0_1_BIT_def E_1_BIT_def
  A_1_BIT_def IOD_NAV_2_BIT_def OMEGA_0_2_BIT_def I_0_2_BIT_def OMEGA_2_BIT_def
  I_DOT_2_BIT_def IOD_NAV_3_BIT_def OMEGA_DOT_3_BIT_def DELTA_N_3_BIT_def C_UC_3_BIT_def
  C_US_3_BIT_def C_RC_3_BIT_def C_RS_3_BIT_def SISA_3_BIT_def IOD_NAV_4_BIT_def
  SV_ID_PRN_4_BIT_def C_IC_4_BIT_def C_IS_4_BIT_def T0C_4_BIT_def AF0_4_BIT_def AF1_4_BIT_def
  AF2_4_BIT_def SPARE_4_BIT_def AI0_5_BIT_def AI1_5_BIT_def AI2_5_BIT_def REGION1_5_BIT_def
  REGION2_5_BIT_def REGION3_5_BIT_def REGION4_5_BIT_def REGION5_5_BIT_def BGD_E1_E5A_5_BIT_def
  BGD_E1_E5B_5_BIT_def E5B_HS_5_BIT_def E1_B_HS_5_BIT_def E5B_DVS_5_BIT_def E1_B_DVS_5_BIT_def
  WN_5_BIT_def TOW_5_BIT_def SPARE_5_BIT_def A0_6_BIT_def A1_6_BIT_def DELTA_T_LS_6_BIT_def
  T0T_6_BIT_def W_NOT_6_BIT_def WN_LSF_6_BIT_def DN_6_BIT_def DELTA_T_LSF_6_BIT_def
  TOW_6_BIT_def IOD_A_7_BIT_def WN_A_7_BIT_def T0A_7_BIT_def SVI_D1_7_BIT_def
  DELTA_A_7_BIT_def E_7_BIT_def OMEGA_7_BIT_def DELTA_I_7_BIT_def OMEGA0_7_BIT_def
  OMEGA_DOT_7_BIT_def M0_7_BIT_def IOD_A_8_BIT_def AF0_8_BIT_def AF1_8_BIT_def
  E5B_HS_8_BIT_def E1_B_HS_8_BIT_def SVI_D2_8_BIT_def DELTA_A_8_BIT_def E_8_BIT_def
  OMEGA_8_BIT_def DELTA_I_8_BIT_def OMEGA0_8_BIT_def OMEGA_DOT_8_BIT_def IOD_A_9_BIT_def
  WN_A_9_BIT_def T0A_9_BIT_def M0_9_BIT_def AF0_9_BIT_def AF1_9_BIT_def E5B_HS_9_BIT_def
  E1_B_HS_9_BIT_def SVI_D3_9_BIT_def DELTA_A_9_BIT_def E_9_BIT_def OMEGA_9_BIT_def
  DELTA_I_9_BIT_def IOD_A_10_BIT_def OMEGA0_10_BIT_def OMEGA_DOT_10_BIT_def M0_10_BIT_def
  AF0_10_BIT_def AF1_10_BIT_def E5B_HS_10_BIT_def E1_B_HS_10_BIT_def A_0_G_10_BIT_def
  A_1_G_10_BIT_def T_0_G_10_BIT_def WN_0_G_10_BIT_def CED_DeltaAred_BIT_def CED_exred_BIT_def
  CED_eyred_BIT_def CED_Deltai0red_BIT_def CED_Omega0red_BIT_def CED_lambda0red_BIT_def
  CED_af0red_BIT_def CED_af1red_BIT_def RS_IODNAV_LSBS_def TIME_0_BIT_def WN_0_BIT_def
  TOW_0_BIT_def

lemmas inav_ints =
  GALILEO_INAV_PAGE_SYMBOLS_def GALILEO_INAV_PREAMBLE_LENGTH_BITS_def
  GALILEO_INAV_PREAMBLE_PERIOD_SYMBOLS_def GALILEO_INAV_PAGE_PART_SYMBOLS_def
  GALILEO_INAV_PAGE_PART_SECONDS_def GALILEO_INAV_PAGE_PART_MS_def
  GALILEO_INAV_PAGE_SECONDS_def GALILEO_INAV_INTERLEAVER_ROWS_def
  GALILEO_INAV_INTERLEAVER_COLS_def GALILEO_TELEMETRY_RATE_BITS_SECOND_def
  GALILEO_PAGE_TYPE_BITS_def GALILEO_DATA_JK_BITS_def GALILEO_DATA_FRAME_BITS_def
  GALILEO_DATA_FRAME_BYTES_def T0E_1_LSB_def T0C_4_LSB_def T0T_6_LSB_def T0A_7_LSB_def
  T0A_9_LSB_def T_0_G_10_LSB_def INAV_RS_SUBVECTOR_LENGTH_def INAV_RS_PARITY_VECTOR_LENGTH_def
  INAV_RS_INFO_VECTOR_LENGTH_def INAV_RS_BUFFER_LENGTH_def BITS_IN_OCTET_def FIRST_RS_BIT_def
  FIRST_RS_BIT_AFTER_IODNAV_def

text \<open>The parameters of each word type, in the order of the message.\<close>

definition inav_layout :: "nat \<Rightarrow> slices list" where
  "inav_layout k =
    (if k = 0 then
      [TIME_0_BIT, WN_0_BIT, TOW_0_BIT]
     else if k = 1 then
      [IOD_NAV_1_BIT, T0_E_1_BIT, M0_1_BIT, E_1_BIT, A_1_BIT]
     else if k = 2 then
      [IOD_NAV_2_BIT, OMEGA_0_2_BIT, I_0_2_BIT, OMEGA_2_BIT, I_DOT_2_BIT]
     else if k = 3 then
      [IOD_NAV_3_BIT, OMEGA_DOT_3_BIT, DELTA_N_3_BIT, C_UC_3_BIT, C_US_3_BIT, C_RC_3_BIT,
       C_RS_3_BIT, SISA_3_BIT]
     else if k = 4 then
      [IOD_NAV_4_BIT, SV_ID_PRN_4_BIT, C_IC_4_BIT, C_IS_4_BIT, T0C_4_BIT, AF0_4_BIT,
       AF1_4_BIT, AF2_4_BIT, SPARE_4_BIT]
     else if k = 5 then
      [AI0_5_BIT, AI1_5_BIT, AI2_5_BIT, REGION1_5_BIT, REGION2_5_BIT, REGION3_5_BIT,
       REGION4_5_BIT, REGION5_5_BIT, BGD_E1_E5A_5_BIT, BGD_E1_E5B_5_BIT, E5B_HS_5_BIT,
       E1_B_HS_5_BIT, E5B_DVS_5_BIT, E1_B_DVS_5_BIT, WN_5_BIT, TOW_5_BIT, SPARE_5_BIT]
     else if k = 6 then
      [A0_6_BIT, A1_6_BIT, DELTA_T_LS_6_BIT, T0T_6_BIT, W_NOT_6_BIT, WN_LSF_6_BIT, DN_6_BIT,
       DELTA_T_LSF_6_BIT, TOW_6_BIT]
     else if k = 7 then
      [IOD_A_7_BIT, WN_A_7_BIT, T0A_7_BIT, SVI_D1_7_BIT, DELTA_A_7_BIT, E_7_BIT, OMEGA_7_BIT,
       DELTA_I_7_BIT, OMEGA0_7_BIT, OMEGA_DOT_7_BIT, M0_7_BIT]
     else if k = 8 then
      [IOD_A_8_BIT, AF0_8_BIT, AF1_8_BIT, E5B_HS_8_BIT, E1_B_HS_8_BIT, SVI_D2_8_BIT,
       DELTA_A_8_BIT, E_8_BIT, OMEGA_8_BIT, DELTA_I_8_BIT, OMEGA0_8_BIT, OMEGA_DOT_8_BIT]
     else if k = 9 then
      [IOD_A_9_BIT, WN_A_9_BIT, T0A_9_BIT, M0_9_BIT, AF0_9_BIT, AF1_9_BIT, E5B_HS_9_BIT,
       E1_B_HS_9_BIT, SVI_D3_9_BIT, DELTA_A_9_BIT, E_9_BIT, OMEGA_9_BIT, DELTA_I_9_BIT]
     else if k = 10 then
      [IOD_A_10_BIT, OMEGA0_10_BIT, OMEGA_DOT_10_BIT, M0_10_BIT, AF0_10_BIT, AF1_10_BIT,
       E5B_HS_10_BIT, E1_B_HS_10_BIT, A_0_G_10_BIT, A_1_G_10_BIT, T_0_G_10_BIT, WN_0_G_10_BIT]
     else if k = 16 then
      [CED_DeltaAred_BIT, CED_exred_BIT, CED_eyred_BIT, CED_Deltai0red_BIT, CED_Omega0red_BIT,
       CED_lambda0red_BIT, CED_af0red_BIT, CED_af1red_BIT]
     else [])"

fun disjoint_slices :: "nat \<Rightarrow> slices list \<Rightarrow> bool" where
  "disjoint_slices a [] = (a \<le> 129)"
| "disjoint_slices a ([(f, l)] # ps) = (a \<le> f \<and> 1 \<le> l \<and> disjoint_slices (f + l) ps)"
| "disjoint_slices a (_ # ps) = False"

text \<open>The parameters of a word follow each other behind the six bits of the page type and end inside the word.\<close>

lemma inav_layout_disjoint: "disjoint_slices 7 (inav_layout k)"
  by (simp add: inav_layout_def inav_bits)

lemma inav_fields_in_range:
  "list_all (\<lambda>p. in_range 128 p \<and> slices_length p \<le> 32)
    (concat (map inav_layout [0..<17]) @ [PAGE_TYPE_BIT, RS_IODNAV_LSBS])"
  by code_simp

end
