(* ===== verification/Galileo_Inav_Message.thy ===== *)
theory Galileo_Inav_Message
  imports Galileo_INAV Osnma_Utils
begin

section \<open>The Galileo I/NAV message\<close>

text \<open>
  \<^verbatim>\<open>Galileo_Inav_Message\<close> of \<^verbatim>\<open>core/system_parameters/galileo_inav_message.h/.cc\<close>: joining the even and
  odd pages, the CRC check, decoding the word types, the Reed-Solomon buffer of the FEC2 scheme and
  the queries for complete data sets. The members of the class are grouped: one record per word
  type, one for the Reed-Solomon state, one for the flags. \<^verbatim>\<open>int32_t\<close> members are integers,
  \<^verbatim>\<open>double\<close> members are rationals rounded after each operation. This theory has the state,
  the field readers and one decoder per word type; \<^verbatim>\<open>Galileo_Inav_Decoder\<close> has the rest.
\<close>

subsection \<open>State\<close>

record inav_word1 =
  IOD_nav_1 :: int
  t0e_1 :: int
  M0_1 :: double
  e_1 :: double
  A_1 :: double

record inav_word2 =
  IOD_nav_2 :: int
  OMEGA_0_2 :: double
  i_0_2 :: double
  omega_2 :: double
  iDot_2 :: double

record inav_word3 =
  IOD_nav_3 :: int
  SISA_3 :: int
  OMEGA_dot_3 :: double
  delta_n_3 :: double
  C_uc_3 :: double
  C_us_3 :: double
  C_rc_3 :: double
  C_rs_3 :: double

record inav_word4 =
  IOD_nav_4 :: int
  SV_ID_PRN_4 :: int
  C_ic_4 :: double
  C_is_4 :: double
  t0c_4 :: int
  af0_4 :: double
  af1_4 :: double
  af2_4 :: double
  spare_4 :: double

record inav_word5 =
  ai0_5 :: double
  ai1_5 :: double
  ai2_5 :: double
  BGD_E1E5a_5 :: double
  BGD_E1E5b_5 :: double
  E5b_HS_5 :: int
  E1B_HS_5 :: int
  Region1_flag_5 :: bool
  Region2_flag_5 :: bool
  Region3_flag_5 :: bool
  Region4_flag_5 :: bool
  Region5_flag_5 :: bool
  E5b_DVS_5 :: bool
  E1B_DVS_5 :: bool
  WN_5 :: int
  TOW_5 :: int
  spare_5 :: double

record inav_word6 =
  A0_6 :: double
  A1_6 :: double
  Delta_tLS_6 :: int
  t0t_6 :: int
  WNot_6 :: int
  WN_LSF_6 :: int
  DN_6 :: int
  Delta_tLSF_6 :: int
  TOW_6 :: int

record inav_word7 =
  IOD_a_7 :: int
  WN_a_7 :: int
  t0a_7 :: int
  SVID1_7 :: int
  DELTA_A_7 :: double
  e_7 :: double
  omega_7 :: double
  delta_i_7 :: double
  Omega0_7 :: double
  Omega_dot_7 :: double
  M0_7 :: double

record inav_word8 =
  IOD_a_8 :: int
  E5b_HS_8 :: int
  E1B_HS_8 :: int
  SVID2_8 :: int
  af0_8 :: double
  af1_8 :: double
  DELTA_A_8 :: double
  e_8 :: double
  omega_8 :: double
  delta_i_8 :: double
  Omega0_8 :: double
  Omega_dot_8 :: double

record inav_word9 =
  IOD_a_9 :: int
  WN_a_9 :: int
  t0a_9 :: int
  M0_9 :: double
  af0_9 :: double
  af1_9 :: double
  E5b_HS_9 :: int
  E1B_HS_9 :: int
  SVID3_9 :: int
  DELTA_A_9 :: double
  e_9 :: double
  omega_9 :: double
  delta_i_9 :: double

record inav_word10 =
  IOD_a_10 :: int
  Omega0_10 :: double
  Omega_dot_10 :: double
  M0_10 :: double
  af0_10 :: double
  af1_10 :: double
  E5b_HS_10 :: int
  E1B_HS_10 :: int
  A_0G_10 :: double
  A_1G_10 :: double
  t_0G_10 :: int
  WN_0G_10 :: int

record inav_word16 =
  ced_DeltaAred :: double
  ced_exred :: double
  ced_eyred :: double
  ced_Deltai0red :: double
  ced_Omega0red :: double
  ced_lambda0red :: double
  ced_af0red :: double
  ced_af1red :: double

record inav_word0 =
  Time_0 :: int
  WN_0 :: int
  TOW_0 :: int

record inav_rs =
  rs_buffer :: "byte list"
  inav_rs_pages :: "int list"
  current_IODnav :: int
  IODnav_LSB17 :: byte
  IODnav_LSB18 :: byte
  IODnav_LSB19 :: byte
  IODnav_LSB20 :: byte
  enable_rs :: bool

record inav_flags =
  flag_CRC_test :: bool
  flag_all_ephemeris :: bool
  flag_ephemeris_1 :: bool
  flag_ephemeris_2 :: bool
  flag_ephemeris_3 :: bool
  flag_ephemeris_4 :: bool
  flag_iono_and_GST :: bool
  flag_TOW_5 :: bool
  flag_TOW_6 :: bool
  flag_TOW_0 :: bool
  flag_TOW_set :: bool
  flag_utc_model :: bool
  flag_all_almanac :: bool
  flag_almanac_1 :: bool
  flag_almanac_2 :: bool
  flag_almanac_3 :: bool
  flag_almanac_4 :: bool
  flag_GGTO_1 :: bool
  flag_GGTO_2 :: bool
  flag_GGTO_3 :: bool
  flag_GGTO_4 :: bool
  flag_CED :: bool

record galileo_inav_message =
  page_Even :: string
  data_OSNMA :: string
  data_nav :: string
  Page_type_time_stamp :: int
  IOD_ephemeris :: int
  word1 :: inav_word1
  word2 :: inav_word2
  word3 :: inav_word3
  word4 :: inav_word4
  word5 :: inav_word5
  word6 :: inav_word6
  word7 :: inav_word7
  word8 :: inav_word8
  word9 :: inav_word9
  word10 :: inav_word10
  word16 :: inav_word16
  word0 :: inav_word0
  Galileo_satClkDrift :: double
  rs_state :: inav_rs
  flags :: inav_flags

text \<open>The constructor: every member is zero, the Reed-Solomon buffer has 118 zero octets.\<close>

definition new_word1 :: inav_word1 where
  "new_word1 =
     \<lparr>IOD_nav_1 = 0, t0e_1 = 0, M0_1 = 0, e_1 = 0, A_1 = 0\<rparr>"

definition new_word2 :: inav_word2 where
  "new_word2 =
     \<lparr>IOD_nav_2 = 0, OMEGA_0_2 = 0, i_0_2 = 0, omega_2 = 0, iDot_2 = 0\<rparr>"

definition new_word3 :: inav_word3 where
  "new_word3 =
     \<lparr>IOD_nav_3 = 0, SISA_3 = 0, OMEGA_dot_3 = 0, delta_n_3 = 0, C_uc_3 = 0, C_us_3 = 0,
      C_rc_3 = 0, C_rs_3 = 0\<rparr>"

definition new_word4 :: inav_word4 where
  "new_word4 =
     \<lparr>IOD_nav_4 = 0, SV_ID_PRN_4 = 0, C_ic_4 = 0, C_is_4 = 0, t0c_4 = 0, af0_4 = 0,
      af1_4 = 0, af2_4 = 0, spare_4 = 0\<rparr>"

definition new_word5 :: inav_word5 where
  "new_word5 =
     \<lparr>ai0_5 = 0, ai1_5 = 0, ai2_5 = 0, BGD_E1E5a_5 = 0, BGD_E1E5b_5 = 0, E5b_HS_5 = 0,
      E1B_HS_5 = 0, Region1_flag_5 = False, Region2_flag_5 = False, Region3_flag_5 = False,
      Region4_flag_5 = False, Region5_flag_5 = False, E5b_DVS_5 = False, E1B_DVS_5 = False,
      WN_5 = 0, TOW_5 = 0, spare_5 = 0\<rparr>"

definition new_word6 :: inav_word6 where
  "new_word6 =
     \<lparr>A0_6 = 0, A1_6 = 0, Delta_tLS_6 = 0, t0t_6 = 0, WNot_6 = 0, WN_LSF_6 = 0, DN_6 = 0,
      Delta_tLSF_6 = 0, TOW_6 = 0\<rparr>"

definition new_word7 :: inav_word7 where
  "new_word7 =
     \<lparr>IOD_a_7 = 0, WN_a_7 = 0, t0a_7 = 0, SVID1_7 = 0, DELTA_A_7 = 0, e_7 = 0, omega_7 = 0,
      delta_i_7 = 0, Omega0_7 = 0, Omega_dot_7 = 0, M0_7 = 0\<rparr>"

definition new_word8 :: inav_word8 where
  "new_word8 =
     \<lparr>IOD_a_8 = 0, E5b_HS_8 = 0, E1B_HS_8 = 0, SVID2_8 = 0, af0_8 = 0, af1_8 = 0,
      DELTA_A_8 = 0, e_8 = 0, omega_8 = 0, delta_i_8 = 0, Omega0_8 = 0, Omega_dot_8 = 0\<rparr>"

definition new_word9 :: inav_word9 where
  "new_word9 =
     \<lparr>IOD_a_9 = 0, WN_a_9 = 0, t0a_9 = 0, M0_9 = 0, af0_9 = 0, af1_9 = 0, E5b_HS_9 = 0,
      E1B_HS_9 = 0, SVID3_9 = 0, DELTA_A_9 = 0, e_9 = 0, omega_9 = 0, delta_i_9 = 0\<rparr>"

definition new_word10 :: inav_word10 where
  "new_word10 =
     \<lparr>IOD_a_10 = 0, Omega0_10 = 0, Omega_dot_10 = 0, M0_10 = 0, af0_10 = 0, af1_10 = 0,
      E5b_HS_10 = 0, E1B_HS_10 = 0, A_0G_10 = 0, A_1G_10 = 0, t_0G_10 = 0, WN_0G_10 = 0\<rparr>"

definition new_word16 :: inav_word16 where
  "new_word16 =
     \<lparr>ced_DeltaAred = 0, ced_exred = 0, ced_eyred = 0, ced_Deltai0red = 0,
      ced_Omega0red = 0, ced_lambda0red = 0, ced_af0red = 0, ced_af1red = 0\<rparr>"

definition new_word0 :: inav_word0 where
  "new_word0 =
     \<lparr>Time_0 = 0, WN_0 = 0, TOW_0 = 0\<rparr>"

definition new_flags :: inav_flags where
  "new_flags =
     \<lparr>flag_CRC_test = False, flag_all_ephemeris = False, flag_ephemeris_1 = False,
      flag_ephemeris_2 = False, flag_ephemeris_3 = False, flag_ephemeris_4 = False,
      flag_iono_and_GST = False, flag_TOW_5 = False, flag_TOW_6 = False, flag_TOW_0 = False,
      flag_TOW_set = False, flag_utc_model = False, flag_all_almanac = False,
      flag_almanac_1 = False, flag_almanac_2 = False, flag_almanac_3 = False,
      flag_almanac_4 = False, flag_GGTO_1 = False, flag_GGTO_2 = False, flag_GGTO_3 = False,
      flag_GGTO_4 = False, flag_CED = False\<rparr>"

definition new_rs :: inav_rs where
  "new_rs =
     \<lparr>rs_buffer = replicate INAV_RS_BUFFER_LENGTH 0, inav_rs_pages = replicate 8 0, current_IODnav = 0,
      IODnav_LSB17 = 0, IODnav_LSB18 = 0, IODnav_LSB19 = 0, IODnav_LSB20 = 0, enable_rs = False\<rparr>"

definition new_inav_message :: galileo_inav_message where
  "new_inav_message =
     \<lparr>page_Even = [], data_OSNMA = [], data_nav = [], Page_type_time_stamp = 0, IOD_ephemeris = 0,
      word1 = new_word1, word2 = new_word2, word3 = new_word3, word4 = new_word4,
      word5 = new_word5, word6 = new_word6, word7 = new_word7, word8 = new_word8,
      word9 = new_word9, word10 = new_word10, word16 = new_word16, word0 = new_word0,
      Galileo_satClkDrift = 0, rs_state = new_rs, flags = new_flags\<rparr>"

subsection \<open>Reading fields\<close>

definition read_navigation_unsigned :: "128 word \<Rightarrow> slices \<Rightarrow> 64 word" where
  "read_navigation_unsigned bits parameter = read_bits bits parameter"

definition read_octet_unsigned :: "128 word \<Rightarrow> slices \<Rightarrow> 8 word" where
  "read_octet_unsigned bits parameter = read_bits bits parameter"

definition read_page_type_unsigned :: "6 word \<Rightarrow> slices \<Rightarrow> 64 word" where
  "read_page_type_unsigned bits parameter = read_bits bits parameter"

definition read_navigation_signed :: "128 word \<Rightarrow> slices \<Rightarrow> 64 word" where
  "read_navigation_signed bits parameter = read_signed_bits bits parameter"

definition read_navigation_bool :: "128 word \<Rightarrow> slices \<Rightarrow> bool" where
  "read_navigation_bool bits parameter = read_bit bits parameter"

interpretation inav: nav_reader 128 0 bitset_to_string read_navigation_unsigned read_navigation_signed
proof unfold_locales
  show "length (bitset_to_string m) = 128" for m :: "128 word" by simp
next
  show "in_range 128 p \<Longrightarrow> slices_length p \<le> 64 \<Longrightarrow>
      unat (read_navigation_unsigned m p) = bin_value (slice_string (bitset_to_string m) p)" for m p
    by (simp add: read_navigation_unsigned_def read_bits_value)
next
  show "in_range 128 p \<Longrightarrow> 0 \<le> slices_length p \<Longrightarrow> slices_length p \<le> 63 \<Longrightarrow>
      sint (read_navigation_signed m p) = signed_value (slice_string (bitset_to_string m) p)" for m p
    by (simp add: read_navigation_signed_def read_signed_bits_value)
qed

text \<open>The four conversions the decoder applies to a field.\<close>

definition nav_u32 :: "128 word \<Rightarrow> slices \<Rightarrow> int" where
  "nav_u32 bits p = to_int32 (uint (read_navigation_unsigned bits p))"

definition nav_s32 :: "128 word \<Rightarrow> slices \<Rightarrow> int" where
  "nav_s32 bits p = to_int32 (sint (read_navigation_signed bits p))"

definition nav_du :: "128 word \<Rightarrow> slices \<Rightarrow> double" where
  "nav_du bits p = to_double (of_int (uint (read_navigation_unsigned bits p)))"

definition nav_ds :: "128 word \<Rightarrow> slices \<Rightarrow> double" where
  "nav_ds bits p = to_double (of_int (sint (read_navigation_signed bits p)))"

subsection \<open>Decoding the word types\<close>

definition decode_word1 :: "128 word \<Rightarrow> inav_word1" where
  "decode_word1 bits =
     \<lparr>IOD_nav_1 = nav_u32 bits IOD_NAV_1_BIT,
      t0e_1 = nav_u32 bits T0_E_1_BIT * T0E_1_LSB,
      M0_1 = dmul (nav_ds bits M0_1_BIT) M0_1_LSB,
      e_1 = dmul (nav_du bits E_1_BIT) E_1_LSB,
      A_1 = dmul (nav_du bits A_1_BIT) A_1_LSB_GAL\<rparr>"

definition read_page_1 :: "128 word \<Rightarrow> galileo_inav_message \<Rightarrow> galileo_inav_message" where
  "read_page_1 bits st =
     st\<lparr>word1 := decode_word1 bits,
        flags := (flags st)\<lparr>flag_ephemeris_1 := True\<rparr>\<rparr>"

definition decode_word2 :: "128 word \<Rightarrow> inav_word2" where
  "decode_word2 bits =
     \<lparr>IOD_nav_2 = nav_u32 bits IOD_NAV_2_BIT,
      OMEGA_0_2 = dmul (nav_ds bits OMEGA_0_2_BIT) OMEGA_0_2_LSB,
      i_0_2 = dmul (nav_ds bits I_0_2_BIT) I_0_2_LSB,
      omega_2 = dmul (nav_ds bits OMEGA_2_BIT) OMEGA_2_LSB,
      iDot_2 = dmul (nav_ds bits I_DOT_2_BIT) I_DOT_2_LSB\<rparr>"

definition read_page_2 :: "128 word \<Rightarrow> galileo_inav_message \<Rightarrow> galileo_inav_message" where
  "read_page_2 bits st =
     st\<lparr>word2 := decode_word2 bits,
        flags := (flags st)\<lparr>flag_ephemeris_2 := True\<rparr>\<rparr>"

definition decode_word3 :: "128 word \<Rightarrow> inav_word3" where
  "decode_word3 bits =
     \<lparr>IOD_nav_3 = nav_u32 bits IOD_NAV_3_BIT,
      SISA_3 = nav_u32 bits SISA_3_BIT,
      OMEGA_dot_3 = dmul (nav_ds bits OMEGA_DOT_3_BIT) OMEGA_DOT_3_LSB,
      delta_n_3 = dmul (nav_ds bits DELTA_N_3_BIT) DELTA_N_3_LSB,
      C_uc_3 = dmul (nav_ds bits C_UC_3_BIT) C_UC_3_LSB,
      C_us_3 = dmul (nav_ds bits C_US_3_BIT) C_US_3_LSB,
      C_rc_3 = dmul (nav_ds bits C_RC_3_BIT) C_RC_3_LSB,
      C_rs_3 = dmul (nav_ds bits C_RS_3_BIT) C_RS_3_LSB\<rparr>"

definition read_page_3 :: "128 word \<Rightarrow> galileo_inav_message \<Rightarrow> galileo_inav_message" where
  "read_page_3 bits st =
     st\<lparr>word3 := decode_word3 bits,
        flags := (flags st)\<lparr>flag_ephemeris_3 := True\<rparr>\<rparr>"

definition decode_word4 :: "128 word \<Rightarrow> inav_word4" where
  "decode_word4 bits =
     \<lparr>IOD_nav_4 = nav_u32 bits IOD_NAV_4_BIT,
      SV_ID_PRN_4 = nav_u32 bits SV_ID_PRN_4_BIT,
      C_ic_4 = dmul (nav_ds bits C_IC_4_BIT) C_IC_4_LSB,
      C_is_4 = dmul (nav_ds bits C_IS_4_BIT) C_IS_4_LSB,
      t0c_4 = nav_u32 bits T0C_4_BIT * T0C_4_LSB,
      af0_4 = dmul (nav_ds bits AF0_4_BIT) AF0_4_LSB,
      af1_4 = dmul (nav_ds bits AF1_4_BIT) AF1_4_LSB,
      af2_4 = dmul (nav_ds bits AF2_4_BIT) AF2_4_LSB,
      spare_4 = nav_du bits SPARE_4_BIT\<rparr>"

definition read_page_4 :: "128 word \<Rightarrow> galileo_inav_message \<Rightarrow> galileo_inav_message" where
  "read_page_4 bits st =
     st\<lparr>word4 := decode_word4 bits,
        flags := (flags st)\<lparr>flag_ephemeris_4 := True\<rparr>\<rparr>"

definition decode_word5 :: "128 word \<Rightarrow> inav_word5" where
  "decode_word5 bits =
     \<lparr>ai0_5 = dmul (nav_du bits AI0_5_BIT) AI0_5_LSB,
      ai1_5 = dmul (nav_ds bits AI1_5_BIT) AI1_5_LSB,
      ai2_5 = dmul (nav_ds bits AI2_5_BIT) AI2_5_LSB,
      BGD_E1E5a_5 = dmul (nav_ds bits BGD_E1_E5A_5_BIT) BGD_E1_E5A_5_LSB,
      BGD_E1E5b_5 = dmul (nav_ds bits BGD_E1_E5B_5_BIT) BGD_E1_E5B_5_LSB,
      E5b_HS_5 = nav_u32 bits E5B_HS_5_BIT,
      E1B_HS_5 = nav_u32 bits E1_B_HS_5_BIT,
      Region1_flag_5 = read_navigation_bool bits REGION1_5_BIT,
      Region2_flag_5 = read_navigation_bool bits REGION2_5_BIT,
      Region3_flag_5 = read_navigation_bool bits REGION3_5_BIT,
      Region4_flag_5 = read_navigation_bool bits REGION4_5_BIT,
      Region5_flag_5 = read_navigation_bool bits REGION5_5_BIT,
      E5b_DVS_5 = (read_navigation_unsigned bits E5B_DVS_5_BIT \<noteq> 0),
      E1B_DVS_5 = (read_navigation_unsigned bits E1_B_DVS_5_BIT \<noteq> 0),
      WN_5 = nav_u32 bits WN_5_BIT,
      TOW_5 = nav_u32 bits TOW_5_BIT,
      spare_5 = nav_du bits SPARE_5_BIT\<rparr>"

definition read_word_5 :: "128 word \<Rightarrow> galileo_inav_message \<Rightarrow> galileo_inav_message" where
  "read_word_5 bits st =
     st\<lparr>word5 := decode_word5 bits, word0 := (word0 st)\<lparr>WN_0 := WN_5 (decode_word5 bits)\<rparr>,
        flags := (flags st)\<lparr>flag_TOW_5 := True, flag_iono_and_GST := True, flag_TOW_set := True\<rparr>\<rparr>"

definition decode_word6 :: "128 word \<Rightarrow> inav_word6" where
  "decode_word6 bits =
     \<lparr>A0_6 = dmul (nav_ds bits A0_6_BIT) A0_6_LSB,
      A1_6 = dmul (nav_ds bits A1_6_BIT) A1_6_LSB,
      Delta_tLS_6 = nav_s32 bits DELTA_T_LS_6_BIT,
      t0t_6 = nav_u32 bits T0T_6_BIT * T0T_6_LSB,
      WNot_6 = nav_u32 bits W_NOT_6_BIT,
      WN_LSF_6 = nav_u32 bits WN_LSF_6_BIT,
      DN_6 = nav_u32 bits DN_6_BIT,
      Delta_tLSF_6 = nav_s32 bits DELTA_T_LSF_6_BIT,
      TOW_6 = nav_u32 bits TOW_6_BIT\<rparr>"

definition read_word_6 :: "128 word \<Rightarrow> galileo_inav_message \<Rightarrow> galileo_inav_message" where
  "read_word_6 bits st =
     st\<lparr>word6 := decode_word6 bits,
        flags := (flags st)\<lparr>flag_TOW_6 := True, flag_utc_model := True, flag_TOW_set := True\<rparr>\<rparr>"

definition decode_word7 :: "128 word \<Rightarrow> inav_word7" where
  "decode_word7 bits =
     \<lparr>IOD_a_7 = nav_u32 bits IOD_A_7_BIT,
      WN_a_7 = nav_u32 bits WN_A_7_BIT,
      t0a_7 = nav_u32 bits T0A_7_BIT * T0A_7_LSB,
      SVID1_7 = nav_u32 bits SVI_D1_7_BIT,
      DELTA_A_7 = dmul (nav_ds bits DELTA_A_7_BIT) DELTA_A_7_LSB,
      e_7 = dmul (nav_du bits E_7_BIT) E_7_LSB,
      omega_7 = dmul (nav_ds bits OMEGA_7_BIT) OMEGA_7_LSB,
      delta_i_7 = dmul (nav_ds bits DELTA_I_7_BIT) DELTA_I_7_LSB,
      Omega0_7 = dmul (nav_ds bits OMEGA0_7_BIT) OMEGA0_7_LSB,
      Omega_dot_7 = dmul (nav_ds bits OMEGA_DOT_7_BIT) OMEGA_DOT_7_LSB,
      M0_7 = dmul (nav_ds bits M0_7_BIT) M0_7_LSB\<rparr>"

definition read_word_7 :: "128 word \<Rightarrow> galileo_inav_message \<Rightarrow> galileo_inav_message" where
  "read_word_7 bits st =
     st\<lparr>word7 := decode_word7 bits,
        flags := (flags st)\<lparr>flag_almanac_1 := True\<rparr>\<rparr>"

definition decode_word8 :: "128 word \<Rightarrow> inav_word8" where
  "decode_word8 bits =
     \<lparr>IOD_a_8 = nav_u32 bits IOD_A_8_BIT,
      E5b_HS_8 = nav_u32 bits E5B_HS_8_BIT,
      E1B_HS_8 = nav_u32 bits E1_B_HS_8_BIT,
      SVID2_8 = nav_u32 bits SVI_D2_8_BIT,
      af0_8 = dmul (nav_ds bits AF0_8_BIT) AF0_8_LSB,
      af1_8 = dmul (nav_ds bits AF1_8_BIT) AF1_8_LSB,
      DELTA_A_8 = dmul (nav_ds bits DELTA_A_8_BIT) DELTA_A_8_LSB,
      e_8 = dmul (nav_du bits E_8_BIT) E_8_LSB,
      omega_8 = dmul (nav_ds bits OMEGA_8_BIT) OMEGA_8_LSB,
      delta_i_8 = dmul (nav_ds bits DELTA_I_8_BIT) DELTA_I_8_LSB,
      Omega0_8 = dmul (nav_ds bits OMEGA0_8_BIT) OMEGA0_8_LSB,
      Omega_dot_8 = dmul (nav_ds bits OMEGA_DOT_8_BIT) OMEGA_DOT_8_LSB\<rparr>"

definition read_word_8 :: "128 word \<Rightarrow> galileo_inav_message \<Rightarrow> galileo_inav_message" where
  "read_word_8 bits st =
     st\<lparr>word8 := decode_word8 bits,
        flags := (flags st)\<lparr>flag_almanac_2 := True\<rparr>\<rparr>"

definition decode_word9 :: "128 word \<Rightarrow> inav_word9" where
  "decode_word9 bits =
     \<lparr>IOD_a_9 = nav_u32 bits IOD_A_9_BIT,
      WN_a_9 = nav_u32 bits WN_A_9_BIT,
      t0a_9 = nav_u32 bits T0A_9_BIT * T0A_9_LSB,
      M0_9 = dmul (nav_ds bits M0_9_BIT) M0_9_LSB,
      af0_9 = dmul (nav_ds bits AF0_9_BIT) AF0_9_LSB,
      af1_9 = dmul (nav_ds bits AF1_9_BIT) AF1_9_LSB,
      E5b_HS_9 = nav_u32 bits E5B_HS_9_BIT,
      E1B_HS_9 = nav_u32 bits E1_B_HS_9_BIT,
      SVID3_9 = nav_u32 bits SVI_D3_9_BIT,
      DELTA_A_9 = dmul (nav_ds bits DELTA_A_9_BIT) DELTA_A_9_LSB,
      e_9 = dmul (nav_du bits E_9_BIT) E_9_LSB,
      omega_9 = dmul (nav_ds bits OMEGA_9_BIT) OMEGA_9_LSB,
      delta_i_9 = dmul (nav_ds bits DELTA_I_9_BIT) DELTA_I_9_LSB\<rparr>"

definition read_word_9 :: "128 word \<Rightarrow> galileo_inav_message \<Rightarrow> galileo_inav_message" where
  "read_word_9 bits st =
     st\<lparr>word9 := decode_word9 bits,
        flags := (flags st)\<lparr>flag_almanac_3 := True\<rparr>\<rparr>"

definition decode_word10 :: "128 word \<Rightarrow> inav_word10" where
  "decode_word10 bits =
     \<lparr>IOD_a_10 = nav_u32 bits IOD_A_10_BIT,
      Omega0_10 = dmul (nav_ds bits OMEGA0_10_BIT) OMEGA0_10_LSB,
      Omega_dot_10 = dmul (nav_ds bits OMEGA_DOT_10_BIT) OMEGA_DOT_10_LSB,
      M0_10 = dmul (nav_ds bits M0_10_BIT) M0_10_LSB,
      af0_10 = dmul (nav_ds bits AF0_10_BIT) AF0_10_LSB,
      af1_10 = dmul (nav_ds bits AF1_10_BIT) AF1_10_LSB,
      E5b_HS_10 = nav_u32 bits E5B_HS_10_BIT,
      E1B_HS_10 = nav_u32 bits E1_B_HS_10_BIT,
      A_0G_10 = dmul (nav_ds bits A_0_G_10_BIT) A_0G_10_LSB,
      A_1G_10 = dmul (nav_ds bits A_1_G_10_BIT) A_1G_10_LSB,
      t_0G_10 = nav_u32 bits T_0_G_10_BIT * T_0_G_10_LSB,
      WN_0G_10 = nav_u32 bits WN_0_G_10_BIT\<rparr>"

definition read_word_10 :: "128 word \<Rightarrow> galileo_inav_message \<Rightarrow> galileo_inav_message" where
  "read_word_10 bits st =
     st\<lparr>word10 := decode_word10 bits,
        flags := (flags st)\<lparr>flag_GGTO_1 := True, flag_GGTO_2 := True, flag_GGTO_3 := True, flag_GGTO_4 := True, flag_almanac_4 := True\<rparr>\<rparr>"

definition decode_word16 :: "128 word \<Rightarrow> inav_word16" where
  "decode_word16 bits =
     \<lparr>ced_DeltaAred = dmul (nav_ds bits CED_DeltaAred_BIT) CED_DeltaAred_LSB,
      ced_exred = dmul (nav_ds bits CED_exred_BIT) CED_exred_LSB,
      ced_eyred = dmul (nav_ds bits CED_eyred_BIT) CED_eyred_LSB,
      ced_Deltai0red = dmul (nav_ds bits CED_Deltai0red_BIT) CED_Deltai0red_LSB,
      ced_Omega0red = dmul (nav_ds bits CED_Omega0red_BIT) CED_Omega0red_LSB,
      ced_lambda0red = dmul (nav_ds bits CED_lambda0red_BIT) CED_lambda0red_LSB,
      ced_af0red = dmul (nav_ds bits CED_af0red_BIT) CED_af0red_LSB,
      ced_af1red = dmul (nav_ds bits CED_af1red_BIT) CED_af1red_LSB\<rparr>"

definition read_word_16 :: "128 word \<Rightarrow> galileo_inav_message \<Rightarrow> galileo_inav_message" where
  "read_word_16 bits st =
     st\<lparr>word16 := decode_word16 bits,
        flags := (flags st)\<lparr>flag_CED := True\<rparr>\<rparr>"

text \<open>Word type 0, the spare word, carries the time when its first field is 2.\<close>

definition read_word_0 :: "128 word \<Rightarrow> galileo_inav_message \<Rightarrow> galileo_inav_message" where
  "read_word_0 bits st =
     (let st1 = st\<lparr>word0 := (word0 st)\<lparr>Time_0 := nav_u32 bits TIME_0_BIT\<rparr>\<rparr>
      in if Time_0 (word0 st1) = 2
         then st1\<lparr>word0 := (word0 st1)\<lparr>WN_0 := nav_u32 bits WN_0_BIT, TOW_0 := nav_u32 bits TOW_0_BIT\<rparr>,
                  word5 := (word5 st1)\<lparr>WN_5 := nav_u32 bits WN_0_BIT\<rparr>,
                  flags := (flags st1)\<lparr>flag_TOW_set := True, flag_TOW_0 := True\<rparr>\<rparr>
         else st1)"

end
