(* ===== verification/Reed_Solomon.thy ===== *)
theory Reed_Solomon
  imports Prelude
begin

section \<open>Reed-Solomon codes over GF(256)\<close>

text \<open>
  \<^verbatim>\<open>ReedSolomon\<close> of \<^verbatim>\<open>core/system_parameters/reed_solomon.h/.cc\<close>: construction of the field tables,
  encoding with the generator polynomial or a generator matrix, and decoding of errors and
  erasures (syndromes, Berlekamp-Massey, Chien search, Forney). Arrays are lists, each loop is a
  fold over the values of its counter. \<^verbatim>\<open>int\<close> variables are integers, symbols are 8-bit words.
\<close>

type_synonym symbol = "8 word"

definition symbols_per_block :: int where
  "symbols_per_block = 255"

definition symsize :: nat where
  "symsize = 8"

record reed_solomon =
  alpha_to :: "symbol list"
  index_of :: "symbol list"
  log_table :: "symbol list"
  antilog :: "symbol list"
  genmatrix :: "symbol list list"
  genpoly_coeff :: "symbol list"
  genpoly_index :: "symbol list"
  data_in_block :: nat
  rows_G :: nat
  columns_G :: nat
  info_symbols_shortened :: nat
  data_symbols_shortened :: nat
  nroots :: int
  rs_prim :: int
  rs_pad :: int
  iprim :: int
  fcr :: int
  rs_shortening :: int
  min_poly :: symbol
  rs_a0 :: symbol

subsection \<open>Field arithmetic\<close>

text \<open>The loop of \<^verbatim>\<open>mod255\<close> ends because every round makes the number smaller.\<close>

function mod255 :: "int \<Rightarrow> int" where
  "mod255 x =
     (if symbols_per_block \<le> x
      then let y = x - symbols_per_block in mod255 (drop_bit symsize y + (y AND symbols_per_block))
      else x)"
  by auto

lemma and_255: "(y :: int) AND 255 = y mod 256"
proof -
  have m: "(255 :: int) = mask 8" by (simp add: mask_eq_exp_minus_1)
  show ?thesis unfolding m take_bit_eq_mask [symmetric] take_bit_eq_mod by simp
qed

lemma mod255_round: "drop_bit symsize (y :: int) + (y AND symbols_per_block) = y div 256 + y mod 256"
  by (simp add: symsize_def symbols_per_block_def drop_bit_eq_div and_255)

termination mod255
proof (relation "measure nat")
  fix x y :: int
  assume x: "symbols_per_block \<le> x" and y: "y = x - symbols_per_block"
  have "256 * (y div 256) + y mod 256 = y" by simp
  moreover have "0 \<le> y div 256" using x y by simp
  ultimately have "y div 256 + y mod 256 \<le> y" by linarith
  then show "(drop_bit symsize y + (y AND symbols_per_block), x) \<in> measure nat"
    using x y by (simp add: mod255_round) (simp add: symbols_per_block_def)
qed simp

declare mod255.simps [simp del]

lemma mod255_correct: "0 \<le> x \<Longrightarrow> mod255 x = x mod 255"
proof (induction x rule: mod255.induct)
  case (1 x)
  show ?case
  proof (cases "symbols_per_block \<le> x")
    case True
    define y where "y = x - symbols_per_block"
    have y: "0 \<le> y" using True by (simp add: y_def)
    then have pos: "0 \<le> y div 256 + y mod 256" by (simp add: pos_imp_zdiv_nonneg_iff)
    have "mod255 x = mod255 (y div 256 + y mod 256)"
      using True by (subst mod255.simps) (simp add: Let_def mod255_round flip: y_def)
    also have "\<dots> = (y div 256 + y mod 256) mod 255"
      using 1(1) [OF True y_def] pos by (simp add: mod255_round)
    also have "y div 256 + y mod 256 = y - 255 * (y div 256)"
      using minus_mult_div_eq_mod [of y 256] by simp
    also have "(y - 255 * (y div 256)) mod 255 = x mod 255"
      by (simp add: y_def symbols_per_block_def mod_diff_eq [of _ _ "255 * _", symmetric])
    finally show ?thesis .
  next
    case False
    then show ?thesis using 1(2) by (subst mod255.simps) (simp add: symbols_per_block_def)
  qed
qed

lemma mod255_range: "0 \<le> x \<Longrightarrow> 0 \<le> mod255 x \<and> mod255 x < 255"
  by (simp add: mod255_correct)

text \<open>Multiplication by shifting and adding, reduced by \<^verbatim>\<open>d_min_poly\<close>; \<open>galois_add\<close> is exclusive or.\<close>

definition galois_mul_step :: "symbol \<Rightarrow> symbol \<times> symbol \<times> symbol \<Rightarrow> symbol \<times> symbol \<times> symbol" where
  "galois_mul_step poly = (\<lambda>(p, a, b).
     let p' = (if b AND 1 \<noteq> 0 then p XOR a else p);
         carry = a AND 0x80;
         a' = push_bit 1 a
     in (p', if carry \<noteq> 0 then a' XOR poly else a', drop_bit 1 b))"

definition galois_mul :: "symbol \<Rightarrow> symbol \<Rightarrow> symbol \<Rightarrow> symbol" where
  "galois_mul poly a b = fst ((galois_mul_step poly ^^ symsize) (0, a, b))"

definition galois_add :: "symbol \<Rightarrow> symbol \<Rightarrow> symbol" where
  "galois_add a b = a XOR b"

definition symbol_at :: "symbol list \<Rightarrow> int \<Rightarrow> symbol" where
  "symbol_at xs i = xs ! nat i"

definition galois_mul_table :: "reed_solomon \<Rightarrow> symbol \<Rightarrow> symbol \<Rightarrow> symbol" where
  "galois_mul_table rs a b =
     (if a = 0 \<or> b = 0 then 0
      else let x = log_table rs ! unat a; y = log_table rs ! unat b;
               log_mult = word_of_int ((uint x + uint y) mod symbols_per_block) :: symbol
           in antilog rs ! unat log_mult)"

subsection \<open>Tables\<close>

definition init_log_tables :: "symbol \<Rightarrow> symbol list \<times> symbol list" where
  "init_log_tables poly =
     (let (lt, al, x) = fold (\<lambda>i (lt, al, x). (lt[unat x := word_of_nat i], al[i := x], galois_mul poly x poly))
            [0..<255] ((replicate 256 0)[0 := 0], replicate 255 0, 1)
      in (lt, al))"

definition alpha_next :: "symbol \<Rightarrow> int \<Rightarrow> int" where
  "alpha_next poly sr =
     (let sr = push_bit 1 sr; sr = (if sr AND push_bit symsize 1 \<noteq> 0 then sr XOR uint poly else sr)
      in sr AND symbols_per_block)"

text \<open>The tables of powers and logarithms; the third component is the final shift register.\<close>

definition init_alpha_tables :: "symbol \<Rightarrow> symbol list \<times> symbol list \<times> int" where
  "init_alpha_tables poly =
     (let a0 = 255;
          idx = (replicate 256 0)[0 := word_of_int symbols_per_block];
          alp = (replicate 256 0)[a0 := 0]
      in fold (\<lambda>i (idx, alp, sr). (idx[nat sr := word_of_nat i], alp[i := word_of_int sr], alpha_next poly sr))
           [0..<255] (idx, alp, 1))"

text \<open>
  The search for \<^verbatim>\<open>iprim\<close> tries 1, 256, 511, \<open>\<dots>\<close>; the remainders modulo \<^verbatim>\<open>prim\<close> repeat after
  \<^verbatim>\<open>prim\<close> rounds, so \<open>None\<close> means that the loop does not end.
\<close>

definition find_iprim :: "int \<Rightarrow> int option" where
  "find_iprim prim = map_option (\<lambda>x. x div prim)
     (List.find (\<lambda>x. x mod prim = 0) (map (\<lambda>k. 1 + int k * symbols_per_block) [0..<nat prim]))"

definition empty_reed_solomon :: reed_solomon where
  "empty_reed_solomon =
     \<lparr>alpha_to = replicate 256 0, index_of = replicate 256 0, log_table = replicate 256 0, antilog = replicate 255 0,
      genmatrix = [], genpoly_coeff = [], genpoly_index = [], data_in_block = 0, rows_G = 0, columns_G = 0,
      info_symbols_shortened = 0, data_symbols_shortened = 0, nroots = 0, rs_prim = 0, rs_pad = 0, iprim = 0,
      fcr = 0, rs_shortening = 0, min_poly = 0, rs_a0 = 0\<rparr>"

definition valid_rs_config :: "int \<Rightarrow> int \<Rightarrow> int \<Rightarrow> int \<Rightarrow> int \<Rightarrow> bool" where
  "valid_rs_config nr prim fc pad short \<longleftrightarrow>
     \<not> (fc < 0 \<or> 256 \<le> fc) \<and> \<not> (prim \<le> 0 \<or> 256 \<le> prim) \<and> \<not> (nr < 0 \<or> 256 \<le> nr) \<and>
     \<not> (pad < 0 \<or> 256 - 1 - nr \<le> pad) \<and> \<not> (short < 0 \<or> symbols_per_block - nr \<le> short)"

text \<open>
  \<^verbatim>\<open>ReedSolomon(nroots, minpoly, prim, fcr, pad, shortening, genpoly_coeff, gen_matrix)\<close>. With a
  wrong configuration the object stays zero; with a generator that is not primitive the
  index tables of the encoder and \<^verbatim>\<open>iprim\<close> are not set.
\<close>

definition rs_sizes :: "int \<Rightarrow> int \<Rightarrow> int \<Rightarrow> int \<Rightarrow> int \<Rightarrow> int \<Rightarrow> reed_solomon \<Rightarrow> reed_solomon" where
  "rs_sizes nr poly prim fc pad short rs =
     rs\<lparr>nroots := nr, data_in_block := nat (symbols_per_block - nr), min_poly := word_of_int poly, rs_prim := prim,
        rs_pad := pad, rs_a0 := word_of_int symbols_per_block, fcr := fc, rs_shortening := short,
        info_symbols_shortened := nat (symbols_per_block - nr - short),
        data_symbols_shortened := nat (symbols_per_block - short)\<rparr>"

definition rs_generators :: "symbol list \<Rightarrow> symbol list list \<Rightarrow> reed_solomon \<Rightarrow> reed_solomon" where
  "rs_generators coeff matrix rs =
     (let rs1 = rs\<lparr>genpoly_coeff :=
            (if coeff \<noteq> [] \<and> int (length coeff) = nroots rs + 1 then coeff else replicate (nat (nroots rs + 1)) 0)\<rparr>;
          rs2 = (if matrix \<noteq> [] \<and> length matrix = data_symbols_shortened rs1
                     \<and> length (hd matrix) = info_symbols_shortened rs1
                 then rs1\<lparr>rows_G := length matrix, columns_G := length (hd matrix), genmatrix := matrix\<rparr>
                 else rs1)
      in rs2\<lparr>genpoly_index := replicate (nat (nroots rs + 1)) 0\<rparr>)"

definition rs_tables :: "reed_solomon \<Rightarrow> reed_solomon option" where
  "rs_tables rs =
     (let (lt, al) = init_log_tables (min_poly rs);
          (idx, alp, sr) = init_alpha_tables (min_poly rs);
          rs1 = rs\<lparr>log_table := lt, antilog := al, index_of := idx, alpha_to := alp\<rparr>
      in if sr \<noteq> 1 then Some rs1
         else map_option (\<lambda>ip. rs1\<lparr>iprim := ip, genpoly_index := map (\<lambda>c. idx ! unat c) (genpoly_coeff rs)\<rparr>)
                (find_iprim (rs_prim rs)))"

definition new_reed_solomon ::
  "int \<Rightarrow> int \<Rightarrow> int \<Rightarrow> int \<Rightarrow> int \<Rightarrow> int \<Rightarrow> symbol list \<Rightarrow> symbol list list \<Rightarrow> reed_solomon option" where
  "new_reed_solomon nr poly prim fc pad short coeff matrix =
     (if \<not> valid_rs_config nr prim fc pad short then Some empty_reed_solomon
      else rs_tables (rs_generators coeff matrix (rs_sizes nr poly prim fc pad short empty_reed_solomon)))"

subsection \<open>Encoding\<close>

definition matrix_row :: "reed_solomon \<Rightarrow> symbol list \<Rightarrow> nat \<Rightarrow> symbol" where
  "matrix_row rs d i =
     fold (\<lambda>k e. galois_add e (galois_mul_table rs (genmatrix rs ! i ! k) (d ! k))) [0..<columns_G rs] 0"

definition encode_with_generator_matrix :: "reed_solomon \<Rightarrow> symbol list \<Rightarrow> symbol list" where
  "encode_with_generator_matrix rs d =
     (let out = replicate (data_symbols_shortened rs) 0
      in if rows_G rs = 0 then out
         else if length d \<noteq> columns_G rs then out
         else fold (\<lambda>i out. out[i := matrix_row rs d i]) [0..<rows_G rs] out)"

definition parity_feedback :: "reed_solomon \<Rightarrow> symbol \<Rightarrow> symbol list \<Rightarrow> symbol list" where
  "parity_feedback rs fb parity =
     fold (\<lambda>j par. par[j := par ! j XOR symbol_at (alpha_to rs)
             (mod255 (uint fb + uint (genpoly_index rs ! (nat (nroots rs) - j))))])
       [1..<nat (nroots rs)] parity"

definition encode_step :: "reed_solomon \<Rightarrow> symbol \<Rightarrow> symbol list \<Rightarrow> symbol list" where
  "encode_step rs d parity =
     (let feedback = index_of rs ! unat (d XOR parity ! 0);
          fb = (if feedback \<noteq> rs_a0 rs
                then word_of_int (mod255 (symbols_per_block - uint (genpoly_index rs ! nat (nroots rs)) + uint feedback))
                else feedback);
          par = (if feedback \<noteq> rs_a0 rs then parity_feedback rs fb parity else parity);
          last = (if fb \<noteq> rs_a0 rs
                  then symbol_at (alpha_to rs) (mod255 (uint fb + uint (genpoly_index rs ! 0))) else 0)
      in tl par @ [last])"

definition encode_rs_8 :: "reed_solomon \<Rightarrow> symbol list \<Rightarrow> symbol list \<Rightarrow> symbol list" where
  "encode_rs_8 rs d parity =
     fold (\<lambda>i par. encode_step rs (d ! i) par) [0..<nat (symbols_per_block - nroots rs - rs_pad rs)] parity"

definition encode_with_generator_poly :: "reed_solomon \<Rightarrow> symbol list \<Rightarrow> symbol list" where
  "encode_with_generator_poly rs d =
     (if length d \<noteq> info_symbols_shortened rs then replicate (data_symbols_shortened rs) 0
      else let nr = nat (nroots rs) in
        if rs_shortening rs = 0 then d @ encode_rs_8 rs d (replicate nr 0)
        else d @ encode_rs_8 rs (d @ replicate (255 - length d - nr) 0) (replicate nr 0))"

subsection \<open>Decoding\<close>

definition syndrome_step :: "reed_solomon \<Rightarrow> symbol \<Rightarrow> nat \<Rightarrow> symbol \<Rightarrow> symbol" where
  "syndrome_step rs d i s =
     (if s = 0 then d
      else d XOR symbol_at (alpha_to rs) (mod255 (uint (index_of rs ! unat s) + (fcr rs + int i) * rs_prim rs)))"

definition syndromes :: "reed_solomon \<Rightarrow> symbol list \<Rightarrow> symbol list" where
  "syndromes rs data =
     fold (\<lambda>j s. map (\<lambda>i. syndrome_step rs (data ! j) i (s ! i)) [0..<nat (nroots rs)])
       [1..<nat (symbols_per_block - rs_pad rs)] (replicate (nat (nroots rs)) (data ! 0))"

definition index_form :: "reed_solomon \<Rightarrow> symbol list \<Rightarrow> symbol list" where
  "index_form rs xs = map (\<lambda>x. index_of rs ! unat x) xs"

definition erasure_factor :: "reed_solomon \<Rightarrow> symbol \<Rightarrow> nat \<Rightarrow> symbol list \<Rightarrow> symbol list" where
  "erasure_factor rs u i lam =
     fold (\<lambda>j lam. let tmp = index_of rs ! unat (lam ! (j - 1))
                   in if tmp \<noteq> rs_a0 rs
                      then lam[j := lam ! j XOR symbol_at (alpha_to rs) (mod255 (uint u + uint tmp))] else lam)
       (rev [1..<i + 2]) lam"

definition erasure_locator :: "reed_solomon \<Rightarrow> int list \<Rightarrow> symbol list" where
  "erasure_locator rs eras =
     (let pos = (\<lambda>e. mod255 (rs_prim rs * (symbols_per_block - 1 - e)));
          lam = (replicate (nat (nroots rs) + 1) 0)[0 := 1]
      in if eras = [] then lam
         else fold (\<lambda>i lam. erasure_factor rs (word_of_int (pos (eras ! i))) i lam) [1..<length eras]
                (lam[1 := symbol_at (alpha_to rs) (pos (eras ! 0))]))"

text \<open>One step of the Berlekamp-Massey iteration on the locator, the auxiliary polynomial and the degree bound.\<close>

definition discrepancy :: "reed_solomon \<Rightarrow> symbol list \<Rightarrow> symbol list \<Rightarrow> nat \<Rightarrow> symbol" where
  "discrepancy rs s lam r =
     fold (\<lambda>i d. if lam ! i \<noteq> 0 \<and> s ! (r - i - 1) \<noteq> rs_a0 rs
                 then d XOR symbol_at (alpha_to rs) (mod255 (uint (index_of rs ! unat (lam ! i)) + uint (s ! (r - i - 1))))
                 else d) [0..<r] 0"

definition bm_update :: "reed_solomon \<Rightarrow> symbol \<Rightarrow> symbol list \<Rightarrow> symbol list \<Rightarrow> symbol list" where
  "bm_update rs discr lam b =
     lam ! 0 # map (\<lambda>i. if b ! i \<noteq> rs_a0 rs
                        then lam ! (i + 1) XOR symbol_at (alpha_to rs) (mod255 (uint discr + uint (b ! i)))
                        else lam ! (i + 1)) [0..<nat (nroots rs)]"

definition bm_step :: "reed_solomon \<Rightarrow> symbol list \<Rightarrow> nat \<Rightarrow> nat
    \<Rightarrow> symbol list \<times> symbol list \<times> nat \<Rightarrow> symbol list \<times> symbol list \<times> nat" where
  "bm_step rs s no_eras r = (\<lambda>(lam, b, el).
     let discr = index_of rs ! unat (discrepancy rs s lam r) in
     if discr = rs_a0 rs then (lam, rs_a0 rs # b, el)
     else let t = bm_update rs discr lam b in
       if 2 * int el \<le> int r + int no_eras - 1
       then (t, map (\<lambda>i. if lam ! i = 0 then rs_a0 rs
                         else word_of_int (mod255 (uint (index_of rs ! unat (lam ! i)) - uint discr + symbols_per_block)))
                  [0..<nat (nroots rs) + 1] @ drop (nat (nroots rs) + 1) b,
             r + no_eras - el)
       else (t, rs_a0 rs # b, el))"

definition berlekamp_massey :: "reed_solomon \<Rightarrow> symbol list \<Rightarrow> nat \<Rightarrow> symbol list \<Rightarrow> symbol list" where
  "berlekamp_massey rs s no_eras lam =
     fst (fold (bm_step rs s no_eras) [no_eras + 1..<nat (nroots rs) + 1] (lam, index_form rs lam, no_eras))"

definition degree_index :: "reed_solomon \<Rightarrow> symbol list \<Rightarrow> nat" where
  "degree_index rs lam = fold (\<lambda>i d. if lam ! i \<noteq> rs_a0 rs then i else d) [0..<nat (nroots rs) + 1] 0"

text \<open>The Chien search: registers, the location counter and the roots and locations found so far.\<close>

definition chien_eval :: "reed_solomon \<Rightarrow> nat \<Rightarrow> symbol list \<Rightarrow> symbol list \<times> symbol" where
  "chien_eval rs deg reg =
     fold (\<lambda>j (reg, q). if reg ! j \<noteq> rs_a0 rs
             then let v = word_of_int (mod255 (uint (reg ! j) + int j)) in (reg[j := v], q XOR alpha_to rs ! unat v)
             else (reg, q)) (rev [1..<deg + 1]) (reg, 1)"

definition chien_step :: "reed_solomon \<Rightarrow> nat \<Rightarrow> nat \<Rightarrow> symbol list \<times> int \<times> (symbol \<times> symbol) list
    \<Rightarrow> symbol list \<times> int \<times> (symbol \<times> symbol) list" where
  "chien_step rs deg i = (\<lambda>(reg, k, found).
     if found \<noteq> [] \<and> length found = deg then (reg, k, found)
     else let (reg', q) = chien_eval rs deg reg
          in (reg', mod255 (k + iprim rs), if q = 0 then found @ [(word_of_nat i, word_of_int k)] else found))"

definition chien_search :: "reed_solomon \<Rightarrow> nat \<Rightarrow> symbol list \<Rightarrow> (symbol \<times> symbol) list" where
  "chien_search rs deg lam =
     snd (snd (fold (chien_step rs deg) [1..<256] (0 # tl lam, iprim rs - 1, [])))"

definition omega_poly :: "reed_solomon \<Rightarrow> symbol list \<Rightarrow> symbol list \<Rightarrow> nat \<Rightarrow> symbol list" where
  "omega_poly rs s lam deg =
     map (\<lambda>i. index_of rs ! unat
            (fold (\<lambda>j t. if s ! (i - j) \<noteq> rs_a0 rs \<and> lam ! j \<noteq> rs_a0 rs
                         then t XOR symbol_at (alpha_to rs) (mod255 (uint (s ! (i - j)) + uint (lam ! j))) else t)
               (rev [0..<i + 1]) 0)) [0..<deg]"

definition forney_numerator :: "reed_solomon \<Rightarrow> symbol list \<Rightarrow> symbol \<Rightarrow> symbol" where
  "forney_numerator rs om root =
     fold (\<lambda>i v. if om ! i \<noteq> rs_a0 rs
                 then v XOR symbol_at (alpha_to rs) (mod255 (uint (om ! i) + int i * uint root)) else v)
       (rev [0..<length om]) 0"

definition forney_denominator :: "reed_solomon \<Rightarrow> symbol list \<Rightarrow> nat \<Rightarrow> symbol \<Rightarrow> symbol" where
  "forney_denominator rs lam deg root =
     (let top = min deg (nat (nroots rs) - 1)
      in fold (\<lambda>i v. if lam ! (i + 1) \<noteq> rs_a0 rs
                     then v XOR symbol_at (alpha_to rs) (mod255 (uint (lam ! (i + 1)) + int i * uint root)) else v)
           (rev (filter even [0..<top + 1])) 0)"

definition forney_step :: "reed_solomon \<Rightarrow> symbol list \<Rightarrow> nat \<Rightarrow> symbol list \<Rightarrow> symbol \<times> symbol
    \<Rightarrow> symbol list \<Rightarrow> symbol list" where
  "forney_step rs lam deg om = (\<lambda>(root, loc) data.
     let num1 = forney_numerator rs om root;
         num2 = symbol_at (alpha_to rs) (mod255 (uint root * (fcr rs - 1) + symbols_per_block));
         den = forney_denominator rs lam deg root;
         at = nat (uint loc - rs_pad rs)
     in if num1 \<noteq> 0 \<and> rs_pad rs \<le> uint loc
        then data[at := data ! at XOR symbol_at (alpha_to rs)
               (mod255 (uint (index_of rs ! unat num1) + uint (index_of rs ! unat num2) + symbols_per_block
                  - uint (index_of rs ! unat den)))]
        else data)"

definition decode_rs_8 :: "reed_solomon \<Rightarrow> symbol list \<Rightarrow> int list \<Rightarrow> int \<times> symbol list" where
  "decode_rs_8 rs data eras =
     (let syn = syndromes rs data in
      if list_all (\<lambda>x. x = 0) syn then (0, data)
      else let s = index_form rs syn;
               lam = index_form rs (berlekamp_massey rs s (length eras) (erasure_locator rs eras));
               deg = degree_index rs lam;
               found = chien_search rs deg lam
           in if length found \<noteq> deg then (- 1, data)
              else let om = omega_poly rs s lam deg
                   in (int (length found), fold (forney_step rs lam deg om) (rev found) data))"

definition rs_decode :: "reed_solomon \<Rightarrow> symbol list \<Rightarrow> int list \<Rightarrow> int \<times> symbol list" where
  "rs_decode rs data eras =
     (if nroots rs < int (length eras) then (- 1, data)
      else if length data \<noteq> data_symbols_shortened rs \<and> int (length data) \<noteq> symbols_per_block then (- 1, data)
      else if rs_shortening rs = 0 \<or> int (length data) = symbols_per_block then decode_rs_8 rs data eras
      else let k = info_symbols_shortened rs;
               code = take k data @ replicate (data_in_block rs - k) 0 @ drop k data;
               (result, code') = decode_rs_8 rs code eras
           in if 0 \<le> result then (result, take k code' @ drop (data_in_block rs) code') else (result, data))"

subsection \<open>What decoding keeps\<close>

lemma fold_keeps_length:
  "(\<And>x d. length (f x d) = length d) \<Longrightarrow> length (fold f xs d) = length d"
  by (induction xs arbitrary: d) auto

lemma forney_step_length: "length (forney_step rs lam deg om r data) = length data"
  by (simp add: forney_step_def Let_def split: prod.splits)

lemma decode_rs_8_length: "length (snd (decode_rs_8 rs data eras)) = length data"
  by (simp add: decode_rs_8_def Let_def fold_keeps_length forney_step_length)

lemma decode_rs_8_failure: "fst (decode_rs_8 rs data eras) < 0 \<Longrightarrow> snd (decode_rs_8 rs data eras) = data"
  by (auto simp: decode_rs_8_def Let_def split: if_splits)

definition rs_config_ok :: "reed_solomon \<Rightarrow> bool" where
  "rs_config_ok rs \<longleftrightarrow> rs_shortening rs = 0 \<or> info_symbols_shortened rs \<le> data_in_block rs \<and> data_in_block rs \<le> 255 \<and>
     data_symbols_shortened rs = info_symbols_shortened rs + (255 - data_in_block rs)"

lemma rs_tables_sizes:
  assumes "rs_tables rs = Some rs'"
  shows "rs_shortening rs' = rs_shortening rs" "info_symbols_shortened rs' = info_symbols_shortened rs"
    "data_in_block rs' = data_in_block rs" "data_symbols_shortened rs' = data_symbols_shortened rs"
    "nroots rs' = nroots rs"
  using assms by (auto simp: rs_tables_def Let_def split: prod.splits if_splits)

lemma rs_generators_sizes [simp]:
  "rs_shortening (rs_generators c m rs) = rs_shortening rs"
  "info_symbols_shortened (rs_generators c m rs) = info_symbols_shortened rs"
  "data_in_block (rs_generators c m rs) = data_in_block rs"
  "data_symbols_shortened (rs_generators c m rs) = data_symbols_shortened rs"
  "nroots (rs_generators c m rs) = nroots rs"
  "rs_prim (rs_generators c m rs) = rs_prim rs"
  by (simp_all add: rs_generators_def Let_def)

lemma new_reed_solomon_config:
  assumes "new_reed_solomon nr poly prim fc pad short coeff matrix = Some rs"
  shows "rs_config_ok rs"
proof (cases "valid_rs_config nr prim fc pad short")
  case True
  then have t: "rs_tables (rs_generators coeff matrix (rs_sizes nr poly prim fc pad short empty_reed_solomon)) = Some rs"
    using assms by (simp add: new_reed_solomon_def)
  show ?thesis using True
    by (auto simp: rs_config_ok_def rs_tables_sizes [OF t] rs_sizes_def valid_rs_config_def symbols_per_block_def)
next
  case False
  then show ?thesis using assms by (auto simp: new_reed_solomon_def rs_config_ok_def empty_reed_solomon_def)
qed

lemma rs_decode_keeps:
  assumes "rs_config_ok rs"
  shows "length (snd (rs_decode rs data eras)) = length data"
    and "fst (rs_decode rs data eras) < 0 \<Longrightarrow> snd (rs_decode rs data eras) = data"
proof -
  let ?k = "info_symbols_shortened rs"
  let ?code = "take ?k data @ replicate (data_in_block rs - ?k) 0 @ drop ?k data"
  obtain r c where d: "decode_rs_8 rs ?code eras = (r, c)" by fastforce
  have len: "length (take ?k c @ drop (data_in_block rs) c) = length data"
    if "length data = data_symbols_shortened rs" "rs_shortening rs \<noteq> 0"
    using decode_rs_8_length [of rs ?code eras] assms that by (auto simp: d rs_config_ok_def min_def)
  show "length (snd (rs_decode rs data eras)) = length data"
    using decode_rs_8_length [of rs data eras] len by (auto simp: rs_decode_def Let_def d)
  show "fst (rs_decode rs data eras) < 0 \<Longrightarrow> snd (rs_decode rs data eras) = data"
    using decode_rs_8_failure [of rs data eras] by (auto simp: rs_decode_def Let_def d split: if_splits)
qed


text \<open>The code of the I/NAV message.\<close>

definition inav_reed_solomon :: reed_solomon where
  "inav_reed_solomon = the (new_reed_solomon 60 29 1 195 0 137 [] [])"

lemma find_iprim_1: "find_iprim 1 = Some 1"
  by code_simp

lemma inav_reed_solomon_new: "new_reed_solomon 60 29 1 195 0 137 [] [] = Some inav_reed_solomon"
proof -
  have "valid_rs_config 60 1 195 0 137" by (simp add: valid_rs_config_def symbols_per_block_def)
  moreover have "\<exists>rs'. rs_tables rs = Some rs'" if "rs_prim rs = 1" for rs
    using that by (auto simp: rs_tables_def Let_def find_iprim_1 split: prod.splits)
  ultimately have "\<exists>rs. new_reed_solomon 60 29 1 195 0 137 [] [] = Some rs"
    by (simp add: new_reed_solomon_def rs_sizes_def)
  then show ?thesis by (auto simp: inav_reed_solomon_def)
qed

lemma inav_reed_solomon_sizes:
  "nroots inav_reed_solomon = 60" "rs_shortening inav_reed_solomon = 137" "info_symbols_shortened inav_reed_solomon = 58"
  "data_in_block inav_reed_solomon = 195" "data_symbols_shortened inav_reed_solomon = 118"
proof -
  have "valid_rs_config 60 1 195 0 137" by (simp add: valid_rs_config_def symbols_per_block_def)
  then have "rs_tables (rs_generators [] [] (rs_sizes 60 29 1 195 0 137 empty_reed_solomon)) = Some inav_reed_solomon"
    using inav_reed_solomon_new by (simp add: new_reed_solomon_def)
  then show "nroots inav_reed_solomon = 60" "rs_shortening inav_reed_solomon = 137"
    "info_symbols_shortened inav_reed_solomon = 58" "data_in_block inav_reed_solomon = 195"
    "data_symbols_shortened inav_reed_solomon = 118"
    by (simp_all add: rs_tables_sizes rs_sizes_def symbols_per_block_def)
qed


text \<open>
  C30: the reduction of \<^verbatim>\<open>mod255\<close> ends and gives the remainder modulo 255 for every non-negative number,
  so it is always a valid index of the table of powers.
\<close>

theorem mod255_remainder: "0 \<le> x \<Longrightarrow> mod255 x = x mod 255 \<and> mod255 x < 255"
  by (simp add: mod255_correct)

theorem mod255_remainder_witness: "mod255 70000 = 130 \<and> mod255 70000 < 255"
  using mod255_remainder [of 70000] by simp

end
