(* ===== verification/Galileo_Inav_Decoder.thy ===== *)
theory Galileo_Inav_Decoder
  imports Galileo_Inav_Message Reed_Solomon
begin

section \<open>Decoding I/NAV pages\<close>

text \<open>
  The rest of \<^verbatim>\<open>galileo_inav_message.cc\<close>: the Reed-Solomon buffer, \<^verbatim>\<open>page_jk_decoder\<close>, \<^verbatim>\<open>split_page\<close>
  with its CRC check, the regeneration of missing pages and the queries \<^verbatim>\<open>have_new_*\<close>. The buffer
  has 118 octets: 16, 14, 14 and 14 for the words 1 to 4, and 15 for each of the words 17 to 20.
\<close>

subsection \<open>The Reed-Solomon buffer\<close>

definition store_octets :: "128 word \<Rightarrow> nat \<Rightarrow> nat \<Rightarrow> nat \<Rightarrow> byte list \<Rightarrow> byte list" where
  "store_octets bits base start_bit n buf =
     fold (\<lambda>k buf. buf[base + k := read_octet_unsigned bits [(start_bit + k * BITS_IN_OCTET, BITS_IN_OCTET)]]) [0..<n] buf"

text \<open>A new issue of data empties the buffer.\<close>

definition check_IODnav :: "int \<Rightarrow> inav_rs \<Rightarrow> inav_rs" where
  "check_IODnav iod rs =
     (let rs1 = (if current_IODnav rs = 0 then rs\<lparr>current_IODnav := iod\<rparr> else rs)
      in if current_IODnav rs1 \<noteq> iod
         then rs1\<lparr>current_IODnav := iod, rs_buffer := replicate INAV_RS_BUFFER_LENGTH 0, inav_rs_pages := replicate 8 0\<rparr>
         else rs1)"

definition store_info_1 :: "128 word \<Rightarrow> int \<Rightarrow> inav_rs \<Rightarrow> inav_rs" where
  "store_info_1 bits iod rs =
     (let rs1 = check_IODnav iod rs;
          buf1 = (rs_buffer rs1)[0 := read_octet_unsigned bits [(1, 6), (15, 2)]];
          buf2 = buf1[1 := read_octet_unsigned bits [(7, BITS_IN_OCTET)]]
      in rs1\<lparr>rs_buffer := store_octets bits 2 FIRST_RS_BIT_AFTER_IODNAV 14 buf2, inav_rs_pages := (inav_rs_pages rs1)[0 := 1]\<rparr>)"

text \<open>Words 2, 3 and 4 store 14 octets each from \<open>base\<close> on, and the octet 0 that is known from the issue of data.\<close>

definition store_info :: "nat \<Rightarrow> nat \<Rightarrow> 128 word \<Rightarrow> int \<Rightarrow> inav_rs \<Rightarrow> inav_rs" where
  "store_info page base bits iod rs =
     (let rs1 = check_IODnav iod rs;
          buf1 = (rs_buffer rs1)[0 := word_of_int (4 + current_IODnav rs1 mod 4)]
      in rs1\<lparr>rs_buffer := store_octets bits base FIRST_RS_BIT_AFTER_IODNAV 14 buf1,
             inav_rs_pages := (inav_rs_pages rs1)[page := 1]\<rparr>)"

definition set_IODnav_LSB :: "nat \<Rightarrow> byte \<Rightarrow> inav_rs \<Rightarrow> inav_rs" where
  "set_IODnav_LSB j v rs =
     (if j = 0 then rs\<lparr>IODnav_LSB17 := v\<rparr> else if j = 1 then rs\<lparr>IODnav_LSB18 := v\<rparr>
      else if j = 2 then rs\<lparr>IODnav_LSB19 := v\<rparr> else rs\<lparr>IODnav_LSB20 := v\<rparr>)"

text \<open>The words 17 to 20 are numbered by \<open>j\<close> from 0 to 3.\<close>

definition store_parity :: "nat \<Rightarrow> 128 word \<Rightarrow> inav_rs \<Rightarrow> inav_rs" where
  "store_parity j bits rs =
     (let lsb = read_octet_unsigned bits RS_IODNAV_LSBS;
          rs1 = set_IODnav_LSB j lsb rs;
          pages = (if lsb \<noteq> word_of_int (current_IODnav rs1 mod 4)
                   then (inav_rs_pages rs1)[0 := 0, 1 := 0, 2 := 0, 3 := 0] else inav_rs_pages rs1);
          base = INAV_RS_INFO_VECTOR_LENGTH + j * INAV_RS_SUBVECTOR_LENGTH;
          buf1 = (rs_buffer rs1)[base := read_octet_unsigned bits [(FIRST_RS_BIT, BITS_IN_OCTET)]]
      in rs1\<lparr>rs_buffer := store_octets bits (base + 1) FIRST_RS_BIT_AFTER_IODNAV (INAV_RS_SUBVECTOR_LENGTH - 1) buf1,
             inav_rs_pages := pages[4 + j := 1]\<rparr>)"

definition with_rs :: "(inav_rs \<Rightarrow> inav_rs) \<Rightarrow> galileo_inav_message \<Rightarrow> galileo_inav_message" where
  "with_rs f st = (if enable_rs (rs_state st) then st\<lparr>rs_state := f (rs_state st)\<rparr> else st)"

subsection \<open>The word decoder\<close>

definition decode_page :: "int \<Rightarrow> 128 word \<Rightarrow> galileo_inav_message \<Rightarrow> galileo_inav_message" where
  "decode_page page_number bits st =
     (if page_number = 1 then let st1 = read_page_1 bits st in with_rs (store_info_1 bits (IOD_nav_1 (word1 st1))) st1
      else if page_number = 2 then let st1 = read_page_2 bits st in with_rs (store_info 1 16 bits (IOD_nav_2 (word2 st1))) st1
      else if page_number = 3 then let st1 = read_page_3 bits st in with_rs (store_info 2 30 bits (IOD_nav_3 (word3 st1))) st1
      else if page_number = 4 then let st1 = read_page_4 bits st in with_rs (store_info 3 44 bits (IOD_nav_4 (word4 st1))) st1
      else if page_number = 5 then read_word_5 bits st
      else if page_number = 6 then read_word_6 bits st
      else if page_number = 7 then read_word_7 bits st
      else if page_number = 8 then read_word_8 bits st
      else if page_number = 9 then read_word_9 bits st
      else if page_number = 10 then read_word_10 bits st
      else if page_number = 16 then read_word_16 bits st
      else if page_number = 17 then with_rs (store_parity 0 bits) st
      else if page_number = 18 then with_rs (store_parity 1 bits) st
      else if page_number = 19 then with_rs (store_parity 2 bits) st
      else if page_number = 20 then with_rs (store_parity 3 bits) st
      else if page_number = 0 then read_word_0 bits st
      else st)"

text \<open>The argument is a C string: it ends at the first zero character.\<close>

definition page_jk_decoder :: "string \<Rightarrow> galileo_inav_message \<Rightarrow> (galileo_inav_message \<times> int) result" where
  "page_jk_decoder data_jk st =
     bindr (bitset_of_string (takeWhile (\<lambda>c. c \<noteq> CHR 0x00) data_jk)) (\<lambda>data_jk_bits.
     let page_number = nav_u32 data_jk_bits PAGE_TYPE_BIT
     in Inr (decode_page page_number data_jk_bits st, page_number))"

subsection \<open>Joining pages and the CRC\<close>

text \<open>
  The 196 bits as 25 bytes: the blocks of the dynamic bitset from the least significant one on,
  reversed, so that the zero fill comes first.
\<close>

definition frame_bytes :: "196 word \<Rightarrow> byte list" where
  "frame_bytes bits = rev (map (\<lambda>j. ucast (drop_bit (8 * j) bits)) [0..<GALILEO_DATA_FRAME_BYTES])"

text \<open>\<open>crc\<close> stands for \<^verbatim>\<open>boost::crc_optimal<24, 0x1864CFB, 0, 0, false, false>\<close> applied to bytes.\<close>

definition CRC_test :: "(byte list \<Rightarrow> nat) \<Rightarrow> 196 word \<Rightarrow> 24 word \<Rightarrow> bool" where
  "CRC_test crc bits checksum \<longleftrightarrow> unat checksum = crc (take GALILEO_DATA_FRAME_BYTES (frame_bytes bits))"

definition split_odd :: "(byte list \<Rightarrow> nat) \<Rightarrow> string \<Rightarrow> galileo_inav_message \<Rightarrow> galileo_inav_message result" where
  "split_odd crc page_INAV st =
     bindr (substr page_INAV 0 1) (\<lambda>Even_bit.
     bindr (substr page_INAV 1 1) (\<lambda>Page_type_even.
     bindr (substr page_INAV 2 112) (\<lambda>Data_k.
     bindr (substr page_INAV 114 1) (\<lambda>Odd_bit.
     bindr (substr page_INAV 115 1) (\<lambda>Page_type_Odd.
     bindr (substr page_INAV 116 16) (\<lambda>Data_j.
     bindr (substr page_INAV 132 40) (\<lambda>Reserved_1.
     bindr (substr page_INAV 172 22) (\<lambda>SAR.
     bindr (substr page_INAV 194 2) (\<lambda>Spare.
     bindr (substr page_INAV 196 24) (\<lambda>CRC_data.
     bindr (substr page_INAV 220 8) (\<lambda>Reserved_2.
     bindr (substr page_INAV 228 6) (\<lambda>Tail_odd.
     bindr (substr page_INAV 0 GALILEO_DATA_FRAME_BITS) (\<lambda>TLM_word_for_CRC.
     bindr (bitset_of_string TLM_word_for_CRC) (\<lambda>TLM_word_for_CRC_bits.
     bindr (bitset_of_string CRC_data) (\<lambda>checksum.
     if CRC_test crc TLM_word_for_CRC_bits checksum
     then let st1 = st\<lparr>flags := (flags st)\<lparr>flag_CRC_test := True\<rparr>\<rparr> in
       bindr (substr Data_k 0 6) (\<lambda>page_number_bits.
       bindr (bitset_of_string page_number_bits) (\<lambda>page_type_bits.
       let Page_type = to_int32 (uint (read_page_type_unsigned page_type_bits TYPE_BIT));
           Data_jk_ephemeris = Data_k @ Data_j
       in bindr (page_jk_decoder Data_jk_ephemeris (st1\<lparr>Page_type_time_stamp := Page_type\<rparr>)) (\<lambda>(st2, page_number).
          Inr (st2\<lparr>data_nav := Data_jk_ephemeris, data_OSNMA := Reserved_1\<rparr>))))
     else Inr (st\<lparr>flags := (flags st)\<lparr>flag_CRC_test := False\<rparr>\<rparr>))))))))))))))))"

definition split_page :: "(byte list \<Rightarrow> nat) \<Rightarrow> string \<Rightarrow> int \<Rightarrow> galileo_inav_message \<Rightarrow> galileo_inav_message result" where
  "split_page crc page_string flag_even_word st =
     (case page_string of
        [] \<Rightarrow> Inl OutOfRange
      | c # _ \<Rightarrow>
          if c = CHR ''1''
          then (if flag_even_word = 1 then split_odd crc (page_Even st @ page_string) st else Inr st)
          else bindr (substr page_string 0 114) (\<lambda>even. Inr (st\<lparr>page_Even := even\<rparr>)))"

subsection \<open>Regenerating missing pages\<close>

definition octet_bits :: "byte \<Rightarrow> bool list" where
  "octet_bits b = map (\<lambda>i. bit b (8 - i - 1)) [0..<8]"

text \<open>
  Each method fills a bitset from index 0 on and then reverses it, so that its list of bits, read
  from the first, is the word from its most significant bit on.
\<close>

definition regenerate_page_1 :: "byte list \<Rightarrow> 128 word" where
  "regenerate_page_1 decoded =
     bits_to_word ([False, False, False, False, False, True] @ octet_bits (decoded ! 1)
       @ [bit (decoded ! 0) 1, bit (decoded ! 0) 0] @ concat (map (\<lambda>k. octet_bits (decoded ! k)) [2..<16]))"

definition iodnav_bits :: "int \<Rightarrow> bool list" where
  "iodnav_bits iod = (let w = word_of_int iod :: 10 word in map (\<lambda>i. bit w (10 - i - 1)) [0..<10])"

definition regenerate_page_2 :: "int \<Rightarrow> byte list \<Rightarrow> 128 word" where
  "regenerate_page_2 iod decoded =
     bits_to_word ([False, False, False, False, True, False] @ iodnav_bits iod
       @ concat (map (\<lambda>k. octet_bits (decoded ! (k + 16))) [0..<14]))"

definition regenerate_page_3 :: "int \<Rightarrow> byte list \<Rightarrow> 128 word" where
  "regenerate_page_3 iod decoded =
     bits_to_word ([False, False, False, False, True, True] @ iodnav_bits iod
       @ concat (map (\<lambda>k. octet_bits (decoded ! (k + 30))) [0..<14]))"

definition regenerate_page_4 :: "int \<Rightarrow> byte list \<Rightarrow> 128 word" where
  "regenerate_page_4 iod decoded =
     bits_to_word ([False, False, False, True, False, False] @ iodnav_bits iod
       @ concat (map (\<lambda>k. octet_bits (decoded ! (k + 44))) [0..<14]))"

subsection \<open>Complete data sets\<close>

definition erasure_positions :: "int list \<Rightarrow> int list" where
  "erasure_positions pages =
     (if pages ! 0 = 0 then map int [1..<16] else []) @
     (if pages ! 1 = 0 then map int [16..<30] else []) @
     (if pages ! 2 = 0 then map int [30..<44] else []) @
     (if pages ! 3 = 0 then map int [44..<58] else []) @
     (if pages ! 4 = 0 then map (\<lambda>i. int i + 137) [58..<73] else []) @
     (if pages ! 5 = 0 then map (\<lambda>i. int i + 137) [73..<88] else []) @
     (if pages ! 6 = 0 then map (\<lambda>i. int i + 137) [88..<103] else []) @
     (if pages ! 7 = 0 then map (\<lambda>i. int i + 137) [103..<118] else [])"

definition read_missing_pages :: "galileo_inav_message \<Rightarrow> galileo_inav_message" where
  "read_missing_pages st =
     (let pages = inav_rs_pages (rs_state st); buf = rs_buffer (rs_state st); iod = current_IODnav (rs_state st);
          st1 = (if pages ! 0 = 0 then read_page_1 (regenerate_page_1 buf) st else st);
          st2 = (if pages ! 1 = 0 then read_page_2 (regenerate_page_2 iod buf) st1 else st1);
          st3 = (if pages ! 2 = 0 then read_page_3 (regenerate_page_3 iod buf) st2 else st2)
      in if pages ! 3 = 0 then read_page_4 (regenerate_page_4 iod buf) st3 else st3)"

definition clear_ephemeris_flags :: "inav_flags \<Rightarrow> inav_flags" where
  "clear_ephemeris_flags f =
     f\<lparr>flag_ephemeris_1 := False, flag_ephemeris_2 := False, flag_ephemeris_3 := False, flag_ephemeris_4 := False,
       flag_all_ephemeris := True\<rparr>"

definition same_IOD :: "galileo_inav_message \<Rightarrow> bool" where
  "same_IOD st \<longleftrightarrow> IOD_nav_1 (word1 st) = IOD_nav_2 (word2 st) \<and> IOD_nav_3 (word3 st) = IOD_nav_4 (word4 st)
     \<and> IOD_nav_1 (word1 st) = IOD_nav_3 (word3 st)"

definition all_ephemeris_words :: "galileo_inav_message \<Rightarrow> bool" where
  "all_ephemeris_words st \<longleftrightarrow> flag_ephemeris_1 (flags st) \<and> flag_ephemeris_2 (flags st) \<and> flag_ephemeris_3 (flags st)
     \<and> flag_ephemeris_4 (flags st) \<and> flag_iono_and_GST (flags st)"

definition have_new_ephemeris :: "galileo_inav_message \<Rightarrow> galileo_inav_message \<times> bool" where
  "have_new_ephemeris st =
     (if all_ephemeris_words st \<and> same_IOD st
      then (st\<lparr>flags := clear_ephemeris_flags (flags st), IOD_ephemeris := IOD_nav_1 (word1 st),
               rs_state := (rs_state st)\<lparr>enable_rs := False\<rparr>\<rparr>, True)
      else if enable_rs (rs_state st) \<and> sum_list (inav_rs_pages (rs_state st)) = 4
      then let (r, buf) = rs_decode inav_reed_solomon (rs_buffer (rs_state st)) (erasure_positions (inav_rs_pages (rs_state st)));
               st1 = st\<lparr>rs_state := (rs_state st)\<lparr>rs_buffer := buf\<rparr>\<rparr>
           in if 0 \<le> r
              then let st2 = read_missing_pages st1
                   in (st2\<lparr>rs_state := (rs_state st2)\<lparr>inav_rs_pages := replicate 8 0, enable_rs := False\<rparr>,
                           flags := clear_ephemeris_flags (flags st2), IOD_ephemeris := IOD_nav_1 (word1 st2)\<rparr>, True)
              else (st1, False)
      else (st, False))"

definition have_new_iono_and_GST :: "galileo_inav_message \<Rightarrow> galileo_inav_message \<times> bool" where
  "have_new_iono_and_GST st =
     (if flag_iono_and_GST (flags st) \<and> flag_utc_model (flags st)
      then (st\<lparr>flags := (flags st)\<lparr>flag_iono_and_GST := False\<rparr>\<rparr>, True) else (st, False))"

definition have_new_utc_model :: "galileo_inav_message \<Rightarrow> galileo_inav_message \<times> bool" where
  "have_new_utc_model st =
     (if flag_utc_model (flags st) then (st\<lparr>flags := (flags st)\<lparr>flag_utc_model := False\<rparr>\<rparr>, True) else (st, False))"

definition have_new_almanac :: "galileo_inav_message \<Rightarrow> galileo_inav_message \<times> bool" where
  "have_new_almanac st =
     (if flag_almanac_1 (flags st) \<and> flag_almanac_2 (flags st) \<and> flag_almanac_3 (flags st) \<and> flag_almanac_4 (flags st)
      then (st\<lparr>flags := (flags st)\<lparr>flag_almanac_1 := False, flag_almanac_2 := False, flag_almanac_3 := False,
                flag_almanac_4 := False, flag_all_almanac := True\<rparr>\<rparr>, True)
      else (st, False))"

definition have_new_reduced_ced :: "galileo_inav_message \<Rightarrow> galileo_inav_message \<times> bool" where
  "have_new_reduced_ced st =
     (if flag_CED (flags st) \<and> 0 < WN_5 (word5 st)
      then (st\<lparr>flags := (flags st)\<lparr>flag_CED := False\<rparr>\<rparr>, True) else (st, False))"

end
