(* ===== verification/Galileo_Inav_Correct.thy ===== *)
theory Galileo_Inav_Correct
  imports Galileo_Inav_Decoder
begin

section \<open>Correctness of the I/NAV page decoder\<close>

text \<open>
  Joining an even and an odd page and checking the CRC (\<open>split_page\<close>), the invariant of the
  Reed-Solomon buffer over every sequence of calls, the round trip between storing a word in that
  buffer and regenerating it, the erasure positions handed to the Reed-Solomon decoder, and the
  reporting of complete data sets.
\<close>

subsection \<open>Page types\<close>

definition word_type :: "128 word \<Rightarrow> nat" where
  "word_type bits = bin_value (take 6 (bitset_to_string bits))"

lemma nav_u32_value:
  assumes "in_range 128 p" and "slices_length p \<le> 31"
  shows "nav_u32 bits p = int (bin_value (slice_string (bitset_to_string bits) p))"
  unfolding nav_u32_def by (rule inav.read_u_int32(1) [OF assms])

lemma page_number_word_type: "nav_u32 bits PAGE_TYPE_BIT = int (word_type bits)"
  by (simp add: nav_u32_value PAGE_TYPE_BIT_def in_range_def slices_length_def word_type_def slice_string_def)

lemma page_type_value:
  "bin_string s \<Longrightarrow> length s = 6 \<Longrightarrow>
   to_int32 (uint (read_page_type_unsigned (bits_to_word (map char_bit s)) TYPE_BIT)) = int (bin_value s)"
proof -
  assume s: "bin_string s" "length s = 6"
  let ?w = "bits_to_word (map char_bit s) :: 6 word"
  have "unat (read_page_type_unsigned ?w TYPE_BIT) = bin_value (slice_string (bitset_to_string ?w) TYPE_BIT)"
    unfolding read_page_type_unsigned_def
    by (rule read_bits_value) (simp_all add: TYPE_BIT_def in_range_def slices_length_def)
  also have "slice_string (bitset_to_string ?w) TYPE_BIT = s"
    using s by (simp add: string_bitset_roundtrip TYPE_BIT_def slice_string_def)
  finally have u: "uint (read_page_type_unsigned ?w TYPE_BIT) = int (bin_value s)" by (simp add: uint_nat)
  have "int (bin_value s) < 2 ^ 6" using int_bin_value_bound [of s] s(2) by simp
  then have "to_int32 (int (bin_value s)) = int (bin_value s)" by (intro to_int32_id) simp_all
  then show ?thesis using u by simp
qed

subsection \<open>Joining pages\<close>

lemma bitset_of_bin: "bin_string s \<Longrightarrow> length s = LENGTH('n) \<Longrightarrow>
  bitset_of_string s = Inr (bits_to_word (map char_bit s) :: 'n::len word)"
  by (simp add: bitset_of_string_def)

lemma takeWhile_bin_string: "bin_string s \<Longrightarrow> takeWhile (\<lambda>c. c \<noteq> CHR 0x00) s = s"
  by (induction s) (auto simp: is_bit_char_def)

lemma page_jk_decoder_bin:
  assumes "bin_string s" and "length s = 128"
  shows "page_jk_decoder s st =
    Inr (decode_page (int (bin_value (take 6 s))) (bits_to_word (map char_bit s)) st, int (bin_value (take 6 s)))"
  using assms
  by (simp add: page_jk_decoder_def takeWhile_bin_string bitset_of_bin Let_def page_number_word_type
      word_type_def string_bitset_roundtrip)

text \<open>The parts of a joined page: the word, the authentication data, the frame under the CRC and the checksum.\<close>

definition page_word :: "string \<Rightarrow> string" where
  "page_word page = take 112 (drop 2 page) @ take 16 (drop 116 page)"

definition page_osnma :: "string \<Rightarrow> string" where
  "page_osnma page = take 40 (drop 132 page)"

definition crc_ok :: "(byte list \<Rightarrow> nat) \<Rightarrow> string \<Rightarrow> bool" where
  "crc_ok crc page \<longleftrightarrow> crc (frame_bytes (bits_to_word (map char_bit (take 196 page)))) = bin_value (take 24 (drop 196 page))"

lemma unat_bits_to_word:
  assumes "bin_string s" and "length s = LENGTH('n::len)"
  shows "unat (bits_to_word (map char_bit s) :: 'n word) = bin_value s"
proof -
  let ?w = "bits_to_word (map char_bit s) :: 'n word"
  have "read_bits ?w [(1, LENGTH('n))] = ?w"
    by (rule bitset_to_string_inj, subst bitset_to_string_read_bits)
      (simp_all add: in_range_def slices_length_def slice_string_def Suc_le_eq)
  moreover have "unat (read_bits ?w [(1, LENGTH('n))] :: 'n word) = bin_value (slice_string (bitset_to_string ?w) [(1, LENGTH('n))])"
    by (rule read_bits_value) (simp_all add: in_range_def slices_length_def Suc_le_eq)
  ultimately show ?thesis using assms by (simp add: string_bitset_roundtrip slice_string_def)
qed

lemma length_frame_bytes: "length (frame_bytes bits) = GALILEO_DATA_FRAME_BYTES"
  by (simp add: frame_bytes_def)

lemma CRC_test_page:
  assumes "bin_string page" and "length page = 234"
  shows "CRC_test crc (bits_to_word (map char_bit (take 196 page))) (bits_to_word (map char_bit (take 24 (drop 196 page))))
    \<longleftrightarrow> crc_ok crc page"
proof -
  have "unat (bits_to_word (map char_bit (take 24 (drop 196 page))) :: 24 word) = bin_value (take 24 (drop 196 page))"
    by (rule unat_bits_to_word) (use assms in \<open>auto simp: bin_simps\<close>)
  then show ?thesis by (auto simp: CRC_test_def crc_ok_def length_frame_bytes)
qed

lemma split_odd_page:
  assumes b: "bin_string page" and l: "length page = 234"
  shows "split_odd crc page st =
    Inr (if crc_ok crc page
         then (decode_page (int (bin_value (take 6 (page_word page)))) (bits_to_word (map char_bit (page_word page)))
                (st\<lparr>flags := (flags st)\<lparr>flag_CRC_test := True\<rparr>,
                   Page_type_time_stamp := int (bin_value (take 6 (page_word page)))\<rparr>))
              \<lparr>data_nav := page_word page, data_OSNMA := page_osnma page\<rparr>
         else st\<lparr>flags := (flags st)\<lparr>flag_CRC_test := False\<rparr>\<rparr>)"
proof -
  let ?k = "take 112 (drop 2 page)" and ?j = "take 16 (drop 116 page)"
  have kj: "bin_string (?k @ ?j)" "length (?k @ ?j) = 128" using assms by (auto simp: bin_simps)
  have six: "bin_string (take 6 ?k)" "length (take 6 ?k) = 6" using assms by (auto simp: bin_simps)
  have t6: "take 6 (?k @ ?j) = take 6 ?k" using l by simp
  have frame: "bitset_of_string (take GALILEO_DATA_FRAME_BITS page) = (Inr (bits_to_word (map char_bit (take 196 page))) :: 196 word result)"
    by (subst bitset_of_bin) (use assms in \<open>auto simp: bin_simps GALILEO_DATA_FRAME_BITS_def\<close>)
  have chk: "bitset_of_string (take 24 (drop 196 page)) = (Inr (bits_to_word (map char_bit (take 24 (drop 196 page)))) :: 24 word result)"
    by (rule bitset_of_bin) (use assms in \<open>auto simp: bin_simps\<close>)
  have six_bits: "bitset_of_string (take 6 ?k) = (Inr (bits_to_word (map char_bit (take 6 ?k))) :: 6 word result)"
    by (rule bitset_of_bin) (use six in simp_all)
  show ?thesis
    unfolding split_odd_def page_word_def page_osnma_def t6
    by (simp add: l frame chk six_bits CRC_test_page [OF assms] page_type_value [OF six]
        page_jk_decoder_bin [OF kj] t6 Let_def del: take_take)
qed

text \<open>Decoding a word leaves the joined page, its texts and the result of the CRC alone.\<close>

lemmas page_readers =
  read_page_1_def read_page_2_def read_page_3_def read_page_4_def read_word_5_def read_word_6_def read_word_7_def
  read_word_8_def read_word_9_def read_word_10_def read_word_16_def read_word_0_def

lemma decode_page_frame [simp]:
  "page_Even (decode_page n bits st) = page_Even st" "data_OSNMA (decode_page n bits st) = data_OSNMA st"
  "data_nav (decode_page n bits st) = data_nav st" "Page_type_time_stamp (decode_page n bits st) = Page_type_time_stamp st"
  "flag_CRC_test (flags (decode_page n bits st)) = flag_CRC_test (flags st)"
  "enable_rs (rs_state (decode_page n bits st)) = enable_rs (rs_state st)"
  by (simp_all add: decode_page_def page_readers with_rs_def Let_def store_info_1_def store_info_def
      check_IODnav_def store_parity_def set_IODnav_LSB_def)

definition nominal_page :: "char \<Rightarrow> string \<Rightarrow> bool" where
  "nominal_page c s \<longleftrightarrow> bin_string s \<and> length s = 120 \<and> hd s = c"

lemma split_page_pair:
  assumes "nominal_page (CHR ''0'') pe" and "nominal_page (CHR ''1'') po"
  shows "bindr (split_page crc pe f st) (split_page crc po 1) = split_odd crc (take 114 pe @ po) (st\<lparr>page_Even := take 114 pe\<rparr>)"
  using assms by (cases pe; cases po) (auto simp: nominal_page_def split_page_def)

lemma joined_page:
  assumes "nominal_page (CHR ''0'') pe" and "nominal_page (CHR ''1'') po"
  shows "bin_string (take 114 pe @ po)" and "length (take 114 pe @ po) = 234"
  using assms by (auto simp: nominal_page_def bin_simps)

lemma bin_value_zeros [simp]: "bin_value (replicate n (CHR ''0'')) = 0"
  by (induction n) simp_all

lemma bin_string_zeros [simp]: "bin_string (replicate n (CHR ''0''))"
  by (simp add: list_all_iff is_bit_char_def)

lemma zero_page_nominal:
  "nominal_page (CHR ''0'') (replicate 120 (CHR ''0''))" "nominal_page (CHR ''1'') (CHR ''1'' # replicate 119 (CHR ''0''))"
  unfolding nominal_page_def using bin_string_zeros [of 119]
  by (simp_all add: is_bit_char_def)

lemma crc_ok_zero_page:
  "crc_ok (\<lambda>_. n) (take 114 (replicate 120 (CHR ''0'')) @ CHR ''1'' # replicate 119 (CHR ''0'')) \<longleftrightarrow> n = 0"
  by (simp add: crc_ok_def drop_Cons')

text \<open>
  C26: an even and an odd page whose CRC is right are accepted: the word type, the 128-bit word and
  the 40 bits of OSNMA data are those of the joined page, the CRC flag is set, and the word is
  decoded by its type.
\<close>

theorem split_page_accepts:
  assumes "nominal_page (CHR ''0'') pe" and "nominal_page (CHR ''1'') po"
    and "crc_ok crc (take 114 pe @ po)"
  shows "\<exists>st'. bindr (split_page crc pe f st) (split_page crc po 1) = Inr st' \<and>
    flag_CRC_test (flags st') \<and>
    data_nav st' = take 112 (drop 2 pe) @ take 16 (drop 2 po) \<and>
    data_OSNMA st' = take 40 (drop 18 po) \<and>
    bin_string (data_nav st') \<and> bin_string (data_OSNMA st') \<and> length (data_nav st') = 128 \<and> length (data_OSNMA st') = 40 \<and>
    Page_type_time_stamp st' = int (bin_value (take 6 (drop 2 pe))) \<and>
    st' = (decode_page (Page_type_time_stamp st') (bits_to_word (map char_bit (data_nav st')))
             (st\<lparr>page_Even := take 114 pe, flags := (flags st)\<lparr>flag_CRC_test := True\<rparr>,
                Page_type_time_stamp := Page_type_time_stamp st'\<rparr>))
            \<lparr>data_nav := data_nav st', data_OSNMA := data_OSNMA st'\<rparr>"
proof -
  let ?page = "take 114 pe @ po"
  have l: "length pe = 120" "length po = 120" "bin_string pe" "bin_string po" using assms by (simp_all add: nominal_page_def)
  have w: "page_word ?page = take 112 (drop 2 pe) @ take 16 (drop 2 po)"
    using l by (simp add: page_word_def drop_take)
  have o: "page_osnma ?page = take 40 (drop 18 po)" using l by (simp add: page_osnma_def)
  have t6: "take 6 (page_word ?page) = take 6 (drop 2 pe)" using l by (simp add: w)
  have bin: "bin_string (take n (drop m pe))" "bin_string (take n (drop m po))" for n m using l by (auto simp: bin_simps)
  show ?thesis
    unfolding split_page_pair [OF assms(1,2)] split_odd_page [OF joined_page [OF assms(1,2)]]
    by (rule exI, intro conjI, rule refl) (use assms(3) l in \<open>simp_all add: w o t6 bin\<close>)
qed

theorem split_page_accepts_witness:
  "\<exists>st'. bindr (split_page (\<lambda>_. 0) (replicate 120 (CHR ''0'')) 0 new_inav_message)
       (split_page (\<lambda>_. 0) (CHR ''1'' # replicate 119 (CHR ''0'')) 1) = Inr st' \<and>
     flag_CRC_test (flags st') \<and> data_OSNMA st' = replicate 40 (CHR ''0'')"
proof -
  have c: "crc_ok (\<lambda>_. 0) (take 114 (replicate 120 (CHR ''0'')) @ CHR ''1'' # replicate 119 (CHR ''0''))"
    by (simp only: crc_ok_zero_page zero_neq_one one_neq_zero simp_thms)
  show ?thesis
    using split_page_accepts [OF zero_page_nominal c, of 0 new_inav_message] by (auto simp: drop_Cons')
qed

text \<open>
  C28: when the CRC does not match, the joined page is discarded: only the stored even page and the
  CRC flag change, whatever the bits of the page are.
\<close>

theorem split_page_rejects:
  assumes "nominal_page (CHR ''0'') pe" and "nominal_page (CHR ''1'') po"
    and "\<not> crc_ok crc (take 114 pe @ po)"
  shows "bindr (split_page crc pe f st) (split_page crc po 1) =
    Inr (st\<lparr>page_Even := take 114 pe, flags := (flags st)\<lparr>flag_CRC_test := False\<rparr>\<rparr>)"
  unfolding split_page_pair [OF assms(1,2)] split_odd_page [OF joined_page [OF assms(1,2)]]
  using assms(3) by simp

theorem split_page_rejects_witness:
  "bindr (split_page (\<lambda>_. 1) (replicate 120 (CHR ''0'')) 0 new_inav_message)
     (split_page (\<lambda>_. 1) (CHR ''1'' # replicate 119 (CHR ''0'')) 1) =
   Inr (new_inav_message\<lparr>page_Even := replicate 114 (CHR ''0''), flags := (flags new_inav_message)\<lparr>flag_CRC_test := False\<rparr>\<rparr>)"
proof -
  have c: "\<not> crc_ok (\<lambda>_. 1) (take 114 (replicate 120 (CHR ''0'')) @ CHR ''1'' # replicate 119 (CHR ''0''))"
    by (simp only: crc_ok_zero_page zero_neq_one one_neq_zero simp_thms)
  show ?thesis using split_page_rejects [OF zero_page_nominal c, of 0 new_inav_message] by simp
qed

subsection \<open>The Reed-Solomon buffer\<close>

lemma length_store_octets [simp]: "length (store_octets bits base sb n buf) = length buf"
  unfolding store_octets_def by (rule fold_keeps_length) simp

lemma nth_store_octets:
  "i < length buf \<Longrightarrow> store_octets bits base sb n buf ! i =
     (if base \<le> i \<and> i < base + n then read_octet_unsigned bits [(sb + (i - base) * 8, 8)] else buf ! i)"
proof (induction n)
  case 0
  then show ?case by (auto simp: store_octets_def)
next
  case (Suc n)
  have "store_octets bits base sb (Suc n) buf =
      (store_octets bits base sb n buf)[base + n := read_octet_unsigned bits [(sb + n * 8, 8)]]"
    by (simp add: store_octets_def BITS_IN_OCTET_def)
  then show ?case using Suc by (cases "i = base + n") auto
qed

lemma octet_bits_string: "octet_bits b = map char_bit (bitset_to_string b)"
  by (simp add: octet_bits_def bitset_to_string_def)

lemma octet_bits_read:
  "1 \<le> f \<Longrightarrow> f + 8 \<le> 129 \<Longrightarrow>
   octet_bits (read_octet_unsigned bits [(f, 8)]) = map char_bit (take 8 (drop (f - 1) (bitset_to_string bits)))"
  unfolding octet_bits_string read_octet_unsigned_def
  by (subst bitset_to_string_read_bits) (simp_all add: in_range_def slices_length_def slice_string_def)

lemma concat_octets:
  "a + n * 8 \<le> length s \<Longrightarrow> concat (map (\<lambda>k. take 8 (drop (a + k * 8) s)) [0..<n]) = take (n * 8) (drop a s)"
proof (induction n)
  case 0
  then show ?case by simp
next
  case (Suc n)
  have "take (Suc n * 8) (drop a s) = take (n * 8) (drop a s) @ take 8 (drop (n * 8) (drop a s))"
    by (metis take_add mult_Suc add.commute)
  then show ?case using Suc by (simp add: add.commute)
qed

lemma concat_stored_octets:
  assumes "\<And>k. k < n \<Longrightarrow> f k = read_octet_unsigned bits [(17 + k * 8, 8)]" and "16 + n * 8 \<le> 128"
  shows "concat (map (\<lambda>k. octet_bits (f k)) [0..<n]) = map char_bit (take (n * 8) (drop 16 (bitset_to_string bits)))"
proof -
  have "concat (map (\<lambda>k. octet_bits (f k)) [0..<n]) =
      concat (map (\<lambda>k. map char_bit (take 8 (drop (16 + k * 8) (bitset_to_string bits)))) [0..<n])"
  proof -
    have "octet_bits (f k) = map char_bit (take 8 (drop (16 + k * 8) (bitset_to_string bits)))" if "k < n" for k
    proof -
      have "k * 8 + 8 \<le> n * 8" using that by simp
      then have "17 + k * 8 + 8 \<le> 129" using assms(2) by linarith
      then show ?thesis using octet_bits_read [of "17 + k * 8" bits] that by (simp add: assms(1))
    qed
    then show ?thesis by (intro arg_cong [of _ _ concat]) (simp cong: map_cong)
  qed
  also have "\<dots> = map char_bit (concat (map (\<lambda>k. take 8 (drop (16 + k * 8) (bitset_to_string bits))) [0..<n]))"
    by (simp add: map_concat comp_def)
  also have "\<dots> = map char_bit (take (n * 8) (drop 16 (bitset_to_string bits)))"
    using assms(2) by (subst concat_octets) simp_all
  finally show ?thesis .
qed

text \<open>The header of a word: its type and the issue of data.\<close>

lemma bits_to_word_text: "bits_to_word (map char_bit (bitset_to_string w)) = w"
  using bitset_string_roundtrip [of w] by (simp add: bitset_of_string_def)

lemma iodnav_bits_value:
  assumes "bin_string s" and "length s = 10"
  shows "iodnav_bits (int (bin_value s)) = map char_bit s"
proof -
  let ?w = "bits_to_word (map char_bit s) :: 10 word"
  have "unat ?w = bin_value s" by (rule unat_bits_to_word) (use assms in simp_all)
  then have "word_of_int (int (bin_value s)) = ?w" by (metis of_int_of_nat_eq of_nat_unat ucast_id)
  moreover have "map (\<lambda>i. bit ?w (10 - i - 1)) [0..<10] = map char_bit (bitset_to_string ?w)"
    by (simp add: bitset_to_string_def)
  ultimately show ?thesis using assms by (simp add: iodnav_bits_def Let_def string_bitset_roundtrip del: upt_rec_numeral)
qed

lemma bitset_to_string_parts:
  "take 6 s @ take 10 (drop 6 s) @ take 112 (drop 16 s) = s" if "length s = 128" for s :: string
proof -
  have "take 6 s @ take 10 (drop 6 s) = take 16 s" using take_add [of 6 10 s] by simp
  moreover have "take 112 (drop 16 s) = drop 16 s" using that by simp
  ultimately show ?thesis by (metis append_assoc append_take_drop_id)
qed

lemma word_type_text:
  assumes "word_type bits = bin_value t" and "bin_string t" and "length t = 6"
  shows "take 6 (bitset_to_string bits) = t"
  by (rule bin_value_inj) (use assms bin_string_take [OF bin_string_bitset_to_string] in \<open>auto simp: word_type_def\<close>)

text \<open>A buffer that holds the 14 octets of a word from \<open>base\<close> on gives the word back.\<close>

lemma regenerate_from_octets:
  assumes oct: "\<And>k. k < 14 \<Longrightarrow> buf ! (k + base) = read_octet_unsigned bits [(17 + k * 8, 8)]"
    and iod: "iod = nav_u32 bits [(7, 10)]" and t: "take 6 (bitset_to_string bits) = t"
  shows "bits_to_word (map char_bit t @ iodnav_bits iod @ concat (map (\<lambda>k. octet_bits (buf ! (k + base))) [0..<14])) = bits"
proof -
  let ?s = "bitset_to_string bits"
  have "iod = int (bin_value (take 10 (drop 6 ?s)))"
    by (simp add: iod nav_u32_value in_range_def slices_length_def slice_string_def)
  moreover have "bin_string (take 10 (drop 6 ?s))" by (auto simp: bin_simps)
  ultimately have i: "iodnav_bits iod = map char_bit (take 10 (drop 6 ?s))" by (simp add: iodnav_bits_value)
  have "map char_bit t @ iodnav_bits iod @ concat (map (\<lambda>k. octet_bits (buf ! (k + base))) [0..<14]) = map char_bit ?s"
    unfolding i concat_stored_octets [of 14 "\<lambda>k. buf ! (k + base)", OF oct, simplified] t [symmetric]
      map_append [symmetric] by (subst (4) bitset_to_string_parts [symmetric]) simp_all
  then show ?thesis by (simp only: bits_to_word_text)
qed

subsection \<open>Words received in any order\<close>

text \<open>\<open>word_base k\<close> is where the 14 octets of word \<open>k\<close> start that follow its issue of data.\<close>

definition word_base :: "nat \<Rightarrow> nat" where
  "word_base k = (if k = 1 then 2 else 16 + (k - 2) * 14)"

definition holds_word :: "byte list \<Rightarrow> nat \<Rightarrow> 128 word \<Rightarrow> bool" where
  "holds_word buf k w \<longleftrightarrow> (\<forall>i<14. buf ! (i + word_base k) = read_octet_unsigned w [(17 + i * 8, 8)]) \<and>
     (k = 1 \<longrightarrow> buf ! 1 = read_octet_unsigned w [(7, 8)])"

abbreviation word_iod :: "128 word \<Rightarrow> int" where
  "word_iod w \<equiv> nav_u32 w [(7, 10)]"

abbreviation first_octet :: "int \<Rightarrow> byte" where
  "first_octet iod \<equiv> word_of_int (4 + iod mod 4)"

lemma word_iod_value: "word_iod w = int (bin_value (take 10 (drop 6 (bitset_to_string w))))"
  by (simp add: nav_u32_value in_range_def slices_length_def slice_string_def)

lemma first_octet_text:
  assumes "word_type w = 1"
  shows "read_octet_unsigned w [(1, 6), (15, 2)] = first_octet (word_iod w)"
proof -
  let ?s = "bitset_to_string w"
  have t: "take 6 ?s = ''000001''" by (rule word_type_text) (simp_all add: assms is_bit_char_def)
  have "take 10 (drop 6 ?s) = take 8 (drop 6 ?s) @ take 2 (drop 14 ?s)" using take_add [of 8 2 "drop 6 ?s"] by simp
  then have i: "word_iod w mod 4 = int (bin_value (take 2 (drop 14 ?s)))"
    using int_bin_value_bound [of "take 2 (drop 14 ?s)"] by (simp add: word_iod_value bin_value_append)
  have "unat (read_octet_unsigned w [(1, 6), (15, 2)]) = bin_value (slice_string ?s [(1, 6), (15, 2)])"
    unfolding read_octet_unsigned_def by (rule read_bits_value) (simp_all add: in_range_def slices_length_def)
  also have "\<dots> = 4 + bin_value (take 2 (drop 14 ?s))" by (simp add: slice_string_def t)
  finally have "read_octet_unsigned w [(1, 6), (15, 2)] = of_nat (4 + bin_value (take 2 (drop 14 ?s)))"
    by (metis of_nat_unat ucast_id)
  then show ?thesis unfolding i by simp
qed

lemma check_IODnav_same: "current_IODnav rs = 0 \<or> current_IODnav rs = iod \<Longrightarrow> check_IODnav iod rs = rs\<lparr>current_IODnav := iod\<rparr>"
  by (auto simp: check_IODnav_def)

lemma decode_page_rs:
  assumes "enable_rs (rs_state st)"
  shows "rs_state (decode_page (int k) w st) =
    (if k = 1 then store_info_1 w (word_iod w) (rs_state st)
     else if k = 2 then store_info 1 16 w (word_iod w) (rs_state st)
     else if k = 3 then store_info 2 30 w (word_iod w) (rs_state st)
     else if k = 4 then store_info 3 44 w (word_iod w) (rs_state st)
     else if 17 \<le> k \<and> k \<le> 20 then store_parity (k - 17) w (rs_state st)
     else rs_state st)"
proof -
  consider "k = 0" | "k = 1" | "k = 2" | "k = 3" | "k = 4" | "k = 5" | "k = 6" | "k = 7" | "k = 8" | "k = 9" | "k = 10"
    | "k = 16" | "k = 17" | "k = 18" | "k = 19" | "k = 20" | "20 < k" | "10 < k" "k < 16" by atomize_elim arith
  then show ?thesis
    by cases (simp_all add: decode_page_def page_readers with_rs_def assms decode_word1_def decode_word2_def
        decode_word3_def decode_word4_def IOD_NAV_1_BIT_def IOD_NAV_2_BIT_def IOD_NAV_3_BIT_def IOD_NAV_4_BIT_def Let_def)
qed

lemma store_parity_fields:
  "rs_buffer (store_parity j w rs) = store_octets w (59 + j * 15) 17 14
     ((rs_buffer rs)[58 + j * 15 := read_octet_unsigned w [(7, 8)]])"
  "current_IODnav (store_parity j w rs) = current_IODnav rs"
  "enable_rs (store_parity j w rs) = enable_rs rs"
  by (simp_all add: store_parity_def set_IODnav_LSB_def Let_def inav_ints)

lemma store_info_fields:
  assumes "current_IODnav rs = 0 \<or> current_IODnav rs = iod"
  shows "rs_buffer (store_info p base w iod rs) = store_octets w base 17 14 ((rs_buffer rs)[0 := first_octet iod])"
    "current_IODnav (store_info p base w iod rs) = iod"
    "rs_buffer (store_info_1 w iod rs) = store_octets w 2 17 14
       ((rs_buffer rs)[0 := read_octet_unsigned w [(1, 6), (15, 2)], 1 := read_octet_unsigned w [(7, 8)]])"
    "current_IODnav (store_info_1 w iod rs) = iod"
  using assms by (simp_all add: store_info_def store_info_1_def check_IODnav_same Let_def inav_ints)

lemma holds_word_cong:
  "(\<And>i. i < 14 \<Longrightarrow> buf' ! (i + word_base k) = buf ! (i + word_base k)) \<Longrightarrow> (k = 1 \<longrightarrow> buf' ! 1 = buf ! 1) \<Longrightarrow>
   holds_word buf k w \<Longrightarrow> holds_word buf' k w"
  by (simp add: holds_word_def)

lemma holds_word_stored:
  assumes "length buf = 118" and "k \<in> {1..4}"
  shows "holds_word (store_octets w (word_base k) 17 14 (if k = 1 then buf[0 := a, 1 := read_octet_unsigned w [(7, 8)]] else buf[0 := a])) k w"
  using assms by (auto simp: holds_word_def word_base_def nth_store_octets)

lemma holds_word_kept:
  assumes "length buf = 118" and "k \<in> {1..4}" and "j \<in> {1..4}" and "j \<noteq> k"
    and "holds_word buf j w'"
  shows "holds_word (store_octets w (word_base k) 17 14 (if k = 1 then buf[0 := a, 1 := b] else buf[0 := a])) j w'"
proof -
  have "j = 1 \<or> j = 2 \<or> j = 3 \<or> j = 4" "k = 1 \<or> k = 2 \<or> k = 3 \<or> k = 4" using assms by auto
  then show ?thesis using assms(1,4,5)
    by (elim disjE) (auto simp: holds_word_def word_base_def nth_store_octets nth_list_update)
qed

lemma holds_word_parity:
  assumes "length buf = 118" and "k \<in> {1..4}" and "holds_word buf k w'"
  shows "holds_word (store_octets w (59 + j * 15) 17 14 (buf[58 + j * 15 := a])) k w'"
  using assms by (auto simp: holds_word_def word_base_def nth_store_octets)

definition rx_inv :: "(nat \<Rightarrow> 128 word) \<Rightarrow> int \<Rightarrow> nat set \<Rightarrow> inav_rs \<Rightarrow> bool" where
  "rx_inv W iod R rs \<longleftrightarrow> enable_rs rs \<and> length (rs_buffer rs) = 118 \<and>
     (if R \<inter> {1..4} = {} then current_IODnav rs = 0 else current_IODnav rs = iod \<and> rs_buffer rs ! 0 = first_octet iod) \<and>
     (\<forall>k \<in> R \<inter> {1..4}. holds_word (rs_buffer rs) k (W k))"

lemma rx_inv_info:
  assumes inv: "rx_inv W iod R rs" and k: "k \<in> {1..4}"
    and buf: "rs_buffer rs' = store_octets (W k) (word_base k) 17 14
      (if k = 1 then (rs_buffer rs)[0 := first_octet iod, 1 := read_octet_unsigned (W k) [(7, 8)]] else (rs_buffer rs)[0 := first_octet iod])"
    and rs': "current_IODnav rs' = iod" "enable_rs rs'"
  shows "rx_inv W iod (insert k R) rs'"
proof -
  have len: "length (rs_buffer rs) = 118" using inv by (simp add: rx_inv_def)
  have "rs_buffer rs' ! 0 = first_octet iod"
    using len k by (simp add: buf nth_store_octets word_base_def)
  moreover have "holds_word (rs_buffer rs') j (W j)" if "j \<in> insert k R \<inter> {1..4}" for j
    using that inv holds_word_stored [OF len k] holds_word_kept [OF len k, of j "W j" "W k"]
    unfolding buf rx_inv_def by (cases "j = k") auto
  ultimately show ?thesis using len k rs' by (auto simp: rx_inv_def buf)
qed

lemma rx_inv_step:
  assumes inv: "rx_inv W iod R (rs_state st)"
    and iod: "k \<in> {1..4} \<Longrightarrow> word_iod (W k) = iod" and ty: "k = 1 \<Longrightarrow> word_type (W k) = 1"
  shows "rx_inv W iod (insert k R) (rs_state (decode_page (int k) (W k) st))"
proof -
  have en: "enable_rs (rs_state st)" and cur: "current_IODnav (rs_state st) = 0 \<or> current_IODnav (rs_state st) = iod"
    using inv by (auto simp: rx_inv_def split: if_splits)
  have en': "enable_rs (rs_state (decode_page (int k) (W k) st))" using en by simp
  note sf = store_info_fields [OF cur]
  consider "k = 1" | "k = 2" | "k = 3" | "k = 4" | "17 \<le> k \<and> k \<le> 20" | "k \<notin> {1..4}" "\<not> (17 \<le> k \<and> k \<le> 20)"
    by atomize_elim auto
  then show ?thesis
  proof cases
    case 5
    have "length (rs_buffer (rs_state st)) = 118" using inv by (simp add: rx_inv_def)
    then show ?thesis
      using inv 5 holds_word_parity
      by (auto simp: rx_inv_def decode_page_rs [OF en] store_parity_fields nth_store_octets split: if_splits)
  next
    case 6
    then show ?thesis using inv by (auto simp: rx_inv_def decode_page_rs [OF en])
  qed (rule rx_inv_info [OF inv _ _ _ en'];
      use iod ty in \<open>simp add: decode_page_rs [OF en] sf word_base_def first_octet_text del: One_nat_def of_nat_1 of_nat_numeral\<close>)+
qed

lemma rx_inv_run:
  assumes "rs_state st = new_rs\<lparr>enable_rs := True\<rparr>"
    and "\<And>k. k \<in> set ks \<Longrightarrow> k \<in> {1..4} \<Longrightarrow> word_type (W k) = k \<and> word_iod (W k) = iod"
  shows "rx_inv W iod (set ks) (rs_state (fold (\<lambda>k. decode_page (int k) (W k)) ks st))"
  using assms(2)
proof (induction ks rule: rev_induct)
  case Nil
  then show ?case using assms(1) by (simp add: rx_inv_def new_rs_def inav_ints)
next
  case (snoc k ks)
  have "rx_inv W iod (insert k (set ks)) (rs_state (decode_page (int k) (W k) (fold (\<lambda>k. decode_page (int k) (W k)) ks st)))"
    by (rule rx_inv_step) (use snoc in auto)
  then show ?case by simp
qed

lemma regenerate_held_word:
  assumes "holds_word buf k w" and "k \<in> {1..4}" and "word_type w = k" and "buf ! 0 = first_octet (word_iod w)"
  shows "k = 1 \<Longrightarrow> regenerate_page_1 buf = w" "k = 2 \<Longrightarrow> regenerate_page_2 (word_iod w) buf = w"
    "k = 3 \<Longrightarrow> regenerate_page_3 (word_iod w) buf = w" "k = 4 \<Longrightarrow> regenerate_page_4 (word_iod w) buf = w"
proof -
  have oct: "buf ! (i + word_base k) = read_octet_unsigned w [(17 + i * 8, 8)]" if "i < 14" for i
    using assms(1) that by (simp add: holds_word_def)
  note reg = regenerate_from_octets [OF oct refl word_type_text]
  show "k = 2 \<Longrightarrow> regenerate_page_2 (word_iod w) buf = w"
    using reg [of "''000010''"] assms(3) by (simp add: regenerate_page_2_def word_base_def is_bit_char_def del: upt_rec_numeral)
  show "k = 3 \<Longrightarrow> regenerate_page_3 (word_iod w) buf = w"
    using reg [of "''000011''"] assms(3) by (simp add: regenerate_page_3_def word_base_def is_bit_char_def del: upt_rec_numeral)
  show "k = 4 \<Longrightarrow> regenerate_page_4 (word_iod w) buf = w"
    using reg [of "''000100''"] assms(3) by (simp add: regenerate_page_4_def word_base_def is_bit_char_def del: upt_rec_numeral)
  assume k: "k = 1"
  let ?s = "bitset_to_string w"
  have split10: "take 10 (drop 6 ?s) = take 8 (drop 6 ?s) @ take 2 (drop 14 ?s)" using take_add [of 8 2 "drop 6 ?s"] by simp
  have o0: "buf ! 0 = read_octet_unsigned w [(1, 6), (15, 2)]" using assms(3,4) k by (simp add: first_octet_text del: One_nat_def)
  have "bitset_to_string (buf ! 0) = take 6 ?s @ take 2 (drop 14 ?s)"
    unfolding o0 read_octet_unsigned_def
    by (subst bitset_to_string_read_bits) (simp_all add: in_range_def slices_length_def slice_string_def)
  then have "map char_bit (drop 6 (bitset_to_string (buf ! 0))) = map char_bit (take 2 (drop 14 ?s))" by simp
  then have two: "[bit (buf ! 0) 1, bit (buf ! 0) 0] = map char_bit (take 2 (drop 14 ?s))"
    by (simp add: bitset_to_string_def upt_rec)
  have one: "octet_bits (buf ! 1) = map char_bit (take 8 (drop 6 ?s))"
    using assms(1) k octet_bits_read [of 7 w] by (simp add: holds_word_def)
  have "iodnav_bits (word_iod w) = map char_bit (take 10 (drop 6 ?s))"
    unfolding word_iod_value by (rule iodnav_bits_value) (auto simp: bin_simps)
  then have hdr: "octet_bits (buf ! 1) @ [bit (buf ! 0) 1, bit (buf ! 0) 0] = iodnav_bits (word_iod w)"
    unfolding one two by (simp add: split10)
  have "[2..<16] = map (\<lambda>i. i + 2) [0..<14]" using map_add_upt [of 2 14] by (simp del: upt_rec_numeral)
  then have "map (\<lambda>i. octet_bits (buf ! i)) [2..<16] = map (\<lambda>i. octet_bits (buf ! (i + 2))) [0..<14]"
    by (simp only: map_map comp_def)
  then show "regenerate_page_1 buf = w"
    using reg [of "''000001''"] assms(3) k
    by (simp add: regenerate_page_1_def word_base_def is_bit_char_def hdr [symmetric] del: upt_rec_numeral)
qed

text \<open>
  C27: the words of one issue of data, received in any order, any number of times and mixed with
  other words, are stored in the Reed-Solomon buffer so that regenerating a received word from the
  buffer gives exactly the bits that were received.
\<close>

theorem received_words_regenerate:
  assumes "rs_state st = new_rs\<lparr>enable_rs := True\<rparr>"
    and "\<And>k. k \<in> set ks \<Longrightarrow> k \<in> {1..4} \<Longrightarrow> word_type (W k) = k \<and> nav_u32 (W k) [(7, 10)] = iod"
  shows "let rs = rs_state (fold (\<lambda>k. decode_page (int k) (W k)) ks st) in
    (1 \<in> set ks \<longrightarrow> regenerate_page_1 (rs_buffer rs) = W 1) \<and>
    (2 \<in> set ks \<longrightarrow> regenerate_page_2 (current_IODnav rs) (rs_buffer rs) = W 2) \<and>
    (3 \<in> set ks \<longrightarrow> regenerate_page_3 (current_IODnav rs) (rs_buffer rs) = W 3) \<and>
    (4 \<in> set ks \<longrightarrow> regenerate_page_4 (current_IODnav rs) (rs_buffer rs) = W 4)"
proof -
  let ?rs = "rs_state (fold (\<lambda>k. decode_page (int k) (W k)) ks st)"
  have inv: "rx_inv W iod (set ks) ?rs" by (rule rx_inv_run [OF assms(1)]) (rule assms(2))
  have held: "holds_word (rs_buffer ?rs) k (W k)" "word_type (W k) = k"
    "rs_buffer ?rs ! 0 = first_octet (word_iod (W k))" "word_iod (W k) = current_IODnav ?rs" if "k \<in> set ks" "k \<in> {1..4}" for k
    using inv that assms(2) [OF that] by (auto simp: rx_inv_def split: if_splits)
  have r: "k = 1 \<longrightarrow> regenerate_page_1 (rs_buffer ?rs) = W k" "k = 2 \<longrightarrow> regenerate_page_2 (current_IODnav ?rs) (rs_buffer ?rs) = W k"
    "k = 3 \<longrightarrow> regenerate_page_3 (current_IODnav ?rs) (rs_buffer ?rs) = W k"
    "k = 4 \<longrightarrow> regenerate_page_4 (current_IODnav ?rs) (rs_buffer ?rs) = W k" if "k \<in> set ks" "k \<in> {1..4}" for k
    using regenerate_held_word [OF held(1) [OF that] that(2) held(2) [OF that] held(3) [OF that]]
    unfolding held(4) [OF that] by blast+
  show ?thesis unfolding Let_def using r by simp
qed

definition sample_text :: "nat \<Rightarrow> string" where
  "sample_text k = (if k = 1 then ''000001'' else if k = 3 then ''000011'' else ''000100'') @ ''0000000101'' @ replicate 112 (CHR ''1'')"

definition sample_word :: "nat \<Rightarrow> 128 word" where
  "sample_word k = bits_to_word (map char_bit (sample_text k))"

lemma sample_word_text: "bitset_to_string (sample_word k) = sample_text k"
proof -
  have "bin_string (replicate 112 (CHR ''1''))" by (simp add: list_all_iff is_bit_char_def)
  then have "bin_string (sample_text k)" by (simp add: sample_text_def is_bit_char_def)
  then show ?thesis unfolding sample_word_def by (rule string_bitset_roundtrip) (simp add: sample_text_def)
qed

lemma sample_word_header:
  "k \<in> {1, 3, 4} \<Longrightarrow> word_type (sample_word k) = k \<and> word_iod (sample_word k) = 5"
  by (auto simp: word_type_def word_iod_value sample_word_text) (simp_all add: sample_text_def)

theorem received_words_regenerate_witness:
  "let rs = rs_state (fold (\<lambda>k. decode_page (int k) (sample_word k)) [4, 17, 1, 3, 4]
       (new_inav_message\<lparr>rs_state := new_rs\<lparr>enable_rs := True\<rparr>\<rparr>)) in
   regenerate_page_1 (rs_buffer rs) = sample_word 1 \<and>
   regenerate_page_3 (current_IODnav rs) (rs_buffer rs) = sample_word 3 \<and>
   regenerate_page_4 (current_IODnav rs) (rs_buffer rs) = sample_word 4"
proof -
  let ?st = "new_inav_message\<lparr>rs_state := new_rs\<lparr>enable_rs := True\<rparr>\<rparr>"
  have st: "rs_state ?st = new_rs\<lparr>enable_rs := True\<rparr>" by simp
  have W: "word_type (sample_word k) = k \<and> nav_u32 (sample_word k) [(7, 10)] = 5"
    if "k \<in> set [4, 17, 1, 3, 4]" "k \<in> {1..4}" for k :: nat
    using that by (intro sample_word_header) auto
  show ?thesis
    using received_words_regenerate [of ?st "[4, 17, 1, 3, 4]" sample_word 5, OF st W] unfolding Let_def by simp
qed

end
