(* ===== verification/Galileo_Data.thy ===== *)
theory Galileo_Data
  imports Galileo_INAV "HOL-Library.Signed_Division"
begin

section \<open>Galileo data sets\<close>

text \<open>
  The storage classes that the message decoders fill: \<^verbatim>\<open>Gnss_Ephemeris\<close> with
  \<^verbatim>\<open>Galileo_Ephemeris\<close>, \<^verbatim>\<open>Galileo_Iono\<close>, \<^verbatim>\<open>Galileo_Utc_Model\<close> with the conversion from Galileo time
  to UTC, \<^verbatim>\<open>Galileo_Almanac_Helper\<close> with \<^verbatim>\<open>get_almanac\<close>, \<^verbatim>\<open>Gnss_Almanac\<close> with \<^verbatim>\<open>Galileo_Almanac\<close>, and
  \<^verbatim>\<open>Galileo_Reduced_CED\<close>. A derived class is a record extension. Members with the same name in
  several classes carry a suffix. The orbit computations of the base classes are not modelled;
  \<^verbatim>\<open>std::sqrt\<close> and \<^verbatim>\<open>std::atan2\<close> are the functions of the record \<open>libm\<close>.
\<close>

subsection \<open>Ephemeris\<close>

record gnss_ephemeris =
  PRN_eph :: int
  M_0_eph :: double
  delta_n_eph :: double
  ecc_eph :: double
  sqrtA_eph :: double
  OMEGA_0_eph :: double
  i_0_eph :: double
  omega_eph :: double
  OMEGAdot_eph :: double
  idot_eph :: double
  Cuc_eph :: double
  Cus_eph :: double
  Crc_eph :: double
  Crs_eph :: double
  Cic_eph :: double
  Cis_eph :: double
  toe :: int
  toc :: int
  af0_eph :: double
  af1_eph :: double
  af2_eph :: double
  satClkDrift_eph :: double
  dtr_eph :: double
  WN_eph :: int
  tow_eph :: int
  satpos_X :: double
  satpos_Y :: double
  satpos_Z :: double
  satvel_X :: double
  satvel_Y :: double
  satvel_Z :: double
  System_eph :: char

record galileo_ephemeris = gnss_ephemeris +
  IOD_ephemeris_eph :: int
  IOD_nav_eph :: int
  SISA_eph :: int
  E5a_HS_eph :: int
  E5b_HS_eph :: int
  E1B_HS_eph :: int
  E5a_DVS_eph :: bool
  E5b_DVS_eph :: bool
  E1B_DVS_eph :: bool
  BGD_E1E5a_eph :: double
  BGD_E1E5b_eph :: double
  flag_all_ephemeris_eph :: bool

definition new_galileo_ephemeris :: galileo_ephemeris where
  "new_galileo_ephemeris =
     \<lparr>PRN_eph = 0, M_0_eph = 0, delta_n_eph = 0, ecc_eph = 0, sqrtA_eph = 0, OMEGA_0_eph = 0,
      i_0_eph = 0, omega_eph = 0, OMEGAdot_eph = 0, idot_eph = 0, Cuc_eph = 0, Cus_eph = 0, Crc_eph = 0,
      Crs_eph = 0, Cic_eph = 0, Cis_eph = 0, toe = 0, toc = 0, af0_eph = 0, af1_eph = 0, af2_eph = 0,
      satClkDrift_eph = 0, dtr_eph = 0, WN_eph = 0, tow_eph = 0, satpos_X = 0, satpos_Y = 0, satpos_Z = 0,
      satvel_X = 0, satvel_Y = 0, satvel_Z = 0, System_eph = CHR ''E'', IOD_ephemeris_eph = 0, IOD_nav_eph = 0,
      SISA_eph = 0, E5a_HS_eph = 0, E5b_HS_eph = 0, E1B_HS_eph = 0, E5a_DVS_eph = False, E5b_DVS_eph = False,
      E1B_DVS_eph = False, BGD_E1E5a_eph = 0, BGD_E1E5b_eph = 0, flag_all_ephemeris_eph = False\<rparr>"

definition Galileo_System_Time :: "double \<Rightarrow> double \<Rightarrow> double" where
  "Galileo_System_Time week_number TOW = dadd (dmul (dmul week_number 86400) 7) TOW"

subsection \<open>Ionosphere and UTC\<close>

record galileo_iono =
  ai0 :: double
  ai1 :: double
  ai2 :: double
  tow_iono :: int
  WN_iono :: int
  Region1_flag :: bool
  Region2_flag :: bool
  Region3_flag :: bool
  Region4_flag :: bool
  Region5_flag :: bool

definition new_galileo_iono :: galileo_iono where
  "new_galileo_iono =
     \<lparr>ai0 = 0, ai1 = 0, ai2 = 0, tow_iono = 0, WN_iono = 0, Region1_flag = False, Region2_flag = False,
      Region3_flag = False, Region4_flag = False, Region5_flag = False\<rparr>"

record galileo_utc_model =
  A0_utc :: double
  A1_utc :: double
  Delta_tLS_utc :: int
  tot_utc :: int
  WNot_utc :: int
  WN_LSF_utc :: int
  DN_utc :: int
  Delta_tLSF_utc :: int
  A_0G_utc :: double
  A_1G_utc :: double
  t_0G_utc :: int
  WN_0G_utc :: int
  flag_utc_model_utc :: bool

definition new_galileo_utc_model :: galileo_utc_model where
  "new_galileo_utc_model =
     \<lparr>A0_utc = 0, A1_utc = 0, Delta_tLS_utc = 0, tot_utc = 0, WNot_utc = 0, WN_LSF_utc = 0, DN_utc = 0,
      Delta_tLSF_utc = 0, A_0G_utc = 0, A_1G_utc = 0, t_0G_utc = 0, WN_0G_utc = 0,
      flag_utc_model_utc = False\<rparr>"

text \<open>\<^verbatim>\<open>fmod\<close> is exact: the dividend less the truncated quotient times the divisor.\<close>

definition fmod :: "double \<Rightarrow> double \<Rightarrow> double" where
  "fmod x y = (let q = x / y; n = (if 0 \<le> q then \<lfloor>q\<rfloor> else \<lceil>q\<rceil>) in x - of_int n * y)"

definition utc_offset :: "galileo_utc_model \<Rightarrow> int \<Rightarrow> double \<Rightarrow> int \<Rightarrow> double" where
  "utc_offset u leap t_e WN =
     dadd (dadd (of_int leap) (A0_utc u))
       (dmul (A1_utc u) (dadd (dsub t_e (of_int (tot_utc u))) (dmul 604800 (of_int (WN smod 256 - WNot_utc u)))))"

definition GST_to_UTC_time :: "galileo_utc_model \<Rightarrow> double \<Rightarrow> int \<Rightarrow> double" where
  "GST_to_UTC_time u t_e WN =
     (let weeksToLeapSecondEvent = WN_LSF_utc u - WN smod 256;
          t_Utc_daytime =
            (if 0 \<le> weeksToLeapSecondEvent
             then let secondOfLeapSecondEvent = DN_utc u * 24 * 60 * 60;
                      Delta_t_Utc = utc_offset u (Delta_tLS_utc u) t_e WN
                  in if 21600 < \<bar>dsub t_e (of_int secondOfLeapSecondEvent)\<bar>
                     then fmod (dsub t_e Delta_t_Utc) 86400
                     else let W = dadd (fmod (dsub (dsub t_e Delta_t_Utc) 43200) 86400) 43200
                          in fmod W (of_int (86400 + Delta_tLSF_utc u - Delta_tLS_utc u))
             else let Delta_t_Utc = utc_offset u (Delta_tLSF_utc u) t_e WN
                  in fmod (dsub t_e Delta_t_Utc) 86400);
          secondsOfWeekBeforeToday = dmul 86400 (of_int \<lfloor>ddiv t_e 86400\<rfloor>)
      in dadd secondsOfWeekBeforeToday t_Utc_daytime)"

subsection \<open>Almanac\<close>

record galileo_almanac_helper =
  helper_IOD_a_7 :: int
  helper_WN_a_7 :: int
  helper_t0a_7 :: int
  helper_SVID1_7 :: int
  helper_DELTA_A_7 :: double
  helper_e_7 :: double
  helper_omega_7 :: double
  helper_delta_i_7 :: double
  helper_Omega0_7 :: double
  helper_Omega_dot_7 :: double
  helper_M0_7 :: double
  helper_IOD_a_8 :: int
  helper_af0_8 :: double
  helper_af1_8 :: double
  helper_E5b_HS_8 :: int
  helper_E1B_HS_8 :: int
  helper_E5a_HS_8 :: int
  helper_SVID2_8 :: int
  helper_DELTA_A_8 :: double
  helper_e_8 :: double
  helper_omega_8 :: double
  helper_delta_i_8 :: double
  helper_Omega0_8 :: double
  helper_Omega_dot_8 :: double
  helper_IOD_a_9 :: int
  helper_WN_a_9 :: int
  helper_t0a_9 :: int
  helper_M0_9 :: double
  helper_af0_9 :: double
  helper_af1_9 :: double
  helper_E5b_HS_9 :: int
  helper_E1B_HS_9 :: int
  helper_E5a_HS_9 :: int
  helper_SVID3_9 :: int
  helper_DELTA_A_9 :: double
  helper_e_9 :: double
  helper_omega_9 :: double
  helper_delta_i_9 :: double
  helper_IOD_a_10 :: int
  helper_Omega0_10 :: double
  helper_Omega_dot_10 :: double
  helper_M0_10 :: double
  helper_af0_10 :: double
  helper_af1_10 :: double
  helper_E5b_HS_10 :: int
  helper_E1B_HS_10 :: int
  helper_E5a_HS_10 :: int

definition new_galileo_almanac_helper :: galileo_almanac_helper where
  "new_galileo_almanac_helper =
     \<lparr>helper_IOD_a_7 = 0, helper_WN_a_7 = 0, helper_t0a_7 = 0, helper_SVID1_7 = 0, helper_DELTA_A_7 = 0,
      helper_e_7 = 0, helper_omega_7 = 0, helper_delta_i_7 = 0, helper_Omega0_7 = 0, helper_Omega_dot_7 = 0,
      helper_M0_7 = 0, helper_IOD_a_8 = 0, helper_af0_8 = 0, helper_af1_8 = 0, helper_E5b_HS_8 = 0,
      helper_E1B_HS_8 = 0, helper_E5a_HS_8 = 0, helper_SVID2_8 = 0, helper_DELTA_A_8 = 0, helper_e_8 = 0,
      helper_omega_8 = 0, helper_delta_i_8 = 0, helper_Omega0_8 = 0, helper_Omega_dot_8 = 0,
      helper_IOD_a_9 = 0, helper_WN_a_9 = 0, helper_t0a_9 = 0, helper_M0_9 = 0, helper_af0_9 = 0,
      helper_af1_9 = 0, helper_E5b_HS_9 = 0, helper_E1B_HS_9 = 0, helper_E5a_HS_9 = 0, helper_SVID3_9 = 0,
      helper_DELTA_A_9 = 0, helper_e_9 = 0, helper_omega_9 = 0, helper_delta_i_9 = 0, helper_IOD_a_10 = 0,
      helper_Omega0_10 = 0, helper_Omega_dot_10 = 0, helper_M0_10 = 0, helper_af0_10 = 0, helper_af1_10 = 0,
      helper_E5b_HS_10 = 0, helper_E1B_HS_10 = 0, helper_E5a_HS_10 = 0\<rparr>"

record gnss_almanac =
  PRN_alm :: int
  delta_i_alm :: double
  toa :: int
  WNa :: int
  M_0_alm :: double
  ecc_alm :: double
  sqrtA_alm :: double
  OMEGA_0_alm :: double
  omega_alm :: double
  OMEGAdot_alm :: double
  af0_alm :: double
  af1_alm :: double
  System_alm :: char

record galileo_almanac = gnss_almanac +
  IODa :: int
  E5b_HS_alm :: int
  E1B_HS_alm :: int
  E5a_HS_alm :: int

definition new_galileo_almanac :: galileo_almanac where
  "new_galileo_almanac =
     \<lparr>PRN_alm = 0, delta_i_alm = 0, toa = 0, WNa = 0, M_0_alm = 0, ecc_alm = 0, sqrtA_alm = 0,
      OMEGA_0_alm = 0, omega_alm = 0, OMEGAdot_alm = 0, af0_alm = 0, af1_alm = 0, System_alm = CHR ''E'',
      IODa = 0, E5b_HS_alm = 0, E1B_HS_alm = 0, E5a_HS_alm = 0\<rparr>"

definition sqrtAnominal :: double where
  "sqrtAnominal = to_double (5440588203494 / 10 ^ 9)"

definition helper_get_almanac :: "galileo_almanac_helper \<Rightarrow> int \<Rightarrow> galileo_almanac" where
  "helper_get_almanac h i =
     (if i = 1 then new_galileo_almanac\<lparr>
        PRN_alm := (helper_SVID1_7 h) mod 2 ^ 32, toa := helper_t0a_7 h, WNa := helper_WN_a_7 h,
        IODa := helper_IOD_a_7 h, delta_i_alm := helper_delta_i_7 h, M_0_alm := helper_M0_7 h,
        ecc_alm := helper_e_7 h, sqrtA_alm := dadd sqrtAnominal (helper_DELTA_A_7 h),
        OMEGA_0_alm := helper_Omega0_7 h, omega_alm := helper_omega_7 h, OMEGAdot_alm := helper_Omega_dot_7 h,
        af0_alm := helper_af0_8 h, af1_alm := helper_af1_8 h, E5b_HS_alm := helper_E5b_HS_8 h,
        E1B_HS_alm := helper_E1B_HS_8 h, E5a_HS_alm := helper_E5a_HS_8 h\<rparr>
      else if i = 2 then new_galileo_almanac\<lparr>
        PRN_alm := (helper_SVID2_8 h) mod 2 ^ 32, toa := helper_t0a_9 h, WNa := helper_WN_a_9 h,
        IODa := helper_IOD_a_9 h, delta_i_alm := helper_delta_i_8 h, M_0_alm := helper_M0_9 h,
        ecc_alm := helper_e_8 h, sqrtA_alm := dadd sqrtAnominal (helper_DELTA_A_8 h),
        OMEGA_0_alm := helper_Omega0_8 h, omega_alm := helper_omega_8 h, OMEGAdot_alm := helper_Omega_dot_8 h,
        af0_alm := helper_af0_9 h, af1_alm := helper_af1_9 h, E1B_HS_alm := helper_E1B_HS_9 h,
        E5a_HS_alm := helper_E5a_HS_9 h\<rparr>
      else if i = 3 then new_galileo_almanac\<lparr>
        PRN_alm := (helper_SVID3_9 h) mod 2 ^ 32, toa := helper_t0a_9 h, WNa := helper_WN_a_9 h,
        IODa := helper_IOD_a_10 h, delta_i_alm := helper_delta_i_9 h, M_0_alm := helper_M0_10 h,
        ecc_alm := helper_e_9 h, sqrtA_alm := dadd sqrtAnominal (helper_DELTA_A_9 h),
        OMEGA_0_alm := helper_Omega0_10 h, omega_alm := helper_omega_9 h,
        OMEGAdot_alm := helper_Omega_dot_10 h, af0_alm := helper_af0_10 h, af1_alm := helper_af1_10 h,
        E5b_HS_alm := helper_E5b_HS_10 h, E1B_HS_alm := helper_E1B_HS_10 h, E5a_HS_alm := helper_E5a_HS_10 h\<rparr>
      else new_galileo_almanac)"

subsection \<open>Reduced clock and ephemeris data\<close>

record libm =
  c_sqrt :: "double \<Rightarrow> double"
  c_atan2 :: "double \<Rightarrow> double \<Rightarrow> double"

record galileo_reduced_ced =
  PRN_ced :: int
  TOTRedCED :: int
  IODnav_ced :: int
  DeltaAred :: double
  exred :: double
  eyred :: double
  Deltai0red :: double
  Omega0red :: double
  lambda0red :: double
  af0red :: double
  af1red :: double

definition new_galileo_reduced_ced :: galileo_reduced_ced where
  "new_galileo_reduced_ced =
     \<lparr>PRN_ced = 0, TOTRedCED = 0, IODnav_ced = 0, DeltaAred = 0, exred = 0, eyred = 0, Deltai0red = 0,
      Omega0red = 0, lambda0red = 0, af0red = 0, af1red = 0\<rparr>"

definition compute_eph :: "libm \<Rightarrow> galileo_reduced_ced \<Rightarrow> galileo_ephemeris" where
  "compute_eph lm ced =
     (let A_nominal = 29600000;
          Ared = dadd (DeltaAred ced) A_nominal;
          i_nominal = 56;
          i0red = dadd (Deltai0red ced) (ddiv i_nominal 180);
          om = c_atan2 lm (eyred ced) (exred ced);
          t0r = (30 * (TOTRedCED ced sdiv 30) + 1) smod 604800
      in new_galileo_ephemeris\<lparr>
           sqrtA_eph := c_sqrt lm Ared,
           i_0_eph := dmul i0red GNSS_PI,
           ecc_eph := c_sqrt lm (dadd (dmul (exred ced) (exred ced)) (dmul (eyred ced) (eyred ced))),
           omega_eph := om,
           M_0_eph := dsub (dmul (lambda0red ced) GNSS_PI) om,
           OMEGA_0_eph := dmul (Omega0red ced) GNSS_PI,
           flag_all_ephemeris_eph := True, IOD_ephemeris_eph := IODnav_ced ced, IOD_nav_eph := IODnav_ced ced,
           PRN_eph := PRN_ced ced, toe := t0r, toc := t0r, af0_eph := af0red ced, af1_eph := af1red ced,
           WN_eph := TOTRedCED ced sdiv 604800, tow_eph := TOTRedCED ced smod 604800\<rparr>)"

end
