(* ===== verification/Galileo_Inav_Data.thy ===== *)
theory Galileo_Inav_Data
  imports Galileo_Inav_Decoder Galileo_Data Osnma_Processor
begin

section \<open>Data sets of the I/NAV message\<close>

text \<open>
  The methods of \<^verbatim>\<open>Galileo_Inav_Message\<close> that hand the decoded words to the rest of the receiver
  (\<^verbatim>\<open>get_ephemeris\<close> to \<^verbatim>\<open>get_osnma\<close>) and the inline accessors of the header. A signed overflow of
  \<^verbatim>\<open>int32_t\<close> is undefined behaviour and an error of the model.
\<close>

subsection \<open>Complete data sets\<close>

definition get_ephemeris :: "galileo_inav_message \<Rightarrow> galileo_ephemeris" where
  "get_ephemeris st =
     new_galileo_ephemeris\<lparr>
        flag_all_ephemeris_eph := flag_all_ephemeris (flags st), IOD_ephemeris_eph := IOD_ephemeris st,
        IOD_nav_eph := IOD_nav_1 (word1 st), PRN_eph := (SV_ID_PRN_4 (word4 st)) mod 2 ^ 32,
        M_0_eph := M0_1 (word1 st), delta_n_eph := delta_n_3 (word3 st), ecc_eph := e_1 (word1 st),
        sqrtA_eph := A_1 (word1 st), OMEGA_0_eph := OMEGA_0_2 (word2 st), i_0_eph := i_0_2 (word2 st),
        omega_eph := omega_2 (word2 st), OMEGAdot_eph := OMEGA_dot_3 (word3 st), idot_eph := iDot_2 (word2 st),
        Cuc_eph := C_uc_3 (word3 st), Cus_eph := C_us_3 (word3 st), Crc_eph := C_rc_3 (word3 st),
        Crs_eph := C_rs_3 (word3 st), Cic_eph := C_ic_4 (word4 st), Cis_eph := C_is_4 (word4 st),
        toe := t0e_1 (word1 st), toc := t0c_4 (word4 st), af0_eph := af0_4 (word4 st),
        af1_eph := af1_4 (word4 st), af2_eph := af2_4 (word4 st), WN_eph := WN_5 (word5 st),
        tow_eph := TOW_5 (word5 st), SISA_eph := SISA_3 (word3 st), E5b_HS_eph := E5b_HS_5 (word5 st),
        E1B_HS_eph := E1B_HS_5 (word5 st), E5b_DVS_eph := E5b_DVS_5 (word5 st),
        E1B_DVS_eph := E1B_DVS_5 (word5 st), BGD_E1E5a_eph := BGD_E1E5a_5 (word5 st),
        BGD_E1E5b_eph := BGD_E1E5b_5 (word5 st), satClkDrift_eph := Galileo_satClkDrift st\<rparr>"

definition get_iono :: "galileo_inav_message \<Rightarrow> galileo_iono" where
  "get_iono st =
     new_galileo_iono\<lparr>
        ai0 := ai0_5 (word5 st), ai1 := ai1_5 (word5 st), ai2 := ai2_5 (word5 st),
        tow_iono := TOW_5 (word5 st), WN_iono := WN_5 (word5 st), Region1_flag := Region1_flag_5 (word5 st),
        Region2_flag := Region2_flag_5 (word5 st), Region3_flag := Region3_flag_5 (word5 st),
        Region4_flag := Region4_flag_5 (word5 st), Region5_flag := Region5_flag_5 (word5 st)\<rparr>"

definition get_utc_model :: "galileo_inav_message \<Rightarrow> galileo_utc_model" where
  "get_utc_model st =
     new_galileo_utc_model\<lparr>
        A0_utc := A0_6 (word6 st), A1_utc := A1_6 (word6 st), Delta_tLS_utc := Delta_tLS_6 (word6 st),
        tot_utc := t0t_6 (word6 st), WNot_utc := WNot_6 (word6 st), WN_LSF_utc := WN_LSF_6 (word6 st),
        DN_utc := DN_6 (word6 st), Delta_tLSF_utc := Delta_tLSF_6 (word6 st),
        flag_utc_model_utc := flag_utc_model (flags st), A_0G_utc := A_0G_10 (word10 st),
        A_1G_utc := A_1G_10 (word10 st), t_0G_utc := t_0G_10 (word10 st), WN_0G_utc := WN_0G_10 (word10 st)\<rparr>"

definition get_almanac :: "galileo_inav_message \<Rightarrow> galileo_almanac_helper" where
  "get_almanac st =
     new_galileo_almanac_helper\<lparr>
        helper_IOD_a_7 := IOD_a_7 (word7 st), helper_WN_a_7 := WN_a_7 (word7 st),
        helper_t0a_7 := t0a_7 (word7 st), helper_SVID1_7 := SVID1_7 (word7 st),
        helper_DELTA_A_7 := DELTA_A_7 (word7 st), helper_e_7 := e_7 (word7 st),
        helper_omega_7 := omega_7 (word7 st), helper_delta_i_7 := delta_i_7 (word7 st),
        helper_Omega0_7 := Omega0_7 (word7 st), helper_Omega_dot_7 := Omega_dot_7 (word7 st),
        helper_M0_7 := M0_7 (word7 st), helper_IOD_a_8 := IOD_a_8 (word8 st), helper_af0_8 := af0_8 (word8 st),
        helper_af1_8 := af1_8 (word8 st), helper_E5b_HS_8 := E5b_HS_8 (word8 st),
        helper_E1B_HS_8 := E1B_HS_8 (word8 st), helper_SVID2_8 := SVID2_8 (word8 st),
        helper_DELTA_A_8 := DELTA_A_8 (word8 st), helper_e_8 := e_8 (word8 st),
        helper_omega_8 := omega_8 (word8 st), helper_delta_i_8 := delta_i_8 (word8 st),
        helper_Omega0_8 := Omega0_8 (word8 st), helper_Omega_dot_8 := Omega_dot_8 (word8 st),
        helper_IOD_a_9 := IOD_a_9 (word9 st), helper_WN_a_9 := WN_a_9 (word9 st),
        helper_t0a_9 := t0a_9 (word9 st), helper_M0_9 := M0_9 (word9 st), helper_af0_9 := af0_9 (word9 st),
        helper_af1_9 := af1_9 (word9 st), helper_E5b_HS_9 := E5b_HS_9 (word9 st),
        helper_E1B_HS_9 := E1B_HS_9 (word9 st), helper_SVID3_9 := SVID3_9 (word9 st),
        helper_DELTA_A_9 := DELTA_A_9 (word9 st), helper_e_9 := e_9 (word9 st),
        helper_omega_9 := omega_9 (word9 st), helper_delta_i_9 := delta_i_9 (word9 st),
        helper_IOD_a_10 := IOD_a_10 (word10 st), helper_Omega0_10 := Omega0_10 (word10 st),
        helper_Omega_dot_10 := Omega_dot_10 (word10 st), helper_M0_10 := M0_10 (word10 st),
        helper_af0_10 := af0_10 (word10 st), helper_af1_10 := af1_10 (word10 st),
        helper_E5b_HS_10 := E5b_HS_10 (word10 st), helper_E1B_HS_10 := E1B_HS_10 (word10 st)\<rparr>"

definition checked_int32 :: "int \<Rightarrow> int result" where
  "checked_int32 i = (if - (2 ^ 31) \<le> i \<and> i < 2 ^ 31 then Inr i else Inl UndefinedBehaviour)"

definition reduced_ced_time :: "galileo_inav_message \<Rightarrow> int result" where
  "reduced_ced_time st =
     (let (tow, delay) = (if TOW_6 (word6 st) < TOW_5 (word5 st) then (TOW_5 (word5 st), 4) else (TOW_6 (word6 st), 10))
      in bindr (checked_int32 (WN_5 (word5 st) * 604800)) (\<lambda>weeks.
         bindr (checked_int32 (weeks + tow)) (\<lambda>t. checked_int32 (t + delay))))"

definition max_IOD_nav :: "galileo_inav_message \<Rightarrow> int" where
  "max_IOD_nav st =
     fold (\<lambda>iod m. if m < iod then iod else m)
       [IOD_nav_2 (word2 st), IOD_nav_3 (word3 st), IOD_nav_4 (word4 st)] (IOD_nav_1 (word1 st))"

definition get_reduced_ced :: "libm \<Rightarrow> galileo_inav_message \<Rightarrow> galileo_ephemeris result" where
  "get_reduced_ced lm st =
     bindr (reduced_ced_time st) (\<lambda>tot.
     Inr (compute_eph lm (new_galileo_reduced_ced\<lparr>
        PRN_ced := (SV_ID_PRN_4 (word4 st)) mod 2 ^ 32, TOTRedCED := tot, IODnav_ced := max_IOD_nav st,
        DeltaAred := ced_DeltaAred (word16 st), exred := ced_exred (word16 st), eyred := ced_eyred (word16 st),
        Deltai0red := ced_Deltai0red (word16 st), Omega0red := ced_Omega0red (word16 st),
        lambda0red := ced_lambda0red (word16 st), af0red := ced_af0red (word16 st), af1red := ced_af1red (word16 st)\<rparr>)))"

definition get_osnma :: "galileo_inav_message \<Rightarrow> galileo_osnma" where
  "get_osnma st = \<lparr>osnma_PRN = SV_ID_PRN_4 (word4 st), OSNMA_data = data_OSNMA st, osnma_nav_data = data_nav st\<rparr>"

subsection \<open>Accessors\<close>

definition get_flag_CRC_test :: "galileo_inav_message \<Rightarrow> bool" where
  "get_flag_CRC_test st = flag_CRC_test (flags st)"

definition get_flag_TOW_set :: "galileo_inav_message \<Rightarrow> bool" where
  "get_flag_TOW_set st = flag_TOW_set (flags st)"

definition set_flag_TOW_set :: "bool \<Rightarrow> galileo_inav_message \<Rightarrow> galileo_inav_message" where
  "set_flag_TOW_set flag_tow st = st\<lparr>flags := (flags st)\<lparr>flag_TOW_set := flag_tow\<rparr>\<rparr>"

definition get_Galileo_week :: "galileo_inav_message \<Rightarrow> int" where
  "get_Galileo_week st = WN_0 (word0 st)"

definition get_TOW5 :: "galileo_inav_message \<Rightarrow> int" where
  "get_TOW5 st = TOW_5 (word5 st)"

definition get_TOW6 :: "galileo_inav_message \<Rightarrow> int" where
  "get_TOW6 st = TOW_6 (word6 st)"

definition is_TOW5_set :: "galileo_inav_message \<Rightarrow> bool" where
  "is_TOW5_set st = flag_TOW_5 (flags st)"

definition set_TOW5_flag :: "bool \<Rightarrow> galileo_inav_message \<Rightarrow> galileo_inav_message" where
  "set_TOW5_flag flag_tow5 st = st\<lparr>flags := (flags st)\<lparr>flag_TOW_5 := flag_tow5\<rparr>\<rparr>"

definition is_TOW6_set :: "galileo_inav_message \<Rightarrow> bool" where
  "is_TOW6_set st = flag_TOW_6 (flags st)"

definition set_TOW6_flag :: "bool \<Rightarrow> galileo_inav_message \<Rightarrow> galileo_inav_message" where
  "set_TOW6_flag flag_tow6 st = st\<lparr>flags := (flags st)\<lparr>flag_TOW_6 := flag_tow6\<rparr>\<rparr>"

definition get_TOW0 :: "galileo_inav_message \<Rightarrow> int" where
  "get_TOW0 st = TOW_0 (word0 st)"

definition is_TOW0_set :: "galileo_inav_message \<Rightarrow> bool" where
  "is_TOW0_set st = flag_TOW_0 (flags st)"

definition set_TOW0_flag :: "bool \<Rightarrow> galileo_inav_message \<Rightarrow> galileo_inav_message" where
  "set_TOW0_flag flag_tow0 st = st\<lparr>flags := (flags st)\<lparr>flag_TOW_0 := flag_tow0\<rparr>\<rparr>"

definition get_flag_GGTO :: "galileo_inav_message \<Rightarrow> bool" where
  "get_flag_GGTO st \<longleftrightarrow> flag_GGTO_1 (flags st) \<and> flag_GGTO_2 (flags st) \<and> flag_GGTO_3 (flags st) \<and> flag_GGTO_4 (flags st)"

definition get_A0G :: "galileo_inav_message \<Rightarrow> double" where
  "get_A0G st = A_0G_10 (word10 st)"

definition get_A1G :: "galileo_inav_message \<Rightarrow> double" where
  "get_A1G st = A_1G_10 (word10 st)"

definition get_t0G :: "galileo_inav_message \<Rightarrow> double" where
  "get_t0G st = of_int (t_0G_10 (word10 st))"

definition get_WN0G :: "galileo_inav_message \<Rightarrow> double" where
  "get_WN0G st = of_int (WN_0G_10 (word10 st))"

definition init_PRN :: "int \<Rightarrow> galileo_inav_message \<Rightarrow> galileo_inav_message" where
  "init_PRN prn st = st\<lparr>word4 := (word4 st)\<lparr>SV_ID_PRN_4 := to_int32 prn\<rparr>\<rparr>"

definition enable_reed_solomon :: "galileo_inav_message \<Rightarrow> galileo_inav_message" where
  "enable_reed_solomon st = st\<lparr>rs_state := (rs_state st)\<lparr>enable_rs := True\<rparr>\<rparr>"

end
