(* ===== verification/Galileo_Inav_Session.thy ===== *)
theory Galileo_Inav_Session
  imports Galileo_Inav_Correct Galileo_Inav_Data
begin

section \<open>Sessions of the I/NAV message decoder\<close>

text \<open>
  Every sequence of public calls on a \<^verbatim>\<open>Galileo_Inav_Message\<close> as an inductive set of reachable
  objects, with any page strings whatsoever. The invariant: the Reed-Solomon buffer keeps its 118
  octets and its eight 0/1 flags, the texts handed to OSNMA are empty or complete, and the integers
  that time computations rely on keep their ranges. From it follow the preconditions of the
  Reed-Solomon decoder and the time stamps of the reduced ephemeris.
\<close>

inductive inav_reachable :: "(byte list \<Rightarrow> nat) \<Rightarrow> galileo_inav_message \<Rightarrow> bool" for crc where
  start: "inav_reachable crc new_inav_message"
| page: "inav_reachable crc st \<Longrightarrow> split_page crc s f st = Inr st' \<Longrightarrow> inav_reachable crc st'"
| ephemeris: "inav_reachable crc st \<Longrightarrow> inav_reachable crc (fst (have_new_ephemeris st))"
| iono: "inav_reachable crc st \<Longrightarrow> inav_reachable crc (fst (have_new_iono_and_GST st))"
| utc: "inav_reachable crc st \<Longrightarrow> inav_reachable crc (fst (have_new_utc_model st))"
| almanac: "inav_reachable crc st \<Longrightarrow> inav_reachable crc (fst (have_new_almanac st))"
| reduced: "inav_reachable crc st \<Longrightarrow> inav_reachable crc (fst (have_new_reduced_ced st))"
| tow_set: "inav_reachable crc st \<Longrightarrow> inav_reachable crc (set_flag_TOW_set b st)"
| tow5: "inav_reachable crc st \<Longrightarrow> inav_reachable crc (set_TOW5_flag b st)"
| tow6: "inav_reachable crc st \<Longrightarrow> inav_reachable crc (set_TOW6_flag b st)"
| tow0: "inav_reachable crc st \<Longrightarrow> inav_reachable crc (set_TOW0_flag b st)"
| prn: "inav_reachable crc st \<Longrightarrow> inav_reachable crc (init_PRN n st)"
| enable: "inav_reachable crc st \<Longrightarrow> inav_reachable crc (enable_reed_solomon st)"

subsection \<open>The invariant\<close>

definition rs_wf :: "inav_rs \<Rightarrow> bool" where
  "rs_wf rs \<longleftrightarrow> length (rs_buffer rs) = 118 \<and> length (inav_rs_pages rs) = 8 \<and> set (inav_rs_pages rs) \<subseteq> {0, 1}
     \<and> current_IODnav rs \<in> {0..<1024}"

definition texts_wf :: "galileo_inav_message \<Rightarrow> bool" where
  "texts_wf st \<longleftrightarrow> (data_OSNMA st = [] \<and> data_nav st = [] \<or>
     length (data_OSNMA st) = 40 \<and> bin_string (data_OSNMA st) \<and> length (data_nav st) = 128 \<and> bin_string (data_nav st))"

definition times_wf :: "galileo_inav_message \<Rightarrow> bool" where
  "times_wf st \<longleftrightarrow> WN_5 (word5 st) \<in> {0..<4096} \<and> TOW_5 (word5 st) \<in> {0..<2 ^ 20} \<and> TOW_6 (word6 st) \<in> {0..<2 ^ 20}"

definition inav_inv :: "galileo_inav_message \<Rightarrow> bool" where
  "inav_inv st \<longleftrightarrow> rs_wf (rs_state st) \<and> texts_wf st \<and> times_wf st"

lemmas inav_invs = inav_inv_def rs_wf_def texts_wf_def times_wf_def

text \<open>The members the invariant does not mention.\<close>

lemma inav_inv_frame [simp]:
  "inav_inv (st\<lparr>flags := f\<rparr>) = inav_inv st" "inav_inv (st\<lparr>page_Even := e\<rparr>) = inav_inv st"
  "inav_inv (st\<lparr>Page_type_time_stamp := t\<rparr>) = inav_inv st" "inav_inv (st\<lparr>IOD_ephemeris := i\<rparr>) = inav_inv st"
  "inav_inv (st\<lparr>word1 := w1\<rparr>) = inav_inv st" "inav_inv (st\<lparr>word2 := w2\<rparr>) = inav_inv st"
  "inav_inv (st\<lparr>word3 := w3\<rparr>) = inav_inv st" "inav_inv (st\<lparr>word4 := w4\<rparr>) = inav_inv st"
  "inav_inv (st\<lparr>rs_state := rs\<rparr>) \<longleftrightarrow> rs_wf rs \<and> texts_wf st \<and> times_wf st"
  by (simp_all add: inav_invs)

lemma nav_u32_range:
  assumes "in_range 128 p" and "slices_length p \<le> 31"
  shows "nav_u32 bits p \<in> {0..<2 ^ slices_length p}"
  using inav.read_u_int32(2,3) [OF assms, of bits] by (simp add: nav_u32_def)

lemma times_fields:
  "WN_5 (decode_word5 bits) \<in> {0..<4096}" "TOW_5 (decode_word5 bits) \<in> {0..<2 ^ 20}"
  "TOW_6 (decode_word6 bits) \<in> {0..<2 ^ 20}" "nav_u32 bits WN_0_BIT \<in> {0..<4096}"
  "nav_u32 bits [(7, 10)] \<in> {0..<1024}"
  using nav_u32_range [of WN_5_BIT bits] nav_u32_range [of TOW_5_BIT bits] nav_u32_range [of TOW_6_BIT bits]
    nav_u32_range [of WN_0_BIT bits] nav_u32_range [of "[(7, 10)]" bits]
  by (simp_all add: decode_word5_def decode_word6_def in_range_def slices_length_def WN_5_BIT_def TOW_5_BIT_def
      TOW_6_BIT_def WN_0_BIT_def)

lemma set_update_01: "set xs \<subseteq> {0, 1} \<Longrightarrow> v \<in> {0, 1} \<Longrightarrow> set (xs[i := v]) \<subseteq> {0, 1 :: int}"
  using set_update_subset_insert [of xs i v] by blast

lemma check_IODnav_wf: "rs_wf rs \<Longrightarrow> iod \<in> {0..<1024} \<Longrightarrow> rs_wf (check_IODnav iod rs)"
  by (auto simp: check_IODnav_def rs_wf_def inav_ints)

lemma store_info_wf:
  assumes "rs_wf rs" and "iod \<in> {0..<1024}"
  shows "rs_wf (store_info p base w iod rs)" and "rs_wf (store_info_1 w iod rs)"
  using check_IODnav_wf [OF assms] set_update_01
  by (simp_all add: store_info_def store_info_1_def Let_def rs_wf_def)

lemma store_parity_wf: "rs_wf rs \<Longrightarrow> rs_wf (store_parity j w rs)"
  unfolding rs_wf_def
  by (auto simp: store_parity_def set_IODnav_LSB_def Let_def dest!: subsetD [OF set_update_subset_insert] split: if_splits)

lemma decode_page_inv:
  assumes "inav_inv st"
  shows "inav_inv (decode_page n bits st)"
proof -
  note wf = store_info_wf [OF _ times_fields(5)] store_parity_wf
  have "rs_wf (rs_state st)" "times_wf st" "texts_wf st" using assms by (simp_all add: inav_inv_def)
  moreover have "rs_wf (rs_state (decode_page n bits st))"
    using \<open>rs_wf (rs_state st)\<close> wf [of "rs_state st"]
    by (simp add: decode_page_def page_readers with_rs_def Let_def decode_word1_def decode_word2_def decode_word3_def
        decode_word4_def IOD_NAV_1_BIT_def IOD_NAV_2_BIT_def IOD_NAV_3_BIT_def IOD_NAV_4_BIT_def)
  moreover have "times_wf (decode_page n bits st)"
    using \<open>times_wf st\<close> times_fields
    by (simp add: decode_page_def page_readers with_rs_def Let_def times_wf_def)
  ultimately show ?thesis by (simp add: inav_inv_def texts_wf_def)
qed

text \<open>Whatever the page strings are, a joined page that is accepted is complete and binary where it is used.\<close>

lemma substr_Inr: "substr s i n = Inr t \<longleftrightarrow> i \<le> length s \<and> t = take n (drop i s)"
  by (auto simp: substr_def)

lemma page_jk_decoder_Inr: "page_jk_decoder s st = Inr (st', n) \<Longrightarrow> \<exists>bits. st' = decode_page n bits st"
  by (auto simp: page_jk_decoder_def bindr_eq_Inr Let_def)

lemma bitset_of_string_bin: "bitset_of_string s = Inr w \<Longrightarrow> bin_string s"
  by (simp add: bitset_of_string_def split: if_splits)

lemma split_odd_cases:
  assumes "split_odd crc page st = Inr st'"
  shows "228 \<le> length page" and "bin_string (take 196 page)"
    and "st' = st\<lparr>flags := (flags st)\<lparr>flag_CRC_test := False\<rparr>\<rparr> \<or>
      (\<exists>n bits t. st' = (decode_page n bits (st\<lparr>flags := (flags st)\<lparr>flag_CRC_test := True\<rparr>, Page_type_time_stamp := t\<rparr>))
         \<lparr>data_nav := page_word page, data_OSNMA := page_osnma page\<rparr>)"
  using assms
  by (auto simp: split_odd_def bindr_eq_Inr substr_Inr Let_def page_word_def page_osnma_def GALILEO_DATA_FRAME_BITS_def
      split: if_splits prod.splits dest!: bitset_of_string_bin page_jk_decoder_Inr)

lemma bin_string_window:
  "bin_string (take 196 page) \<Longrightarrow> i + n \<le> 196 \<Longrightarrow> bin_string (take n (drop i page))"
proof -
  assume b: "bin_string (take 196 page)" and i: "i + n \<le> 196"
  have "take n (drop i page) = take n (drop i (take 196 page))" using i by (simp add: drop_take min_def)
  then show ?thesis using b by (auto simp: bin_simps)
qed

lemma split_odd_inv:
  assumes "inav_inv st" and "split_odd crc page st = Inr st'"
  shows "inav_inv st'"
proof -
  note c = split_odd_cases [OF assms(2)]
  have tx: "length (page_osnma page) = 40" "bin_string (page_osnma page)" "length (page_word page) = 128" "bin_string (page_word page)"
    using c(1) bin_string_window [OF c(2)] by (simp_all add: page_osnma_def page_word_def)
  from c(3) show ?thesis
  proof
    assume "st' = st\<lparr>flags := (flags st)\<lparr>flag_CRC_test := False\<rparr>\<rparr>"
    then show ?thesis using assms(1) by simp
  next
    assume "\<exists>n bits t. st' = (decode_page n bits (st\<lparr>flags := (flags st)\<lparr>flag_CRC_test := True\<rparr>, Page_type_time_stamp := t\<rparr>))
         \<lparr>data_nav := page_word page, data_OSNMA := page_osnma page\<rparr>"
    then obtain n bits t where st': "st' = (decode_page n bits (st\<lparr>flags := (flags st)\<lparr>flag_CRC_test := True\<rparr>, Page_type_time_stamp := t\<rparr>))
         \<lparr>data_nav := page_word page, data_OSNMA := page_osnma page\<rparr>" by blast
    have "inav_inv (decode_page n bits (st\<lparr>flags := (flags st)\<lparr>flag_CRC_test := True\<rparr>, Page_type_time_stamp := t\<rparr>))"
      by (rule decode_page_inv) (use assms(1) in simp)
    then show ?thesis using tx unfolding st' inav_invs by simp
  qed
qed

lemma split_page_inv: "inav_inv st \<Longrightarrow> split_page crc s f st = Inr st' \<Longrightarrow> inav_inv st'"
  by (auto simp: split_page_def bindr_eq_Inr split: list.splits if_splits intro: split_odd_inv)

lemma read_missing_pages_frame [simp]:
  "rs_state (read_missing_pages st) = rs_state st" "inav_inv (read_missing_pages st) = inav_inv st"
  "word5 (read_missing_pages st) = word5 st" "word6 (read_missing_pages st) = word6 st"
  "data_nav (read_missing_pages st) = data_nav st" "data_OSNMA (read_missing_pages st) = data_OSNMA st"
  by (simp_all add: read_missing_pages_def read_page_1_def read_page_2_def read_page_3_def read_page_4_def Let_def)

lemma inav_rs_decode_length: "length (snd (rs_decode inav_reed_solomon buf eras)) = length buf"
  by (rule rs_decode_keeps(1)) (rule new_reed_solomon_config [OF inav_reed_solomon_new])

lemma have_new_ephemeris_inv:
  assumes "inav_inv st"
  shows "inav_inv (fst (have_new_ephemeris st))"
proof -
  obtain r buf where d: "rs_decode inav_reed_solomon (rs_buffer (rs_state st)) (erasure_positions (inav_rs_pages (rs_state st))) = (r, buf)"
    by (cases "rs_decode inav_reed_solomon (rs_buffer (rs_state st)) (erasure_positions (inav_rs_pages (rs_state st)))")
  then have "length buf = length (rs_buffer (rs_state st))" by (metis inav_rs_decode_length snd_conv)
  then have wf: "rs_wf ((rs_state st)\<lparr>rs_buffer := buf\<rparr>)" using assms by (simp add: inav_invs)
  moreover have "texts_wf st" "times_wf st" using assms by (simp_all add: inav_inv_def)
  ultimately have "inav_inv (read_missing_pages (st\<lparr>rs_state := (rs_state st)\<lparr>rs_buffer := buf\<rparr>\<rparr>))" by simp
  moreover have "rs_wf ((rs_state st)\<lparr>rs_buffer := buf, inav_rs_pages := replicate 8 0, enable_rs := False\<rparr>)"
    using wf by (auto simp: rs_wf_def)
  moreover have "rs_wf ((rs_state st)\<lparr>enable_rs := False\<rparr>)" using assms by (simp add: inav_invs)
  ultimately show ?thesis
    using assms wf unfolding have_new_ephemeris_def d by (simp add: Let_def inav_inv_def texts_wf_def times_wf_def)
qed

lemma reachable_inv: "inav_reachable crc st \<Longrightarrow> inav_inv st"
proof (induction rule: inav_reachable.induct)
  case start
  then show ?case
    by (simp add: inav_invs new_inav_message_def new_rs_def new_word5_def new_word6_def inav_ints)
next
  case (page st s f st')
  then show ?case by (simp add: split_page_inv)
next
  case (ephemeris st)
  then show ?case by (simp add: have_new_ephemeris_inv)
next
  case (enable st)
  then show ?case by (simp add: enable_reed_solomon_def inav_invs)
qed (simp_all add: have_new_iono_and_GST_def have_new_utc_model_def have_new_almanac_def have_new_reduced_ced_def
    set_flag_TOW_set_def set_TOW5_flag_def set_TOW6_flag_def set_TOW0_flag_def init_PRN_def)

text \<open>
  C32: in every object that any sequence of calls reaches, with any page strings and any CRC
  function, the Reed-Solomon buffer has its 118 octets and eight flags that are 0 or 1, and the
  OSNMA data is either absent or 40 binary digits with a 128-digit word beside it.
\<close>

theorem inav_invariant:
  assumes "inav_reachable crc st"
  shows "length (rs_buffer (rs_state st)) = INAV_RS_BUFFER_LENGTH \<and> length (inav_rs_pages (rs_state st)) = 8 \<and>
    set (inav_rs_pages (rs_state st)) \<subseteq> {0, 1} \<and> current_IODnav (rs_state st) \<in> {0..<1024} \<and>
    (get_osnma st = \<lparr>osnma_PRN = SV_ID_PRN_4 (word4 st), OSNMA_data = [], osnma_nav_data = []\<rparr> \<or>
     length (OSNMA_data (get_osnma st)) = 40 \<and> bin_string (OSNMA_data (get_osnma st)) \<and>
     length (osnma_nav_data (get_osnma st)) = 128 \<and> bin_string (osnma_nav_data (get_osnma st)))"
  using reachable_inv [OF assms] by (auto simp: inav_invs inav_ints get_osnma_def)

lemma zero_pages_reachable:
  "\<exists>st. inav_reachable (\<lambda>_. 0) st \<and> data_OSNMA st = replicate 40 (CHR ''0'')"
proof -
  let ?e = "replicate 120 (CHR ''0'')" and ?o = "CHR ''1'' # replicate 119 (CHR ''0'')"
  have c: "crc_ok (\<lambda>_. 0) (take 114 ?e @ ?o)" by (simp only: crc_ok_zero_page)
  have "\<exists>st2. bindr (split_page (\<lambda>_. 0) ?e 0 new_inav_message) (split_page (\<lambda>_. 0) ?o 1) = Inr st2 \<and>
      data_OSNMA st2 = replicate 40 (CHR ''0'')"
    unfolding split_page_pair [OF zero_page_nominal] split_odd_page [OF joined_page [OF zero_page_nominal]]
    using c by (simp add: page_osnma_def)
  then obtain st1 st2 where "split_page (\<lambda>_. 0) ?e 0 new_inav_message = Inr st1" "split_page (\<lambda>_. 0) ?o 1 st1 = Inr st2"
    "data_OSNMA st2 = replicate 40 (CHR ''0'')" by (auto simp: bindr_eq_Inr)
  then show ?thesis using inav_reachable.page [OF inav_reachable.page [OF inav_reachable.start]] by blast
qed

theorem inav_invariant_witness:
  "\<exists>st. inav_reachable (\<lambda>_. 0) st \<and> length (OSNMA_data (get_osnma st)) = 40 \<and>
     length (osnma_nav_data (get_osnma st)) = 128 \<and> length (rs_buffer (rs_state st)) = 118"
proof -
  obtain st where st: "inav_reachable (\<lambda>_. 0) st" "data_OSNMA st = replicate 40 (CHR ''0'')"
    using zero_pages_reachable by blast
  show ?thesis
    by (rule exI [of _ st]) (use st inav_invariant [OF st(1)] in \<open>auto simp: get_osnma_def inav_ints\<close>)
qed

subsection \<open>Erasures\<close>

lemma length_if_map: "int (length (if (p :: int) = 0 then map f xs else [])) \<le> 15 * (1 - p)"
  if "p \<in> {0, 1}" "length xs \<le> 15"
  using that by auto

lemma erasures_bound:
  assumes "length p = 8" and "set p \<subseteq> {0, 1}"
  shows "int (length (erasure_positions p)) \<le> 15 * (8 - sum_list p)"
proof -
  obtain a b c d e f g h where p: "p = [a, b, c, d, e, f, g, h]"
    using assms(1) by (auto simp: numeral_eq_Suc length_Suc_conv)
  have "a \<in> {0, 1}" "b \<in> {0, 1}" "c \<in> {0, 1}" "d \<in> {0, 1}" "e \<in> {0, 1}" "f \<in> {0, 1}" "g \<in> {0, 1}" "h \<in> {0, 1}"
    using assms(2) by (simp_all add: p)
  note bs = this [THEN length_if_map]
  show ?thesis
    using bs(1) [of "[1..<16]" int] bs(2) [of "[16..<30]" int] bs(3) [of "[30..<44]" int] bs(4) [of "[44..<58]" int]
      bs(5) [of "[58..<73]" "\<lambda>i. int i + 137"] bs(6) [of "[73..<88]" "\<lambda>i. int i + 137"]
      bs(7) [of "[88..<103]" "\<lambda>i. int i + 137"] bs(8) [of "[103..<118]" "\<lambda>i. int i + 137"]
    unfolding p erasure_positions_def by (simp del: upt_rec_numeral split del: if_split)
qed

definition distinct_above :: "int \<Rightarrow> int list \<Rightarrow> bool" where
  "distinct_above a xs \<longleftrightarrow> distinct xs \<and> (\<forall>x \<in> set xs. a \<le> x)"

lemma distinct_above_segment:
  "distinct_above b ys \<Longrightarrow> a \<le> b \<Longrightarrow> distinct xs \<Longrightarrow> set xs \<subseteq> {a..<b} \<Longrightarrow> distinct_above a ((if c then xs else []) @ ys)"
  by (fastforce simp: distinct_above_def)

lemma erasures_distinct: "distinct (erasure_positions p)"
proof -
  have "distinct_above 240 ((if p ! 7 = 0 then map (\<lambda>i. int i + 137) [103..<118] else []) @ [])"
    by (rule distinct_above_segment [where b = 255]) (auto simp: distinct_above_def distinct_map inj_on_def simp del: upt_rec_numeral)
  then have "distinct_above 240 (if p ! 7 = 0 then map (\<lambda>i. int i + 137) [103..<118] else [])" by simp
  then have "distinct_above 1 (erasure_positions p)"
    unfolding erasure_positions_def
    by (intro distinct_above_segment [where a = 1 and b = 16] distinct_above_segment [where a = 16 and b = 30]
        distinct_above_segment [where a = 30 and b = 44] distinct_above_segment [where a = 44 and b = 58]
        distinct_above_segment [where a = 58 and b = 210] distinct_above_segment [where a = 210 and b = 225]
        distinct_above_segment [where a = 225 and b = 240])
      (auto simp: distinct_map inj_on_def simp del: upt_rec_numeral)
  then show ?thesis by (simp add: distinct_above_def)
qed

lemma erasures_range: "set (erasure_positions p) \<subseteq> {1..<58} \<union> {195..<255}"
  by (auto simp: erasure_positions_def simp del: upt_rec_numeral)

text \<open>
  C33: when four of the eight words have arrived, the Reed-Solomon decoder is called within its
  limits: at most 60 erasures, distinct and outside the shortened part of the code, on a buffer of
  the right length, so that it decodes the unshortened vector and never refuses the call.
\<close>

theorem fec2_decoder_called_correctly:
  assumes "inav_reachable crc st" and "sum_list (inav_rs_pages (rs_state st)) = 4"
  shows "let buf = rs_buffer (rs_state st); eras = erasure_positions (inav_rs_pages (rs_state st)) in
    length eras \<le> 60 \<and> distinct eras \<and> set eras \<subseteq> {1..<58} \<union> {195..<255} \<and>
    rs_decode inav_reed_solomon buf eras =
      (let (result, code) = decode_rs_8 inav_reed_solomon (take 58 buf @ replicate 137 0 @ drop 58 buf) eras
       in if 0 \<le> result then (result, take 58 code @ drop 195 code) else (result, buf))"
proof -
  have inv: "length (rs_buffer (rs_state st)) = 118" "length (inav_rs_pages (rs_state st)) = 8"
    "set (inav_rs_pages (rs_state st)) \<subseteq> {0, 1}"
    using reachable_inv [OF assms(1)] by (simp_all add: inav_invs)
  have "int (length (erasure_positions (inav_rs_pages (rs_state st)))) \<le> 60"
    using erasures_bound [OF inv(2,3)] assms(2) by simp
  then show ?thesis
    using inv(1) erasures_distinct erasures_range
    by (simp add: Let_def rs_decode_def inav_reed_solomon_sizes symbols_per_block_def split: prod.splits)
qed

text \<open>Any word can be received: a pair of nominal pages carries it.\<close>

lemma receive_word:
  assumes "inav_reachable (\<lambda>_. 0) st" and "enable_rs (rs_state st)"
  shows "\<exists>st'. inav_reachable (\<lambda>_. 0) st' \<and> enable_rs (rs_state st') \<and>
    rs_state st' = rs_state (decode_page (int (word_type w)) w st)"
proof -
  let ?s = "bitset_to_string w"
  let ?e = "''00'' @ take 112 ?s @ replicate 6 (CHR ''0'')" and ?o = "''10'' @ drop 112 ?s @ replicate 102 (CHR ''0'')"
  have b: "bin_string (take 112 ?s)" "bin_string (drop 112 ?s)" by (auto simp: bin_simps)
  have n: "nominal_page (CHR ''0'') ?e" "nominal_page (CHR ''1'') ?o"
    using b bin_string_zeros [of 102] bin_string_zeros [of 6] unfolding nominal_page_def by (simp_all add: is_bit_char_def)
  have page: "take 114 ?e @ ?o = ''00'' @ take 112 ?s @ ''10'' @ drop 112 ?s @ replicate 102 (CHR ''0'')" by simp
  have w: "page_word (take 114 ?e @ ?o) = ?s" unfolding page by (simp add: page_word_def)
  have c: "crc_ok (\<lambda>_. 0) (take 114 ?e @ ?o)" unfolding page by (simp add: crc_ok_def)
  have t: "take 6 ?s = take 6 (page_word (take 114 ?e @ ?o))" by (simp only: w)
  define st2 where "st2 = (decode_page (int (word_type w)) w
      (st\<lparr>page_Even := take 114 ?e, flags := (flags st)\<lparr>flag_CRC_test := True\<rparr>, Page_type_time_stamp := int (word_type w)\<rparr>))
      \<lparr>data_nav := page_word (take 114 ?e @ ?o), data_OSNMA := page_osnma (take 114 ?e @ ?o)\<rparr>"
  have "bindr (split_page (\<lambda>_. 0) ?e 0 st) (split_page (\<lambda>_. 0) ?o 1) = Inr st2"
    unfolding split_page_pair [OF n] split_odd_page [OF joined_page [OF n]] st2_def
    by (simp only: c w bits_to_word_text word_type_def if_True) simp
  then have "inav_reachable (\<lambda>_. 0) st2" using assms(1) by (auto simp: bindr_eq_Inr intro: inav_reachable.page)
  moreover have "rs_state st2 = rs_state (decode_page (int (word_type w)) w st)"
    by (simp add: st2_def decode_page_rs assms(2))
  ultimately show ?thesis using assms(2) by auto
qed

lemma store_parity_pages:
  "inav_rs_pages rs = 0 # 0 # 0 # 0 # r \<Longrightarrow> inav_rs_pages (store_parity j w rs) = 0 # 0 # 0 # 0 # r[j := 1]"
  by (simp add: store_parity_def set_IODnav_LSB_def Let_def eval_nat_numeral)

lemma word_type_shift: "k < 64 \<Longrightarrow> \<exists>w. word_type w = k"
proof -
  assume k: "k < 64"
  let ?b = "bitset_to_string (of_nat k :: 6 word)" and ?z = "replicate 122 (CHR ''0'')"
  have "bin_value ?b = k"
  proof -
    have "unat (bits_to_word (map char_bit ?b) :: 6 word) = bin_value ?b" by (rule unat_bits_to_word) simp_all
    then show ?thesis using k by (simp add: bits_to_word_text unsigned_of_nat take_bit_nat_eq_self)
  qed
  moreover have "bitset_to_string (bits_to_word (map char_bit (?b @ ?z)) :: 128 word) = ?b @ ?z"
    using bin_string_zeros [of 122] by (intro string_bitset_roundtrip) simp_all
  ultimately have "word_type (bits_to_word (map char_bit (?b @ ?z))) = k" by (simp add: word_type_def)
  then show ?thesis ..
qed

lemma receive_parity:
  assumes st: "inav_reachable (\<lambda>_. 0) st" "enable_rs (rs_state st)" and pg: "inav_rs_pages (rs_state st) = 0 # 0 # 0 # 0 # r"
    and j: "j < 4"
  shows "\<exists>st'. inav_reachable (\<lambda>_. 0) st' \<and> enable_rs (rs_state st') \<and> inav_rs_pages (rs_state st') = 0 # 0 # 0 # 0 # r[j := 1]
    \<and> current_IODnav (rs_state st') = current_IODnav (rs_state st)"
proof -
  obtain w where w: "word_type w = 17 + j" using word_type_shift [of "17 + j"] j by auto
  obtain st' where s: "inav_reachable (\<lambda>_. 0) st'" "enable_rs (rs_state st')"
    "rs_state st' = rs_state (decode_page (int (17 + j)) w st)" using receive_word [OF st, of w] unfolding w by auto
  have "rs_state st' = store_parity j w (rs_state st)" using j unfolding s(3) decode_page_rs [OF st(2)] by simp
  then show ?thesis using s(1,2) store_parity_pages [OF pg] store_parity_fields(2) by auto
qed

lemma one_parity_reachable:
  "\<exists>st. inav_reachable (\<lambda>_. 0) st \<and> enable_rs (rs_state st) \<and> inav_rs_pages (rs_state st) = 0 # 0 # 0 # 0 # [1, 0, 0, 0]
    \<and> current_IODnav (rs_state st) = 0"
proof -
  have "inav_reachable (\<lambda>_. 0) (enable_reed_solomon new_inav_message)" by (rule inav_reachable.enable [OF inav_reachable.start])
  moreover have "enable_rs (rs_state (enable_reed_solomon new_inav_message))"
    "inav_rs_pages (rs_state (enable_reed_solomon new_inav_message)) = 0 # 0 # 0 # 0 # [0, 0, 0, 0]"
    "current_IODnav (rs_state (enable_reed_solomon new_inav_message)) = 0"
    by (simp_all add: enable_reed_solomon_def new_inav_message_def new_rs_def eval_nat_numeral)
  ultimately show ?thesis using receive_parity [of _ "[0, 0, 0, 0]" 0] by fastforce
qed

theorem fec2_decoder_called_correctly_witness:
  "\<exists>st. inav_reachable (\<lambda>_. 0) st \<and> inav_rs_pages (rs_state st) = [0, 0, 0, 0, 1, 1, 1, 1] \<and>
     length (erasure_positions (inav_rs_pages (rs_state st))) \<le> 60 \<and> distinct (erasure_positions (inav_rs_pages (rs_state st)))"
proof -
  obtain s1 where s1: "inav_reachable (\<lambda>_. 0) s1" "enable_rs (rs_state s1)"
    "inav_rs_pages (rs_state s1) = 0 # 0 # 0 # 0 # [1, 0, 0, 0]" using one_parity_reachable by auto
  obtain s2 where s2: "inav_reachable (\<lambda>_. 0) s2" "enable_rs (rs_state s2)"
    "inav_rs_pages (rs_state s2) = 0 # 0 # 0 # 0 # [1, 1, 0, 0]" using receive_parity [OF s1, of 1] by auto
  obtain s3 where s3: "inav_reachable (\<lambda>_. 0) s3" "enable_rs (rs_state s3)"
    "inav_rs_pages (rs_state s3) = 0 # 0 # 0 # 0 # [1, 1, 1, 0]" using receive_parity [OF s2, of 2] by auto
  obtain s4 where s4: "inav_reachable (\<lambda>_. 0) s4" "inav_rs_pages (rs_state s4) = [0, 0, 0, 0, 1, 1, 1, 1]"
    using receive_parity [OF s3, of 3] by auto
  then show ?thesis
    using fec2_decoder_called_correctly [OF s4(1)] by (intro exI [of _ s4]) (simp add: Let_def)
qed

subsection \<open>Reporting an ephemeris\<close>

text \<open>
  An ephemeris is reported once. After the report its words are consumed, the issue of data of
  the report is that of word 1, the Reed-Solomon decoding is switched off, and a second query
  answers no and changes nothing.
\<close>

theorem ephemeris_reported_once:
  assumes "have_new_ephemeris st = (st', True)"
  shows "have_new_ephemeris st' = (st', False) \<and> flag_all_ephemeris (flags st') \<and>
    IOD_ephemeris st' = IOD_nav_1 (word1 st') \<and> IOD_ephemeris_eph (get_ephemeris st') = IOD_nav_eph (get_ephemeris st') \<and>
    \<not> enable_rs (rs_state st')"
  using assms
  by (auto simp: have_new_ephemeris_def all_ephemeris_words_def clear_ephemeris_flags_def get_ephemeris_def Let_def
      split: if_splits prod.splits)

theorem ephemeris_reported_once_witness:
  "let st = new_inav_message\<lparr>flags := new_flags\<lparr>flag_ephemeris_1 := True, flag_ephemeris_2 := True, flag_ephemeris_3 := True,
         flag_ephemeris_4 := True, flag_iono_and_GST := True\<rparr>\<rparr>;
       st' = fst (have_new_ephemeris st)
   in have_new_ephemeris st = (st', True) \<and> have_new_ephemeris st' = (st', False)"
proof -
  define st where "st = new_inav_message\<lparr>flags := new_flags\<lparr>flag_ephemeris_1 := True, flag_ephemeris_2 := True,
         flag_ephemeris_3 := True, flag_ephemeris_4 := True, flag_iono_and_GST := True\<rparr>\<rparr>"
  have "have_new_ephemeris st = (fst (have_new_ephemeris st), True)"
    by (simp add: have_new_ephemeris_def st_def all_ephemeris_words_def same_IOD_def new_inav_message_def
        new_word1_def new_word2_def new_word3_def new_word4_def new_flags_def)
  then show ?thesis using ephemeris_reported_once [of st] unfolding Let_def st_def [symmetric] by blast
qed

subsection \<open>A change of issue seen in a parity word\<close>

lemma store_parity_all_pages:
  "inav_rs_pages (store_parity j w rs) =
     (if read_octet_unsigned w RS_IODNAV_LSBS \<noteq> word_of_int (current_IODnav rs mod 4)
      then (inav_rs_pages rs)[0 := 0, 1 := 0, 2 := 0, 3 := 0] else inav_rs_pages rs)[4 + j := 1]"
  by (simp add: store_parity_def set_IODnav_LSB_def Let_def)

text \<open>
  C34: a parity word that shows a new issue of data clears the flags of the four information words
  but leaves the other parity words of the old issue marked as received, with their octets in the
  buffer.
\<close>

theorem parity_of_old_issue_kept:
  assumes "inav_reachable crc st" and "enable_rs (rs_state st)" and "i < 4" and "j < 4" and "i \<noteq> j"
    and "inav_rs_pages (rs_state st) ! (4 + i) = 1"
    and "read_octet_unsigned w RS_IODNAV_LSBS \<noteq> word_of_int (current_IODnav (rs_state st) mod 4)"
  shows "let rs' = rs_state (decode_page (int (17 + j)) w st) in
    take 4 (inav_rs_pages rs') = [0, 0, 0, 0] \<and> inav_rs_pages rs' ! (4 + i) = 1 \<and>
    (\<forall>k<15. rs_buffer rs' ! (58 + i * 15 + k) = rs_buffer (rs_state st) ! (58 + i * 15 + k))"
proof -
  let ?rs = "rs_state st"
  have inv: "length (rs_buffer ?rs) = 118" "length (inav_rs_pages ?rs) = 8"
    using reachable_inv [OF assms(1)] by (simp_all add: inav_invs)
  have rs': "rs_state (decode_page (int (17 + j)) w st) = store_parity j w ?rs"
    using assms(4) unfolding decode_page_rs [OF assms(2)] by simp
  obtain a b c d r where p: "inav_rs_pages ?rs = a # b # c # d # r"
    using inv(2) by (auto simp: numeral_eq_Suc length_Suc_conv)
  have "take 4 (inav_rs_pages (store_parity j w ?rs)) = [0, 0, 0, 0]" "inav_rs_pages (store_parity j w ?rs) ! (4 + i) = 1"
    using assms(5,6,7) unfolding store_parity_all_pages p by (simp_all add: eval_nat_numeral)
  moreover have "rs_buffer (store_parity j w ?rs) ! (58 + i * 15 + k) = rs_buffer ?rs ! (58 + i * 15 + k)" if "k < 15" for k
  proof -
    consider "i < j" | "j < i" using assms(5) by linarith
    then have "58 + i * 15 + k < 58 + j * 15 \<or> 58 + j * 15 + 15 \<le> 58 + i * 15 + k" using that by cases linarith+
    moreover have "58 + i * 15 + k < 118" using assms(3) that by linarith
    ultimately show ?thesis using inv(1) by (auto simp: store_parity_fields nth_store_octets)
  qed
  ultimately show ?thesis unfolding Let_def rs' by blast
qed

theorem parity_of_old_issue_kept_witness:
  "\<exists>st. inav_reachable (\<lambda>_. 0) st \<and> (let rs' = rs_state (decode_page 18 (sample_word 4) st) in inav_rs_pages rs' ! 4 = 1)"
proof -
  obtain st where st: "inav_reachable (\<lambda>_. 0) st" "enable_rs (rs_state st)"
    "inav_rs_pages (rs_state st) = 0 # 0 # 0 # 0 # [1, 0, 0, 0]" "current_IODnav (rs_state st) = 0"
    using one_parity_reachable by auto
  have "unat (read_octet_unsigned (sample_word 4) RS_IODNAV_LSBS) = 1"
  proof -
    have "unat (read_octet_unsigned (sample_word 4) RS_IODNAV_LSBS) =
        bin_value (slice_string (bitset_to_string (sample_word 4)) RS_IODNAV_LSBS)"
      unfolding read_octet_unsigned_def by (rule read_bits_value) (simp_all add: in_range_def slices_length_def RS_IODNAV_LSBS_def)
    then show ?thesis by (simp add: sample_word_text slice_string_def RS_IODNAV_LSBS_def) (simp add: sample_text_def)
  qed
  then have "read_octet_unsigned (sample_word 4) RS_IODNAV_LSBS \<noteq> word_of_int (current_IODnav (rs_state st) mod 4)"
    by (auto simp: st(4))
  then show ?thesis
    using parity_of_old_issue_kept [OF st(1,2), of 0 1 "sample_word 4"] st by (auto simp: Let_def)
qed

end
