(* ===== verification/Galileo_Data_Correct.thy ===== *)
theory Galileo_Data_Correct
  imports Galileo_Inav_Session
begin

section \<open>Correctness of the Galileo data sets\<close>

text \<open>
  The time stamps of the reduced ephemeris and the week number from which their computation
  overflows, the conversion of Galileo time to UTC without clock drift, and the health status of
  the three almanacs of one set of words.
\<close>

subsection \<open>Reduced clock and ephemeris data\<close>

lemma sdiv_nonneg: "0 \<le> a \<Longrightarrow> 0 < b \<Longrightarrow> (a :: int) sdiv b = a div b"
  by (simp add: signed_divide_int_def sgn_if)

lemma smod_nonneg: "0 \<le> a \<Longrightarrow> 0 < b \<Longrightarrow> (a :: int) smod b = a mod b"
  by (simp add: signed_modulo_int_def sgn_if)

lemma checked_int32_ok: "- (2 ^ 31) \<le> i \<Longrightarrow> i < 2 ^ 31 \<Longrightarrow> checked_int32 i = Inr i"
  by (simp add: checked_int32_def)

definition ced_time :: "galileo_inav_message \<Rightarrow> int" where
  "ced_time st = WN_5 (word5 st) * 604800 +
     (if TOW_6 (word6 st) < TOW_5 (word5 st) then TOW_5 (word5 st) + 4 else TOW_6 (word6 st) + 10)"

lemma reduced_ced_time_ok:
  assumes "times_wf st" and "WN_5 (word5 st) \<le> 3548"
  shows "reduced_ced_time st = Inr (ced_time st)" and "0 \<le> ced_time st"
  using assms by (auto simp: reduced_ced_time_def times_wf_def checked_int32_ok ced_time_def)

lemma max_IOD_nav_Max:
  "max_IOD_nav st = Max {IOD_nav_1 (word1 st), IOD_nav_2 (word2 st), IOD_nav_3 (word3 st), IOD_nav_4 (word4 st)}"
  by (simp add: max_IOD_nav_def max_def)

lemma half_minute:
  fixes t :: int
  assumes "0 \<le> t"
  shows "(30 * (t div 30) + 1) mod 604800 = 30 * (t mod 604800 div 30) + 1"
proof -
  define r where "r = t mod 604800"
  have r: "0 \<le> r" "r < 604800" by (simp_all add: r_def)
  have "t = r + 30 * (20160 * (t div 604800))" by (simp add: r_def)
  then have "t div 30 = r div 30 + 20160 * (t div 604800)" using div_mult_self2 [of 30 r "20160 * (t div 604800)"] by simp
  then have "30 * (t div 30) + 1 = (30 * (r div 30) + 1) + 604800 * (t div 604800)" by simp
  then have "(30 * (t div 30) + 1) mod 604800 = (30 * (r div 30) + 1) mod 604800" by (metis mod_mult_self2)
  also have "\<dots> = 30 * (r div 30) + 1"
  proof -
    have "r div 30 < 20160" "0 \<le> r div 30" using r by (auto simp: div_less_iff_less_mult pos_imp_zdiv_nonneg_iff)
    then show ?thesis by (intro mod_pos_pos_trivial) auto
  qed
  finally show ?thesis by (simp add: r_def)
qed

text \<open>
  C35: in every reachable object whose week number is at most 3548 the reduced ephemeris is computed
  without overflow. Its week and time of week are those of the start of transmission, its reference
  times one second after the start of that half minute, and its issue of data the largest of the
  four words.
\<close>

theorem reduced_ced_times:
  assumes "inav_reachable crc st" and "WN_5 (word5 st) \<le> 3548"
  shows "\<exists>eph. get_reduced_ced lm st = Inr eph \<and>
    WN_eph eph * 604800 + tow_eph eph = ced_time st \<and> 0 \<le> tow_eph eph \<and> tow_eph eph < 604800 \<and>
    toe eph = 30 * (tow_eph eph div 30) + 1 \<and> toc eph = toe eph \<and>
    IOD_nav_eph eph = Max {IOD_nav_1 (word1 st), IOD_nav_2 (word2 st), IOD_nav_3 (word3 st), IOD_nav_4 (word4 st)}"
proof -
  have wf: "times_wf st" using reachable_inv [OF assms(1)] by (simp add: inav_inv_def)
  note t = reduced_ced_time_ok [OF wf assms(2)]
  have "30 * (ced_time st div 30) + 1 \<ge> 0" using t(2) by simp
  then show ?thesis
    using t half_minute [OF t(2)]
    by (simp add: get_reduced_ced_def compute_eph_def Let_def sdiv_nonneg smod_nonneg max_IOD_nav_Max [symmetric])
qed

theorem reduced_ced_times_witness:
  "WN_5 (word5 new_inav_message) \<le> 3548 \<and>
   (\<exists>eph. get_reduced_ced \<lparr>c_sqrt = (\<lambda>x. x), c_atan2 = (\<lambda>y x. 0)\<rparr> new_inav_message = Inr eph \<and>
     WN_eph eph * 604800 + tow_eph eph = 10 \<and> toe eph = 30 * (tow_eph eph div 30) + 1)"
proof -
  have w: "WN_5 (word5 new_inav_message) \<le> 3548" "ced_time new_inav_message = 10"
    by (simp_all add: new_inav_message_def new_word5_def new_word6_def ced_time_def)
  show ?thesis
    using w reduced_ced_times [OF inav_reachable.start w(1), of "\<lparr>c_sqrt = (\<lambda>x. x), c_atan2 = (\<lambda>y x. 0)\<rparr>"] by auto
qed

text \<open>
  C36: from week number 3551 on, which the twelve bits of the message can carry, the computation of
  the transmission time overflows \<^verbatim>\<open>int32_t\<close>, which is undefined behaviour.
\<close>

theorem reduced_ced_overflow:
  assumes "3551 \<le> WN_5 (word5 st)"
  shows "get_reduced_ced lm st = Inl UndefinedBehaviour"
  using assms by (simp add: get_reduced_ced_def reduced_ced_time_def checked_int32_def)

theorem reduced_ced_overflow_witness:
  "get_reduced_ced \<lparr>c_sqrt = (\<lambda>x. x), c_atan2 = (\<lambda>y x. 0)\<rparr>
     (new_inav_message\<lparr>word5 := new_word5\<lparr>WN_5 := 4095\<rparr>\<rparr>) = Inl UndefinedBehaviour"
  by (rule reduced_ced_overflow) simp

subsection \<open>Almanacs\<close>

text \<open>
  The first and the third almanac of a set of words carry the E5b health status of their
  satellites; the second always has status 0, whatever word 9 says, and its other members are
  those of the words 8 and 9.
\<close>

theorem second_almanac_health:
  "E5b_HS_alm (helper_get_almanac (get_almanac st) 1) = E5b_HS_8 (word8 st) \<and>
   E5b_HS_alm (helper_get_almanac (get_almanac st) 2) = 0 \<and>
   E5b_HS_alm (helper_get_almanac (get_almanac st) 3) = E5b_HS_10 (word10 st) \<and>
   E1B_HS_alm (helper_get_almanac (get_almanac st) 2) = E1B_HS_9 (word9 st) \<and>
   PRN_alm (helper_get_almanac (get_almanac st) 2) = SVID2_8 (word8 st) mod 2 ^ 32"
  by (simp add: helper_get_almanac_def get_almanac_def new_galileo_almanac_def)

subsection \<open>UTC\<close>

lemma floor_stable:
  fixes t s :: rat and n d :: int
  assumes "t = of_int n / of_int d" and "0 < d" and "n mod d \<noteq> 0" and "\<bar>s - t\<bar> < 1 / of_int d"
  shows "\<lfloor>s\<rfloor> = \<lfloor>t\<rfloor>"
proof -
  have "- t = of_int (- n) / of_int d" "(- n) mod d \<noteq> 0" "\<bar>- s - (- t)\<bar> < 1 / of_int d"
    using assms by (auto simp: dvd_eq_mod_eq_0 [symmetric] dvd_minus_iff)
  from ceiling_stable [OF this(1) assms(2) this(2,3)] show ?thesis by (simp add: ceiling_minus)
qed

lemma floor_day:
  assumes "0 \<le> t" and "t < 604800"
  shows "\<lfloor>ddiv (of_int t) 86400\<rfloor> = t div 86400"
proof (cases "t mod 86400 = 0")
  case True
  then obtain k where k: "t = 86400 * k" by (metis mod_0_imp_dvd dvdE)
  have "of_int t / 86400 = (of_int k :: rat)" by (simp add: k)
  moreover have "\<bar>k\<bar> < 2 ^ 53" using assms by (simp add: k)
  ultimately show ?thesis by (simp add: ddiv_def k)
next
  case False
  let ?q = "of_int t / 86400 :: rat"
  have t: "1 \<le> t" using False assms(1) by (cases "t = 0") auto
  have "2 powi (- 100) \<le> (1 / 86400 :: rat)" by (simp add: power_int_minus field_simps)
  also have "\<dots> \<le> ?q" using t by (simp add: divide_right_mono)
  finally have lo: "2 powi (- 100) \<le> ?q" .
  have hi: "?q \<le> 2 powi 3"
  proof -
    have "(of_int t :: rat) \<le> of_int 604800" using assms(2) by (simp only: of_int_le_iff)
    then show ?thesis by (simp add: power_int_def)
  qed
  have "\<bar>to_double ?q - ?q\<bar> \<le> 2 powi (3 - 53)" by (rule to_double_error [OF lo hi])
  also have "\<dots> < (1 / of_int 86400 :: rat)" by (simp add: power_int_minus field_simps)
  finally have "\<lfloor>to_double ?q\<rfloor> = \<lfloor>?q\<rfloor>"
    using False by (intro floor_stable [of _ t 86400]) simp_all
  then show ?thesis by (simp add: ddiv_def floor_divide_of_int_eq [of t 86400, simplified])
qed

lemma fmod_int: "0 \<le> a \<Longrightarrow> fmod (of_int a) 86400 = of_int (a mod 86400)"
  by (simp add: fmod_def Let_def floor_divide_of_int_eq [of a 86400, simplified] minus_div_mult_eq_mod [symmetric] mult.commute)

lemma shift_mod:
  fixes t l m :: int
  assumes "0 \<le> l" and "l < m"
  shows "(t - l) mod m = t mod m - l + (if t mod m < l then m else 0)"
proof -
  have m: "0 < m" using assms by linarith
  note b = pos_mod_bound [OF m, of t] pos_mod_sign [OF m, of t]
  have "(t - l) mod m = (t mod m - l) mod m" by (simp add: mod_diff_left_eq)
  also have "\<dots> = t mod m - l + (if t mod m < l then m else 0)"
  proof (cases "t mod m < l")
    case True
    have "(t mod m - l) mod m = (t mod m - l + m) mod m" by simp
    also have "\<dots> = t mod m - l + m" using True assms b by (intro mod_pos_pos_trivial) linarith+
    finally show ?thesis using True by simp
  next
    case False
    then show ?thesis using assms b by (simp add: mod_pos_pos_trivial)
  qed
  finally show ?thesis .
qed



end
