(* ===== verification/Galileo_FNAV.thy ===== *)
theory Galileo_FNAV
  imports Galileo_INAV
begin

section \<open>Layout of the Galileo F/NAV message\<close>

text \<open>
  The constants of \<^verbatim>\<open>core/system_parameters/Galileo_FNAV.h\<close> and the frame sizes of \<^verbatim>\<open>Galileo_E5a.h\<close>:
  for every parameter its slices in the 214 bits of a page and its scale factor.
\<close>

definition GALILEO_FNAV_DATA_FRAME_BITS :: nat where
  "GALILEO_FNAV_DATA_FRAME_BITS = 214"

definition GALILEO_FNAV_DATA_FRAME_BYTES :: nat where
  "GALILEO_FNAV_DATA_FRAME_BYTES = 27"

definition FNAV_PAGE_TYPE_BIT :: slices where
  "FNAV_PAGE_TYPE_BIT = [(1, 6)]"

definition FNAV_SV_ID_PRN_1_BIT :: slices where
  "FNAV_SV_ID_PRN_1_BIT = [(7, 6)]"

definition FNAV_IO_DNAV_1_BIT :: slices where
  "FNAV_IO_DNAV_1_BIT = [(13, 10)]"

definition FNAV_T0C_1_BIT :: slices where
  "FNAV_T0C_1_BIT = [(23, 14)]"

definition FNAV_T0C_1_LSB :: int where
  "FNAV_T0C_1_LSB = 60"

definition FNAV_AF0_1_BIT :: slices where
  "FNAV_AF0_1_BIT = [(37, 31)]"

definition FNAV_AF0_1_LSB :: double where
  "FNAV_AF0_1_LSB = TWO_N34"

definition FNAV_AF1_1_BIT :: slices where
  "FNAV_AF1_1_BIT = [(68, 21)]"

definition FNAV_AF1_1_LSB :: double where
  "FNAV_AF1_1_LSB = TWO_N46"

definition FNAV_AF2_1_BIT :: slices where
  "FNAV_AF2_1_BIT = [(89, 6)]"

definition FNAV_AF2_1_LSB :: double where
  "FNAV_AF2_1_LSB = TWO_N59"

definition FNAV_SISA_1_BIT :: slices where
  "FNAV_SISA_1_BIT = [(95, 8)]"

definition FNAV_AI0_1_BIT :: slices where
  "FNAV_AI0_1_BIT = [(103, 11)]"

definition FNAV_AI0_1_LSB :: double where
  "FNAV_AI0_1_LSB = TWO_N2"

definition FNAV_AI1_1_BIT :: slices where
  "FNAV_AI1_1_BIT = [(114, 11)]"

definition FNAV_AI1_1_LSB :: double where
  "FNAV_AI1_1_LSB = TWO_N8"

definition FNAV_AI2_1_BIT :: slices where
  "FNAV_AI2_1_BIT = [(125, 14)]"

definition FNAV_AI2_1_LSB :: double where
  "FNAV_AI2_1_LSB = TWO_N15"

definition FNAV_REGION1_1_BIT :: slices where
  "FNAV_REGION1_1_BIT = [(139, 1)]"

definition FNAV_REGION2_1_BIT :: slices where
  "FNAV_REGION2_1_BIT = [(140, 1)]"

definition FNAV_REGION3_1_BIT :: slices where
  "FNAV_REGION3_1_BIT = [(141, 1)]"

definition FNAV_REGION4_1_BIT :: slices where
  "FNAV_REGION4_1_BIT = [(142, 1)]"

definition FNAV_REGION5_1_BIT :: slices where
  "FNAV_REGION5_1_BIT = [(143, 1)]"

definition FNAV_BGD_1_BIT :: slices where
  "FNAV_BGD_1_BIT = [(144, 10)]"

definition FNAV_BGD_1_LSB :: double where
  "FNAV_BGD_1_LSB = TWO_N32"

definition FNAV_E5AHS_1_BIT :: slices where
  "FNAV_E5AHS_1_BIT = [(154, 2)]"

definition FNAV_WN_1_BIT :: slices where
  "FNAV_WN_1_BIT = [(156, 12)]"

definition FNAV_TOW_1_BIT :: slices where
  "FNAV_TOW_1_BIT = [(168, 20)]"

definition FNAV_E5ADVS_1_BIT :: slices where
  "FNAV_E5ADVS_1_BIT = [(188, 1)]"

definition FNAV_IO_DNAV_2_BIT :: slices where
  "FNAV_IO_DNAV_2_BIT = [(7, 10)]"

definition FNAV_M0_2_BIT :: slices where
  "FNAV_M0_2_BIT = [(17, 32)]"

definition FNAV_M0_2_LSB :: double where
  "FNAV_M0_2_LSB = PI_TWO_N31"

definition FNAV_OMEGADOT_2_BIT :: slices where
  "FNAV_OMEGADOT_2_BIT = [(49, 24)]"

definition FNAV_OMEGADOT_2_LSB :: double where
  "FNAV_OMEGADOT_2_LSB = PI_TWO_N43"

definition FNAV_E_2_BIT :: slices where
  "FNAV_E_2_BIT = [(73, 32)]"

definition FNAV_E_2_LSB :: double where
  "FNAV_E_2_LSB = TWO_N33"

definition FNAV_A12_2_BIT :: slices where
  "FNAV_A12_2_BIT = [(105, 32)]"

definition FNAV_A12_2_LSB :: double where
  "FNAV_A12_2_LSB = TWO_N19"

definition FNAV_OMEGA0_2_BIT :: slices where
  "FNAV_OMEGA0_2_BIT = [(137, 32)]"

definition FNAV_OMEGA0_2_LSB :: double where
  "FNAV_OMEGA0_2_LSB = PI_TWO_N31"

definition FNAV_IDOT_2_BIT :: slices where
  "FNAV_IDOT_2_BIT = [(169, 14)]"

definition FNAV_IDOT_2_LSB :: double where
  "FNAV_IDOT_2_LSB = PI_TWO_N43"

definition FNAV_WN_2_BIT :: slices where
  "FNAV_WN_2_BIT = [(183, 12)]"

definition FNAV_TOW_2_BIT :: slices where
  "FNAV_TOW_2_BIT = [(195, 20)]"

definition FNAV_IO_DNAV_3_BIT :: slices where
  "FNAV_IO_DNAV_3_BIT = [(7, 10)]"

definition FNAV_I0_3_BIT :: slices where
  "FNAV_I0_3_BIT = [(17, 32)]"

definition FNAV_I0_3_LSB :: double where
  "FNAV_I0_3_LSB = PI_TWO_N31"

definition FNAV_W_3_BIT :: slices where
  "FNAV_W_3_BIT = [(49, 32)]"

definition FNAV_W_3_LSB :: double where
  "FNAV_W_3_LSB = PI_TWO_N31"

definition FNAV_DELTAN_3_BIT :: slices where
  "FNAV_DELTAN_3_BIT = [(81, 16)]"

definition FNAV_DELTAN_3_LSB :: double where
  "FNAV_DELTAN_3_LSB = PI_TWO_N43"

definition FNAV_CUC_3_BIT :: slices where
  "FNAV_CUC_3_BIT = [(97, 16)]"

definition FNAV_CUC_3_LSB :: double where
  "FNAV_CUC_3_LSB = TWO_N29"

definition FNAV_CUS_3_BIT :: slices where
  "FNAV_CUS_3_BIT = [(113, 16)]"

definition FNAV_CUS_3_LSB :: double where
  "FNAV_CUS_3_LSB = TWO_N29"

definition FNAV_CRC_3_BIT :: slices where
  "FNAV_CRC_3_BIT = [(129, 16)]"

definition FNAV_CRC_3_LSB :: double where
  "FNAV_CRC_3_LSB = TWO_N5"

definition FNAV_CRS_3_BIT :: slices where
  "FNAV_CRS_3_BIT = [(145, 16)]"

definition FNAV_CRS_3_LSB :: double where
  "FNAV_CRS_3_LSB = TWO_N5"

definition FNAV_T0E_3_BIT :: slices where
  "FNAV_T0E_3_BIT = [(161, 14)]"

definition FNAV_T0E_3_LSB :: int where
  "FNAV_T0E_3_LSB = 60"

definition FNAV_WN_3_BIT :: slices where
  "FNAV_WN_3_BIT = [(175, 12)]"

definition FNAV_TOW_3_BIT :: slices where
  "FNAV_TOW_3_BIT = [(187, 20)]"

definition FNAV_IO_DNAV_4_BIT :: slices where
  "FNAV_IO_DNAV_4_BIT = [(7, 10)]"

definition FNAV_CIC_4_BIT :: slices where
  "FNAV_CIC_4_BIT = [(17, 16)]"

definition FNAV_CIC_4_LSB :: double where
  "FNAV_CIC_4_LSB = TWO_N29"

definition FNAV_CIS_4_BIT :: slices where
  "FNAV_CIS_4_BIT = [(33, 16)]"

definition FNAV_CIS_4_LSB :: double where
  "FNAV_CIS_4_LSB = TWO_N29"

definition FNAV_A0_4_BIT :: slices where
  "FNAV_A0_4_BIT = [(49, 32)]"

definition FNAV_A0_4_LSB :: double where
  "FNAV_A0_4_LSB = TWO_N30"

definition FNAV_A1_4_BIT :: slices where
  "FNAV_A1_4_BIT = [(81, 24)]"

definition FNAV_A1_4_LSB :: double where
  "FNAV_A1_4_LSB = TWO_N50"

definition FNAV_DELTATLS_4_BIT :: slices where
  "FNAV_DELTATLS_4_BIT = [(105, 8)]"

definition FNAV_T0T_4_BIT :: slices where
  "FNAV_T0T_4_BIT = [(113, 8)]"

definition FNAV_T0T_4_LSB :: int where
  "FNAV_T0T_4_LSB = 3600"

definition FNAV_W_NOT_4_BIT :: slices where
  "FNAV_W_NOT_4_BIT = [(121, 8)]"

definition FNAV_W_NLSF_4_BIT :: slices where
  "FNAV_W_NLSF_4_BIT = [(129, 8)]"

definition FNAV_DN_4_BIT :: slices where
  "FNAV_DN_4_BIT = [(137, 3)]"

definition FNAV_DELTATLSF_4_BIT :: slices where
  "FNAV_DELTATLSF_4_BIT = [(140, 8)]"

definition FNAV_T0G_4_BIT :: slices where
  "FNAV_T0G_4_BIT = [(148, 8)]"

definition FNAV_T0G_4_LSB :: int where
  "FNAV_T0G_4_LSB = 3600"

definition FNAV_A0G_4_BIT :: slices where
  "FNAV_A0G_4_BIT = [(156, 16)]"

definition FNAV_A0G_4_LSB :: double where
  "FNAV_A0G_4_LSB = TWO_N35"

definition FNAV_A1G_4_BIT :: slices where
  "FNAV_A1G_4_BIT = [(172, 12)]"

definition FNAV_A1G_4_LSB :: double where
  "FNAV_A1G_4_LSB = TWO_N51"

definition FNAV_W_N0G_4_BIT :: slices where
  "FNAV_W_N0G_4_BIT = [(184, 6)]"

definition FNAV_TOW_4_BIT :: slices where
  "FNAV_TOW_4_BIT = [(190, 20)]"

definition FNAV_IO_DA_5_BIT :: slices where
  "FNAV_IO_DA_5_BIT = [(7, 4)]"

definition FNAV_W_NA_5_BIT :: slices where
  "FNAV_W_NA_5_BIT = [(11, 2)]"

definition FNAV_T0A_5_BIT :: slices where
  "FNAV_T0A_5_BIT = [(13, 10)]"

definition FNAV_T0A_5_LSB :: int where
  "FNAV_T0A_5_LSB = 600"

definition FNAV_SVI_D1_5_BIT :: slices where
  "FNAV_SVI_D1_5_BIT = [(23, 6)]"

definition FNAV_DELTAA12_1_5_BIT :: slices where
  "FNAV_DELTAA12_1_5_BIT = [(29, 13)]"

definition FNAV_DELTAA12_5_LSB :: double where
  "FNAV_DELTAA12_5_LSB = TWO_N9"

definition FNAV_E_1_5_BIT :: slices where
  "FNAV_E_1_5_BIT = [(42, 11)]"

definition FNAV_E_5_LSB :: double where
  "FNAV_E_5_LSB = TWO_N16"

definition FNAV_W_1_5_BIT :: slices where
  "FNAV_W_1_5_BIT = [(53, 16)]"

definition FNAV_W_5_LSB :: double where
  "FNAV_W_5_LSB = TWO_N15"

definition FNAV_DELTAI_1_5_BIT :: slices where
  "FNAV_DELTAI_1_5_BIT = [(69, 11)]"

definition FNAV_DELTAI_5_LSB :: double where
  "FNAV_DELTAI_5_LSB = TWO_N14"

definition FNAV_OMEGA0_1_5_BIT :: slices where
  "FNAV_OMEGA0_1_5_BIT = [(80, 16)]"

definition FNAV_OMEGA0_5_LSB :: double where
  "FNAV_OMEGA0_5_LSB = TWO_N15"

definition FNAV_OMEGADOT_1_5_BIT :: slices where
  "FNAV_OMEGADOT_1_5_BIT = [(96, 11)]"

definition FNAV_OMEGADOT_5_LSB :: double where
  "FNAV_OMEGADOT_5_LSB = TWO_N33"

definition FNAV_M0_1_5_BIT :: slices where
  "FNAV_M0_1_5_BIT = [(107, 16)]"

definition FNAV_M0_5_LSB :: double where
  "FNAV_M0_5_LSB = TWO_N15"

definition FNAV_AF0_1_5_BIT :: slices where
  "FNAV_AF0_1_5_BIT = [(123, 16)]"

definition FNAV_AF0_5_LSB :: double where
  "FNAV_AF0_5_LSB = TWO_N19"

definition FNAV_AF1_1_5_BIT :: slices where
  "FNAV_AF1_1_5_BIT = [(139, 13)]"

definition FNAV_AF1_5_LSB :: double where
  "FNAV_AF1_5_LSB = TWO_N38"

definition FNAV_E5AHS_1_5_BIT :: slices where
  "FNAV_E5AHS_1_5_BIT = [(152, 2)]"

definition FNAV_SVI_D2_5_BIT :: slices where
  "FNAV_SVI_D2_5_BIT = [(154, 6)]"

definition FNAV_DELTAA12_2_5_BIT :: slices where
  "FNAV_DELTAA12_2_5_BIT = [(160, 13)]"

definition FNAV_E_2_5_BIT :: slices where
  "FNAV_E_2_5_BIT = [(173, 11)]"

definition FNAV_W_2_5_BIT :: slices where
  "FNAV_W_2_5_BIT = [(184, 16)]"

definition FNAV_DELTAI_2_5_BIT :: slices where
  "FNAV_DELTAI_2_5_BIT = [(200, 11)]"

definition FNAV_IO_DA_6_BIT :: slices where
  "FNAV_IO_DA_6_BIT = [(7, 4)]"

definition FNAV_OMEGADOT_2_6_BIT :: slices where
  "FNAV_OMEGADOT_2_6_BIT = [(23, 11)]"

definition FNAV_M0_2_6_BIT :: slices where
  "FNAV_M0_2_6_BIT = [(34, 16)]"

definition FNAV_AF0_2_6_BIT :: slices where
  "FNAV_AF0_2_6_BIT = [(50, 16)]"

definition FNAV_AF1_2_6_BIT :: slices where
  "FNAV_AF1_2_6_BIT = [(66, 13)]"

definition FNAV_E5AHS_2_6_BIT :: slices where
  "FNAV_E5AHS_2_6_BIT = [(79, 2)]"

definition FNAV_SVI_D3_6_BIT :: slices where
  "FNAV_SVI_D3_6_BIT = [(81, 6)]"

definition FNAV_DELTAA12_3_6_BIT :: slices where
  "FNAV_DELTAA12_3_6_BIT = [(87, 13)]"

definition FNAV_E_3_6_BIT :: slices where
  "FNAV_E_3_6_BIT = [(100, 11)]"

definition FNAV_W_3_6_BIT :: slices where
  "FNAV_W_3_6_BIT = [(111, 16)]"

definition FNAV_DELTAI_3_6_BIT :: slices where
  "FNAV_DELTAI_3_6_BIT = [(127, 11)]"

definition FNAV_OMEGA0_3_6_BIT :: slices where
  "FNAV_OMEGA0_3_6_BIT = [(138, 16)]"

definition FNAV_OMEGADOT_3_6_BIT :: slices where
  "FNAV_OMEGADOT_3_6_BIT = [(154, 11)]"

definition FNAV_M0_3_6_BIT :: slices where
  "FNAV_M0_3_6_BIT = [(165, 16)]"

definition FNAV_AF0_3_6_BIT :: slices where
  "FNAV_AF0_3_6_BIT = [(181, 16)]"

definition FNAV_AF1_3_6_BIT :: slices where
  "FNAV_AF1_3_6_BIT = [(197, 13)]"

definition FNAV_E5AHS_3_6_BIT :: slices where
  "FNAV_E5AHS_3_6_BIT = [(210, 2)]"

lemmas fnav_bits =
  FNAV_PAGE_TYPE_BIT_def FNAV_SV_ID_PRN_1_BIT_def FNAV_IO_DNAV_1_BIT_def FNAV_T0C_1_BIT_def
  FNAV_AF0_1_BIT_def FNAV_AF1_1_BIT_def FNAV_AF2_1_BIT_def FNAV_SISA_1_BIT_def
  FNAV_AI0_1_BIT_def FNAV_AI1_1_BIT_def FNAV_AI2_1_BIT_def FNAV_REGION1_1_BIT_def
  FNAV_REGION2_1_BIT_def FNAV_REGION3_1_BIT_def FNAV_REGION4_1_BIT_def FNAV_REGION5_1_BIT_def
  FNAV_BGD_1_BIT_def FNAV_E5AHS_1_BIT_def FNAV_WN_1_BIT_def FNAV_TOW_1_BIT_def
  FNAV_E5ADVS_1_BIT_def FNAV_IO_DNAV_2_BIT_def FNAV_M0_2_BIT_def FNAV_OMEGADOT_2_BIT_def
  FNAV_E_2_BIT_def FNAV_A12_2_BIT_def FNAV_OMEGA0_2_BIT_def FNAV_IDOT_2_BIT_def
  FNAV_WN_2_BIT_def FNAV_TOW_2_BIT_def FNAV_IO_DNAV_3_BIT_def FNAV_I0_3_BIT_def
  FNAV_W_3_BIT_def FNAV_DELTAN_3_BIT_def FNAV_CUC_3_BIT_def FNAV_CUS_3_BIT_def
  FNAV_CRC_3_BIT_def FNAV_CRS_3_BIT_def FNAV_T0E_3_BIT_def FNAV_WN_3_BIT_def
  FNAV_TOW_3_BIT_def FNAV_IO_DNAV_4_BIT_def FNAV_CIC_4_BIT_def FNAV_CIS_4_BIT_def
  FNAV_A0_4_BIT_def FNAV_A1_4_BIT_def FNAV_DELTATLS_4_BIT_def FNAV_T0T_4_BIT_def
  FNAV_W_NOT_4_BIT_def FNAV_W_NLSF_4_BIT_def FNAV_DN_4_BIT_def FNAV_DELTATLSF_4_BIT_def
  FNAV_T0G_4_BIT_def FNAV_A0G_4_BIT_def FNAV_A1G_4_BIT_def FNAV_W_N0G_4_BIT_def
  FNAV_TOW_4_BIT_def FNAV_IO_DA_5_BIT_def FNAV_W_NA_5_BIT_def FNAV_T0A_5_BIT_def
  FNAV_SVI_D1_5_BIT_def FNAV_DELTAA12_1_5_BIT_def FNAV_E_1_5_BIT_def FNAV_W_1_5_BIT_def
  FNAV_DELTAI_1_5_BIT_def FNAV_OMEGA0_1_5_BIT_def FNAV_OMEGADOT_1_5_BIT_def
  FNAV_M0_1_5_BIT_def FNAV_AF0_1_5_BIT_def FNAV_AF1_1_5_BIT_def FNAV_E5AHS_1_5_BIT_def
  FNAV_SVI_D2_5_BIT_def FNAV_DELTAA12_2_5_BIT_def FNAV_E_2_5_BIT_def FNAV_W_2_5_BIT_def
  FNAV_DELTAI_2_5_BIT_def FNAV_IO_DA_6_BIT_def FNAV_OMEGADOT_2_6_BIT_def FNAV_M0_2_6_BIT_def
  FNAV_AF0_2_6_BIT_def FNAV_AF1_2_6_BIT_def FNAV_E5AHS_2_6_BIT_def FNAV_SVI_D3_6_BIT_def
  FNAV_DELTAA12_3_6_BIT_def FNAV_E_3_6_BIT_def FNAV_W_3_6_BIT_def FNAV_DELTAI_3_6_BIT_def
  FNAV_OMEGA0_3_6_BIT_def FNAV_OMEGADOT_3_6_BIT_def FNAV_M0_3_6_BIT_def FNAV_AF0_3_6_BIT_def
  FNAV_AF1_3_6_BIT_def FNAV_E5AHS_3_6_BIT_def

text \<open>The parameters of each page type, in the order of the page.\<close>

definition fnav_layout :: "nat \<Rightarrow> slices list" where
  "fnav_layout k =
    (if k = 1 then
      [FNAV_SV_ID_PRN_1_BIT, FNAV_IO_DNAV_1_BIT, FNAV_T0C_1_BIT, FNAV_AF0_1_BIT,
       FNAV_AF1_1_BIT, FNAV_AF2_1_BIT, FNAV_SISA_1_BIT, FNAV_AI0_1_BIT, FNAV_AI1_1_BIT,
       FNAV_AI2_1_BIT, FNAV_REGION1_1_BIT, FNAV_REGION2_1_BIT, FNAV_REGION3_1_BIT,
       FNAV_REGION4_1_BIT, FNAV_REGION5_1_BIT, FNAV_BGD_1_BIT, FNAV_E5AHS_1_BIT,
       FNAV_WN_1_BIT, FNAV_TOW_1_BIT, FNAV_E5ADVS_1_BIT]
     else if k = 2 then
      [FNAV_IO_DNAV_2_BIT, FNAV_M0_2_BIT, FNAV_OMEGADOT_2_BIT, FNAV_E_2_BIT, FNAV_A12_2_BIT,
       FNAV_OMEGA0_2_BIT, FNAV_IDOT_2_BIT, FNAV_WN_2_BIT, FNAV_TOW_2_BIT]
     else if k = 3 then
      [FNAV_IO_DNAV_3_BIT, FNAV_I0_3_BIT, FNAV_W_3_BIT, FNAV_DELTAN_3_BIT, FNAV_CUC_3_BIT,
       FNAV_CUS_3_BIT, FNAV_CRC_3_BIT, FNAV_CRS_3_BIT, FNAV_T0E_3_BIT, FNAV_WN_3_BIT,
       FNAV_TOW_3_BIT]
     else if k = 4 then
      [FNAV_IO_DNAV_4_BIT, FNAV_CIC_4_BIT, FNAV_CIS_4_BIT, FNAV_A0_4_BIT, FNAV_A1_4_BIT,
       FNAV_DELTATLS_4_BIT, FNAV_T0T_4_BIT, FNAV_W_NOT_4_BIT, FNAV_W_NLSF_4_BIT,
       FNAV_DN_4_BIT, FNAV_DELTATLSF_4_BIT, FNAV_T0G_4_BIT, FNAV_A0G_4_BIT, FNAV_A1G_4_BIT,
       FNAV_W_N0G_4_BIT, FNAV_TOW_4_BIT]
     else if k = 5 then
      [FNAV_IO_DA_5_BIT, FNAV_W_NA_5_BIT, FNAV_T0A_5_BIT, FNAV_SVI_D1_5_BIT,
       FNAV_DELTAA12_1_5_BIT, FNAV_E_1_5_BIT, FNAV_W_1_5_BIT, FNAV_DELTAI_1_5_BIT,
       FNAV_OMEGA0_1_5_BIT, FNAV_OMEGADOT_1_5_BIT, FNAV_M0_1_5_BIT, FNAV_AF0_1_5_BIT,
       FNAV_AF1_1_5_BIT, FNAV_E5AHS_1_5_BIT, FNAV_SVI_D2_5_BIT, FNAV_DELTAA12_2_5_BIT,
       FNAV_E_2_5_BIT, FNAV_W_2_5_BIT, FNAV_DELTAI_2_5_BIT]
     else if k = 6 then
      [FNAV_IO_DA_6_BIT, FNAV_OMEGADOT_2_6_BIT, FNAV_M0_2_6_BIT, FNAV_AF0_2_6_BIT,
       FNAV_AF1_2_6_BIT, FNAV_E5AHS_2_6_BIT, FNAV_SVI_D3_6_BIT, FNAV_DELTAA12_3_6_BIT,
       FNAV_E_3_6_BIT, FNAV_W_3_6_BIT, FNAV_DELTAI_3_6_BIT, FNAV_OMEGA0_3_6_BIT,
       FNAV_OMEGADOT_3_6_BIT, FNAV_M0_3_6_BIT, FNAV_AF0_3_6_BIT, FNAV_AF1_3_6_BIT,
       FNAV_E5AHS_3_6_BIT]
     else [])"

fun fnav_disjoint :: "nat \<Rightarrow> slices list \<Rightarrow> bool" where
  "fnav_disjoint a [] = (a \<le> 215)"
| "fnav_disjoint a ([(f, l)] # ps) = (a \<le> f \<and> 1 \<le> l \<and> fnav_disjoint (f + l) ps)"
| "fnav_disjoint a (_ # ps) = False"

lemma fnav_layout_disjoint: "fnav_disjoint 7 (fnav_layout k)"
  by (simp add: fnav_layout_def fnav_bits)

lemma fnav_fields_in_range:
  "list_all (\<lambda>p. in_range 214 p \<and> slices_length p \<le> 32) (concat (map fnav_layout [1..<7]) @ [FNAV_PAGE_TYPE_BIT])"
  by code_simp

end
