(* ===== verification/Galileo_Fnav_Message.thy ===== *)
theory Galileo_Fnav_Message
  imports Galileo_FNAV Galileo_Data Osnma_Utils
begin

section \<open>The Galileo F/NAV message\<close>

text \<open>
  \<^verbatim>\<open>Galileo_Fnav_Message\<close> of \<^verbatim>\<open>core/system_parameters/galileo_fnav_message.h/.cc\<close>: the CRC check and the
  six page types of the E5a message, with one record per page type and one for the flags. Names
  shared with the I/NAV class have the prefix or suffix \<open>fnav\<close>. The almanac of the second satellite
  is spread over the pages 5 and 6; page 6 reads its right ascension at position 0, one bit past
  the end of the bitset: the standard leaves that undefined, in libstdc++ it is one of the unused
  zero bits of the last storage word, which the model follows.
\<close>

subsection \<open>State\<close>

record fnav_page1 =
  FNAV_SV_ID_PRN_1 :: int
  FNAV_IODnav_1 :: int
  FNAV_t0c_1 :: int
  FNAV_af0_1 :: double
  FNAV_af1_1 :: double
  FNAV_af2_1 :: double
  FNAV_SISA_1 :: int
  FNAV_ai0_1 :: double
  FNAV_ai1_1 :: double
  FNAV_ai2_1 :: double
  FNAV_BGD_1 :: double
  FNAV_E5ahs_1 :: int
  FNAV_WN_1 :: int
  FNAV_TOW_1 :: int
  FNAV_region1_1 :: bool
  FNAV_region2_1 :: bool
  FNAV_region3_1 :: bool
  FNAV_region4_1 :: bool
  FNAV_region5_1 :: bool
  FNAV_E5advs_1 :: bool

record fnav_page2 =
  FNAV_IODnav_2 :: int
  FNAV_M0_2 :: double
  FNAV_omegadot_2 :: double
  FNAV_e_2 :: double
  FNAV_a12_2 :: double
  FNAV_omega0_2 :: double
  FNAV_idot_2 :: double
  FNAV_WN_2 :: int
  FNAV_TOW_2 :: int

record fnav_page3 =
  FNAV_IODnav_3 :: int
  FNAV_i0_3 :: double
  FNAV_w_3 :: double
  FNAV_deltan_3 :: double
  FNAV_Cuc_3 :: double
  FNAV_Cus_3 :: double
  FNAV_Crc_3 :: double
  FNAV_Crs_3 :: double
  FNAV_t0e_3 :: int
  FNAV_WN_3 :: int
  FNAV_TOW_3 :: int

record fnav_page4 =
  FNAV_IODnav_4 :: int
  FNAV_Cic_4 :: double
  FNAV_Cis_4 :: double
  FNAV_A0_4 :: double
  FNAV_A1_4 :: double
  FNAV_deltatls_4 :: int
  FNAV_t0t_4 :: int
  FNAV_WNot_4 :: int
  FNAV_WNlsf_4 :: int
  FNAV_DN_4 :: int
  FNAV_deltatlsf_4 :: int
  FNAV_t0g_4 :: int
  FNAV_A0g_4 :: double
  FNAV_A1g_4 :: double
  FNAV_WN0g_4 :: int
  FNAV_TOW_4 :: int

record fnav_page5 =
  FNAV_IODa_5 :: int
  FNAV_WNa_5 :: int
  FNAV_t0a_5 :: int
  FNAV_SVID1_5 :: int
  FNAV_Deltaa12_1_5 :: double
  FNAV_e_1_5 :: double
  FNAV_w_1_5 :: double
  FNAV_deltai_1_5 :: double
  FNAV_Omega0_1_5 :: double
  FNAV_Omegadot_1_5 :: double
  FNAV_M0_1_5 :: double
  FNAV_af0_1_5 :: double
  FNAV_af1_1_5 :: double
  FNAV_E5ahs_1_5 :: int
  FNAV_SVID2_5 :: int
  FNAV_Deltaa12_2_5 :: double
  FNAV_e_2_5 :: double
  FNAV_w_2_5 :: double
  FNAV_deltai_2_5 :: double

record fnav_page6 =
  FNAV_IODa_6 :: int
  FNAV_Omega0_2_6 :: double
  FNAV_Omegadot_2_6 :: double
  FNAV_M0_2_6 :: double
  FNAV_af0_2_6 :: double
  FNAV_af1_2_6 :: double
  FNAV_E5ahs_2_6 :: int
  FNAV_SVID3_6 :: int
  FNAV_Deltaa12_3_6 :: double
  FNAV_e_3_6 :: double
  FNAV_w_3_6 :: double
  FNAV_deltai_3_6 :: double
  FNAV_Omega0_3_6 :: double
  FNAV_Omegadot_3_6 :: double
  FNAV_M0_3_6 :: double
  FNAV_af0_3_6 :: double
  FNAV_af1_3_6 :: double
  FNAV_E5ahs_3_6 :: int

record fnav_flags =
  flag_CRC_test_fnav :: bool
  flag_all_ephemeris_fnav :: bool
  flag_ephemeris_1_fnav :: bool
  flag_ephemeris_2_fnav :: bool
  flag_ephemeris_3_fnav :: bool
  flag_iono_and_GST_fnav :: bool
  flag_TOW_1_fnav :: bool
  flag_TOW_2_fnav :: bool
  flag_TOW_3_fnav :: bool
  flag_TOW_4_fnav :: bool
  flag_TOW_set_fnav :: bool
  flag_utc_model_fnav :: bool
  flag_all_almanac_fnav :: bool
  flag_almanac_1_fnav :: bool
  flag_almanac_2_fnav :: bool

record galileo_fnav_message =
  omega0_1 :: string
  IOD_ephemeris_fnav :: int
  page_type :: int
  fpage1 :: fnav_page1
  fpage2 :: fnav_page2
  fpage3 :: fnav_page3
  fpage4 :: fnav_page4
  fpage5 :: fnav_page5
  fpage6 :: fnav_page6
  fflags :: fnav_flags

definition new_fnav_page1 :: fnav_page1 where
  "new_fnav_page1 =
     \<lparr>FNAV_SV_ID_PRN_1 = 0, FNAV_IODnav_1 = 0, FNAV_t0c_1 = 0, FNAV_af0_1 = 0, FNAV_af1_1 = 0, FNAV_af2_1 = 0,
      FNAV_SISA_1 = 0, FNAV_ai0_1 = 0, FNAV_ai1_1 = 0, FNAV_ai2_1 = 0, FNAV_BGD_1 = 0, FNAV_E5ahs_1 = 0,
      FNAV_WN_1 = 0, FNAV_TOW_1 = 0, FNAV_region1_1 = False, FNAV_region2_1 = False, FNAV_region3_1 = False,
      FNAV_region4_1 = False, FNAV_region5_1 = False, FNAV_E5advs_1 = False\<rparr>"

definition new_fnav_page2 :: fnav_page2 where
  "new_fnav_page2 =
     \<lparr>FNAV_IODnav_2 = 0, FNAV_M0_2 = 0, FNAV_omegadot_2 = 0, FNAV_e_2 = 0, FNAV_a12_2 = 0, FNAV_omega0_2 = 0,
      FNAV_idot_2 = 0, FNAV_WN_2 = 0, FNAV_TOW_2 = 0\<rparr>"

definition new_fnav_page3 :: fnav_page3 where
  "new_fnav_page3 =
     \<lparr>FNAV_IODnav_3 = 0, FNAV_i0_3 = 0, FNAV_w_3 = 0, FNAV_deltan_3 = 0, FNAV_Cuc_3 = 0, FNAV_Cus_3 = 0,
      FNAV_Crc_3 = 0, FNAV_Crs_3 = 0, FNAV_t0e_3 = 0, FNAV_WN_3 = 0, FNAV_TOW_3 = 0\<rparr>"

definition new_fnav_page4 :: fnav_page4 where
  "new_fnav_page4 =
     \<lparr>FNAV_IODnav_4 = 0, FNAV_Cic_4 = 0, FNAV_Cis_4 = 0, FNAV_A0_4 = 0, FNAV_A1_4 = 0, FNAV_deltatls_4 = 0,
      FNAV_t0t_4 = 0, FNAV_WNot_4 = 0, FNAV_WNlsf_4 = 0, FNAV_DN_4 = 0, FNAV_deltatlsf_4 = 0, FNAV_t0g_4 = 0,
      FNAV_A0g_4 = 0, FNAV_A1g_4 = 0, FNAV_WN0g_4 = 0, FNAV_TOW_4 = 0\<rparr>"

definition new_fnav_page5 :: fnav_page5 where
  "new_fnav_page5 =
     \<lparr>FNAV_IODa_5 = 0, FNAV_WNa_5 = 0, FNAV_t0a_5 = 0, FNAV_SVID1_5 = 0, FNAV_Deltaa12_1_5 = 0, FNAV_e_1_5 = 0,
      FNAV_w_1_5 = 0, FNAV_deltai_1_5 = 0, FNAV_Omega0_1_5 = 0, FNAV_Omegadot_1_5 = 0, FNAV_M0_1_5 = 0,
      FNAV_af0_1_5 = 0, FNAV_af1_1_5 = 0, FNAV_E5ahs_1_5 = 0, FNAV_SVID2_5 = 0, FNAV_Deltaa12_2_5 = 0,
      FNAV_e_2_5 = 0, FNAV_w_2_5 = 0, FNAV_deltai_2_5 = 0\<rparr>"

definition new_fnav_page6 :: fnav_page6 where
  "new_fnav_page6 =
     \<lparr>FNAV_IODa_6 = 0, FNAV_Omega0_2_6 = 0, FNAV_Omegadot_2_6 = 0, FNAV_M0_2_6 = 0, FNAV_af0_2_6 = 0,
      FNAV_af1_2_6 = 0, FNAV_E5ahs_2_6 = 0, FNAV_SVID3_6 = 0, FNAV_Deltaa12_3_6 = 0, FNAV_e_3_6 = 0,
      FNAV_w_3_6 = 0, FNAV_deltai_3_6 = 0, FNAV_Omega0_3_6 = 0, FNAV_Omegadot_3_6 = 0, FNAV_M0_3_6 = 0,
      FNAV_af0_3_6 = 0, FNAV_af1_3_6 = 0, FNAV_E5ahs_3_6 = 0\<rparr>"

definition new_fnav_flags :: fnav_flags where
  "new_fnav_flags =
     \<lparr>flag_CRC_test_fnav = False, flag_all_ephemeris_fnav = False, flag_ephemeris_1_fnav = False,
      flag_ephemeris_2_fnav = False, flag_ephemeris_3_fnav = False, flag_iono_and_GST_fnav = False,
      flag_TOW_1_fnav = False, flag_TOW_2_fnav = False, flag_TOW_3_fnav = False, flag_TOW_4_fnav = False,
      flag_TOW_set_fnav = False, flag_utc_model_fnav = False, flag_all_almanac_fnav = False,
      flag_almanac_1_fnav = False, flag_almanac_2_fnav = False\<rparr>"

definition new_fnav_message :: galileo_fnav_message where
  "new_fnav_message =
     \<lparr>omega0_1 = [], IOD_ephemeris_fnav = 0, page_type = 0, fpage1 = new_fnav_page1, fpage2 = new_fnav_page2, fpage3 = new_fnav_page3, fpage4 = new_fnav_page4,
      fpage5 = new_fnav_page5, fpage6 = new_fnav_page6,
      fflags = new_fnav_flags\<rparr>"

subsection \<open>Reading fields\<close>

definition fnav_read_unsigned :: "214 word \<Rightarrow> slices \<Rightarrow> 64 word" where
  "fnav_read_unsigned bits parameter = read_bits bits parameter"

definition fnav_read_signed :: "214 word \<Rightarrow> slices \<Rightarrow> 64 word" where
  "fnav_read_signed bits parameter = read_short_signed_bits bits parameter"

interpretation fnav: nav_reader 214 4 bitset_to_string fnav_read_unsigned fnav_read_signed
proof unfold_locales
  show "length (bitset_to_string m) = 214" for m :: "214 word" by simp
next
  show "in_range 214 p \<Longrightarrow> slices_length p \<le> 64 \<Longrightarrow>
      unat (fnav_read_unsigned m p) = bin_value (slice_string (bitset_to_string m) p)" for m p
    by (simp add: fnav_read_unsigned_def read_bits_value)
next
  show "in_range 214 p \<Longrightarrow> 4 \<le> slices_length p \<Longrightarrow> slices_length p \<le> 63 \<Longrightarrow>
      sint (fnav_read_signed m p) = signed_value (slice_string (bitset_to_string m) p)" for m p
    by (simp add: fnav_read_signed_def short_sign_extension read_signed_bits_value)
qed

definition fnav_u32 :: "214 word \<Rightarrow> slices \<Rightarrow> int" where
  "fnav_u32 bits p = to_int32 (uint (fnav_read_unsigned bits p))"

definition fnav_s32 :: "214 word \<Rightarrow> slices \<Rightarrow> int" where
  "fnav_s32 bits p = to_int32 (sint (fnav_read_signed bits p))"

definition fnav_du :: "214 word \<Rightarrow> slices \<Rightarrow> double" where
  "fnav_du bits p = to_double (of_int (uint (fnav_read_unsigned bits p)))"

definition fnav_ds :: "214 word \<Rightarrow> slices \<Rightarrow> double" where
  "fnav_ds bits p = to_double (of_int (sint (fnav_read_signed bits p)))"

subsection \<open>Decoding the pages\<close>

definition decode_fpage1 :: "214 word \<Rightarrow> fnav_page1" where
  "decode_fpage1 bits =
     \<lparr>FNAV_SV_ID_PRN_1 = fnav_u32 bits FNAV_SV_ID_PRN_1_BIT,
      FNAV_IODnav_1 = fnav_u32 bits FNAV_IO_DNAV_1_BIT,
      FNAV_t0c_1 = fnav_u32 bits FNAV_T0C_1_BIT * FNAV_T0C_1_LSB,
      FNAV_af0_1 = dmul (fnav_ds bits FNAV_AF0_1_BIT) FNAV_AF0_1_LSB,
      FNAV_af1_1 = dmul (fnav_ds bits FNAV_AF1_1_BIT) FNAV_AF1_1_LSB,
      FNAV_af2_1 = dmul (fnav_ds bits FNAV_AF2_1_BIT) FNAV_AF2_1_LSB,
      FNAV_SISA_1 = fnav_u32 bits FNAV_SISA_1_BIT,
      FNAV_ai0_1 = dmul (fnav_du bits FNAV_AI0_1_BIT) FNAV_AI0_1_LSB,
      FNAV_ai1_1 = dmul (fnav_ds bits FNAV_AI1_1_BIT) FNAV_AI1_1_LSB,
      FNAV_ai2_1 = dmul (fnav_ds bits FNAV_AI2_1_BIT) FNAV_AI2_1_LSB,
      FNAV_BGD_1 = dmul (fnav_ds bits FNAV_BGD_1_BIT) FNAV_BGD_1_LSB,
      FNAV_E5ahs_1 = to_int32 (uint (fnav_read_unsigned bits FNAV_E5AHS_1_BIT) mod 2 ^ 32),
      FNAV_WN_1 = fnav_u32 bits FNAV_WN_1_BIT,
      FNAV_TOW_1 = fnav_u32 bits FNAV_TOW_1_BIT,
      FNAV_region1_1 = (fnav_read_unsigned bits FNAV_REGION1_1_BIT \<noteq> 0),
      FNAV_region2_1 = (fnav_read_unsigned bits FNAV_REGION2_1_BIT \<noteq> 0),
      FNAV_region3_1 = (fnav_read_unsigned bits FNAV_REGION3_1_BIT \<noteq> 0),
      FNAV_region4_1 = (fnav_read_unsigned bits FNAV_REGION4_1_BIT \<noteq> 0),
      FNAV_region5_1 = (fnav_read_unsigned bits FNAV_REGION5_1_BIT \<noteq> 0),
      FNAV_E5advs_1 = (fnav_read_unsigned bits FNAV_E5ADVS_1_BIT \<noteq> 0)\<rparr>"

definition read_fpage_1 :: "214 word \<Rightarrow> galileo_fnav_message \<Rightarrow> galileo_fnav_message" where
  "read_fpage_1 bits st =
     st\<lparr>fpage1 := decode_fpage1 bits,
        fflags := (fflags st)\<lparr>flag_TOW_1_fnav := True, flag_TOW_set_fnav := True, flag_iono_and_GST_fnav := True\<rparr>\<rparr>"

definition decode_fpage2 :: "214 word \<Rightarrow> fnav_page2" where
  "decode_fpage2 bits =
     \<lparr>FNAV_IODnav_2 = fnav_u32 bits FNAV_IO_DNAV_2_BIT,
      FNAV_M0_2 = dmul (fnav_ds bits FNAV_M0_2_BIT) FNAV_M0_2_LSB,
      FNAV_omegadot_2 = dmul (fnav_ds bits FNAV_OMEGADOT_2_BIT) FNAV_OMEGADOT_2_LSB,
      FNAV_e_2 = dmul (fnav_du bits FNAV_E_2_BIT) FNAV_E_2_LSB,
      FNAV_a12_2 = dmul (fnav_du bits FNAV_A12_2_BIT) FNAV_A12_2_LSB,
      FNAV_omega0_2 = dmul (fnav_ds bits FNAV_OMEGA0_2_BIT) FNAV_OMEGA0_2_LSB,
      FNAV_idot_2 = dmul (fnav_ds bits FNAV_IDOT_2_BIT) FNAV_IDOT_2_LSB,
      FNAV_WN_2 = fnav_u32 bits FNAV_WN_2_BIT,
      FNAV_TOW_2 = fnav_u32 bits FNAV_TOW_2_BIT\<rparr>"

definition read_fpage_2 :: "214 word \<Rightarrow> galileo_fnav_message \<Rightarrow> galileo_fnav_message" where
  "read_fpage_2 bits st =
     st\<lparr>fpage2 := decode_fpage2 bits,
        fflags := (fflags st)\<lparr>flag_TOW_2_fnav := True, flag_TOW_set_fnav := True, flag_ephemeris_1_fnav := True\<rparr>\<rparr>"

definition decode_fpage3 :: "214 word \<Rightarrow> fnav_page3" where
  "decode_fpage3 bits =
     \<lparr>FNAV_IODnav_3 = fnav_u32 bits FNAV_IO_DNAV_3_BIT,
      FNAV_i0_3 = dmul (fnav_ds bits FNAV_I0_3_BIT) FNAV_I0_3_LSB,
      FNAV_w_3 = dmul (fnav_ds bits FNAV_W_3_BIT) FNAV_W_3_LSB,
      FNAV_deltan_3 = dmul (fnav_ds bits FNAV_DELTAN_3_BIT) FNAV_DELTAN_3_LSB,
      FNAV_Cuc_3 = dmul (fnav_ds bits FNAV_CUC_3_BIT) FNAV_CUC_3_LSB,
      FNAV_Cus_3 = dmul (fnav_ds bits FNAV_CUS_3_BIT) FNAV_CUS_3_LSB,
      FNAV_Crc_3 = dmul (fnav_ds bits FNAV_CRC_3_BIT) FNAV_CRC_3_LSB,
      FNAV_Crs_3 = dmul (fnav_ds bits FNAV_CRS_3_BIT) FNAV_CRS_3_LSB,
      FNAV_t0e_3 = fnav_u32 bits FNAV_T0E_3_BIT * FNAV_T0E_3_LSB,
      FNAV_WN_3 = fnav_u32 bits FNAV_WN_3_BIT,
      FNAV_TOW_3 = fnav_u32 bits FNAV_TOW_3_BIT\<rparr>"

definition read_fpage_3 :: "214 word \<Rightarrow> galileo_fnav_message \<Rightarrow> galileo_fnav_message" where
  "read_fpage_3 bits st =
     st\<lparr>fpage3 := decode_fpage3 bits,
        fflags := (fflags st)\<lparr>flag_TOW_3_fnav := True, flag_TOW_set_fnav := True, flag_ephemeris_2_fnav := True\<rparr>\<rparr>"

definition decode_fpage4 :: "214 word \<Rightarrow> fnav_page4" where
  "decode_fpage4 bits =
     \<lparr>FNAV_IODnav_4 = fnav_u32 bits FNAV_IO_DNAV_4_BIT,
      FNAV_Cic_4 = dmul (fnav_ds bits FNAV_CIC_4_BIT) FNAV_CIC_4_LSB,
      FNAV_Cis_4 = dmul (fnav_ds bits FNAV_CIS_4_BIT) FNAV_CIS_4_LSB,
      FNAV_A0_4 = dmul (fnav_ds bits FNAV_A0_4_BIT) FNAV_A0_4_LSB,
      FNAV_A1_4 = dmul (fnav_ds bits FNAV_A1_4_BIT) FNAV_A1_4_LSB,
      FNAV_deltatls_4 = fnav_s32 bits FNAV_DELTATLS_4_BIT,
      FNAV_t0t_4 = fnav_u32 bits FNAV_T0T_4_BIT * FNAV_T0T_4_LSB,
      FNAV_WNot_4 = fnav_u32 bits FNAV_W_NOT_4_BIT,
      FNAV_WNlsf_4 = fnav_u32 bits FNAV_W_NLSF_4_BIT,
      FNAV_DN_4 = fnav_u32 bits FNAV_DN_4_BIT,
      FNAV_deltatlsf_4 = fnav_s32 bits FNAV_DELTATLSF_4_BIT,
      FNAV_t0g_4 = fnav_u32 bits FNAV_T0G_4_BIT * FNAV_T0G_4_LSB,
      FNAV_A0g_4 = dmul (fnav_ds bits FNAV_A0G_4_BIT) FNAV_A0G_4_LSB,
      FNAV_A1g_4 = dmul (fnav_ds bits FNAV_A1G_4_BIT) FNAV_A1G_4_LSB,
      FNAV_WN0g_4 = fnav_u32 bits FNAV_W_N0G_4_BIT,
      FNAV_TOW_4 = fnav_u32 bits FNAV_TOW_4_BIT\<rparr>"

definition read_fpage_4 :: "214 word \<Rightarrow> galileo_fnav_message \<Rightarrow> galileo_fnav_message" where
  "read_fpage_4 bits st =
     st\<lparr>fpage4 := decode_fpage4 bits,
        fflags := (fflags st)\<lparr>flag_TOW_4_fnav := True, flag_TOW_set_fnav := True, flag_ephemeris_3_fnav := True, flag_utc_model_fnav := True\<rparr>\<rparr>"

definition decode_fpage5 :: "214 word \<Rightarrow> fnav_page5" where
  "decode_fpage5 bits =
     \<lparr>FNAV_IODa_5 = fnav_u32 bits FNAV_IO_DA_5_BIT,
      FNAV_WNa_5 = fnav_u32 bits FNAV_W_NA_5_BIT,
      FNAV_t0a_5 = fnav_u32 bits FNAV_T0A_5_BIT * FNAV_T0A_5_LSB,
      FNAV_SVID1_5 = fnav_u32 bits FNAV_SVI_D1_5_BIT,
      FNAV_Deltaa12_1_5 = dmul (fnav_ds bits FNAV_DELTAA12_1_5_BIT) FNAV_DELTAA12_5_LSB,
      FNAV_e_1_5 = dmul (fnav_du bits FNAV_E_1_5_BIT) FNAV_E_5_LSB,
      FNAV_w_1_5 = dmul (fnav_ds bits FNAV_W_1_5_BIT) FNAV_W_5_LSB,
      FNAV_deltai_1_5 = dmul (fnav_ds bits FNAV_DELTAI_1_5_BIT) FNAV_DELTAI_5_LSB,
      FNAV_Omega0_1_5 = dmul (fnav_ds bits FNAV_OMEGA0_1_5_BIT) FNAV_OMEGA0_5_LSB,
      FNAV_Omegadot_1_5 = dmul (fnav_ds bits FNAV_OMEGADOT_1_5_BIT) FNAV_OMEGADOT_5_LSB,
      FNAV_M0_1_5 = dmul (fnav_ds bits FNAV_M0_1_5_BIT) FNAV_M0_5_LSB,
      FNAV_af0_1_5 = dmul (fnav_ds bits FNAV_AF0_1_5_BIT) FNAV_AF0_5_LSB,
      FNAV_af1_1_5 = dmul (fnav_ds bits FNAV_AF1_1_5_BIT) FNAV_AF1_5_LSB,
      FNAV_E5ahs_1_5 = uint (fnav_read_unsigned bits FNAV_E5AHS_1_5_BIT) mod 2 ^ 32,
      FNAV_SVID2_5 = fnav_u32 bits FNAV_SVI_D2_5_BIT,
      FNAV_Deltaa12_2_5 = dmul (fnav_ds bits FNAV_DELTAA12_2_5_BIT) FNAV_DELTAA12_5_LSB,
      FNAV_e_2_5 = dmul (fnav_du bits FNAV_E_2_5_BIT) FNAV_E_5_LSB,
      FNAV_w_2_5 = dmul (fnav_ds bits FNAV_W_2_5_BIT) FNAV_W_5_LSB,
      FNAV_deltai_2_5 = dmul (fnav_ds bits FNAV_DELTAI_2_5_BIT) FNAV_DELTAI_5_LSB\<rparr>"

definition read_fpage_5 :: "string \<Rightarrow> 214 word \<Rightarrow> galileo_fnav_message \<Rightarrow> galileo_fnav_message result" where
  "read_fpage_5 data bits st =
     bindr (substr data 210 4) (\<lambda>om.
     Inr (st\<lparr>fpage5 := decode_fpage5 bits, omega0_1 := om,
        fflags := (fflags st)\<lparr>flag_almanac_1_fnav := True\<rparr>\<rparr>))"

definition decode_fpage6 :: "214 word \<Rightarrow> 214 word \<Rightarrow> fnav_page6" where
  "decode_fpage6 omega_bits bits =
     \<lparr>FNAV_IODa_6 = fnav_u32 bits FNAV_IO_DA_6_BIT,
      FNAV_Omega0_2_6 = dmul (fnav_ds omega_bits [(0, 12)]) FNAV_OMEGA0_5_LSB,
      FNAV_Omegadot_2_6 = dmul (fnav_ds bits FNAV_OMEGADOT_2_6_BIT) FNAV_OMEGADOT_5_LSB,
      FNAV_M0_2_6 = dmul (fnav_ds bits FNAV_M0_2_6_BIT) FNAV_M0_5_LSB,
      FNAV_af0_2_6 = dmul (fnav_ds bits FNAV_AF0_2_6_BIT) FNAV_AF0_5_LSB,
      FNAV_af1_2_6 = dmul (fnav_ds bits FNAV_AF1_2_6_BIT) FNAV_AF1_5_LSB,
      FNAV_E5ahs_2_6 = fnav_u32 bits FNAV_E5AHS_2_6_BIT,
      FNAV_SVID3_6 = fnav_u32 bits FNAV_SVI_D3_6_BIT,
      FNAV_Deltaa12_3_6 = dmul (fnav_ds bits FNAV_DELTAA12_3_6_BIT) FNAV_DELTAA12_5_LSB,
      FNAV_e_3_6 = dmul (fnav_du bits FNAV_E_3_6_BIT) FNAV_E_5_LSB,
      FNAV_w_3_6 = dmul (fnav_ds bits FNAV_W_3_6_BIT) FNAV_W_5_LSB,
      FNAV_deltai_3_6 = dmul (fnav_ds bits FNAV_DELTAI_3_6_BIT) FNAV_DELTAI_5_LSB,
      FNAV_Omega0_3_6 = dmul (fnav_ds bits FNAV_OMEGA0_3_6_BIT) FNAV_OMEGA0_5_LSB,
      FNAV_Omegadot_3_6 = dmul (fnav_ds bits FNAV_OMEGADOT_3_6_BIT) FNAV_OMEGADOT_5_LSB,
      FNAV_M0_3_6 = dmul (fnav_ds bits FNAV_M0_3_6_BIT) FNAV_M0_5_LSB,
      FNAV_af0_3_6 = dmul (fnav_ds bits FNAV_AF0_3_6_BIT) FNAV_AF0_5_LSB,
      FNAV_af1_3_6 = dmul (fnav_ds bits FNAV_AF1_3_6_BIT) FNAV_AF1_5_LSB,
      FNAV_E5ahs_3_6 = fnav_u32 bits FNAV_E5AHS_3_6_BIT\<rparr>"

definition read_fpage_6 :: "string \<Rightarrow> 214 word \<Rightarrow> galileo_fnav_message \<Rightarrow> galileo_fnav_message result" where
  "read_fpage_6 data bits st =
     bindr (substr data 10 12) (\<lambda>omega0_2.
     bindr (bitset_of_string (omega0_1 st @ omega0_2)) (\<lambda>omega_bits.
     Inr (st\<lparr>fpage6 := decode_fpage6 omega_bits bits,
        fflags := (fflags st)\<lparr>flag_almanac_2_fnav := True\<rparr>\<rparr>)))"

definition fnav_decode_page :: "string \<Rightarrow> galileo_fnav_message \<Rightarrow> galileo_fnav_message result" where
  "fnav_decode_page data st =
     bindr (bitset_of_string data) (\<lambda>data_bits.
     let pt = fnav_u32 data_bits FNAV_PAGE_TYPE_BIT; st1 = st\<lparr>page_type := pt\<rparr> in
     if pt = 1 then Inr (read_fpage_1 data_bits st1)
     else if pt = 2 then Inr (read_fpage_2 data_bits st1)
     else if pt = 3 then Inr (read_fpage_3 data_bits st1)
     else if pt = 4 then Inr (read_fpage_4 data_bits st1)
     else if pt = 5 then read_fpage_5 data data_bits st1
     else if pt = 6 then read_fpage_6 data data_bits st1
     else Inr st1)"

text \<open>The 214 bits as 27 bytes with the zero fill first; \<open>crc\<close> stands for the CRC of boost.\<close>

definition fnav_frame_bytes :: "214 word \<Rightarrow> byte list" where
  "fnav_frame_bytes bits = rev (map (\<lambda>j. ucast (drop_bit (8 * j) bits)) [0..<GALILEO_FNAV_DATA_FRAME_BYTES])"

definition fnav_CRC_test :: "(byte list \<Rightarrow> nat) \<Rightarrow> 214 word \<Rightarrow> 24 word \<Rightarrow> bool" where
  "fnav_CRC_test crc bits checksum \<longleftrightarrow> unat checksum = crc (take GALILEO_FNAV_DATA_FRAME_BYTES (fnav_frame_bytes bits))"

definition fnav_split_page :: "(byte list \<Rightarrow> nat) \<Rightarrow> string \<Rightarrow> galileo_fnav_message \<Rightarrow> galileo_fnav_message result" where
  "fnav_split_page crc page_string st =
     bindr (substr page_string 0 214) (\<lambda>message_word.
     bindr (substr page_string 214 24) (\<lambda>CRC_data.
     bindr (bitset_of_string message_word) (\<lambda>Word_for_CRC_bits.
     bindr (bitset_of_string CRC_data) (\<lambda>checksum.
     if fnav_CRC_test crc Word_for_CRC_bits checksum
     then fnav_decode_page message_word (st\<lparr>fflags := (fflags st)\<lparr>flag_CRC_test_fnav := True\<rparr>\<rparr>)
     else Inr (st\<lparr>fflags := (fflags st)\<lparr>flag_CRC_test_fnav := False\<rparr>\<rparr>)))))"

subsection \<open>Data sets\<close>

definition fnav_have_new_ephemeris :: "galileo_fnav_message \<Rightarrow> galileo_fnav_message \<times> bool" where
  "fnav_have_new_ephemeris st =
     (if flag_ephemeris_1_fnav (fflags st) \<and> flag_ephemeris_2_fnav (fflags st) \<and> flag_ephemeris_3_fnav (fflags st)
         \<and> flag_iono_and_GST_fnav (fflags st)
         \<and> FNAV_IODnav_1 (fpage1 st) = FNAV_IODnav_2 (fpage2 st) \<and> FNAV_IODnav_3 (fpage3 st) = FNAV_IODnav_4 (fpage4 st)
         \<and> FNAV_IODnav_1 (fpage1 st) = FNAV_IODnav_3 (fpage3 st)
      then (st\<lparr>fflags := (fflags st)\<lparr>flag_ephemeris_1_fnav := False, flag_ephemeris_2_fnav := False,
               flag_ephemeris_3_fnav := False, flag_all_ephemeris_fnav := True\<rparr>,
               IOD_ephemeris_fnav := FNAV_IODnav_1 (fpage1 st)\<rparr>, True)
      else (st, False))"

definition fnav_have_new_iono_and_GST :: "galileo_fnav_message \<Rightarrow> galileo_fnav_message \<times> bool" where
  "fnav_have_new_iono_and_GST st =
     (if flag_iono_and_GST_fnav (fflags st) \<and> flag_utc_model_fnav (fflags st)
      then (st\<lparr>fflags := (fflags st)\<lparr>flag_iono_and_GST_fnav := False\<rparr>\<rparr>, True) else (st, False))"

definition fnav_have_new_utc_model :: "galileo_fnav_message \<Rightarrow> galileo_fnav_message \<times> bool" where
  "fnav_have_new_utc_model st =
     (if flag_utc_model_fnav (fflags st)
      then (st\<lparr>fflags := (fflags st)\<lparr>flag_utc_model_fnav := False\<rparr>\<rparr>, True) else (st, False))"

definition fnav_have_new_almanac :: "galileo_fnav_message \<Rightarrow> galileo_fnav_message \<times> bool" where
  "fnav_have_new_almanac st =
     (if flag_almanac_1_fnav (fflags st) \<and> flag_almanac_2_fnav (fflags st)
      then (st\<lparr>fflags := (fflags st)\<lparr>flag_almanac_1_fnav := False, flag_almanac_2_fnav := False,
               flag_all_almanac_fnav := True\<rparr>\<rparr>, True) else (st, False))"

definition fnav_get_ephemeris :: "galileo_fnav_message \<Rightarrow> galileo_ephemeris" where
  "fnav_get_ephemeris st =
     new_galileo_ephemeris\<lparr>
        flag_all_ephemeris_eph := flag_all_ephemeris_fnav (fflags st),
        IOD_ephemeris_eph := IOD_ephemeris_fnav st, PRN_eph := (FNAV_SV_ID_PRN_1 (fpage1 st)) mod 2 ^ 32,
        M_0_eph := FNAV_M0_2 (fpage2 st), delta_n_eph := FNAV_deltan_3 (fpage3 st),
        ecc_eph := FNAV_e_2 (fpage2 st), sqrtA_eph := FNAV_a12_2 (fpage2 st),
        OMEGA_0_eph := FNAV_omega0_2 (fpage2 st), i_0_eph := FNAV_i0_3 (fpage3 st),
        omega_eph := FNAV_w_3 (fpage3 st), OMEGAdot_eph := FNAV_omegadot_2 (fpage2 st),
        idot_eph := FNAV_idot_2 (fpage2 st), Cuc_eph := FNAV_Cuc_3 (fpage3 st),
        Cus_eph := FNAV_Cus_3 (fpage3 st), Crc_eph := FNAV_Crc_3 (fpage3 st),
        Crs_eph := FNAV_Crs_3 (fpage3 st), Cic_eph := FNAV_Cic_4 (fpage4 st),
        Cis_eph := FNAV_Cis_4 (fpage4 st), toe := FNAV_t0e_3 (fpage3 st), toc := FNAV_t0c_1 (fpage1 st),
        af0_eph := FNAV_af0_1 (fpage1 st), af1_eph := FNAV_af1_1 (fpage1 st),
        af2_eph := FNAV_af2_1 (fpage1 st), WN_eph := FNAV_WN_3 (fpage3 st), tow_eph := FNAV_TOW_3 (fpage3 st),
        E5a_HS_eph := FNAV_E5ahs_1 (fpage1 st), E5a_DVS_eph := FNAV_E5advs_1 (fpage1 st)\<rparr>"

definition fnav_get_iono :: "galileo_fnav_message \<Rightarrow> galileo_iono" where
  "fnav_get_iono st =
     new_galileo_iono\<lparr>
        ai0 := FNAV_ai0_1 (fpage1 st), ai1 := FNAV_ai1_1 (fpage1 st), ai2 := FNAV_ai2_1 (fpage1 st),
        Region1_flag := FNAV_region1_1 (fpage1 st), Region2_flag := FNAV_region2_1 (fpage1 st),
        Region3_flag := FNAV_region3_1 (fpage1 st), Region4_flag := FNAV_region4_1 (fpage1 st),
        Region5_flag := FNAV_region5_1 (fpage1 st), tow_iono := FNAV_TOW_1 (fpage1 st),
        WN_iono := FNAV_WN_1 (fpage1 st)\<rparr>"

definition fnav_get_utc_model :: "galileo_fnav_message \<Rightarrow> galileo_utc_model" where
  "fnav_get_utc_model st =
     new_galileo_utc_model\<lparr>
        A0_utc := FNAV_A0_4 (fpage4 st), A1_utc := FNAV_A1_4 (fpage4 st),
        Delta_tLS_utc := FNAV_deltatls_4 (fpage4 st), tot_utc := FNAV_t0t_4 (fpage4 st),
        WNot_utc := FNAV_WNot_4 (fpage4 st), WN_LSF_utc := FNAV_WNlsf_4 (fpage4 st),
        DN_utc := FNAV_DN_4 (fpage4 st), Delta_tLSF_utc := FNAV_deltatlsf_4 (fpage4 st),
        flag_utc_model_utc := flag_utc_model_fnav (fflags st)\<rparr>"

definition fnav_get_almanac :: "galileo_fnav_message \<Rightarrow> galileo_almanac_helper" where
  "fnav_get_almanac st =
     new_galileo_almanac_helper\<lparr>
        helper_IOD_a_7 := FNAV_IODa_5 (fpage5 st), helper_WN_a_7 := FNAV_WNa_5 (fpage5 st),
        helper_t0a_7 := FNAV_t0a_5 (fpage5 st), helper_SVID1_7 := FNAV_SVID1_5 (fpage5 st),
        helper_DELTA_A_7 := FNAV_Deltaa12_1_5 (fpage5 st), helper_e_7 := FNAV_e_1_5 (fpage5 st),
        helper_omega_7 := FNAV_w_1_5 (fpage5 st), helper_delta_i_7 := FNAV_deltai_1_5 (fpage5 st),
        helper_Omega0_7 := FNAV_Omega0_1_5 (fpage5 st), helper_Omega_dot_7 := FNAV_Omegadot_1_5 (fpage5 st),
        helper_M0_7 := FNAV_M0_1_5 (fpage5 st), helper_IOD_a_8 := FNAV_IODa_5 (fpage5 st),
        helper_af0_8 := FNAV_af0_1_5 (fpage5 st), helper_af1_8 := FNAV_af1_1_5 (fpage5 st),
        helper_E5a_HS_8 := to_int32 (FNAV_E5ahs_1_5 (fpage5 st)), helper_SVID2_8 := FNAV_SVID2_5 (fpage5 st),
        helper_DELTA_A_8 := FNAV_Deltaa12_2_5 (fpage5 st), helper_e_8 := FNAV_e_2_5 (fpage5 st),
        helper_omega_8 := FNAV_w_2_5 (fpage5 st), helper_delta_i_8 := FNAV_deltai_2_5 (fpage5 st),
        helper_Omega0_8 := FNAV_Omega0_2_6 (fpage6 st), helper_Omega_dot_8 := FNAV_Omegadot_2_6 (fpage6 st),
        helper_IOD_a_9 := FNAV_IODa_6 (fpage6 st), helper_WN_a_9 := FNAV_WNa_5 (fpage5 st),
        helper_t0a_9 := FNAV_t0a_5 (fpage5 st), helper_M0_9 := FNAV_M0_2_6 (fpage6 st),
        helper_af0_9 := FNAV_af0_2_6 (fpage6 st), helper_af1_9 := FNAV_af1_2_6 (fpage6 st),
        helper_E5a_HS_9 := FNAV_E5ahs_2_6 (fpage6 st), helper_SVID3_9 := FNAV_SVID3_6 (fpage6 st),
        helper_DELTA_A_9 := FNAV_Deltaa12_3_6 (fpage6 st), helper_e_9 := FNAV_e_3_6 (fpage6 st),
        helper_omega_9 := FNAV_w_3_6 (fpage6 st), helper_delta_i_9 := FNAV_deltai_3_6 (fpage6 st),
        helper_IOD_a_10 := FNAV_IODa_6 (fpage6 st), helper_Omega0_10 := FNAV_Omega0_3_6 (fpage6 st),
        helper_Omega_dot_10 := FNAV_Omegadot_3_6 (fpage6 st), helper_M0_10 := FNAV_M0_3_6 (fpage6 st),
        helper_af0_10 := FNAV_af0_3_6 (fpage6 st), helper_af1_10 := FNAV_af1_3_6 (fpage6 st),
        helper_E5a_HS_10 := FNAV_E5ahs_3_6 (fpage6 st)\<rparr>"

definition fnav_TOW :: "nat \<Rightarrow> galileo_fnav_message \<Rightarrow> int" where
  "fnav_TOW k st =
     (if k = 1 then FNAV_TOW_1 (fpage1 st) else if k = 2 then FNAV_TOW_2 (fpage2 st)
      else if k = 3 then FNAV_TOW_3 (fpage3 st) else FNAV_TOW_4 (fpage4 st))"

definition fnav_TOW_is_set :: "nat \<Rightarrow> galileo_fnav_message \<Rightarrow> bool" where
  "fnav_TOW_is_set k st =
     (if k = 1 then flag_TOW_1_fnav (fflags st) else if k = 2 then flag_TOW_2_fnav (fflags st)
      else if k = 3 then flag_TOW_3_fnav (fflags st) else flag_TOW_4_fnav (fflags st))"

definition fnav_set_TOW_flag :: "nat \<Rightarrow> bool \<Rightarrow> galileo_fnav_message \<Rightarrow> galileo_fnav_message" where
  "fnav_set_TOW_flag k b st =
     st\<lparr>fflags := (if k = 1 then (fflags st)\<lparr>flag_TOW_1_fnav := b\<rparr> else if k = 2 then (fflags st)\<lparr>flag_TOW_2_fnav := b\<rparr>
       else if k = 3 then (fflags st)\<lparr>flag_TOW_3_fnav := b\<rparr> else (fflags st)\<lparr>flag_TOW_4_fnav := b\<rparr>)\<rparr>"

definition fnav_get_flag_CRC_test :: "galileo_fnav_message \<Rightarrow> bool" where
  "fnav_get_flag_CRC_test st = flag_CRC_test_fnav (fflags st)"

definition fnav_get_flag_TOW_set :: "galileo_fnav_message \<Rightarrow> bool" where
  "fnav_get_flag_TOW_set st = flag_TOW_set_fnav (fflags st)"

definition fnav_set_flag_TOW_set :: "bool \<Rightarrow> galileo_fnav_message \<Rightarrow> galileo_fnav_message" where
  "fnav_set_flag_TOW_set b st = st\<lparr>fflags := (fflags st)\<lparr>flag_TOW_set_fnav := b\<rparr>\<rparr>"

end
