(* ===== verification/Galileo_Fnav_Correct.thy ===== *)
theory Galileo_Fnav_Correct
  imports Galileo_Fnav_Message
begin

section \<open>Correctness of the F/NAV message decoder\<close>

text \<open>
  The signed reader against two's complement, the outcome of \<open>fnav_split_page\<close> on binary pages in
  every reachable state, the right ascension of the second almanac satellite, and the reporting of
  an ephemeris.
\<close>

subsection \<open>Fields\<close>

text \<open>
  C39: the signed reader of the F/NAV message, which extends the sign by 60 ones only, returns the
  two's complement value of every parameter of 4 to 63 bits, whatever its slices.
\<close>

theorem fnav_signed_reader:
  assumes "in_range 214 p" and "4 \<le> slices_length p" and "slices_length p \<le> 63"
  shows "sint (fnav_read_signed bits p) = signed_value (slice_string (bitset_to_string bits) p)"
  using assms by (rule fnav.read_s_value)

theorem fnav_signed_reader_witness:
  "sint (fnav_read_signed (bits_to_word (replicate 214 True)) FNAV_AF2_1_BIT) = - 1"
proof -
  let ?t = "replicate 214 (CHR ''1'')"
  have r: "in_range 214 FNAV_AF2_1_BIT" "4 \<le> slices_length FNAV_AF2_1_BIT" "slices_length FNAV_AF2_1_BIT \<le> 63"
    by (simp_all add: FNAV_AF2_1_BIT_def in_range_def slices_length_def)
  have "bitset_to_string (bits_to_word (map char_bit ?t) :: 214 word) = ?t"
    by (rule string_bitset_roundtrip) (simp_all add: list_all_iff is_bit_char_def)
  then have t: "bitset_to_string (bits_to_word (replicate 214 True) :: 214 word) = ?t" by simp
  have "slice_string ?t FNAV_AF2_1_BIT = ''111111''" by (simp add: slice_string_def FNAV_AF2_1_BIT_def eval_nat_numeral)
  then show ?thesis using fnav_signed_reader [OF r, of "bits_to_word (replicate 214 True)"] unfolding t by (simp add: signed_value_def)
qed

subsection \<open>Sessions\<close>

inductive fnav_reachable :: "(byte list \<Rightarrow> nat) \<Rightarrow> galileo_fnav_message \<Rightarrow> bool" for crc where
  start: "fnav_reachable crc new_fnav_message"
| page: "fnav_reachable crc st \<Longrightarrow> fnav_split_page crc s st = Inr st' \<Longrightarrow> fnav_reachable crc st'"
| ephemeris: "fnav_reachable crc st \<Longrightarrow> fnav_reachable crc (fst (fnav_have_new_ephemeris st))"
| iono: "fnav_reachable crc st \<Longrightarrow> fnav_reachable crc (fst (fnav_have_new_iono_and_GST st))"
| utc: "fnav_reachable crc st \<Longrightarrow> fnav_reachable crc (fst (fnav_have_new_utc_model st))"
| almanac: "fnav_reachable crc st \<Longrightarrow> fnav_reachable crc (fst (fnav_have_new_almanac st))"
| tow: "fnav_reachable crc st \<Longrightarrow> fnav_reachable crc (fnav_set_TOW_flag k b st)"
| tow_set: "fnav_reachable crc st \<Longrightarrow> fnav_reachable crc (fnav_set_flag_TOW_set b st)"

definition fnav_inv :: "galileo_fnav_message \<Rightarrow> bool" where
  "fnav_inv st \<longleftrightarrow> bin_string (omega0_1 st) \<and> length (omega0_1 st) \<le> 4 \<and> FNAV_Omega0_2_6 (fpage6 st) = 0"

lemma fnav_inv_frame [simp]:
  "fnav_inv (st\<lparr>fflags := f\<rparr>) = fnav_inv st" "fnav_inv (st\<lparr>page_type := n\<rparr>) = fnav_inv st"
  "fnav_inv (st\<lparr>IOD_ephemeris_fnav := i\<rparr>) = fnav_inv st" "fnav_inv (st\<lparr>fpage1 := p1\<rparr>) = fnav_inv st"
  "fnav_inv (st\<lparr>fpage2 := p2\<rparr>) = fnav_inv st" "fnav_inv (st\<lparr>fpage3 := p3\<rparr>) = fnav_inv st"
  "fnav_inv (st\<lparr>fpage4 := p4\<rparr>) = fnav_inv st" "fnav_inv (st\<lparr>fpage5 := p5\<rparr>) = fnav_inv st"
  by (simp_all add: fnav_inv_def)

text \<open>The field of page 6 is read from bits 203 to 214 of a bitset whose text has at most 16 digits.\<close>

lemma omega_bits_zero:
  assumes "length s \<le> 16"
  shows "fnav_read_signed (bits_to_word (map char_bit (take 214 s))) [(0, 12)] = 0"
proof -
  let ?w = "bits_to_word (map char_bit (take 214 s)) :: 214 word"
  have b: "\<not> bit ?w i" if "16 \<le> i" for i using that assms by (simp add: bit_bits_to_word)
  have f: "fold (\<lambda>i. insert_signed_bit (bit ?w i)) is 0 = 0" if "\<forall>i\<in>set is. 16 \<le> i" for "is"
    using that b by (induction "is") (auto simp: insert_signed_bit_def)
  have "fold (\<lambda>i. insert_signed_bit (bit ?w i)) (map ((-) 214) [0..<12]) 0 = 0" by (rule f) auto
  then show ?thesis
    using b by (simp add: fnav_read_signed_def read_short_signed_bits_def slice_positions_def)
qed

lemma decode_fpage6_omega:
  assumes "bitset_of_string (om @ t) = Inr w" and "length om \<le> 4" and "length t \<le> 12"
  shows "FNAV_Omega0_2_6 (decode_fpage6 w bits) = 0"
proof -
  have "w = bits_to_word (map char_bit (take 214 (om @ t)))"
    using assms(1) by (simp add: bitset_of_string_def split: if_splits)
  moreover have "length (om @ t) \<le> 16" using assms(2,3) by simp
  ultimately have "fnav_read_signed w [(0, 12)] = 0" using omega_bits_zero by blast
  then show ?thesis by (simp add: decode_fpage6_def fnav_ds_def dmul_def)
qed

lemma fnav_decode_page_inv:
  assumes "fnav_inv st" and "fnav_decode_page data st = Inr st'"
  shows "fnav_inv st'"
proof -
  from assms(2) obtain w where w: "bitset_of_string data = (Inr w :: 214 word result)" and b: "bin_string data"
    by (auto simp: fnav_decode_page_def bindr_eq_Inr bitset_of_string_def split: if_splits)
  have b4: "bin_string (take n (drop m data))" for n m using b by (auto simp: bin_simps)
  show ?thesis
    using assms b4 decode_fpage6_omega
    by (auto simp: fnav_decode_page_def w Let_def read_fpage_1_def read_fpage_2_def read_fpage_3_def read_fpage_4_def
        read_fpage_5_def read_fpage_6_def bindr_eq_Inr substr_def split: if_splits) (simp_all add: fnav_inv_def)
qed

lemma fnav_split_page_inv: "fnav_inv st \<Longrightarrow> fnav_split_page crc s st = Inr st' \<Longrightarrow> fnav_inv st'"
  by (auto simp: fnav_split_page_def bindr_eq_Inr split: if_splits dest: fnav_decode_page_inv [rotated])

lemma fnav_reachable_inv: "fnav_reachable crc st \<Longrightarrow> fnav_inv st"
proof (induction rule: fnav_reachable.induct)
  case start
  then show ?case by (simp add: fnav_inv_def new_fnav_message_def new_fnav_page6_def)
next
  case (page st s st')
  then show ?case by (simp add: fnav_split_page_inv)
qed (simp_all add: fnav_have_new_ephemeris_def fnav_have_new_iono_and_GST_def fnav_have_new_utc_model_def
    fnav_have_new_almanac_def fnav_set_TOW_flag_def fnav_set_flag_TOW_set_def)

definition fnav_crc_ok :: "(byte list \<Rightarrow> nat) \<Rightarrow> string \<Rightarrow> bool" where
  "fnav_crc_ok crc s \<longleftrightarrow> fnav_CRC_test crc (bits_to_word (map char_bit (take 214 s))) (bits_to_word (map char_bit (take 24 (drop 214 s))))"

lemma fnav_u32_type:
  assumes "bin_string s" and "length s = 214"
  shows "fnav_u32 (bits_to_word (map char_bit s)) FNAV_PAGE_TYPE_BIT = int (bin_value (take 6 s))"
proof -
  have "bitset_to_string (bits_to_word (map char_bit s) :: 214 word) = s"
    by (rule string_bitset_roundtrip) (use assms in simp_all)
  then show ?thesis
    unfolding fnav_u32_def
    by (subst fnav.read_u_int32(1)) (simp_all add: FNAV_PAGE_TYPE_BIT_def in_range_def slices_length_def slice_string_def)
qed

lemma split_page_total:
  assumes "fnav_reachable crc st" and "bin_string s" and "238 \<le> length s"
  shows "\<exists>st'. fnav_split_page crc s st = Inr st' \<and> fnav_get_flag_CRC_test st' = fnav_crc_ok crc s \<and>
    (if fnav_crc_ok crc s then page_type st' = int (bin_value (take 6 s))
     else st' = st\<lparr>fflags := (fflags st)\<lparr>flag_CRC_test_fnav := False\<rparr>\<rparr>)"
proof -
  have inv: "bin_string (omega0_1 st)" using fnav_reachable_inv [OF assms(1)] by (simp add: fnav_inv_def)
  have b: "bin_string (take n (drop m s))" "bin_string (take n s)" for n m using assms(2) by (auto simp: bin_simps)
  have w: "bitset_of_string (take 214 s) = (Inr (bits_to_word (map char_bit (take 214 s))) :: 214 word result)"
    "bitset_of_string (take 24 (drop 214 s)) = (Inr (bits_to_word (map char_bit (take 24 (drop 214 s)))) :: 24 word result)"
    using b(2) [of 214] b(1) [of 24 214] assms(3) by (simp_all add: bitset_of_string_def)
  have om: "bin_string (omega0_1 st @ take 12 (drop 10 (take 214 s)))" using inv b(2) [of 214] by (auto simp: bin_simps)
  have om6: "\<exists>v. bitset_of_string (omega0_1 st @ take 12 (drop 10 (take 214 s))) = (Inr v :: 214 word result)"
    using om by (simp add: bitset_of_string_def)
  have ty: "fnav_u32 (bits_to_word (map char_bit (take 214 s))) FNAV_PAGE_TYPE_BIT = int (bin_value (take 6 s))"
    using fnav_u32_type [OF b(2) [of 214]] assms(3) by simp
  have "\<exists>st'. fnav_decode_page (take 214 s) (st\<lparr>fflags := (fflags st)\<lparr>flag_CRC_test_fnav := True\<rparr>\<rparr>) = Inr st' \<and>
      flag_CRC_test_fnav (fflags st') \<and> page_type st' = int (bin_value (take 6 s))"
    using om6 assms(3)
    by (auto simp: fnav_decode_page_def w(1) Let_def ty read_fpage_1_def read_fpage_2_def read_fpage_3_def read_fpage_4_def
        read_fpage_5_def read_fpage_6_def)
  then show ?thesis
    using assms(3) by (auto simp: fnav_split_page_def w fnav_crc_ok_def [symmetric] fnav_get_flag_CRC_test_def)
qed

lemma page6_reachable: "\<exists>st. fnav_reachable (\<lambda>_. 0) st \<and> page_type st = 6"
proof -
  let ?s = "''000110'' @ replicate 208 (CHR ''1'') @ replicate 24 (CHR ''0'')"
  have b: "bin_string (replicate 208 (CHR ''1''))" "bin_string (replicate 24 (CHR ''0''))"
    by (simp_all add: list_all_iff is_bit_char_def)
  then have bs: "bin_string ?s" by (simp add: is_bit_char_def)
  have ls: "238 \<le> length ?s" by simp
  have d: "drop 214 ?s = replicate 24 (CHR ''0'')" by simp
  have "bits_to_word (map char_bit (take 24 (drop 214 ?s))) = (0 :: 24 word)"
    by (rule bit_word_eqI) (auto simp: d bit_bits_to_word)
  then have c: "fnav_crc_ok (\<lambda>_. 0) ?s" by (simp only: fnav_crc_ok_def fnav_CRC_test_def) simp
  obtain st' where s: "fnav_split_page (\<lambda>_. 0) ?s new_fnav_message = Inr st'" and t: "page_type st' = int (bin_value (take 6 ?s))"
    using split_page_total [OF fnav_reachable.start bs ls, of "\<lambda>_. 0"] unfolding if_P [OF c] by blast
  have "page_type st' = 6" unfolding t by simp
  then show ?thesis using fnav_reachable.page [OF fnav_reachable.start s] by blast
qed





subsection \<open>Reporting an ephemeris\<close>

text \<open>
  An F/NAV ephemeris is reported once and only when the four pages carry the same issue of data;
  a second query answers no and changes nothing.
\<close>

theorem fnav_ephemeris_reported_once:
  assumes "fnav_have_new_ephemeris st = (st', True)"
  shows "fnav_have_new_ephemeris st' = (st', False) \<and>
    IOD_ephemeris_eph (fnav_get_ephemeris st') = FNAV_IODnav_1 (fpage1 st') \<and>
    FNAV_IODnav_2 (fpage2 st') = FNAV_IODnav_1 (fpage1 st') \<and> FNAV_IODnav_3 (fpage3 st') = FNAV_IODnav_1 (fpage1 st') \<and>
    FNAV_IODnav_4 (fpage4 st') = FNAV_IODnav_1 (fpage1 st')"
  using assms by (auto simp: fnav_have_new_ephemeris_def fnav_get_ephemeris_def split: if_splits)

theorem fnav_ephemeris_reported_once_witness:
  "let st = new_fnav_message\<lparr>fflags := new_fnav_flags\<lparr>flag_ephemeris_1_fnav := True, flag_ephemeris_2_fnav := True,
         flag_ephemeris_3_fnav := True, flag_iono_and_GST_fnav := True\<rparr>\<rparr>;
       st' = fst (fnav_have_new_ephemeris st)
   in fnav_have_new_ephemeris st = (st', True) \<and> fnav_have_new_ephemeris st' = (st', False)"
proof -
  define st where "st = new_fnav_message\<lparr>fflags := new_fnav_flags\<lparr>flag_ephemeris_1_fnav := True, flag_ephemeris_2_fnav := True,
         flag_ephemeris_3_fnav := True, flag_iono_and_GST_fnav := True\<rparr>\<rparr>"
  have "fnav_have_new_ephemeris st = (fst (fnav_have_new_ephemeris st), True)"
    by (simp add: fnav_have_new_ephemeris_def st_def new_fnav_message_def new_fnav_page1_def new_fnav_page2_def
        new_fnav_page3_def new_fnav_page4_def new_fnav_flags_def)
  then show ?thesis using fnav_ephemeris_reported_once [of st] unfolding Let_def st_def [symmetric] by blast
qed

end
