(* ===== verification/Gnss_Signals.thy ===== *)
theory Gnss_Signals
  imports Prelude
begin

section \<open>Satellites and signals\<close>

text \<open>
  \<^verbatim>\<open>Gnss_Satellite\<close> and \<^verbatim>\<open>Gnss_Signal\<close> (\<^verbatim>\<open>core/system_parameters/gnss_satellite.cc\<close>,
  \<^verbatim>\<open>gnss_signal.cc\<close>). A satellite is a record of the four members that vary; copying and
  moving are the identity on it. The PRN is a 32-bit unsigned number, kept as a natural number.
  The satellite blocks are tables with the cases of the switch statements of \<^verbatim>\<open>what_block\<close>;
  the GLONASS table also holds the frequency channel that the method stores in the object.
\<close>

record gnss_satellite =
  sat_system :: string
  sat_block :: string
  sat_PRN :: nat
  sat_rf_link :: int

definition default_satellite :: gnss_satellite where
  "default_satellite = \<lparr>sat_system = [], sat_block = [], sat_PRN = 0, sat_rf_link = 0\<rparr>"

definition system_set :: "string list" where
  "system_set = [''GPS'', ''Glonass'', ''SBAS'', ''Galileo'', ''Beidou'']"

definition satelliteSystem :: "(string, string) umap" where
  "satelliteSystem = [(''GPS'', ''G''), (''Glonass'', ''R''), (''SBAS'', ''S''), (''Galileo'', ''E''), (''Beidou'', ''C'')]"

subsection \<open>Satellite blocks\<close>

definition gps_blocks :: "(nat \<times> string) list" where
  "gps_blocks =
    [(1, ''IIF''), (2, ''IIR''), (3, ''IIF''), (4, ''III''), (5, ''IIR-M''), (6, ''IIF''),
     (7, ''IIR-M''), (8, ''IIF''), (9, ''IIF''), (10, ''IIF''), (11, ''III''), (12, ''IIR-M''),
     (13, ''IIR''), (14, ''III''), (15, ''IIR-M''), (16, ''IIR''), (17, ''IIR-M''), (18, ''III''),
     (19, ''IIR''), (20, ''IIR''), (21, ''IIR''), (22, ''IIR''), (23, ''III''), (24, ''IIF''),
     (25, ''IIF''), (26, ''IIF''), (27, ''IIF''), (28, ''IIR''), (29, ''IIR-M''), (30, ''IIF''),
     (31, ''IIR-M''), (32, ''IIF'')]"

definition glonass_blocks :: "(nat \<times> string \<times> int) list" where
  "glonass_blocks =
    [(1, ''1'', 1), (2, ''-4'', -4), (3, ''5'', 5), (4, ''6'', 6), (5, ''1'', 1), (6, ''-4'', -4),
     (7, ''5'', 5), (8, ''6'', 6), (9, ''-2'', -2), (10, ''-7'', -7), (11, ''0'', 0),
     (12, ''-1'', -1), (13, ''-2'', -2), (14, ''-7'', -7), (15, ''0'', 0), (16, ''-1'', -1),
     (17, ''4'', 4), (18, ''-3'', -3), (19, ''3'', 3), (20, ''2'', 2), (21, ''4'', 4),
     (22, ''-3'', -3), (23, ''3'', 3), (24, ''2'', 2)]"

definition sbas_blocks :: "(nat \<times> string) list" where
  "sbas_blocks =
    [(120, ''EGNOS Test Platform''), (123, ''EGNOS''), (131, ''WAAS''), (135, ''WAAS''),
     (136, ''EGNOS''), (138, ''WAAS'')]"

definition galileo_blocks :: "(nat \<times> string) list" where
  "galileo_blocks =
    [(1, ''FOC-FM10''), (2, ''FOC-FM11''), (3, ''FOC-FM12''), (4, ''FOC-FM13''),
     (5, ''FOC-FM14''), (7, ''FOC-FM7''), (8, ''FOC-FM8''), (9, ''FOC-FM9''), (10, ''FOC-FM24''),
     (11, ''IOV-PFM''), (12, ''IOV-FM2''), (13, ''FOC-FM20''), (14, ''FOC-FM2*''),
     (15, ''FOC-FM21''), (18, ''FOC-FM1*''), (19, ''IOV-FM3''), (20, ''IOV-FM4**''),
     (21, ''FOC-FM15''), (22, ''FOC-FM4**''), (24, ''FOC-FM5''), (25, ''FOC-FM16''),
     (26, ''FOC-FM3''), (27, ''FOC-FM17''), (30, ''FOC-FM6''), (31, ''FOC-FM18''),
     (33, ''FOC-FM22''), (34, ''FOC-FM23''), (36, ''FOC-FM19'')]"

definition beidou_blocks :: "(nat \<times> string) list" where
  "beidou_blocks =
    [(1, ''BeiDou-2 GEO01*''), (2, ''BeiDou-2 GEO06''), (3, ''BeiDou-2 GEO07''),
     (4, ''BeiDou-2 GEO04''), (5, ''BeiDou-2 GEO05''), (6, ''BeiDou-2 IGSO01''),
     (7, ''BeiDou-2 IGSO02''), (8, ''BeiDou-2 IGSO03''), (9, ''BeiDou-2 IGSO04''),
     (10, ''BeiDou-2 IGSO05''), (11, ''BeiDou-2 MEO03*''), (12, ''BeiDou-2 MEO04*''),
     (13, ''BeiDou-2 IGSO06''), (14, ''BeiDou-2 MEO06*''), (16, ''BeiDou-2 IGSO07''),
     (18, ''BeiDou-3 GEOG8''), (19, ''BeiDou-3 MEO01''), (20, ''BeiDou-3 MEO02''),
     (21, ''BeiDou-3 MEO03''), (22, ''BeiDou-3 MEO04''), (23, ''BeiDou-3 MEO05''),
     (24, ''BeiDou-3 MEO06''), (25, ''BeiDou-3 MEO11''), (26, ''BeiDou-3 MEO12''),
     (27, ''BeiDou-3 3M3''), (28, ''BeiDou-3 3M4''), (29, ''BeiDou-3 3M7''),
     (30, ''BeiDou-3 3M8''), (32, ''BeiDou-3 MEO13''), (33, ''BeiDou-3 MEO14''),
     (34, ''BeiDou-3 MEO15''), (35, ''BeiDou-3 MEO16''), (36, ''BeiDou-3 MEO17''),
     (37, ''BeiDou-3 MEO18''), (38, ''BeiDou-3 IGSOI1''), (39, ''BeiDou-3 IGSOI2''),
     (40, ''BeiDou-3 IGSOI3''), (41, ''BeiDou-3 MEO19''), (42, ''BeiDou-3 MEO20''),
     (43, ''BeiDou-3 MEO21''), (44, ''BeiDou-3 MEO22''), (45, ''BeiDou-3 MEO23''),
     (46, ''BeiDou-3 MEO24''), (59, ''BeiDou-3 GEOG1''), (60, ''BeiDou-3 GEOG2''),
     (61, ''BeiDou-3 GEOG3'')]"

text \<open>\<^verbatim>\<open>what_block\<close> returns the name of the block; for a GLONASS satellite it also sets \<^verbatim>\<open>rf_link\<close>.\<close>

definition what_block :: "string \<Rightarrow> nat \<Rightarrow> gnss_satellite \<Rightarrow> gnss_satellite \<times> string" where
  "what_block system PRN sat =
     (let table = (\<lambda>t d. case map_of t PRN of Some b \<Rightarrow> b | None \<Rightarrow> d)
      in if system = ''GPS'' then (sat, table gps_blocks ''Unknown'')
         else if system = ''Glonass''
         then (case map_of glonass_blocks PRN of
                 Some (b, rf) \<Rightarrow> (sat\<lparr>sat_rf_link := rf\<rparr>, b)
               | None \<Rightarrow> (sat, ''Unknown''))
         else if system = ''SBAS'' then (sat, table sbas_blocks ''Unknown'')
         else if system = ''Galileo'' then (sat, table galileo_blocks ''Unknown(Simulated)'')
         else if system = ''Beidou'' then (sat, table beidou_blocks ''Unknown(Simulated)'')
         else (sat, ''Unknown''))"

subsection \<open>Construction\<close>

definition set_system :: "string \<Rightarrow> gnss_satellite \<Rightarrow> gnss_satellite" where
  "set_system system sat =
     (if system \<in> set system_set then sat\<lparr>sat_system := system\<rparr> else sat\<lparr>sat_system := []\<rparr>)"

definition set_PRN :: "nat \<Rightarrow> gnss_satellite \<Rightarrow> gnss_satellite" where
  "set_PRN PRN sat =
     (let in_range = (\<lambda>n. if PRN < 1 \<or> n < PRN then sat\<lparr>sat_PRN := 0\<rparr> else sat\<lparr>sat_PRN := PRN\<rparr>)
      in if sat_system sat = ''GPS'' then in_range 32
         else if sat_system sat = ''Glonass'' then in_range 24
         else if sat_system sat = ''SBAS''
         then if PRN \<in> {120, 123, 131, 135, 136, 138} then sat\<lparr>sat_PRN := PRN\<rparr> else sat\<lparr>sat_PRN := 0\<rparr>
         else if sat_system sat = ''Galileo'' then in_range 36
         else if sat_system sat = ''Beidou'' then in_range 63
         else sat\<lparr>sat_PRN := 0\<rparr>)"

definition update_PRN :: "nat \<Rightarrow> gnss_satellite \<Rightarrow> gnss_satellite" where
  "update_PRN PRN sat = (if sat_system sat \<noteq> ''Glonass'' then sat\<lparr>sat_PRN := 0\<rparr> else sat\<lparr>sat_PRN := PRN\<rparr>)"

definition set_block :: "string \<Rightarrow> nat \<Rightarrow> gnss_satellite \<Rightarrow> gnss_satellite" where
  "set_block system PRN sat = (let (sat', b) = what_block system PRN sat in sat'\<lparr>sat_block := b\<rparr>)"

definition Gnss_Satellite :: "string \<Rightarrow> nat \<Rightarrow> gnss_satellite" where
  "Gnss_Satellite system PRN = set_block system PRN (set_PRN PRN (set_system system default_satellite))"

definition satellite_eq :: "gnss_satellite \<Rightarrow> gnss_satellite \<Rightarrow> bool" where
  "satellite_eq sat1 sat2 \<longleftrightarrow>
     sat_system sat1 = sat_system sat2 \<and> sat_PRN sat1 = sat_PRN sat2 \<and> sat_rf_link sat1 = sat_rf_link sat2"

definition get_system_short :: "gnss_satellite \<Rightarrow> string result" where
  "get_system_short sat = (case map_of satelliteSystem (sat_system sat) of Some s \<Rightarrow> Inr s | None \<Rightarrow> Inl OutOfRange)"

subsection \<open>Signals\<close>

record gnss_signal =
  sig_satellite :: gnss_satellite
  sig_str :: string

definition Gnss_Signal :: "gnss_satellite \<Rightarrow> string \<Rightarrow> gnss_signal" where
  "Gnss_Signal satellite signal = \<lparr>sig_satellite = satellite, sig_str = signal\<rparr>"

definition default_signal :: "string \<Rightarrow> gnss_signal" where
  "default_signal signal = \<lparr>sig_satellite = default_satellite, sig_str = signal\<rparr>"

text \<open>The comparison reads the name of the first signal twice, so the names play no part in it.\<close>

definition signal_eq :: "gnss_signal \<Rightarrow> gnss_signal \<Rightarrow> bool" where
  "signal_eq sig1 sig2 \<longleftrightarrow>
     satellite_eq (sig_satellite sig1) (sig_satellite sig2) \<and> sig_str sig1 = sig_str sig1"

text \<open>\<^verbatim>\<open>std::list<Gnss_Signal>::remove\<close>.\<close>

definition list_remove :: "gnss_signal \<Rightarrow> gnss_signal list \<Rightarrow> gnss_signal list" where
  "list_remove gs xs = filter (\<lambda>x. \<not> signal_eq x gs) xs"

lemma signal_eq_refl [simp]: "signal_eq s s"
  by (simp add: signal_eq_def satellite_eq_def)

lemma signal_eq_sym: "signal_eq s t \<Longrightarrow> signal_eq t s"
  by (simp add: signal_eq_def satellite_eq_def)

lemma signal_eq_trans: "signal_eq s t \<Longrightarrow> signal_eq t u \<Longrightarrow> signal_eq s u"
  by (simp add: signal_eq_def satellite_eq_def)

lemma list_remove_set [simp]: "set (list_remove gs xs) = {x \<in> set xs. \<not> signal_eq x gs}"
  by (auto simp: list_remove_def)

subsection \<open>Constructed satellites\<close>

text \<open>A valid PRN of a known system is kept; every other PRN becomes 0.\<close>

definition valid_PRN :: "string \<Rightarrow> nat \<Rightarrow> bool" where
  "valid_PRN system PRN \<longleftrightarrow>
     (system = ''GPS'' \<and> 1 \<le> PRN \<and> PRN \<le> 32) \<or> (system = ''Glonass'' \<and> 1 \<le> PRN \<and> PRN \<le> 24)
     \<or> (system = ''SBAS'' \<and> PRN \<in> {120, 123, 131, 135, 136, 138})
     \<or> (system = ''Galileo'' \<and> 1 \<le> PRN \<and> PRN \<le> 36) \<or> (system = ''Beidou'' \<and> 1 \<le> PRN \<and> PRN \<le> 63)"

lemma set_block_frame [simp]:
  "sat_system (set_block s p sat) = sat_system sat" "sat_PRN (set_block s p sat) = sat_PRN sat"
  by (simp_all add: set_block_def what_block_def Let_def split: option.splits)

lemma set_PRN_frame [simp]: "sat_system (set_PRN p sat) = sat_system sat" "sat_rf_link (set_PRN p sat) = sat_rf_link sat"
  by (simp_all add: set_PRN_def Let_def)

lemma satellite_system: "sat_system (Gnss_Satellite s p) = (if s \<in> set system_set then s else [])"
  by (simp add: Gnss_Satellite_def set_system_def default_satellite_def)

lemma satellite_PRN: "sat_PRN (Gnss_Satellite s p) = (if valid_PRN s p then p else 0)"
  by (simp add: Gnss_Satellite_def set_PRN_def set_system_def default_satellite_def valid_PRN_def
      system_set_def Let_def)

lemma satellite_system_short:
  "s \<in> set system_set \<Longrightarrow> \<exists>c. get_system_short (Gnss_Satellite s p) = Inr [c]"
  by (auto simp: get_system_short_def satellite_system system_set_def satelliteSystem_def)

end
