(* ===== verification/Channel_Fsm.thy ===== *)
theory Channel_Fsm
  imports Gnss_Signals Ieee754
begin

section \<open>The receiver channel and its state machine\<close>

text \<open>
  \<^verbatim>\<open>ChannelFsm\<close> (\<^verbatim>\<open>algorithms/channel/libs/channel_fsm.cc\<close>), \<^verbatim>\<open>Channel\<close>
  (\<^verbatim>\<open>algorithms/channel/adapters/channel.cc\<close>) and the block that turns the messages of the
  acquisition and tracking blocks into events (\<^verbatim>\<open>channel_msg_receiver_cc.cc\<close>). The
  acquisition, tracking and telemetry blocks are behind abstract interfaces; what the channel
  does to them is the list of \<open>block_call\<close> values, and a null pointer is a flag that is false.
  The states of the machine are the numbers of the source: 0 standby, 1 acquisition,
  2 tracking, 3 waiting for a new satellite.
\<close>

datatype block_call =
    AcqSetChannel nat | AcqSetChannelFsm | AcqSetGnssSynchro | AcqSetDopplerStep nat | AcqSetThreshold rat | AcqInit
  | AcqSetLocalCode | AcqSetDopplerCenter int | AcqReset | AcqStopAcquisition
  | TrkSetChannel nat | TrkSetGnssSynchro | TrkStartTracking | TrkStopTracking
  | NavSetChannel nat | NavSetSatellite gnss_satellite | NavReset

text \<open>\<^verbatim>\<open>channel_event_make(channel_id, event_type)\<close>.\<close>

record channel_event =
  ev_channel_id :: nat
  ev_event_type :: nat

record channel_fsm =
  fsm_acq :: bool
  fsm_trk :: bool
  fsm_nav :: bool
  fsm_queue :: bool
  fsm_channel :: nat
  fsm_state :: nat

text \<open>What an event does to the world: calls on the blocks, events pushed to the control queue.\<close>

type_synonym fsm_effect = "block_call list \<times> channel_event list"

definition block_do :: "bool \<Rightarrow> block_call \<Rightarrow> fsm_effect result" where
  "block_do ptr c = (if ptr then Inr ([c], []) else Inl UndefinedBehaviour)"

definition queue_push :: "nat \<Rightarrow> channel_fsm \<Rightarrow> fsm_effect result" where
  "queue_push what fsm =
     (if fsm_queue fsm then Inr ([], [\<lparr>ev_channel_id = fsm_channel fsm, ev_event_type = what\<rparr>])
      else Inl UndefinedBehaviour)"

definition also_do :: "fsm_effect result \<Rightarrow> fsm_effect result \<Rightarrow> fsm_effect result" where
  "also_do r1 r2 = bindr r1 (\<lambda>(c1, q1). bindr r2 (\<lambda>(c2, q2). Inr (c1 @ c2, q1 @ q2)))"

definition new_channel_fsm :: channel_fsm where
  "new_channel_fsm = \<lparr>fsm_acq = False, fsm_trk = False, fsm_nav = False, fsm_queue = False,
                      fsm_channel = 0, fsm_state = 0\<rparr>"

subsection \<open>Actions\<close>

definition fsm_stop_acquisition :: "channel_fsm \<Rightarrow> fsm_effect result" where
  "fsm_stop_acquisition fsm = block_do (fsm_acq fsm) AcqStopAcquisition"

definition fsm_stop_tracking :: "channel_fsm \<Rightarrow> fsm_effect result" where
  "fsm_stop_tracking fsm = block_do (fsm_trk fsm) TrkStopTracking"

definition fsm_start_acquisition :: "channel_fsm \<Rightarrow> fsm_effect result" where
  "fsm_start_acquisition fsm = also_do (block_do (fsm_acq fsm) AcqReset) (block_do (fsm_nav fsm) NavReset)"

definition fsm_start_tracking :: "channel_fsm \<Rightarrow> fsm_effect result" where
  "fsm_start_tracking fsm = also_do (block_do (fsm_trk fsm) TrkStartTracking) (queue_push 1 fsm)"

definition fsm_request_satellite :: "channel_fsm \<Rightarrow> fsm_effect result" where
  "fsm_request_satellite fsm = queue_push 0 fsm"

definition fsm_notify_stop_tracking :: "channel_fsm \<Rightarrow> fsm_effect result" where
  "fsm_notify_stop_tracking fsm = queue_push 2 fsm"

subsection \<open>Events\<close>

text \<open>An event returns the machine, whether it was accepted, and its effect.\<close>

type_synonym fsm_outcome = "(channel_fsm \<times> bool \<times> fsm_effect) result"

definition fsm_go :: "nat \<Rightarrow> (channel_fsm \<Rightarrow> fsm_effect result) \<Rightarrow> channel_fsm \<Rightarrow> fsm_outcome" where
  "fsm_go s act fsm = (let fsm' = fsm\<lparr>fsm_state := s\<rparr> in bindr (act fsm') (\<lambda>e. Inr (fsm', True, e)))"

definition fsm_refuse :: "channel_fsm \<Rightarrow> fsm_outcome" where
  "fsm_refuse fsm = Inr (fsm, False, ([], []))"

definition Event_stop_channel :: "channel_fsm \<Rightarrow> fsm_outcome" where
  "Event_stop_channel fsm =
     (if fsm_state fsm = 0 then Inr (fsm, True, ([], []))
      else if fsm_state fsm = 1 then fsm_go 0 fsm_stop_acquisition fsm
      else if fsm_state fsm = 2 then fsm_go 0 fsm_stop_tracking fsm
      else Inr (fsm, True, ([], [])))"

definition Event_start_acquisition_fpga :: "channel_fsm \<Rightarrow> fsm_outcome" where
  "Event_start_acquisition_fpga fsm =
     (if fsm_state fsm = 1 \<or> fsm_state fsm = 2 then fsm_refuse fsm
      else Inr (fsm\<lparr>fsm_state := 1\<rparr>, True, ([], [])))"

definition Event_start_acquisition :: "channel_fsm \<Rightarrow> fsm_outcome" where
  "Event_start_acquisition fsm =
     (if fsm_state fsm = 1 \<or> fsm_state fsm = 2 then fsm_refuse fsm else fsm_go 1 fsm_start_acquisition fsm)"

definition Event_valid_acquisition :: "channel_fsm \<Rightarrow> fsm_outcome" where
  "Event_valid_acquisition fsm = (if fsm_state fsm \<noteq> 1 then fsm_refuse fsm else fsm_go 2 fsm_start_tracking fsm)"

definition Event_failed_acquisition_repeat :: "channel_fsm \<Rightarrow> fsm_outcome" where
  "Event_failed_acquisition_repeat fsm =
     (if fsm_state fsm \<noteq> 1 then fsm_refuse fsm else fsm_go 1 fsm_start_acquisition fsm)"

definition Event_failed_acquisition_no_repeat :: "channel_fsm \<Rightarrow> fsm_outcome" where
  "Event_failed_acquisition_no_repeat fsm =
     (if fsm_state fsm \<noteq> 1 then fsm_refuse fsm else fsm_go 3 fsm_request_satellite fsm)"

definition Event_failed_tracking_standby :: "channel_fsm \<Rightarrow> fsm_outcome" where
  "Event_failed_tracking_standby fsm =
     (if fsm_state fsm \<noteq> 2 then fsm_refuse fsm else fsm_go 0 fsm_notify_stop_tracking fsm)"

subsection \<open>Setters\<close>

definition set_acquisition :: "bool \<Rightarrow> channel_fsm \<Rightarrow> channel_fsm" where
  "set_acquisition acquisition fsm = fsm\<lparr>fsm_acq := acquisition\<rparr>"

definition set_tracking :: "bool \<Rightarrow> channel_fsm \<Rightarrow> channel_fsm" where
  "set_tracking tracking fsm = fsm\<lparr>fsm_trk := tracking\<rparr>"

definition set_telemetry :: "bool \<Rightarrow> channel_fsm \<Rightarrow> channel_fsm" where
  "set_telemetry telemetry fsm = fsm\<lparr>fsm_nav := telemetry\<rparr>"

definition set_queue :: "bool \<Rightarrow> channel_fsm \<Rightarrow> channel_fsm" where
  "set_queue queue fsm = fsm\<lparr>fsm_queue := queue\<rparr>"

definition set_channel :: "nat \<Rightarrow> channel_fsm \<Rightarrow> channel_fsm" where
  "set_channel channel fsm = fsm\<lparr>fsm_channel := channel\<rparr>"

subsection \<open>Configuration\<close>

text \<open>
  \<^verbatim>\<open>ConfigurationInterface\<close>: the overloads of \<^verbatim>\<open>property(name, default)\<close> the code calls.
  \<open>to_uint32\<close> is the conversion of an \<^verbatim>\<open>int\<close> property to \<^verbatim>\<open>uint32_t\<close>, \<open>to_string\<close> is
  \<^verbatim>\<open>std::to_string\<close> of an unsigned number.
\<close>

record configuration =
  property_bool :: "string \<Rightarrow> bool \<Rightarrow> bool"
  property_int :: "string \<Rightarrow> int \<Rightarrow> int"
  property_uint64 :: "string \<Rightarrow> nat \<Rightarrow> nat"
  property_float :: "string \<Rightarrow> float32 \<Rightarrow> float32"
  property_string :: "string \<Rightarrow> string \<Rightarrow> string"

definition to_uint32 :: "int \<Rightarrow> nat" where
  "to_uint32 i = nat (i mod 2 ^ 32)"

fun to_string :: "nat \<Rightarrow> string" where
  "to_string n = (if n < 10 then [char_of (48 + n)] else to_string (n div 10) @ [char_of (48 + n mod 10)])"

declare to_string.simps [simp del]

subsection \<open>The channel\<close>

text \<open>The part of \<^verbatim>\<open>Gnss_Synchro\<close> the channel writes.\<close>

record channel_synchro =
  sy_System :: char
  sy_Signal :: "char list"
  sy_PRN :: nat
  sy_Channel_ID :: nat

record channel =
  ch_fsm :: channel_fsm
  ch_signal :: gnss_signal
  ch_synchro :: channel_synchro
  ch_channel :: nat
  ch_flag_enable_fpga :: bool
  ch_repeat :: bool
  ch_calls :: "block_call list"

text \<open>The command line flag \<^verbatim>\<open>--doppler_step\<close> is an argument of the constructor.\<close>

definition channel_doppler_step :: "int \<Rightarrow> configuration \<Rightarrow> string \<Rightarrow> nat \<Rightarrow> nat" where
  "channel_doppler_step FLAGS_doppler_step cfg signal_str channel =
     (let d1 = to_uint32 (property_int cfg (''Acquisition_'' @ signal_str @ to_string channel @ ''.doppler_step'') 0);
          d2 = (if d1 = 0 then to_uint32 (property_int cfg (''Acquisition_'' @ signal_str @ ''.doppler_step'') 500) else d1)
      in if FLAGS_doppler_step \<noteq> 0 then to_uint32 FLAGS_doppler_step else d2)"

definition channel_threshold :: "configuration \<Rightarrow> string \<Rightarrow> nat \<Rightarrow> float32" where
  "channel_threshold cfg signal_str channel =
     (let t = property_float cfg (''Acquisition_'' @ signal_str @ to_string channel @ ''.threshold'') 0
      in if t = 0 then property_float cfg (''Acquisition_'' @ signal_str @ ''.threshold'') 0 else t)"

definition channel_repeat :: "configuration \<Rightarrow> string \<Rightarrow> nat \<Rightarrow> bool" where
  "channel_repeat cfg signal_str channel =
     property_bool cfg (''Acquisition_'' @ signal_str @ to_string channel @ ''.repeat_satellite'')
       (property_bool cfg (''Acquisition_'' @ signal_str @ ''.repeat_satellite'') False)"

definition Channel :: "int \<Rightarrow> configuration \<Rightarrow> nat \<Rightarrow> string \<Rightarrow> channel" where
  "Channel FLAGS_doppler_step cfg channel signal_str =
     \<lparr>ch_fsm = set_queue True (set_channel channel (set_telemetry True (set_tracking True (set_acquisition True new_channel_fsm)))),
      ch_signal = default_signal signal_str,
      ch_synchro = \<lparr>sy_System = CHR 0x00, sy_Signal = replicate 3 (CHR 0x00), sy_PRN = 0, sy_Channel_ID = channel\<rparr>,
      ch_channel = channel,
      ch_flag_enable_fpga = property_bool cfg ''GNSS-SDR.enable_FPGA'' False,
      ch_repeat = channel_repeat cfg signal_str channel,
      ch_calls = [AcqSetChannel channel, AcqSetChannelFsm, TrkSetChannel channel, NavSetChannel channel,
                  AcqSetGnssSynchro, TrkSetGnssSynchro,
                  AcqSetDopplerStep (channel_doppler_step FLAGS_doppler_step cfg signal_str channel),
                  AcqSetThreshold (channel_threshold cfg signal_str channel), AcqInit]\<rparr>"

text \<open>
  \<^verbatim>\<open>str_aux[1]\<close> needs a name of at least one character (the character at the end is the
  terminating null); \<^verbatim>\<open>satelliteSystem.at\<close> throws for the empty system.
\<close>

definition set_signal :: "gnss_signal \<Rightarrow> channel \<Rightarrow> channel result" where
  "set_signal gnss_signal ch =
     (let str_aux = sig_str gnss_signal
      in if str_aux = [] then Inl UndefinedBehaviour
         else bindr (get_system_short (sig_satellite gnss_signal)) (\<lambda>system_short.
           Inr (ch\<lparr>ch_signal := gnss_signal,
                   ch_synchro := (ch_synchro ch)\<lparr>sy_Signal := [str_aux ! 0, (str_aux @ [CHR 0x00]) ! 1, CHR 0x00],
                                                sy_PRN := sat_PRN (sig_satellite gnss_signal),
                                                sy_System := (system_short @ [CHR 0x00]) ! 0\<rparr>,
                   ch_calls := ch_calls ch @ [AcqSetLocalCode]
                     @ (if ch_flag_enable_fpga ch then [TrkSetGnssSynchro] else [])
                     @ [NavSetSatellite (sig_satellite gnss_signal)]\<rparr>)))"

definition apply_event :: "(channel_fsm \<Rightarrow> fsm_outcome) \<Rightarrow> channel \<Rightarrow> (channel \<times> channel_event list) result" where
  "apply_event event ch =
     bindr (event (ch_fsm ch)) (\<lambda>(fsm', accepted, calls, evs).
     Inr (ch\<lparr>ch_fsm := fsm', ch_calls := ch_calls ch @ calls\<rparr>, evs))"

definition stop_channel :: "channel \<Rightarrow> (channel \<times> channel_event list) result" where
  "stop_channel ch = apply_event Event_stop_channel ch"

text \<open>\<^verbatim>\<open>static_cast<int>\<close> of a \<^verbatim>\<open>double\<close> truncates toward zero.\<close>

definition assist_acquisition_doppler :: "double \<Rightarrow> channel \<Rightarrow> channel" where
  "assist_acquisition_doppler hz ch =
     ch\<lparr>ch_calls := ch_calls ch @ [AcqSetDopplerCenter (if 0 \<le> hz then \<lfloor>hz\<rfloor> else \<lceil>hz\<rceil>)]\<rparr>"

definition start_acquisition :: "channel \<Rightarrow> (channel \<times> channel_event list) result" where
  "start_acquisition ch =
     (if \<not> ch_flag_enable_fpga ch then apply_event Event_start_acquisition ch
      else bindr (apply_event Event_start_acquisition_fpga ch) (\<lambda>(ch1, evs).
           bindr (fsm_start_acquisition (ch_fsm ch1)) (\<lambda>(calls, evs').
           Inr (ch1\<lparr>ch_calls := ch_calls ch1 @ calls\<rparr>, evs @ evs'))))"

text \<open>The messages of the blocks: 1 positive acquisition, 2 negative acquisition, 3 loss of lock.\<close>

definition msg_handler_channel_events :: "int \<Rightarrow> channel \<Rightarrow> (channel \<times> channel_event list) result" where
  "msg_handler_channel_events message ch =
     (if message = 1 then apply_event Event_valid_acquisition ch
      else if message = 2
      then if ch_repeat ch then apply_event Event_failed_acquisition_repeat ch
           else apply_event Event_failed_acquisition_no_repeat ch
      else if message = 3 then apply_event Event_failed_tracking_standby ch
      else Inr (ch, []))"

end
