(* ===== verification/Gnss_Flowgraph.thy ===== *)
theory Gnss_Flowgraph
  imports Channel_Fsm
begin

section \<open>The flow graph: satellites in search and channel states\<close>

text \<open>
  The part of \<^verbatim>\<open>GNSSFlowgraph\<close> (\<^verbatim>\<open>core/receiver/gnss_flowgraph.cc\<close>) that decides which channel
  searches for which satellite: the twelve lists of available signals, the state of each
  channel, and the operations that move satellites between them. The lists are one function
  \<open>available\<close> from the enumeration \<open>string_value\<close> of the source; \<^verbatim>\<open>front()\<close> of an empty list and
  an index past the end of a vector are undefined behaviour. The control queue, which the
  channels share, is a field of the record. \<open>channels_status\<close> is the map of
  \<^verbatim>\<open>channel_status_msg_receiver\<close>, ordered by channel.
\<close>

datatype string_value =
    EvGPS_1C | EvGPS_2S | EvGPS_L5 | EvSBAS_1C | EvGAL_1B | EvGAL_5X | EvGAL_7X | EvGAL_E6
  | EvGLO_1G | EvGLO_2G | EvBDS_B1 | EvBDS_B3

text \<open>\<^verbatim>\<open>mapStringValues_[s]\<close>: a name that is not there is inserted with the value 0, which is \<^verbatim>\<open>evGPS_1C\<close>.\<close>

definition mapStringValues :: "(string, string_value) umap" where
  "mapStringValues =
     [(''1C'', EvGPS_1C), (''2S'', EvGPS_2S), (''L5'', EvGPS_L5), (''1B'', EvGAL_1B), (''5X'', EvGAL_5X),
      (''7X'', EvGAL_7X), (''E6'', EvGAL_E6), (''1G'', EvGLO_1G), (''2G'', EvGLO_2G), (''B1'', EvBDS_B1),
      (''B3'', EvBDS_B3)]"

definition string_value_of :: "string \<Rightarrow> string_value" where
  "string_value_of s = (case map_of mapStringValues s of Some e \<Rightarrow> e | None \<Rightarrow> EvGPS_1C)"

record channel_status =
  st_Signal :: string
  st_PRN :: nat
  st_Carrier_Doppler_hz :: double
  st_RX_time :: double

datatype control_msg = ChannelEvent channel_event | CommandEvent nat nat | OtherMsg

record flowgraph =
  channels :: "channel list"
  channels_state :: "nat list"
  available :: "string_value \<Rightarrow> gnss_signal list"
  acq_channels_count :: int
  max_acq_channels :: int
  multiband :: bool
  channels_status :: "(int \<times> channel_status) list"
  queue :: "control_msg list"

abbreviation channels_count :: "flowgraph \<Rightarrow> nat" where
  "channels_count fg \<equiv> length (channels fg)"

subsection \<open>Access to channels\<close>

definition on_channel ::
  "nat \<Rightarrow> (channel \<Rightarrow> (channel \<times> channel_event list) result) \<Rightarrow> flowgraph \<Rightarrow> flowgraph result" where
  "on_channel i f fg =
     (if channels_count fg \<le> i then Inl UndefinedBehaviour
      else bindr (f (channels fg ! i)) (\<lambda>(ch, evs).
           Inr (fg\<lparr>channels := (channels fg)[i := ch], queue := queue fg @ map ChannelEvent evs\<rparr>)))"

definition channel_signal :: "nat \<Rightarrow> flowgraph \<Rightarrow> gnss_signal" where
  "channel_signal i fg = ch_signal (channels fg ! i)"

definition channel_set_signal :: "nat \<Rightarrow> gnss_signal \<Rightarrow> flowgraph \<Rightarrow> flowgraph result" where
  "channel_set_signal i gs = on_channel i (\<lambda>ch. bindr (set_signal gs ch) (\<lambda>ch'. Inr (ch', [])))"

definition set_state :: "nat \<Rightarrow> nat \<Rightarrow> flowgraph \<Rightarrow> flowgraph" where
  "set_state i s fg = fg\<lparr>channels_state := (channels_state fg)[i := s]\<rparr>"

definition channel_satellite :: "configuration \<Rightarrow> nat \<Rightarrow> nat" where
  "channel_satellite cfg i = to_uint32 (property_int cfg (''Channel'' @ to_string i @ ''.satellite'') 0)"

subsection \<open>The lists of available signals\<close>

definition push_back_signal :: "gnss_signal \<Rightarrow> flowgraph \<Rightarrow> flowgraph" where
  "push_back_signal gs fg =
     (let e = string_value_of (sig_str gs)
      in fg\<lparr>available := (available fg)(e := list_remove gs (available fg e) @ [gs])\<rparr>)"

definition remove_signal :: "gnss_signal \<Rightarrow> flowgraph \<Rightarrow> flowgraph" where
  "remove_signal gs fg =
     (let e = string_value_of (sig_str gs)
      in fg\<lparr>available := (available fg)(e := list_remove gs (available fg e))\<rparr>)"

definition FREQ1 :: double where "FREQ1 = 1575420000"

definition FREQ2 :: double where "FREQ2 = 1227600000"

definition FREQ5 :: double where "FREQ5 = 1176450000"

definition FREQ6 :: double where "FREQ6 = 1278750000"

definition FREQ7 :: double where "FREQ7 = 1207140000"

definition project_doppler :: "string \<Rightarrow> double \<Rightarrow> double" where
  "project_doppler searched_signal primary_freq_doppler_hz =
     (case string_value_of searched_signal of
        EvGPS_L5 \<Rightarrow> dmul (ddiv primary_freq_doppler_hz FREQ1) FREQ5
      | EvGAL_5X \<Rightarrow> dmul (ddiv primary_freq_doppler_hz FREQ1) FREQ5
      | EvGAL_7X \<Rightarrow> dmul (ddiv primary_freq_doppler_hz FREQ1) FREQ7
      | EvGPS_2S \<Rightarrow> dmul (ddiv primary_freq_doppler_hz FREQ1) FREQ2
      | EvGAL_E6 \<Rightarrow> dmul (ddiv primary_freq_doppler_hz FREQ1) FREQ6
      | _ \<Rightarrow> primary_freq_doppler_hz)"

subsection \<open>Choosing the next signal\<close>

text \<open>
  The reference parameters of \<^verbatim>\<open>search_next_signal\<close> are fields of its result; the two that
  are written only when assistance is found are options.
\<close>

record search_result =
  sr_signal :: gnss_signal
  is_primary_frequency :: bool
  assistance_available :: bool
  estimated_doppler :: "float32 option"
  sr_RX_time :: "double option"

definition take_front :: "bool \<Rightarrow> string_value \<Rightarrow> flowgraph \<Rightarrow> (search_result \<times> flowgraph) result" where
  "take_front primary e fg =
     (case available fg e of
        [] \<Rightarrow> Inl UndefinedBehaviour
      | gs # rest \<Rightarrow>
          Inr (\<lparr>sr_signal = gs, is_primary_frequency = primary, assistance_available = False,
                estimated_doppler = None, sr_RX_time = None\<rparr>,
               fg\<lparr>available := (available fg)(e := rest @ [gs])\<rparr>))"

text \<open>\<^verbatim>\<open>find_if\<close> by the PRN and \<^verbatim>\<open>erase\<close> of what it found.\<close>

fun extract_PRN :: "nat \<Rightarrow> gnss_signal list \<Rightarrow> (gnss_signal \<times> gnss_signal list) option" where
  "extract_PRN prn [] = None"
| "extract_PRN prn (x # xs) =
     (if sat_PRN (sig_satellite x) = prn then Some (x, xs)
      else case extract_PRN prn xs of None \<Rightarrow> None | Some (y, ys) \<Rightarrow> Some (y, x # ys))"

fun find_assisted ::
  "string \<Rightarrow> (int \<times> channel_status) list \<Rightarrow> gnss_signal list \<Rightarrow> (channel_status \<times> gnss_signal \<times> gnss_signal list) option" where
  "find_assisted primary [] sigs = None"
| "find_assisted primary ((k, st) # sts) sigs =
     (if st_Signal st = primary
      then case extract_PRN (st_PRN st) sigs of
             Some (gs, rest) \<Rightarrow> Some (st, gs, rest)
           | None \<Rightarrow> find_assisted primary sts sigs
      else find_assisted primary sts sigs)"

definition take_assisted ::
  "configuration \<Rightarrow> string \<Rightarrow> string \<Rightarrow> string_value \<Rightarrow> flowgraph \<Rightarrow> (search_result \<times> flowgraph) result" where
  "take_assisted cfg count_property primary e fg =
     (case (if property_int cfg count_property 0 > 0
            then find_assisted primary (channels_status fg) (available fg e) else None) of
        Some (st, gs, rest) \<Rightarrow>
          Inr (\<lparr>sr_signal = gs, is_primary_frequency = False, assistance_available = True,
                estimated_doppler = Some (to_float (st_Carrier_Doppler_hz st)), sr_RX_time = Some (st_RX_time st)\<rparr>,
               fg\<lparr>available := (available fg)(e := rest)\<rparr>)
      | None \<Rightarrow> take_front False e fg)"

definition search_GPS_2S :: "configuration \<Rightarrow> flowgraph \<Rightarrow> (search_result \<times> flowgraph) result" where
  "search_GPS_2S cfg = take_assisted cfg ''Channels_1C.count'' ''1C'' EvGPS_2S"

definition search_GPS_L5 :: "configuration \<Rightarrow> flowgraph \<Rightarrow> (search_result \<times> flowgraph) result" where
  "search_GPS_L5 cfg = take_assisted cfg ''Channels_1C.count'' ''1C'' EvGPS_L5"

definition search_GAL_5X :: "configuration \<Rightarrow> flowgraph \<Rightarrow> (search_result \<times> flowgraph) result" where
  "search_GAL_5X cfg = take_assisted cfg ''Channels_1B.count'' ''1B'' EvGAL_5X"

definition search_GAL_7X :: "configuration \<Rightarrow> flowgraph \<Rightarrow> (search_result \<times> flowgraph) result" where
  "search_GAL_7X cfg = take_assisted cfg ''Channels_1B.count'' ''1B'' EvGAL_7X"

definition search_GAL_E6 :: "configuration \<Rightarrow> flowgraph \<Rightarrow> (search_result \<times> flowgraph) result" where
  "search_GAL_E6 cfg = take_assisted cfg ''Channels_1B.count'' ''1B'' EvGAL_E6"

text \<open>No name maps to \<^verbatim>\<open>evSBAS_1C\<close>, so the default case of the switch is never taken; it is here as the source has it.\<close>

definition search_default :: "flowgraph \<Rightarrow> (search_result \<times> flowgraph) result" where
  "search_default fg =
     (if available fg EvGPS_1C \<noteq> [] then take_front False EvGPS_1C fg
      else Inr (\<lparr>sr_signal = default_signal [], is_primary_frequency = False, assistance_available = False,
                 estimated_doppler = None, sr_RX_time = None\<rparr>, fg))"

definition search_next_signal :: "configuration \<Rightarrow> string \<Rightarrow> flowgraph \<Rightarrow> (search_result \<times> flowgraph) result" where
  "search_next_signal cfg searched_signal fg =
     (case string_value_of searched_signal of
        EvGPS_1C \<Rightarrow> take_front True EvGPS_1C fg
      | EvGPS_2S \<Rightarrow> search_GPS_2S cfg fg
      | EvGPS_L5 \<Rightarrow> search_GPS_L5 cfg fg
      | EvGAL_1B \<Rightarrow> take_front True EvGAL_1B fg
      | EvGAL_5X \<Rightarrow> search_GAL_5X cfg fg
      | EvGAL_7X \<Rightarrow> search_GAL_7X cfg fg
      | EvGAL_E6 \<Rightarrow> search_GAL_E6 cfg fg
      | EvGLO_1G \<Rightarrow> take_front True EvGLO_1G fg
      | EvGLO_2G \<Rightarrow> take_front False EvGLO_2G fg
      | EvBDS_B1 \<Rightarrow> take_front True EvBDS_B1 fg
      | EvBDS_B3 \<Rightarrow> take_front False EvBDS_B3 fg
      | EvSBAS_1C \<Rightarrow> search_default fg)"

subsection \<open>The acquisition manager\<close>

text \<open>What the manager does once it has chosen a signal for a channel and decided to start.\<close>

definition begin_acquisition :: "configuration \<Rightarrow> nat \<Rightarrow> search_result \<Rightarrow> flowgraph \<Rightarrow> flowgraph result" where
  "begin_acquisition cfg c sr fg =
     (let fg1 = (set_state c 1 fg)\<lparr>acq_channels_count := acq_channels_count fg + 1\<rparr>;
          doppler = (if assistance_available sr \<and> property_bool cfg ''GNSS-SDR.assist_dual_frequency_acq'' (multiband fg)
                     then project_doppler (sig_str (channel_signal c fg)) (the (estimated_doppler sr)) else 0)
      in bindr (on_channel c (\<lambda>ch. Inr (assist_acquisition_doppler doppler ch, [])) fg1) (\<lambda>fg2.
         on_channel c start_acquisition fg2))"

definition manage_channel :: "configuration \<Rightarrow> nat \<Rightarrow> flowgraph \<Rightarrow> flowgraph result" where
  "manage_channel cfg c fg =
     (if acq_channels_count fg < max_acq_channels fg
         \<and> (length (channels_state fg) \<le> c \<or> channels_state fg ! c = 0)
      then if length (channels_state fg) \<le> c \<or> channels_count fg \<le> c then Inl UndefinedBehaviour
           else if channel_satellite cfg c = 0
           then bindr (search_next_signal cfg (sig_str (channel_signal c fg)) fg) (\<lambda>(sr, fg1).
                bindr (channel_set_signal c (sr_signal sr) fg1) (\<lambda>fg2.
                if is_primary_frequency sr \<or> assistance_available sr
                   \<or> \<not> property_bool cfg ''GNSS-SDR.assist_dual_frequency_acq'' (multiband fg2)
                then begin_acquisition cfg c sr fg2
                else Inr (push_back_signal (sr_signal sr) fg2)))
           else bindr (channel_set_signal c (channel_signal c fg) fg) (\<lambda>fg1.
                begin_acquisition cfg c \<lparr>sr_signal = default_signal [], is_primary_frequency = True,
                  assistance_available = False, estimated_doppler = None, sr_RX_time = None\<rparr> fg1)
      else Inr fg)"

fun manage_channels :: "configuration \<Rightarrow> nat list \<Rightarrow> flowgraph \<Rightarrow> flowgraph result" where
  "manage_channels cfg [] fg = Inr fg"
| "manage_channels cfg (c # cs) fg = bindr (manage_channel cfg c fg) (manage_channels cfg cs)"

definition acquisition_manager :: "configuration \<Rightarrow> nat \<Rightarrow> flowgraph \<Rightarrow> flowgraph result" where
  "acquisition_manager cfg who fg =
     manage_channels cfg (map (\<lambda>i. (i + who + 1) mod 2 ^ 32 mod channels_count fg) [0..<channels_count fg]) fg"

subsection \<open>Actions\<close>

definition decrease_acq_count :: "flowgraph \<Rightarrow> flowgraph" where
  "decrease_acq_count fg =
     (if 0 < acq_channels_count fg then fg\<lparr>acq_channels_count := acq_channels_count fg - 1\<rparr> else fg)"

definition action_acq_failed :: "configuration \<Rightarrow> nat \<Rightarrow> flowgraph \<Rightarrow> flowgraph result" where
  "action_acq_failed cfg who fg =
     (let gs = channel_signal who fg;
          sat = (if who < 200 then channel_satellite cfg who else 0)
      in bindr (acquisition_manager cfg who (decrease_acq_count (set_state who 0 fg))) (\<lambda>fg1.
         Inr (if sat = 0 then push_back_signal gs fg1 else fg1)))"

definition action_acq_success :: "configuration \<Rightarrow> nat \<Rightarrow> flowgraph \<Rightarrow> flowgraph result" where
  "action_acq_success cfg who fg =
     acquisition_manager cfg who (decrease_acq_count (set_state who 2 (remove_signal (channel_signal who fg) fg)))"

definition action_trk_failed :: "configuration \<Rightarrow> nat \<Rightarrow> flowgraph \<Rightarrow> flowgraph result" where
  "action_trk_failed cfg who fg =
     (let sat = (if who < 200 then channel_satellite cfg who else 0)
      in if acq_channels_count fg < max_acq_channels fg
         then bindr (channel_set_signal who (channel_signal who fg)
                ((set_state who 1 fg)\<lparr>acq_channels_count := acq_channels_count fg + 1\<rparr>)) (\<lambda>fg1.
              on_channel who start_acquisition fg1)
         else Inr (if sat = 0 then push_back_signal (channel_signal who fg) (set_state who 0 fg)
                   else set_state who 0 fg))"

fun standby_channels :: "nat list \<Rightarrow> flowgraph \<Rightarrow> flowgraph result" where
  "standby_channels [] fg = Inr fg"
| "standby_channels (n # ns) fg =
     (if length (channels_state fg) \<le> n then Inl UndefinedBehaviour
      else if channels_state fg ! n = 1 \<or> channels_state fg ! n = 2
      then bindr (on_channel n stop_channel (push_back_signal (channel_signal n fg) fg)) (\<lambda>fg1.
           standby_channels ns (set_state n 0 fg1))
      else standby_channels ns fg)"

definition action_standby :: "flowgraph \<Rightarrow> flowgraph result" where
  "action_standby fg =
     bindr (standby_channels [0..<channels_count fg] fg) (\<lambda>fg1. Inr (fg1\<lparr>acq_channels_count := 0\<rparr>))"

definition apply_action :: "configuration \<Rightarrow> nat \<Rightarrow> nat \<Rightarrow> flowgraph \<Rightarrow> flowgraph result" where
  "apply_action cfg who what fg =
     (if what \<in> {0, 1, 2}
      then if channels_count fg \<le> who \<or> length (channels_state fg) \<le> who then Inl UndefinedBehaviour
           else if what = 0 then action_acq_failed cfg who fg
           else if what = 1 then action_acq_success cfg who fg
           else action_trk_failed cfg who fg
      else if what = 10 then action_standby fg
      else Inr fg)"

subsection \<open>Priority of visible satellites\<close>

definition prioritise :: "gnss_signal \<Rightarrow> gnss_signal list \<Rightarrow> gnss_signal list" where
  "prioritise gs xs = (let ys = list_remove gs xs in if length ys < length xs then gs # ys else ys)"

definition prioritise_in :: "string_value \<Rightarrow> gnss_signal \<Rightarrow> flowgraph \<Rightarrow> flowgraph" where
  "prioritise_in e gs fg = fg\<lparr>available := (available fg)(e := prioritise gs (available fg e))\<rparr>"

fun priorize_satellites :: "(int \<times> gnss_satellite) list \<Rightarrow> flowgraph \<Rightarrow> flowgraph" where
  "priorize_satellites [] fg = fg"
| "priorize_satellites ((k, sat) # vs) fg =
     priorize_satellites vs
       (if sat_system sat = ''GPS''
        then prioritise_in EvGPS_L5 (Gnss_Signal sat ''L5'')
              (prioritise_in EvGPS_2S (Gnss_Signal sat ''2S'') (prioritise_in EvGPS_1C (Gnss_Signal sat ''1C'') fg))
        else if sat_system sat = ''Galileo''
        then prioritise_in EvGAL_E6 (Gnss_Signal sat ''E6'')
              (prioritise_in EvGAL_7X (Gnss_Signal sat ''7X'')
                (prioritise_in EvGAL_5X (Gnss_Signal sat ''5X'') (prioritise_in EvGAL_1B (Gnss_Signal sat ''1B'') fg)))
        else fg)"

end
