(* ===== verification/Gnss_Receiver.thy ===== *)
theory Gnss_Receiver
  imports Gnss_Flowgraph
begin

section \<open>Starting the receiver and dispatching its events\<close>

text \<open>
  The rest of the receiver's control plane: the lists of satellites from the configuration
  (\<^verbatim>\<open>GNSSFlowgraph::set_signals_list\<close>), the channels (\<^verbatim>\<open>GNSSBlockFactory::GetChannels\<close>), their
  first states and satellites (\<^verbatim>\<open>set_channels_state\<close>, \<^verbatim>\<open>assign_channels\<close>), and the event loop of
  \<^verbatim>\<open>ControlThread\<close>. The tokenizer and \<^verbatim>\<open>lexical_cast\<close> of Boost are one argument,
  \<open>boost_prns\<close>, which gives the numbers in a string or the exception; the visible satellites,
  which \<^verbatim>\<open>get_visible_sats\<close> computes from almanacs and the position, are an argument of the
  actions that use them.
\<close>

subsection \<open>Satellite numbers from the configuration\<close>

text \<open>\<^verbatim>\<open>std::stoi\<close> in base 10.\<close>

definition is_digit :: "char \<Rightarrow> bool" where
  "is_digit c \<longleftrightarrow> (48::nat) \<le> of_char c \<and> (of_char c :: nat) \<le> 57"

definition decimal_value :: "string \<Rightarrow> int" where
  "decimal_value ds = foldl (\<lambda>v c. 10 * v + (of_char c - 48)) 0 ds"

definition stoi :: "string \<Rightarrow> int result" where
  "stoi s =
     (let (neg, r) = stoi_sign (dropWhile is_space s);
          ds = takeWhile is_digit r;
          v = (if neg then - decimal_value ds else decimal_value ds)
      in if ds = [] then Inl InvalidArgument
         else if v < - (2 ^ 31) \<or> 2 ^ 31 \<le> v then Inl OutOfRange
         else Inr v)"

text \<open>The pieces between commas, as repeated \<^verbatim>\<open>getline\<close> gives them.\<close>

fun split_commas :: "string \<Rightarrow> string list" where
  "split_commas [] = [[]]"
| "split_commas (c # s) =
     (if c = CHR '','' then [] # split_commas s
      else case split_commas s of [] \<Rightarrow> [[c]] | w # ws \<Rightarrow> (c # w) # ws)"

definition erase_banned :: "string \<Rightarrow> nat list \<Rightarrow> nat list" where
  "erase_banned sv_banned prns =
     (if sv_banned = [] then prns
      else foldl (\<lambda>ps w. case stoi w of Inr v \<Rightarrow> filter (\<lambda>p. p \<noteq> to_uint32 v) ps | Inl _ \<Rightarrow> ps) prns (split_commas sv_banned))"

text \<open>A \<^verbatim>\<open>std::set<unsigned>\<close> is an ascending list without duplicates.\<close>

definition listed_prns :: "(string \<Rightarrow> nat list result) \<Rightarrow> string \<Rightarrow> nat list \<Rightarrow> nat list result" where
  "listed_prns boost_prns sv_list prns =
     (if 0 < length sv_list
      then bindr (boost_prns sv_list) (\<lambda>tmp_set. Inr (if tmp_set \<noteq> [] then sort (remdups tmp_set) else prns))
      else Inr prns)"

definition available_galileo_prn :: "(string \<Rightarrow> nat list result) \<Rightarrow> configuration \<Rightarrow> nat list result" where
  "available_galileo_prn boost_prns cfg =
     bindr (listed_prns boost_prns (property_string cfg ''Galileo.prns'' []) [1..<37]) (\<lambda>prns.
     Inr (erase_banned (property_string cfg ''GNSS-SDR.Galileo_banned_prns'' []) prns))"

definition available_gps_prn :: "(string \<Rightarrow> nat list result) \<Rightarrow> configuration \<Rightarrow> nat list result" where
  "available_gps_prn boost_prns cfg =
     bindr (listed_prns boost_prns (property_string cfg ''GPS.prns'' []) [1..<33]) (\<lambda>prns.
     Inr (erase_banned (property_string cfg ''GNSS-SDR.GPS_banned_prns'' []) prns))"

definition available_sbas_prn :: "(string \<Rightarrow> nat list result) \<Rightarrow> configuration \<Rightarrow> nat list result" where
  "available_sbas_prn boost_prns cfg =
     bindr (listed_prns boost_prns (property_string cfg ''SBAS.prns'' []) [123, 131, 135, 136, 138]) (\<lambda>prns.
     Inr (erase_banned (property_string cfg ''GNSS-SDR.SBAS_banned_prns'' []) prns))"

definition available_glonass_prn :: "(string \<Rightarrow> nat list result) \<Rightarrow> configuration \<Rightarrow> nat list result" where
  "available_glonass_prn boost_prns cfg =
     bindr (listed_prns boost_prns (property_string cfg ''Glonass.prns'' []) [1, 2, 3, 4, 9, 10, 11, 12, 18, 19, 20, 21, 24]) (\<lambda>prns.
     Inr (erase_banned (property_string cfg ''GNSS-SDR.Glonass_banned_prns'' []) prns))"

definition available_beidou_prn :: "(string \<Rightarrow> nat list result) \<Rightarrow> configuration \<Rightarrow> nat list result" where
  "available_beidou_prn boost_prns cfg =
     bindr (listed_prns boost_prns (property_string cfg ''Beidou.prns'' []) [1..<64]) (\<lambda>prns.
     Inr (erase_banned (property_string cfg ''GNSS-SDR.Beidou_banned_prns'' []) prns))"

definition signals_if :: "configuration \<Rightarrow> string \<Rightarrow> string \<Rightarrow> string \<Rightarrow> nat list \<Rightarrow> gnss_signal list" where
  "signals_if cfg count_property system signal prns =
     (if 0 < property_int cfg count_property 0
      then map (\<lambda>p. Gnss_Signal (Gnss_Satellite system p) signal) prns else [])"

definition set_signals_list ::
  "(string \<Rightarrow> nat list result) \<Rightarrow> configuration \<Rightarrow> (string_value \<Rightarrow> gnss_signal list) result" where
  "set_signals_list boost_prns cfg =
     bindr (available_galileo_prn boost_prns cfg) (\<lambda>galileo.
     bindr (available_gps_prn boost_prns cfg) (\<lambda>gps.
     bindr (available_sbas_prn boost_prns cfg) (\<lambda>sbas.
     bindr (available_glonass_prn boost_prns cfg) (\<lambda>glonass.
     bindr (available_beidou_prn boost_prns cfg) (\<lambda>beidou.
     Inr (\<lambda>e. case e of
         EvGPS_1C \<Rightarrow> signals_if cfg ''Channels_1C.count'' ''GPS'' ''1C'' gps
       | EvGPS_2S \<Rightarrow> signals_if cfg ''Channels_2S.count'' ''GPS'' ''2S'' gps
       | EvGPS_L5 \<Rightarrow> signals_if cfg ''Channels_L5.count'' ''GPS'' ''L5'' gps
       | EvSBAS_1C \<Rightarrow> signals_if cfg ''Channels_SBAS.count'' ''SBAS'' ''1C'' sbas
       | EvGAL_1B \<Rightarrow> signals_if cfg ''Channels_1B.count'' ''Galileo'' ''1B'' galileo
       | EvGAL_5X \<Rightarrow> signals_if cfg ''Channels_5X.count'' ''Galileo'' ''5X'' galileo
       | EvGAL_7X \<Rightarrow> signals_if cfg ''Channels_7X.count'' ''Galileo'' ''7X'' galileo
       | EvGAL_E6 \<Rightarrow> signals_if cfg ''Channels_E6.count'' ''Galileo'' ''E6'' galileo
       | EvGLO_1G \<Rightarrow> signals_if cfg ''Channels_1G.count'' ''Glonass'' ''1G'' glonass
       | EvGLO_2G \<Rightarrow> signals_if cfg ''Channels_2G.count'' ''Glonass'' ''2G'' glonass
       | EvBDS_B1 \<Rightarrow> signals_if cfg ''Channels_B1.count'' ''Beidou'' ''B1'' beidou
       | EvBDS_B3 \<Rightarrow> signals_if cfg ''Channels_B3.count'' ''Beidou'' ''B3'' beidou))))))"

subsection \<open>Channels\<close>

definition channel_signal_strs :: "configuration \<Rightarrow> string list" where
  "channel_signal_strs cfg =
     (let group = (\<lambda>s. replicate (to_uint32 (property_int cfg (''Channels_'' @ s @ ''.count'') 0)) s)
      in group ''1C'' @ group ''2S'' @ group ''L5'' @ group ''1B'' @ group ''5X'' @ group ''E6'' @ group ''1G''
         @ group ''2G'' @ group ''B1'' @ group ''B3'' @ group ''7X'')"

definition GetChannels :: "int \<Rightarrow> configuration \<Rightarrow> channel list" where
  "GetChannels FLAGS_doppler_step cfg =
     map (\<lambda>(i, s). Channel FLAGS_doppler_step cfg i s) (enumerate 0 (channel_signal_strs cfg))"

definition set_channels_state :: "configuration \<Rightarrow> flowgraph \<Rightarrow> flowgraph" where
  "set_channels_state cfg fg =
     (let n = channels_count fg;
          m = property_int cfg ''Channels.in_acquisition'' (int n);
          m' = (if int n < m then int n else m)
      in fg\<lparr>max_acq_channels := m', channels_state := map (\<lambda>i. if int i < m' then 1 else 0) [0..<n],
            acq_channels_count := m'\<rparr>)"

definition is_multiband :: "configuration \<Rightarrow> bool" where
  "is_multiband cfg \<longleftrightarrow>
     (let pos = (\<lambda>s. 0 < property_int cfg s 0)
      in pos ''Channels_1C.count'' \<and> (pos ''Channels_2S.count'' \<or> pos ''Channels_L5.count'')
         \<or> pos ''Channels_1B.count'' \<and> (pos ''Channels_5X.count'' \<or> pos ''Channels_7X.count'' \<or> pos ''Channels_E6.count'')
         \<or> pos ''Channels_1G.count'' \<and> pos ''Channels_2G.count''
         \<or> pos ''Channels_B1.count'' \<and> pos ''Channels_B3.count'')"

definition GNSSFlowgraph :: "(string \<Rightarrow> nat list result) \<Rightarrow> int \<Rightarrow> configuration \<Rightarrow> flowgraph result" where
  "GNSSFlowgraph boost_prns FLAGS_doppler_step cfg =
     bindr (set_signals_list boost_prns cfg) (\<lambda>lists.
     Inr (set_channels_state cfg
       \<lparr>channels = GetChannels FLAGS_doppler_step cfg, channels_state = [], available = lists,
        acq_channels_count = 0, max_acq_channels = 0, multiband = is_multiband cfg,
        channels_status = [], queue = []\<rparr>))"

subsection \<open>Assigning satellites\<close>

text \<open>
  The number of channels is compared with the size of the list minus one, computed in
  \<^verbatim>\<open>size_t\<close>; for GLONASS, whose satellites share frequencies, with the size plus seven.
\<close>

definition too_many :: "configuration \<Rightarrow> flowgraph \<Rightarrow> string \<Rightarrow> string_value \<Rightarrow> int \<Rightarrow> bool" where
  "too_many cfg fg s e margin \<longleftrightarrow>
     to_size_t (int (length (available fg e)) + margin) < property_uint64 cfg (''Channels_'' @ s @ ''.count'') 0"

definition channels_fit :: "configuration \<Rightarrow> flowgraph \<Rightarrow> bool" where
  "channels_fit cfg fg \<longleftrightarrow>
     \<not> too_many cfg fg ''1C'' EvGPS_1C (- 1) \<and> \<not> too_many cfg fg ''2S'' EvGPS_2S (- 1)
     \<and> \<not> too_many cfg fg ''L5'' EvGPS_L5 (- 1) \<and> \<not> too_many cfg fg ''1B'' EvGAL_1B (- 1)
     \<and> \<not> too_many cfg fg ''5X'' EvGAL_5X (- 1) \<and> \<not> too_many cfg fg ''7X'' EvGAL_7X (- 1)
     \<and> \<not> too_many cfg fg ''E6'' EvGAL_E6 (- 1) \<and> \<not> too_many cfg fg ''1G'' EvGLO_1G 7
     \<and> \<not> too_many cfg fg ''2G'' EvGLO_2G 7 \<and> \<not> too_many cfg fg ''B1'' EvBDS_B1 (- 1)
     \<and> \<not> too_many cfg fg ''B3'' EvBDS_B3 (- 1)"

text \<open>Channels fixed to a satellite come first, the last of them in front.\<close>

definition vector_of_channels :: "configuration \<Rightarrow> nat \<Rightarrow> nat list" where
  "vector_of_channels cfg n =
     foldl (\<lambda>v i. if channel_satellite cfg i = 0 then v @ [i] else i # v) [] [0..<n]"

definition signal_system :: "string_value \<Rightarrow> string" where
  "signal_system e =
     (case e of EvGPS_1C \<Rightarrow> ''GPS'' | EvGPS_2S \<Rightarrow> ''GPS'' | EvGPS_L5 \<Rightarrow> ''GPS''
      | EvGAL_1B \<Rightarrow> ''Galileo'' | EvGAL_5X \<Rightarrow> ''Galileo'' | EvGAL_7X \<Rightarrow> ''Galileo'' | EvGAL_E6 \<Rightarrow> ''Galileo''
      | EvGLO_1G \<Rightarrow> ''Glonass'' | EvGLO_2G \<Rightarrow> ''Glonass'' | EvBDS_B1 \<Rightarrow> ''Beidou'' | EvBDS_B3 \<Rightarrow> ''Beidou''
      | EvSBAS_1C \<Rightarrow> ''GPS'')"

definition assign_channel :: "configuration \<Rightarrow> nat \<Rightarrow> flowgraph \<Rightarrow> flowgraph result" where
  "assign_channel cfg i fg =
     (if channels_count fg \<le> i then Inl OutOfRange
      else let gnss_signal_str = sig_str (channel_signal i fg);
               sat = channel_satellite cfg i
           in if sat = 0
              then bindr (search_next_signal cfg gnss_signal_str fg) (\<lambda>(sr, fg1). channel_set_signal i (sr_signal sr) fg1)
              else let e = string_value_of gnss_signal_str;
                       gs = Gnss_Signal (Gnss_Satellite (signal_system e) sat) gnss_signal_str;
                       e' = (if e = EvSBAS_1C then EvGPS_1C else e)
                   in channel_set_signal i gs
                        (fg\<lparr>available := (available fg)(e' := list_remove gs (available fg e'))\<rparr>))"

fun assign_each :: "configuration \<Rightarrow> nat list \<Rightarrow> flowgraph \<Rightarrow> flowgraph result" where
  "assign_each cfg [] fg = Inr fg"
| "assign_each cfg (i # is) fg = bindr (assign_channel cfg i fg) (assign_each cfg is)"

definition assign_channels :: "configuration \<Rightarrow> flowgraph \<Rightarrow> (flowgraph \<times> int) result" where
  "assign_channels cfg fg =
     (if \<not> channels_fit cfg fg then Inr (fg, 1)
      else bindr (assign_each cfg (vector_of_channels cfg (channels_count fg)) fg) (\<lambda>fg1. Inr (fg1, 0)))"

text \<open>The last loop of \<^verbatim>\<open>connect_desktop_flowgraph\<close>.\<close>

fun activate_channels :: "nat list \<Rightarrow> flowgraph \<Rightarrow> flowgraph result" where
  "activate_channels [] fg = Inr fg"
| "activate_channels (i # is) fg =
     (if length (channels_state fg) \<le> i then Inl UndefinedBehaviour
      else if channels_state fg ! i = 1 then bindr (on_channel i start_acquisition fg) (activate_channels is)
      else activate_channels is fg)"

text \<open>
  The part of \<^verbatim>\<open>connect_desktop_flowgraph\<close> that concerns the channels: the check of the number
  of channels in acquisition, the assignment and the activation. The calls between them connect
  GNU Radio blocks. \<open>None\<close> is the return value 1.
\<close>

definition connect_desktop_flowgraph :: "configuration \<Rightarrow> flowgraph \<Rightarrow> flowgraph option result" where
  "connect_desktop_flowgraph cfg fg =
     (if int (channels_count fg) < property_int cfg ''Channels.in_acquisition'' 0 then Inr None
      else bindr (assign_channels cfg fg) (\<lambda>(fg1, r).
           if r \<noteq> 0 then Inr None
           else bindr (activate_channels [0..<channels_count fg1] fg1) (\<lambda>fg2. Inr (Some fg2))))"

subsection \<open>The control thread\<close>

datatype control_call = PvtClearEphemeris | ReadAssistanceFromXML

record control_thread =
  ct_flowgraph :: flowgraph
  receiver_on_standby :: bool
  ct_stop :: bool
  ct_restart :: bool
  processed_control_messages :: nat
  applied_actions :: nat
  control_calls :: "control_call list"

definition control_apply_action :: "(int \<times> gnss_satellite) list \<Rightarrow> nat \<Rightarrow> control_thread \<Rightarrow> control_thread" where
  "control_apply_action get_visible_sats what ct =
     (let ct1 = ct\<lparr>applied_actions := applied_actions ct + 1\<rparr>
      in if what = 0 then ct1\<lparr>ct_stop := True\<rparr>
         else if what = 1 then ct1\<lparr>ct_stop := True, ct_restart := True\<rparr>
         else if what = 10 then ct1\<lparr>receiver_on_standby := True\<rparr>
         else if what = 11
         then ct1\<lparr>control_calls := control_calls ct1 @ [PvtClearEphemeris], receiver_on_standby := False\<rparr>
         else if what = 12
         then ct1\<lparr>ct_flowgraph := priorize_satellites get_visible_sats (ct_flowgraph ct1), receiver_on_standby := False\<rparr>
         else if what = 13
         then ct1\<lparr>control_calls := control_calls ct1 @ [PvtClearEphemeris, ReadAssistanceFromXML],
                  ct_flowgraph := priorize_satellites [] (ct_flowgraph ct1), receiver_on_standby := False\<rparr>
         else ct1)"

definition on_flowgraph :: "(flowgraph \<Rightarrow> flowgraph result) \<Rightarrow> control_thread \<Rightarrow> control_thread result" where
  "on_flowgraph f ct = bindr (f (ct_flowgraph ct)) (\<lambda>fg. Inr (ct\<lparr>ct_flowgraph := fg\<rparr>))"

text \<open>\<open>None\<close> is a wait on the control queue that timed out.\<close>

definition event_dispatcher ::
  "configuration \<Rightarrow> (int \<times> gnss_satellite) list \<Rightarrow> control_msg option \<Rightarrow> control_thread \<Rightarrow> control_thread result" where
  "event_dispatcher cfg get_visible_sats event ct =
     (case event of
        Some msg \<Rightarrow>
          (let ct1 = ct\<lparr>processed_control_messages := processed_control_messages ct + 1\<rparr>
           in case msg of
                ChannelEvent ev \<Rightarrow>
                  if receiver_on_standby ct1 then Inr ct1
                  else on_flowgraph (apply_action cfg (ev_channel_id ev) (ev_event_type ev)) ct1
              | CommandEvent command_id event_type \<Rightarrow>
                  if command_id = 200 then Inr (control_apply_action get_visible_sats event_type ct1)
                  else on_flowgraph (apply_action cfg command_id event_type)
                         (if command_id = 300 then control_apply_action get_visible_sats event_type ct1 else ct1)
              | OtherMsg \<Rightarrow> Inr ct1)
      | None \<Rightarrow> if receiver_on_standby ct then Inr ct else on_flowgraph (acquisition_manager cfg 0) ct)"

text \<open>One iteration of the loop of \<^verbatim>\<open>ControlThread::run\<close>: \<^verbatim>\<open>timed_wait_and_pop\<close> and the dispatcher.\<close>

definition control_iteration ::
  "configuration \<Rightarrow> (int \<times> gnss_satellite) list \<Rightarrow> control_thread \<Rightarrow> control_thread result" where
  "control_iteration cfg get_visible_sats ct =
     (case queue (ct_flowgraph ct) of
        [] \<Rightarrow> event_dispatcher cfg get_visible_sats None ct
      | msg # rest \<Rightarrow> event_dispatcher cfg get_visible_sats (Some msg) (ct\<lparr>ct_flowgraph := (ct_flowgraph ct)\<lparr>queue := rest\<rparr>\<rparr>))"

text \<open>The end of \<^verbatim>\<open>ControlThread::assist_GNSS\<close>: with a reference position, standby, priorities, hot start.\<close>

definition assist_GNSS_restart ::
  "configuration \<Rightarrow> (int \<times> gnss_satellite) list \<Rightarrow> control_thread \<Rightarrow> control_thread result" where
  "assist_GNSS_restart cfg visible_sats ct =
     on_flowgraph (\<lambda>fg. bindr (apply_action cfg 0 10 fg) (\<lambda>fg1.
       apply_action cfg 0 12 (priorize_satellites visible_sats fg1))) ct"

text \<open>\<^verbatim>\<open>channel_status_msg_receiver::msg_handler_channel_status\<close> for a \<^verbatim>\<open>Gnss_Synchro\<close>; the map is ordered by channel.\<close>

definition msg_handler_channel_status :: "int \<Rightarrow> bool \<Rightarrow> channel_status \<Rightarrow> flowgraph \<Rightarrow> flowgraph" where
  "msg_handler_channel_status Channel_ID Flag_valid_pseudorange st fg =
     (let others = filter (\<lambda>(k, _). k \<noteq> Channel_ID) (channels_status fg)
      in fg\<lparr>channels_status :=
           (if Flag_valid_pseudorange
            then filter (\<lambda>(k, _). k < Channel_ID) others @ (Channel_ID, st) # filter (\<lambda>(k, _). Channel_ID < k) others
            else others)\<rparr>)"

end
