(* ===== verification/Channel_Correct.thy ===== *)
theory Channel_Correct
  imports Channel_Fsm
begin

section \<open>The protocol of a channel\<close>

text \<open>
  What the flow graph relies on when it drives a channel, as the locale \<open>channel_protocol\<close>:
  starting from standby or from a failed acquisition leads to acquisition, stopping leads to
  standby, and the messages of the blocks move the channel along and announce each move with
  one event. The lemmas of the locale say how the channel, the state the flow graph has
  recorded for it and the events on their way agree. The model of \<^verbatim>\<open>Channel\<close> satisfies it.
\<close>

subsection \<open>Agreement of recorded state, channel and pending events\<close>

text \<open>
  \<open>agree s f p\<close>: the flow graph has recorded the state \<open>s\<close>, the channel is in the state \<open>f\<close>, and
  the events \<open>p\<close> of the channel are still in the queue.
\<close>

definition agree :: "nat \<Rightarrow> nat \<Rightarrow> nat list \<Rightarrow> bool" where
  "agree s f p \<longleftrightarrow>
     (s = 0 \<and> f \<in> {0, 3} \<and> p = [])
     \<or> (s = 1 \<and> (f = 1 \<and> p = [] \<or> f = 2 \<and> p = [1] \<or> f = 3 \<and> p = [0] \<or> f = 0 \<and> p = [1, 2]))
     \<or> (s = 2 \<and> (f = 2 \<and> p = [] \<or> f = 0 \<and> p = [2]))"

lemma agree_states: "agree s f p \<Longrightarrow> s \<in> {0, 1, 2} \<and> f \<in> {0, 1, 2, 3} \<and> set p \<subseteq> {0, 1, 2}"
  by (auto simp: agree_def)

lemma agree_first:
  assumes "agree s f (e # p)"
  shows "e = 0 \<Longrightarrow> s = 1 \<and> f = 3 \<and> p = []"
    and "e = 1 \<Longrightarrow> s = 1 \<and> agree 2 f p"
    and "e = 2 \<Longrightarrow> s = 2 \<and> f = 0 \<and> p = []"
    and "e \<in> {0, 1, 2}"
  using assms by (auto simp: agree_def)

locale channel_protocol =
  fixes phase :: "'c \<Rightarrow> nat"
    and ok :: "'c \<Rightarrow> bool"
    and start :: "'c \<Rightarrow> ('c \<times> channel_event list) result"
    and stop :: "'c \<Rightarrow> ('c \<times> channel_event list) result"
    and message :: "int \<Rightarrow> 'c \<Rightarrow> ('c \<times> channel_event list) result"
  assumes start_total: "ok c \<Longrightarrow> \<exists>c'. start c = Inr (c', []) \<and> ok c'"
    and start_phase: "ok c \<Longrightarrow> phase c \<notin> {1, 2} \<Longrightarrow> start c = Inr (c', evs) \<Longrightarrow> phase c' = 1"
    and stop_total: "ok c \<Longrightarrow> \<exists>c'. stop c = Inr (c', []) \<and> ok c'"
    and stop_phase: "ok c \<Longrightarrow> stop c = Inr (c', evs) \<Longrightarrow> phase c' = (if phase c \<in> {1, 2} then 0 else phase c)"
    and message_total: "ok c \<Longrightarrow> \<exists>c' evs. message m c = Inr (c', evs) \<and> ok c'"
    and message_moves: "ok c \<Longrightarrow> message m c = Inr (c', evs) \<Longrightarrow>
      (phase c' = phase c \<and> evs = [])
      \<or> (phase c = 1 \<and> (\<exists>i. phase c' = 2 \<and> evs = [\<lparr>ev_channel_id = i, ev_event_type = 1\<rparr>]))
      \<or> (phase c = 1 \<and> (\<exists>i. phase c' = 3 \<and> evs = [\<lparr>ev_channel_id = i, ev_event_type = 0\<rparr>]))
      \<or> (phase c = 2 \<and> (\<exists>i. phase c' = 0 \<and> evs = [\<lparr>ev_channel_id = i, ev_event_type = 2\<rparr>]))"
begin

lemma message_agree:
  assumes "ok c" and "message m c = Inr (c', evs)" and "agree s (phase c) p"
  shows "agree s (phase c') (p @ map ev_event_type evs)"
  using message_moves [OF assms(1,2)]
proof (elim disjE conjE exE)
  assume "phase c' = phase c" "evs = []"
  then show ?thesis using assms(3) by simp
qed (use assms(3) in \<open>simp_all add: agree_def\<close>)

lemma start_agree:
  assumes "ok c" and "start c = Inr (c', evs)" and "phase c \<notin> {1, 2}"
  shows "agree 1 (phase c') []"
  using start_phase [OF assms(1,3,2)] by (simp add: agree_def)

text \<open>A stopped channel agrees with a recorded standby as long as none of its events is pending.\<close>

lemma stop_agree:
  assumes "ok c" and "stop c = Inr (c', evs)" and "phase c \<in> {0, 1, 2, 3}"
  shows "agree 0 (phase c') []"
  using stop_phase [OF assms(1,2)] assms(3) by (auto simp: agree_def)

end

subsection \<open>The model of the channel satisfies the protocol\<close>

definition fsm_wired :: "channel_fsm \<Rightarrow> bool" where
  "fsm_wired fsm \<longleftrightarrow> fsm_acq fsm \<and> fsm_trk fsm \<and> fsm_nav fsm \<and> fsm_queue fsm"

abbreviation ch_ok :: "channel \<Rightarrow> bool" where
  "ch_ok ch \<equiv> fsm_wired (ch_fsm ch)"

abbreviation ch_phase :: "channel \<Rightarrow> nat" where
  "ch_phase ch \<equiv> fsm_state (ch_fsm ch)"

named_theorems fsm_defs "events and actions of the channel state machine"

declare fsm_go_def [fsm_defs] fsm_refuse_def [fsm_defs] block_do_def [fsm_defs] queue_push_def [fsm_defs]
  also_do_def [fsm_defs] apply_event_def [fsm_defs] fsm_stop_acquisition_def [fsm_defs]
  fsm_stop_tracking_def [fsm_defs] fsm_start_acquisition_def [fsm_defs] fsm_start_tracking_def [fsm_defs]
  fsm_request_satellite_def [fsm_defs] fsm_notify_stop_tracking_def [fsm_defs] Event_stop_channel_def [fsm_defs]
  Event_start_acquisition_fpga_def [fsm_defs] Event_start_acquisition_def [fsm_defs]
  Event_valid_acquisition_def [fsm_defs] Event_failed_acquisition_repeat_def [fsm_defs]
  Event_failed_acquisition_no_repeat_def [fsm_defs] Event_failed_tracking_standby_def [fsm_defs]
  start_acquisition_def [fsm_defs] stop_channel_def [fsm_defs] msg_handler_channel_events_def [fsm_defs]
  fsm_wired_def [fsm_defs]

text \<open>The parts of a channel that its events leave alone.\<close>

definition same_channel :: "channel \<Rightarrow> channel \<Rightarrow> bool" where
  "same_channel ch ch' \<longleftrightarrow>
     ch_signal ch' = ch_signal ch \<and> fsm_channel (ch_fsm ch') = fsm_channel (ch_fsm ch)
     \<and> (fsm_wired (ch_fsm ch) \<longrightarrow> fsm_wired (ch_fsm ch'))"

lemma start_acquisition_spec:
  assumes "ch_ok ch"
  shows "\<exists>ch'. start_acquisition ch = Inr (ch', []) \<and> same_channel ch ch'
    \<and> ch_phase ch' = (if ch_phase ch = 2 then 2 else 1)"
  using assms by (cases "ch_flag_enable_fpga ch") (auto simp: fsm_defs same_channel_def Let_def)

lemma stop_channel_spec:
  assumes "ch_ok ch"
  shows "\<exists>ch'. stop_channel ch = Inr (ch', []) \<and> same_channel ch ch'
    \<and> ch_phase ch' = (if ch_phase ch \<in> {1, 2} then 0 else ch_phase ch)"
  using assms by (auto simp: fsm_defs same_channel_def Let_def)

lemma message_spec:
  assumes "ch_ok ch"
  shows "\<exists>ch' evs. msg_handler_channel_events m ch = Inr (ch', evs) \<and> same_channel ch ch'
    \<and> (ch_phase ch' = ch_phase ch \<and> evs = []
       \<or> ch_phase ch = 1 \<and> ch_phase ch' = 2 \<and> evs = [\<lparr>ev_channel_id = fsm_channel (ch_fsm ch), ev_event_type = 1\<rparr>]
       \<or> ch_phase ch = 1 \<and> ch_phase ch' = 3 \<and> evs = [\<lparr>ev_channel_id = fsm_channel (ch_fsm ch), ev_event_type = 0\<rparr>]
       \<or> ch_phase ch = 2 \<and> ch_phase ch' = 0 \<and> evs = [\<lparr>ev_channel_id = fsm_channel (ch_fsm ch), ev_event_type = 2\<rparr>])"
  using assms by (auto simp: fsm_defs same_channel_def Let_def)

interpretation chan: channel_protocol ch_phase ch_ok start_acquisition stop_channel msg_handler_channel_events
proof unfold_locales
  fix ch :: channel and ch' evs m
  assume ok: "ch_ok ch"
  show "\<exists>c'. start_acquisition ch = Inr (c', []) \<and> ch_ok c'"
    using start_acquisition_spec [OF ok] ok by (auto simp: same_channel_def)
  show "\<exists>c'. stop_channel ch = Inr (c', []) \<and> ch_ok c'"
    using stop_channel_spec [OF ok] ok by (auto simp: same_channel_def)
  show "\<exists>c' evs. msg_handler_channel_events m ch = Inr (c', evs) \<and> ch_ok c'"
    using message_spec [OF ok, of m] ok by (auto simp: same_channel_def)
  show "ch_phase ch' = 1" if "ch_phase ch \<notin> {1, 2}" "start_acquisition ch = Inr (ch', evs)"
    using start_acquisition_spec [OF ok] that by auto
  show "ch_phase ch' = (if ch_phase ch \<in> {1, 2} then 0 else ch_phase ch)" if "stop_channel ch = Inr (ch', evs)"
    using stop_channel_spec [OF ok] that by auto
  show "ch_phase ch' = ch_phase ch \<and> evs = []
      \<or> ch_phase ch = 1 \<and> (\<exists>i. ch_phase ch' = 2 \<and> evs = [\<lparr>ev_channel_id = i, ev_event_type = 1\<rparr>])
      \<or> ch_phase ch = 1 \<and> (\<exists>i. ch_phase ch' = 3 \<and> evs = [\<lparr>ev_channel_id = i, ev_event_type = 0\<rparr>])
      \<or> ch_phase ch = 2 \<and> (\<exists>i. ch_phase ch' = 0 \<and> evs = [\<lparr>ev_channel_id = i, ev_event_type = 2\<rparr>])"
    if "msg_handler_channel_events m ch = Inr (ch', evs)"
    using message_spec [OF ok, of m] that by auto
qed

lemma set_signal_spec:
  assumes "sig_str gs \<noteq> []" and "sat_system (sig_satellite gs) \<in> set system_set"
  shows "\<exists>ch'. set_signal gs ch = Inr ch' \<and> ch_signal ch' = gs \<and> ch_fsm ch' = ch_fsm ch"
proof -
  obtain s where "get_system_short (sig_satellite gs) = Inr s"
    using assms(2) by (auto simp: get_system_short_def satelliteSystem_def system_set_def)
  then show ?thesis using assms(1) by (simp add: set_signal_def Let_def)
qed

end
