(* ===== verification/Flowgraph_Correct.thy ===== *)
theory Flowgraph_Correct
  imports Gnss_Receiver Channel_Correct
begin

section \<open>Satellites are not lost\<close>

text \<open>
  The invariants of the flow graph. \<open>fg_wf\<close>: the vectors have equal lengths, every channel is
  wired and keeps its kind of signal, every list holds only well-formed signals of its kind (the
  list of SBAS satellites apart, which no channel reads).
  \<open>covered\<close>: every satellite of the configured lists is still in its list or held by a channel
  that is not idle. As long as there are fewer channels of a kind than satellites, no list runs
  empty, so no \<^verbatim>\<open>front()\<close> is undefined. \<open>managed\<close> is the specification of what the acquisition
  manager may do to one channel.
\<close>

definition signal_key :: "gnss_signal \<Rightarrow> string \<times> nat \<times> int" where
  "signal_key s = (sat_system (sig_satellite s), sat_PRN (sig_satellite s), sat_rf_link (sig_satellite s))"

abbreviation signal_type :: "gnss_signal \<Rightarrow> string_value" where
  "signal_type s \<equiv> string_value_of (sig_str s)"

lemma signal_eq_key: "signal_eq s t \<longleftrightarrow> signal_key s = signal_key t"
  by (simp add: signal_eq_def satellite_eq_def signal_key_def)

definition wf_signal :: "gnss_signal \<Rightarrow> bool" where
  "wf_signal s \<longleftrightarrow> sig_str s \<noteq> [] \<and> sat_system (sig_satellite s) \<in> set system_set"

definition list_wf :: "string_value \<Rightarrow> gnss_signal list \<Rightarrow> bool" where
  "list_wf e xs \<longleftrightarrow> e \<noteq> EvSBAS_1C \<longrightarrow> (\<forall>s \<in> set xs. wf_signal s \<and> signal_type s = e)"

lemma string_value_of_not_SBAS [simp]: "string_value_of s \<noteq> EvSBAS_1C"
  by (simp add: string_value_of_def mapStringValues_def)

lemma list_wfD: "list_wf (string_value_of s) xs \<Longrightarrow> x \<in> set xs \<Longrightarrow> wf_signal x \<and> signal_type x = string_value_of s"
  by (simp add: list_wf_def)

lemma list_wf_subset: "list_wf e xs \<Longrightarrow> set ys \<subseteq> set xs \<Longrightarrow> list_wf e ys"
  by (auto simp: list_wf_def)

lemma list_wf_insert:
  "list_wf e xs \<Longrightarrow> wf_signal gs \<Longrightarrow> signal_type gs = e \<Longrightarrow> set ys \<subseteq> insert gs (set xs) \<Longrightarrow> list_wf e ys"
  by (auto simp: list_wf_def)

definition fg_wf :: "string_value list \<Rightarrow> flowgraph \<Rightarrow> bool" where
  "fg_wf Ts fg \<longleftrightarrow>
     length (channels_state fg) = channels_count fg
     \<and> map (signal_type \<circ> ch_signal) (channels fg) = Ts
     \<and> (\<forall>ch \<in> set (channels fg). ch_ok ch \<and> wf_signal (ch_signal ch))
     \<and> (\<forall>i < channels_count fg. fsm_channel (ch_fsm (channels fg ! i)) = i)
     \<and> (\<forall>e. list_wf e (available fg e))"

definition busy :: "configuration \<Rightarrow> flowgraph \<Rightarrow> nat \<Rightarrow> bool" where
  "busy cfg fg i \<longleftrightarrow> channels_state fg ! i \<noteq> 0 \<or> channel_satellite cfg i \<noteq> 0"

definition held_keys :: "configuration \<Rightarrow> flowgraph \<Rightarrow> string_value \<Rightarrow> (string \<times> nat \<times> int) set" where
  "held_keys cfg fg e =
     {signal_key (channel_signal i fg) | i. i < channels_count fg \<and> busy cfg fg i \<and> signal_type (channel_signal i fg) = e}"

definition free_keys :: "flowgraph \<Rightarrow> string_value \<Rightarrow> (string \<times> nat \<times> int) set" where
  "free_keys fg e = signal_key ` set (available fg e)"

text \<open>\<open>K e\<close> are the satellites of kind \<open>e\<close>; \<open>extra\<close> is a signal in the hands of the running action.\<close>

definition covered ::
  "configuration \<Rightarrow> (string_value \<Rightarrow> (string \<times> nat \<times> int) set) \<Rightarrow> gnss_signal option \<Rightarrow> flowgraph \<Rightarrow> bool" where
  "covered cfg K extra fg \<longleftrightarrow>
     (\<forall>e. K e \<subseteq> free_keys fg e \<union> held_keys cfg fg e
              \<union> {signal_key s | s. extra = Some s \<and> signal_type s = e})"

text \<open>More satellites than channels, for every kind that has channels.\<close>

definition enough :: "(string_value \<Rightarrow> (string \<times> nat \<times> int) set) \<Rightarrow> string_value list \<Rightarrow> bool" where
  "enough K Ts \<longleftrightarrow> (\<forall>e \<in> set Ts. finite (K e) \<and> count_list Ts e < card (K e))"

subsection \<open>Searching\<close>

lemma extract_PRN_Some:
  "extract_PRN p xs = Some (y, ys) \<Longrightarrow> set xs = insert y (set ys)"
  by (induction xs arbitrary: y ys) (auto split: if_splits option.splits)

lemma find_assisted_Some:
  "find_assisted q sts xs = Some (st, y, ys) \<Longrightarrow> set xs = insert y (set ys)"
  by (induction q sts xs rule: find_assisted.induct) (auto split: if_splits option.splits dest: extract_PRN_Some)

lemma take_front_spec:
  assumes "available fg e \<noteq> []"
  shows "\<exists>sr ys. take_front p e fg = Inr (sr, fg\<lparr>available := (available fg)(e := ys)\<rparr>)
    \<and> set (available fg e) = set ys \<and> sr_signal sr \<in> set ys \<and> \<not> assistance_available sr
    \<and> is_primary_frequency sr = p"
  using assms by (cases "available fg e") (auto simp: take_front_def)

lemma take_assisted_spec:
  assumes "available fg e \<noteq> []"
  shows "\<exists>sr ys. take_assisted cfg c q e fg = Inr (sr, fg\<lparr>available := (available fg)(e := ys)\<rparr>)
    \<and> set (available fg e) = insert (sr_signal sr) (set ys)
    \<and> (sr_signal sr \<in> set ys \<or> assistance_available sr)"
proof (cases "if property_int cfg c 0 > 0 then find_assisted q (channels_status fg) (available fg e) else None")
  case None
  with take_front_spec [OF assms, of False] show ?thesis
    by (auto simp: take_assisted_def)
next
  case (Some r)
  obtain st y ys where r: "r = (st, y, ys)" by (cases r) auto
  with Some have "set (available fg e) = insert y (set ys)"
    by (auto split: if_splits dest: find_assisted_Some)
  moreover define sr where "sr = \<lparr>sr_signal = y, is_primary_frequency = False, assistance_available = True,
    estimated_doppler = Some (to_float (st_Carrier_Doppler_hz st)), sr_RX_time = Some (st_RX_time st)\<rparr>"
  moreover have "take_assisted cfg c q e fg = Inr (sr, fg\<lparr>available := (available fg)(e := ys)\<rparr>)"
    by (simp add: take_assisted_def Some r sr_def)
  ultimately show ?thesis by (intro exI [where x = sr] exI [where x = ys]) simp
qed

lemma search_spec:
  assumes "available fg (string_value_of s) \<noteq> []"
  shows "\<exists>sr ys. search_next_signal cfg s fg = Inr (sr, fg\<lparr>available := (available fg)(string_value_of s := ys)\<rparr>)
    \<and> set (available fg (string_value_of s)) = insert (sr_signal sr) (set ys)
    \<and> (sr_signal sr \<in> set ys \<or> assistance_available sr)"
proof -
  have front: "\<exists>sr ys. take_front p (string_value_of s) fg = Inr (sr, fg\<lparr>available := (available fg)(string_value_of s := ys)\<rparr>)
    \<and> set (available fg (string_value_of s)) = insert (sr_signal sr) (set ys)
    \<and> (sr_signal sr \<in> set ys \<or> assistance_available sr)" for p
    using take_front_spec [OF assms, of p] by auto
  note assisted = take_assisted_spec [OF assms]
  show ?thesis
    using front assisted string_value_of_not_SBAS [of s]
    by (cases "string_value_of s")
      (simp_all add: search_next_signal_def search_GPS_2S_def search_GPS_L5_def search_GAL_5X_def
        search_GAL_7X_def search_GAL_E6_def)
qed

subsection \<open>What the manager does to one channel\<close>

text \<open>
  \<open>Skip\<close>: nothing is to be done. \<open>Start\<close>: the channel gets a signal, which leaves the list at
  most, and is started. \<open>Idle\<close>: the channel gets a signal that stays in its list, and waits.
\<close>

inductive managed :: "configuration \<Rightarrow> nat \<Rightarrow> flowgraph \<Rightarrow> flowgraph \<Rightarrow> bool" for cfg c where
  Skip: "managed cfg c fg fg"
| Start: "acq_channels_count fg < max_acq_channels fg \<Longrightarrow> channels_state fg ! c = 0 \<Longrightarrow>
    ch_ok ch' \<Longrightarrow> fsm_channel (ch_fsm ch') = fsm_channel (ch_fsm (channels fg ! c)) \<Longrightarrow>
    ch_phase ch' = (if ch_phase (channels fg ! c) = 2 then 2 else 1) \<Longrightarrow>
    wf_signal (ch_signal ch') \<Longrightarrow> signal_type (ch_signal ch') = e \<Longrightarrow> e = signal_type (channel_signal c fg) \<Longrightarrow>
    channel_satellite cfg c = 0 \<and> set (available fg e) = insert (ch_signal ch') (set ys)
      \<or> channel_satellite cfg c \<noteq> 0 \<and> ys = available fg e \<and> ch_signal ch' = channel_signal c fg \<Longrightarrow>
    managed cfg c fg (fg\<lparr>channels := (channels fg)[c := ch'], channels_state := (channels_state fg)[c := 1],
      acq_channels_count := acq_channels_count fg + 1, available := (available fg)(e := ys)\<rparr>)"
| Idle: "channels_state fg ! c = 0 \<Longrightarrow> channel_satellite cfg c = 0 \<Longrightarrow>
    ch_fsm ch' = ch_fsm (channels fg ! c) \<Longrightarrow>
    wf_signal (ch_signal ch') \<Longrightarrow> signal_type (ch_signal ch') = e \<Longrightarrow> e = signal_type (channel_signal c fg) \<Longrightarrow>
    signal_key ` set ys = signal_key ` set (available fg e) \<Longrightarrow> set ys \<subseteq> set (available fg e) \<Longrightarrow>
    managed cfg c fg (fg\<lparr>channels := (channels fg)[c := ch'], available := (available fg)(e := ys)\<rparr>)"

inductive_cases managedE: "managed cfg c fg fg'"

lemma on_channel_start:
  assumes "c < channels_count fg" and "ch_ok (channels fg ! c)"
  shows "\<exists>ch'. on_channel c start_acquisition fg = Inr (fg\<lparr>channels := (channels fg)[c := ch']\<rparr>)
    \<and> same_channel (channels fg ! c) ch' \<and> ch_phase ch' = (if ch_phase (channels fg ! c) = 2 then 2 else 1)"
  using start_acquisition_spec [OF assms(2)] assms(1) by (auto simp: on_channel_def)

lemma on_channel_signal:
  assumes "c < channels_count fg" and "wf_signal gs"
  shows "\<exists>ch'. channel_set_signal c gs fg = Inr (fg\<lparr>channels := (channels fg)[c := ch']\<rparr>)
    \<and> ch_signal ch' = gs \<and> ch_fsm ch' = ch_fsm (channels fg ! c)"
  using set_signal_spec [of gs "channels fg ! c"] assms
  by (auto simp: channel_set_signal_def on_channel_def wf_signal_def)

text \<open>Starting a channel after it has its signal.\<close>

lemma begin_acquisition_spec:
  assumes "c < channels_count fg" and "ch_ok (channels fg ! c)"
  shows "\<exists>ch'. begin_acquisition cfg c sr fg =
      Inr (fg\<lparr>channels := (channels fg)[c := ch'], channels_state := (channels_state fg)[c := 1],
              acq_channels_count := acq_channels_count fg + 1\<rparr>)
    \<and> same_channel (channels fg ! c) ch' \<and> ch_phase ch' = (if ch_phase (channels fg ! c) = 2 then 2 else 1)"
proof -
  define d where "d = (if assistance_available sr \<and> property_bool cfg ''GNSS-SDR.assist_dual_frequency_acq'' (multiband fg)
    then project_doppler (sig_str (channel_signal c fg)) (the (estimated_doppler sr)) else 0)"
  define fg2 where "fg2 = fg\<lparr>channels := (channels fg)[c := assist_acquisition_doppler d (channels fg ! c)],
    channels_state := (channels_state fg)[c := 1], acq_channels_count := acq_channels_count fg + 1\<rparr>"
  have b: "begin_acquisition cfg c sr fg = on_channel c start_acquisition fg2"
    using assms(1) by (simp add: begin_acquisition_def on_channel_def set_state_def d_def fg2_def Let_def)
  have ch: "channels fg2 ! c = assist_acquisition_doppler d (channels fg ! c)"
    using assms(1) by (simp add: fg2_def)
  then have "ch_ok (channels fg2 ! c)" using assms(2) by (simp add: assist_acquisition_doppler_def)
  then obtain ch' where on: "on_channel c start_acquisition fg2 = Inr (fg2\<lparr>channels := (channels fg2)[c := ch']\<rparr>)"
    and ch': "same_channel (channels fg2 ! c) ch'" "ch_phase ch' = (if ch_phase (channels fg2 ! c) = 2 then 2 else 1)"
    using on_channel_start [of c fg2] assms(1) by (auto simp: fg2_def)
  have "fg2\<lparr>channels := (channels fg2)[c := ch']\<rparr> = fg\<lparr>channels := (channels fg)[c := ch'],
      channels_state := (channels_state fg)[c := 1], acq_channels_count := acq_channels_count fg + 1\<rparr>"
    by (cases fg) (simp add: fg2_def)
  moreover have "same_channel (channels fg ! c) ch'" "ch_phase ch' = (if ch_phase (channels fg ! c) = 2 then 2 else 1)"
    using ch' unfolding ch by (simp_all add: same_channel_def assist_acquisition_doppler_def)
  ultimately show ?thesis by (intro exI [where x = ch']) (simp only: b on simp_thms)
qed

text \<open>A channel that is idle and not fixed to a satellite.\<close>

lemma manage_searching:
  assumes wf: "fg_wf Ts fg" and c: "c < channels_count fg"
    and go: "acq_channels_count fg < max_acq_channels fg" "channels_state fg ! c = 0" "channel_satellite cfg c = 0"
    and nonempty: "available fg (signal_type (channel_signal c fg)) \<noteq> []"
  shows "\<exists>fg'. manage_channel cfg c fg = Inr fg' \<and> managed cfg c fg fg'"
proof -
  define e where "e = signal_type (channel_signal c fg)"
  obtain sr ys where search: "search_next_signal cfg (sig_str (channel_signal c fg)) fg =
      Inr (sr, fg\<lparr>available := (available fg)(e := ys)\<rparr>)"
    and set: "set (available fg e) = insert (sr_signal sr) (set ys)"
    and left: "sr_signal sr \<in> set ys \<or> assistance_available sr"
    using search_spec [OF nonempty, of cfg] unfolding e_def by auto
  have gs: "wf_signal (sr_signal sr)" "signal_type (sr_signal sr) = e"
    using wf set list_wfD [of "sig_str (channel_signal c fg)" "available fg e" "sr_signal sr"] by (simp_all add: fg_wf_def e_def)
  define fg1 where "fg1 = fg\<lparr>available := (available fg)(e := ys)\<rparr>"
  have c1: "c < channels_count fg1" and ok: "ch_ok (channels fg ! c)" and len: "length (channels_state fg) = channels_count fg"
    using wf c by (auto simp: fg1_def fg_wf_def)
  obtain ch where sig: "channel_set_signal c (sr_signal sr) fg1 = Inr (fg1\<lparr>channels := (channels fg)[c := ch]\<rparr>)"
    and ch: "ch_signal ch = sr_signal sr" "ch_fsm ch = ch_fsm (channels fg ! c)"
    using on_channel_signal [OF c1 gs(1)] by (auto simp: fg1_def)
  define fg2 where "fg2 = fg1\<lparr>channels := (channels fg)[c := ch]\<rparr>"
  have go2: "manage_channel cfg c fg =
      (if is_primary_frequency sr \<or> assistance_available sr
          \<or> \<not> property_bool cfg ''GNSS-SDR.assist_dual_frequency_acq'' (multiband fg2)
       then begin_acquisition cfg c sr fg2 else Inr (push_back_signal (sr_signal sr) fg2))"
    using c go len by (simp add: manage_channel_def search sig [unfolded fg1_def] fg2_def fg1_def)
  show ?thesis
  proof (cases "is_primary_frequency sr \<or> assistance_available sr
      \<or> \<not> property_bool cfg ''GNSS-SDR.assist_dual_frequency_acq'' (multiband fg2)")
    case True
    have "c < channels_count fg2" "ch_ok (channels fg2 ! c)" "channels fg2 ! c = ch"
      using c ok ch by (simp_all add: fg2_def)
    then obtain ch' where b: "begin_acquisition cfg c sr fg2 =
        Inr (fg2\<lparr>channels := (channels fg2)[c := ch'], channels_state := (channels_state fg2)[c := 1],
                 acq_channels_count := acq_channels_count fg2 + 1\<rparr>)"
      and ch': "same_channel ch ch'" "ch_phase ch' = (if ch_phase ch = 2 then 2 else 1)"
      using begin_acquisition_spec [of c fg2 cfg sr] by auto
    have eq: "fg2\<lparr>channels := (channels fg2)[c := ch'], channels_state := (channels_state fg2)[c := 1],
                 acq_channels_count := acq_channels_count fg2 + 1\<rparr> =
      fg\<lparr>channels := (channels fg)[c := ch'], channels_state := (channels_state fg)[c := 1],
         acq_channels_count := acq_channels_count fg + 1, available := (available fg)(e := ys)\<rparr>"
      by (cases fg) (simp add: fg2_def fg1_def)
    have "managed cfg c fg (fg\<lparr>channels := (channels fg)[c := ch'], channels_state := (channels_state fg)[c := 1],
         acq_channels_count := acq_channels_count fg + 1, available := (available fg)(e := ys)\<rparr>)"
      by (rule managed.Start) (use go ch ch' gs set ok in \<open>auto simp: same_channel_def e_def\<close>)
    then show ?thesis using True by (simp only: go2 b eq if_True) simp
  next
    case False
    then have "sr_signal sr \<in> set ys" using left by simp
    define zs where "zs = list_remove (sr_signal sr) ys @ [sr_signal sr]"
    have eq: "push_back_signal (sr_signal sr) fg2 =
        fg\<lparr>channels := (channels fg)[c := ch], available := (available fg)(e := zs)\<rparr>"
      by (cases fg) (simp add: push_back_signal_def Let_def gs(2) fg2_def fg1_def zs_def)
    have "signal_key ` set zs = signal_key ` set (available fg e)" "set zs \<subseteq> set (available fg e)"
      using set \<open>sr_signal sr \<in> set ys\<close> by (auto simp: zs_def signal_eq_key)
    then have "managed cfg c fg (fg\<lparr>channels := (channels fg)[c := ch], available := (available fg)(e := zs)\<rparr>)"
      using go ch gs by (intro managed.Idle) (simp_all add: e_def)
    then show ?thesis using False by (simp only: go2 eq if_False) simp
  qed
qed

lemma manage_fixed:
  assumes wf: "fg_wf Ts fg" and c: "c < channels_count fg"
    and go: "acq_channels_count fg < max_acq_channels fg" "channels_state fg ! c = 0" "channel_satellite cfg c \<noteq> 0"
  shows "\<exists>fg'. manage_channel cfg c fg = Inr fg' \<and> managed cfg c fg fg'"
proof -
  define e where "e = signal_type (channel_signal c fg)"
  have gs: "wf_signal (channel_signal c fg)" and ok: "ch_ok (channels fg ! c)"
    and len: "length (channels_state fg) = channels_count fg"
    using wf c by (auto simp: fg_wf_def channel_signal_def)
  obtain ch where sig: "channel_set_signal c (channel_signal c fg) fg = Inr (fg\<lparr>channels := (channels fg)[c := ch]\<rparr>)"
    and ch: "ch_signal ch = channel_signal c fg" "ch_fsm ch = ch_fsm (channels fg ! c)"
    using on_channel_signal [OF c gs] by auto
  define fg2 where "fg2 = fg\<lparr>channels := (channels fg)[c := ch]\<rparr>"
  define sr where "sr = \<lparr>sr_signal = default_signal [], is_primary_frequency = True,
    assistance_available = False, estimated_doppler = None, sr_RX_time = None\<rparr>"
  have go2: "manage_channel cfg c fg = begin_acquisition cfg c sr fg2"
    using c go len by (simp add: manage_channel_def sig fg2_def sr_def)
  have "c < channels_count fg2" "ch_ok (channels fg2 ! c)" "channels fg2 ! c = ch"
    using c ok ch by (simp_all add: fg2_def)
  then obtain ch' where b: "begin_acquisition cfg c sr fg2 =
      Inr (fg2\<lparr>channels := (channels fg2)[c := ch'], channels_state := (channels_state fg2)[c := 1],
               acq_channels_count := acq_channels_count fg2 + 1\<rparr>)"
    and ch': "same_channel ch ch'" "ch_phase ch' = (if ch_phase ch = 2 then 2 else 1)"
    using begin_acquisition_spec [of c fg2 cfg sr] by auto
  have eq: "fg2\<lparr>channels := (channels fg2)[c := ch'], channels_state := (channels_state fg2)[c := 1],
               acq_channels_count := acq_channels_count fg2 + 1\<rparr> =
    fg\<lparr>channels := (channels fg)[c := ch'], channels_state := (channels_state fg)[c := 1],
       acq_channels_count := acq_channels_count fg + 1, available := (available fg)(e := available fg e)\<rparr>"
    by (cases fg) (simp add: fg2_def)
  have "managed cfg c fg (fg\<lparr>channels := (channels fg)[c := ch'], channels_state := (channels_state fg)[c := 1],
       acq_channels_count := acq_channels_count fg + 1, available := (available fg)(e := available fg e)\<rparr>)"
    by (rule managed.Start) (use go ch ch' gs ok in \<open>auto simp: same_channel_def e_def\<close>)
  then show ?thesis by (simp only: go2 b eq) simp
qed

lemma manage_channel_refines:
  assumes wf: "fg_wf Ts fg" and c: "c < channels_count fg"
    and nonempty: "channels_state fg ! c = 0 \<Longrightarrow> channel_satellite cfg c = 0
      \<Longrightarrow> available fg (signal_type (channel_signal c fg)) \<noteq> []"
  shows "\<exists>fg'. manage_channel cfg c fg = Inr fg' \<and> managed cfg c fg fg'"
proof (cases "acq_channels_count fg < max_acq_channels fg \<and> channels_state fg ! c = 0")
  case True
  then show ?thesis
    using manage_searching [OF wf c] manage_fixed [OF wf c] nonempty by blast
next
  case False
  have "length (channels_state fg) = channels_count fg" using wf by (simp add: fg_wf_def)
  with False c have "manage_channel cfg c fg = Inr fg" by (auto simp: manage_channel_def)
  then show ?thesis by (auto intro: managed.Skip)
qed

subsection \<open>The invariants are kept\<close>

lemma fg_wf_frame [simp]:
  "fg_wf Ts (fg\<lparr>acq_channels_count := n\<rparr>) = fg_wf Ts fg" "fg_wf Ts (fg\<lparr>queue := q\<rparr>) = fg_wf Ts fg"
  "fg_wf Ts (fg\<lparr>channels_status := st\<rparr>) = fg_wf Ts fg"
  by (simp_all add: fg_wf_def)

lemma covered_frame [simp]:
  "covered cfg K x (fg\<lparr>acq_channels_count := n\<rparr>) = covered cfg K x fg"
  "covered cfg K x (fg\<lparr>queue := q\<rparr>) = covered cfg K x fg"
  "covered cfg K x (fg\<lparr>channels_status := st\<rparr>) = covered cfg K x fg"
  by (simp_all add: covered_def free_keys_def held_keys_def busy_def channel_signal_def)

lemma fg_wf_channel:
  assumes "fg_wf Ts fg" and "i < channels_count fg"
  shows "ch_ok (channels fg ! i)" and "wf_signal (channel_signal i fg)" and "signal_type (channel_signal i fg) = Ts ! i"
    and "length Ts = channels_count fg" and "length (channels_state fg) = channels_count fg"
    and "fsm_channel (ch_fsm (channels fg ! i)) = i"
  using assms by (auto simp: fg_wf_def channel_signal_def)

lemma fg_wf_put:
  assumes "fg_wf Ts fg" and "i < channels_count fg" and "ch_ok ch" and "wf_signal (ch_signal ch)"
    and "signal_type (ch_signal ch) = Ts ! i" and "fsm_channel (ch_fsm ch) = i"
  shows "fg_wf Ts (fg\<lparr>channels := (channels fg)[i := ch]\<rparr>)"
proof -
  have "map (signal_type \<circ> ch_signal) ((channels fg)[i := ch]) = Ts"
    using assms by (auto simp: fg_wf_def map_update)
  moreover have "set ((channels fg)[i := ch]) \<subseteq> insert ch (set (channels fg))" by (rule set_update_subset_insert)
  moreover have "fsm_channel (ch_fsm ((channels fg)[i := ch] ! j)) = j" if "j < channels_count fg" for j
    using that assms by (cases "j = i") (auto simp: fg_wf_def)
  ultimately show ?thesis using assms(1,3,4) by (auto simp: fg_wf_def)
qed

lemma fg_wf_state [simp]: "fg_wf Ts (fg\<lparr>channels_state := (channels_state fg)[i := s]\<rparr>) = fg_wf Ts fg"
  by (simp add: fg_wf_def)

lemma fg_wf_available:
  assumes "fg_wf Ts fg" and "list_wf e ys"
  shows "fg_wf Ts (fg\<lparr>available := (available fg)(e := ys)\<rparr>)"
  using assms by (auto simp: fg_wf_def)

lemma managed_wf:
  assumes wf: "fg_wf Ts fg" and c: "c < channels_count fg" and m: "managed cfg c fg fg'"
  shows "fg_wf Ts fg'" and "channels_count fg' = channels_count fg"
proof -
  have ys: "fg_wf Ts (fg\<lparr>available := (available fg)(e := ys)\<rparr>)" if "set ys \<subseteq> set (available fg e)" for e ys
    using that wf by (intro fg_wf_available) (auto simp: fg_wf_def intro: list_wf_subset)
  note put = fg_wf_put [OF ys, of _ _ c]
  show "fg_wf Ts fg'"
    using m
  proof cases
    case Skip
    then show ?thesis using wf by simp
  next
    case (Start ch' e ys)
    have "set ys \<subseteq> set (available fg e)" using Start by auto
    from put [OF this, of ch'] show ?thesis
      using Start c fg_wf_channel [OF wf c]
      by (simp add: fg_wf_def)
  next
    case (Idle ch' e ys)
    have "set ys \<subseteq> set (available fg e)" using Idle by auto
    from put [OF this, of ch'] show ?thesis
      using Idle c fg_wf_channel [OF wf c] by (simp add: fg_wf_def)
  qed
  show "channels_count fg' = channels_count fg" using m by cases auto
qed

lemma covered_mono:
  assumes "covered cfg K x fg"
    and "\<And>e. free_keys fg e \<subseteq> free_keys fg' e \<union> held_keys cfg fg' e \<union> {signal_key s | s. x' = Some s \<and> signal_type s = e}"
    and "\<And>e. held_keys cfg fg e \<subseteq> free_keys fg' e \<union> held_keys cfg fg' e \<union> {signal_key s | s. x' = Some s \<and> signal_type s = e}"
    and "\<And>s. x = Some s \<Longrightarrow> signal_key s \<in> free_keys fg' (signal_type s) \<union> held_keys cfg fg' (signal_type s) \<or> x' = Some s"
  shows "covered cfg K x' fg'"
  unfolding covered_def
proof (intro allI subsetI)
  fix e k
  assume "k \<in> K e"
  then consider "k \<in> free_keys fg e" | "k \<in> held_keys cfg fg e" | s where "x = Some s" "signal_type s = e" "k = signal_key s"
    using assms(1) unfolding covered_def by blast
  then show "k \<in> free_keys fg' e \<union> held_keys cfg fg' e \<union> {signal_key s |s. x' = Some s \<and> signal_type s = e}"
    using assms(2-4) by cases blast+
qed

lemma covered_keep:
  assumes "covered cfg K x fg"
    and "\<And>e. free_keys fg e \<subseteq> free_keys fg' e \<union> held_keys cfg fg' e"
    and "\<And>e. held_keys cfg fg e \<subseteq> free_keys fg' e \<union> held_keys cfg fg' e"
  shows "covered cfg K x fg'"
  by (rule covered_mono [OF assms(1)]) (use assms(2,3) in blast)+

lemma held_keysI:
  "i < channels_count fg \<Longrightarrow> busy cfg fg i \<Longrightarrow> signal_key (channel_signal i fg) \<in> held_keys cfg fg (signal_type (channel_signal i fg))"
  by (auto simp: held_keys_def)

text \<open>Channels that stay busy keep their satellites.\<close>

lemma held_keys_mono:
  assumes "channels_count fg' = channels_count fg"
    and "\<And>i. i < channels_count fg \<Longrightarrow> busy cfg fg i \<Longrightarrow> busy cfg fg' i \<and> channel_signal i fg' = channel_signal i fg"
  shows "held_keys cfg fg e \<subseteq> held_keys cfg fg' e"
proof
  fix k
  assume "k \<in> held_keys cfg fg e"
  then obtain i where i: "i < channels_count fg" "busy cfg fg i" "signal_type (channel_signal i fg) = e"
    "k = signal_key (channel_signal i fg)" by (auto simp: held_keys_def)
  with assms(2) [OF i(1,2)] held_keysI [of i fg' cfg] assms(1) show "k \<in> held_keys cfg fg' e" by simp
qed

lemma managed_covered:
  assumes wf: "fg_wf Ts fg" and c: "c < channels_count fg" and m: "managed cfg c fg fg'" and cov: "covered cfg K x fg"
  shows "covered cfg K x fg'"
  using m
proof cases
  case Skip
  then show ?thesis using cov by simp
next
  case (Start ch' e ys)
  have len: "length (channels_state fg) = channels_count fg" using fg_wf_channel [OF wf c] by simp
  have c': "channels_count fg' = channels_count fg" using Start by simp
  have held: "held_keys cfg fg e' \<subseteq> held_keys cfg fg' e'" for e'
  proof (rule held_keys_mono [OF c'])
    fix i
    assume "i < channels_count fg" "busy cfg fg i"
    then show "busy cfg fg' i \<and> channel_signal i fg' = channel_signal i fg"
      using Start len by (cases "i = c") (auto simp: busy_def channel_signal_def)
  qed
  have "channel_signal c fg' = ch_signal ch'" "busy cfg fg' c"
    using Start c len by (simp_all add: channel_signal_def busy_def)
  then have new: "signal_key (ch_signal ch') \<in> held_keys cfg fg' e"
    using held_keysI [of c fg' cfg] c c' Start by simp
  have "free_keys fg e' \<subseteq> free_keys fg' e' \<union> held_keys cfg fg' e'" for e'
    using new Start(10) Start(1) by (cases "e' = e") (auto simp: free_keys_def)
  with held show ?thesis
    by (intro covered_keep [OF cov]) blast+
next
  case (Idle ch' e ys)
  have c': "channels_count fg' = channels_count fg" using Idle by simp
  have held: "held_keys cfg fg e' \<subseteq> held_keys cfg fg' e'" for e'
  proof (rule held_keys_mono [OF c'])
    fix i
    assume "i < channels_count fg" "busy cfg fg i"
    then show "busy cfg fg' i \<and> channel_signal i fg' = channel_signal i fg"
      using Idle by (cases "i = c") (auto simp: busy_def channel_signal_def)
  qed
  have "free_keys fg e' = free_keys fg' e'" for e'
    using Idle by (simp add: free_keys_def)
  with held show ?thesis
    by (intro covered_keep [OF cov]) blast+
qed

subsection \<open>No list runs empty\<close>

lemma count_list_card: "count_list xs e = card {i. i < length xs \<and> xs ! i = e}"
  by (simp add: count_list_eq_length_filter length_filter_conv_card) (metis (full_types))

lemma pool_not_empty:
  assumes wf: "fg_wf Ts fg" and cov: "covered cfg K x fg" and en: "enough K Ts"
    and c: "c < channels_count fg" "\<not> busy cfg fg c"
  shows "available fg (signal_type (channel_signal c fg)) \<noteq> []"
proof
  define e where "e = signal_type (channel_signal c fg)"
  define I where "I = {i. i < length Ts \<and> Ts ! i = e}"
  assume "available fg (signal_type (channel_signal c fg)) = []"
  then have free: "free_keys fg e = {}" by (simp add: free_keys_def e_def)
  have Ts: "length Ts = channels_count fg" "Ts ! c = e" using fg_wf_channel [OF wf c(1)] by (simp_all add: e_def)
  have fin: "finite I" by (simp add: I_def)
  have cI: "c \<in> I" using Ts c by (simp add: I_def)
  let ?H = "(\<lambda>i. signal_key (channel_signal i fg)) ` (I - {c})"
  have "held_keys cfg fg e \<subseteq> ?H"
    using c(2) fg_wf_channel(3) [OF wf] Ts by (auto simp: held_keys_def I_def)
  moreover define X where "X = {signal_key s | s. x = Some s \<and> signal_type s = e}"
  ultimately have sub: "K e \<subseteq> ?H \<union> X" using cov free unfolding covered_def X_def by blast
  have X: "finite X" "card X \<le> 1"
    by (cases x; auto simp: X_def card_le_Suc0_iff_eq)+
  have "card (K e) \<le> card (?H \<union> X)" using sub fin X by (intro card_mono) auto
  also have "\<dots> \<le> card ?H + card X" by (rule card_Un_le)
  also have "\<dots> \<le> card (I - {c}) + 1" using fin X by (intro add_mono card_image_le) auto
  also have "\<dots> = count_list Ts e" using fin cI 
    by (simp add: count_list_card I_def [symmetric] card_gt_0_iff) (metis Suc_pred card_gt_0_iff empty_iff)
  finally have "card (K e) \<le> count_list Ts e" .
  moreover have "e \<in> set Ts" using Ts c(1) by (metis nth_mem)
  ultimately show False using en by (auto simp: enough_def)
qed

text \<open>
  The manager never fails, keeps the invariants and every property \<open>P\<close> that the moves of
  \<open>managed\<close> keep.
\<close>

lemma manage_channels_keeps:
  assumes "fg_wf Ts fg" and "covered cfg K x fg" and "enough K Ts" and "\<And>c. c \<in> set cs \<Longrightarrow> c < channels_count fg"
    and "P fg" and step: "\<And>c f f'. fg_wf Ts f \<Longrightarrow> c < channels_count f \<Longrightarrow> managed cfg c f f' \<Longrightarrow> P f \<Longrightarrow> P f'"
  shows "\<exists>fg'. manage_channels cfg cs fg = Inr fg' \<and> fg_wf Ts fg' \<and> covered cfg K x fg'
    \<and> channels_count fg' = channels_count fg \<and> P fg'"
  using assms(1-5)
proof (induction cs arbitrary: fg)
  case Nil
  then show ?case by simp
next
  case (Cons c cs)
  have c: "c < channels_count fg" using Cons.prems by simp
  obtain fg1 where m: "manage_channel cfg c fg = Inr fg1" "managed cfg c fg fg1"
    using manage_channel_refines [OF Cons.prems(1) c] pool_not_empty [OF Cons.prems(1-3) c] by (auto simp: busy_def)
  have "fg_wf Ts fg1" "channels_count fg1 = channels_count fg" "covered cfg K x fg1" "P fg1"
    using managed_wf [OF Cons.prems(1) c m(2)] managed_covered [OF Cons.prems(1) c m(2) Cons.prems(2)]
      step [OF Cons.prems(1) c m(2) Cons.prems(5)] by simp_all
  with Cons.IH [of fg1] Cons.prems show ?case by (simp add: m(1))
qed

lemma acquisition_manager_keeps:
  assumes "fg_wf Ts fg" and "covered cfg K x fg" and "enough K Ts" and "P fg"
    and "\<And>c f f'. fg_wf Ts f \<Longrightarrow> c < channels_count f \<Longrightarrow> managed cfg c f f' \<Longrightarrow> P f \<Longrightarrow> P f'"
  shows "\<exists>fg'. acquisition_manager cfg who fg = Inr fg' \<and> fg_wf Ts fg' \<and> covered cfg K x fg'
    \<and> channels_count fg' = channels_count fg \<and> P fg'"
proof -
  have "(i + who + 1) mod 2 ^ 32 mod channels_count fg < channels_count fg" if "i < channels_count fg" for i
    using that by (intro mod_less_divisor) linarith
  then show ?thesis
    unfolding acquisition_manager_def using assms by (intro manage_channels_keeps) auto
qed

lemma acquisition_manager_ok:
  assumes "fg_wf Ts fg" and "covered cfg K x fg" and "enough K Ts"
  shows "\<exists>fg'. acquisition_manager cfg who fg = Inr fg' \<and> fg_wf Ts fg' \<and> covered cfg K x fg'
    \<and> channels_count fg' = channels_count fg \<and> queue fg' = queue fg"
proof (rule acquisition_manager_keeps [OF assms, of "\<lambda>f. queue f = queue fg"])
  fix c f f'
  assume "managed cfg c f f'" "queue f = queue fg"
  then show "queue f' = queue fg" by (auto elim: managedE)
qed simp

subsection \<open>Actions\<close>

lemma fg_wf_list: "fg_wf Ts fg \<Longrightarrow> list_wf e (available fg e)"
  by (simp add: fg_wf_def)

lemma fg_wf_push_back: "fg_wf Ts fg \<Longrightarrow> wf_signal gs \<Longrightarrow> fg_wf Ts (push_back_signal gs fg)"
  unfolding push_back_signal_def Let_def
  by (rule fg_wf_available, assumption, rule list_wf_insert [OF fg_wf_list]) auto

lemma fg_wf_remove: "fg_wf Ts fg \<Longrightarrow> fg_wf Ts (remove_signal gs fg)"
  unfolding remove_signal_def Let_def
  by (rule fg_wf_available, assumption, rule list_wf_subset [OF fg_wf_list]) auto

lemma fg_wf_set_state [simp]: "fg_wf Ts (set_state i s fg) = fg_wf Ts fg"
  by (simp add: set_state_def)

lemma fg_wf_decrease [simp]: "fg_wf Ts (decrease_acq_count fg) = fg_wf Ts fg"
  by (simp add: decrease_acq_count_def)

lemma covered_decrease [simp]: "covered cfg K x (decrease_acq_count fg) = covered cfg K x fg"
  by (simp add: decrease_acq_count_def)

lemma channels_frame [simp]:
  "channels (push_back_signal gs fg) = channels fg" "channels (remove_signal gs fg) = channels fg"
  "channels (set_state i s fg) = channels fg" "channels (decrease_acq_count fg) = channels fg"
  by (simp_all add: push_back_signal_def remove_signal_def set_state_def decrease_acq_count_def Let_def)

lemma queue_frame [simp]:
  "queue (push_back_signal gs fg) = queue fg" "queue (remove_signal gs fg) = queue fg"
  "queue (set_state i s fg) = queue fg" "queue (decrease_acq_count fg) = queue fg"
  by (simp_all add: push_back_signal_def remove_signal_def set_state_def decrease_acq_count_def Let_def)

lemma channels_state_frame [simp]:
  "channels_state (push_back_signal gs fg) = channels_state fg" "channels_state (remove_signal gs fg) = channels_state fg"
  "channels_state (decrease_acq_count fg) = channels_state fg"
  by (simp_all add: push_back_signal_def remove_signal_def decrease_acq_count_def Let_def)

lemma channel_signal_frame [simp]:
  "channel_signal i (push_back_signal gs fg) = channel_signal i fg"
  "channel_signal i (remove_signal gs fg) = channel_signal i fg"
  "channel_signal i (set_state j s fg) = channel_signal i fg"
  "channel_signal i (decrease_acq_count fg) = channel_signal i fg"
  by (simp_all add: channel_signal_def)

lemma free_keys_push_back:
  "free_keys (push_back_signal gs fg) e =
     (if e = signal_type gs then insert (signal_key gs) (free_keys fg e) else free_keys fg e)"
  by (auto simp: free_keys_def push_back_signal_def Let_def signal_eq_key)

lemma free_keys_remove:
  "free_keys (remove_signal gs fg) e =
     (if e = signal_type gs then free_keys fg e - {signal_key gs} else free_keys fg e)"
  by (auto simp: free_keys_def remove_signal_def Let_def signal_eq_key)

lemma free_keys_set_state [simp]: "free_keys (set_state i s fg) e = free_keys fg e"
  by (simp add: free_keys_def set_state_def)

lemma free_keys_channels [simp]: "free_keys (fg\<lparr>channels := cs\<rparr>) e = free_keys fg e"
  by (simp add: free_keys_def)

lemma held_keys_frame [simp]:
  "held_keys cfg (push_back_signal gs fg) e = held_keys cfg fg e"
  "held_keys cfg (remove_signal gs fg) e = held_keys cfg fg e"
  by (simp_all add: held_keys_def busy_def)

lemma busy_frame [simp]:
  "busy cfg (push_back_signal gs fg) i = busy cfg fg i" "busy cfg (remove_signal gs fg) i = busy cfg fg i"
  by (simp_all add: busy_def)

lemma covered_push_back: "covered cfg K (Some gs) fg \<Longrightarrow> covered cfg K None (push_back_signal gs fg)"
  by (erule covered_mono) (auto simp: free_keys_push_back)

lemma covered_push_back_keep: "covered cfg K x fg \<Longrightarrow> covered cfg K x (push_back_signal gs fg)"
  by (erule covered_keep) (auto simp: free_keys_push_back)

lemma busy_set_state:
  "i < length (channels_state fg) \<Longrightarrow>
   busy cfg (set_state i s fg) j \<longleftrightarrow> (if j = i then s \<noteq> 0 \<or> channel_satellite cfg i \<noteq> 0 else busy cfg fg j)"
  by (auto simp: busy_def set_state_def)

lemma covered_set_busy:
  assumes "covered cfg K x fg" and "i < length (channels_state fg)" and "s \<noteq> 0 \<or> channel_satellite cfg i \<noteq> 0"
  shows "covered cfg K x (set_state i s fg)"
proof -
  have "held_keys cfg fg e \<subseteq> held_keys cfg (set_state i s fg) e" for e
    using assms(2,3) by (intro held_keys_mono) (auto simp: busy_set_state)
  then show ?thesis by (intro covered_keep [OF assms(1)]) auto
qed

lemma covered_release:
  assumes "covered cfg K None fg" and "i < length (channels_state fg)"
  shows "covered cfg K (Some (channel_signal i fg)) (set_state i 0 fg)"
proof -
  have "held_keys cfg fg e \<subseteq> held_keys cfg (set_state i 0 fg) e
    \<union> {signal_key s | s. Some (channel_signal i fg) = Some s \<and> signal_type s = e}" for e
  proof
    fix k
    assume "k \<in> held_keys cfg fg e"
    then obtain j where j: "j < channels_count fg" "busy cfg fg j" "signal_type (channel_signal j fg) = e"
      "k = signal_key (channel_signal j fg)" by (auto simp: held_keys_def)
    show "k \<in> held_keys cfg (set_state i 0 fg) e
      \<union> {signal_key s | s. Some (channel_signal i fg) = Some s \<and> signal_type s = e}"
    proof (cases "j = i")
      case True
      then show ?thesis using j by auto
    next
      case False
      then show ?thesis
        using j assms(2) held_keysI [of j "set_state i 0 fg" cfg] by (simp add: busy_set_state)
    qed
  qed
  then show ?thesis by (intro covered_mono [OF assms(1)]) auto
qed

text \<open>Putting back a channel that has kept its signal.\<close>

lemma covered_put:
  assumes "covered cfg K x fg" and "i < channels_count fg" and "ch_signal ch = channel_signal i fg"
  shows "covered cfg K x (fg\<lparr>channels := (channels fg)[i := ch]\<rparr>)"
proof -
  let ?fg = "fg\<lparr>channels := (channels fg)[i := ch]\<rparr>"
  have "channel_signal j ?fg = channel_signal j fg" for j
    using assms(2,3) by (cases "j = i") (simp_all add: channel_signal_def)
  then have "held_keys cfg fg e \<subseteq> held_keys cfg ?fg e" for e
    by (intro held_keys_mono) (simp_all add: busy_def)
  then show ?thesis by (intro covered_keep [OF assms(1)]) (auto simp: free_keys_def)
qed

abbreviation fg_inv ::
  "configuration \<Rightarrow> (string_value \<Rightarrow> (string \<times> nat \<times> int) set) \<Rightarrow> string_value list \<Rightarrow> flowgraph \<Rightarrow> bool" where
  "fg_inv cfg K Ts fg \<equiv> fg_wf Ts fg \<and> covered cfg K None fg"

lemma fg_inv_put:
  assumes inv: "fg_inv cfg K Ts fg" and i: "i < channels_count fg" and same: "same_channel (channels fg ! i) ch"
  shows "fg_inv cfg K Ts (fg\<lparr>channels := (channels fg)[i := ch]\<rparr>)"
proof -
  note ch = fg_wf_channel [OF conjunct1 [OF inv] i]
  have "ch_ok ch" "ch_signal ch = channel_signal i fg" "fsm_channel (ch_fsm ch) = i"
    using same ch by (simp_all add: same_channel_def channel_signal_def)
  then show ?thesis using inv i ch by (auto intro!: fg_wf_put covered_put)
qed

lemma action_acq_failed_ok:
  assumes inv: "fg_inv cfg K Ts fg" and en: "enough K Ts" and who: "who < channels_count fg"
  shows "\<exists>fg'. action_acq_failed cfg who fg = Inr fg' \<and> fg_inv cfg K Ts fg' \<and> queue fg' = queue fg"
proof -
  note ch = fg_wf_channel [OF conjunct1 [OF inv] who]
  define sat where "sat = (if who < 200 then channel_satellite cfg who else 0)"
  define fg0 where "fg0 = decrease_acq_count (set_state who 0 fg)"
  have wf0: "fg_wf Ts fg0" using inv by (simp add: fg0_def)
  show ?thesis
  proof (cases "sat = 0")
    case True
    have "covered cfg K (Some (channel_signal who fg)) fg0"
      using covered_release [of cfg K fg who] inv ch who by (simp add: fg0_def)
    then obtain fg1 where m: "acquisition_manager cfg who fg0 = Inr fg1" "fg_wf Ts fg1"
      "covered cfg K (Some (channel_signal who fg)) fg1" "queue fg1 = queue fg0"
      using acquisition_manager_ok [OF wf0 _ en] by blast
    then have "fg_inv cfg K Ts (push_back_signal (channel_signal who fg) fg1)"
      using covered_push_back fg_wf_push_back ch(2) by blast
    with m(1,4) True show ?thesis by (simp add: action_acq_failed_def fg0_def sat_def [symmetric] del: channels_frame)
  next
    case False
    then have "channel_satellite cfg who \<noteq> 0" by (simp add: sat_def split: if_splits)
    then have "covered cfg K None fg0"
      using covered_set_busy [of cfg K None fg who 0] inv ch who by (simp add: fg0_def)
    then obtain fg1 where "acquisition_manager cfg who fg0 = Inr fg1" "fg_inv cfg K Ts fg1" "queue fg1 = queue fg0"
      using acquisition_manager_ok [OF wf0 _ en] by blast
    with False show ?thesis by (simp add: action_acq_failed_def fg0_def sat_def [symmetric])
  qed
qed

text \<open>A channel that starts tracking takes its satellite out of the list and holds it.\<close>

lemma acq_success_inv:
  assumes inv: "fg_inv cfg K Ts fg" and who: "who < channels_count fg"
  shows "fg_inv cfg K Ts (decrease_acq_count (set_state who 2 (remove_signal (channel_signal who fg) fg)))"
proof -
  note ch = fg_wf_channel [OF conjunct1 [OF inv] who]
  define gs where "gs = channel_signal who fg"
  define fg0 where "fg0 = set_state who 2 (remove_signal gs fg)"
  have "held_keys cfg fg e \<subseteq> held_keys cfg fg0 e" for e
    using who ch by (intro held_keys_mono) (auto simp: fg0_def busy_set_state)
  moreover have "signal_key gs \<in> held_keys cfg fg0 (signal_type gs)"
    using held_keysI [of who fg0 cfg] who ch by (simp add: fg0_def gs_def busy_set_state)
  then have "free_keys fg e \<subseteq> free_keys fg0 e \<union> held_keys cfg fg0 e" for e
    by (auto simp: fg0_def free_keys_remove)
  ultimately have "covered cfg K None fg0" by (intro covered_keep [OF conjunct2 [OF inv]]) blast+
  then show ?thesis using inv fg_wf_remove by (simp add: fg0_def gs_def)
qed

lemma action_acq_success_ok:
  assumes inv: "fg_inv cfg K Ts fg" and en: "enough K Ts" and who: "who < channels_count fg"
  shows "\<exists>fg'. action_acq_success cfg who fg = Inr fg' \<and> fg_inv cfg K Ts fg' \<and> queue fg' = queue fg"
proof -
  note i = acq_success_inv [OF inv who]
  show ?thesis
    using acquisition_manager_ok [OF conjunct1 [OF i] conjunct2 [OF i] en, of who]
    unfolding action_acq_success_def queue_frame by blast
qed

lemma action_trk_failed_ok:
  assumes inv: "fg_inv cfg K Ts fg" and who: "who < channels_count fg"
  shows "\<exists>fg'. action_trk_failed cfg who fg = Inr fg' \<and> fg_inv cfg K Ts fg' \<and> queue fg' = queue fg"
proof -
  note ch = fg_wf_channel [OF conjunct1 [OF inv] who]
  define sat where "sat = (if who < 200 then channel_satellite cfg who else 0)"
  show ?thesis
  proof (cases "acq_channels_count fg < max_acq_channels fg")
    case True
    define fg0 where "fg0 = (set_state who 1 fg)\<lparr>acq_channels_count := acq_channels_count fg + 1\<rparr>"
    have inv0: "fg_inv cfg K Ts fg0"
      using inv ch who covered_set_busy [of cfg K None fg who 1]
      by (simp add: fg0_def)
    have who0: "who < channels_count fg0" "channel_signal who fg0 = channel_signal who fg" "channels fg0 ! who = channels fg ! who"
      using who by (simp_all add: fg0_def channel_signal_def)
    obtain ch1 where s1: "channel_set_signal who (channel_signal who fg) fg0 = Inr (fg0\<lparr>channels := (channels fg0)[who := ch1]\<rparr>)"
      and c1: "ch_signal ch1 = channel_signal who fg" "ch_fsm ch1 = ch_fsm (channels fg0 ! who)"
      using on_channel_signal [OF who0(1) ch(2)] by blast
    define fg1 where "fg1 = fg0\<lparr>channels := (channels fg0)[who := ch1]\<rparr>"
    have w1: "who < channels_count fg1" "channels fg1 ! who = ch1" using who0 by (simp_all add: fg1_def)
    obtain ch2 where s2: "on_channel who start_acquisition fg1 = Inr (fg1\<lparr>channels := (channels fg1)[who := ch2]\<rparr>)"
      and c2: "same_channel ch1 ch2"
      using on_channel_start [OF w1(1)] w1 c1 ch who0 by auto
    define fg2 where "fg2 = fg0\<lparr>channels := (channels fg0)[who := ch2]\<rparr>"
    have eq: "fg1\<lparr>channels := (channels fg1)[who := ch2]\<rparr> = fg2" by (simp add: fg1_def fg2_def)
    have "same_channel (channels fg0 ! who) ch2"
      using c1 c2 who0 by (simp add: same_channel_def channel_signal_def)
    then have "fg_inv cfg K Ts fg2" using fg_inv_put [OF inv0 who0(1)] by (simp add: fg2_def)
    moreover have "action_trk_failed cfg who fg = Inr fg2"
      unfolding action_trk_failed_def Let_def if_P [OF True] fg0_def [symmetric] s1 bindr_Inr
      using s2 [unfolded eq] unfolding fg1_def .
    moreover have "queue fg2 = queue fg" by (simp add: fg2_def fg0_def)
    ultimately show ?thesis by blast
  next
    case False
    show ?thesis
    proof (cases "sat = 0")
      case True
      have "covered cfg K None (push_back_signal (channel_signal who fg) (set_state who 0 fg))"
        using covered_release [of cfg K fg who] inv ch who by (intro covered_push_back) simp
      with False True inv fg_wf_push_back ch show ?thesis by (simp add: action_trk_failed_def sat_def [symmetric])
    next
      case fixed: False
      then have "channel_satellite cfg who \<noteq> 0" by (simp add: sat_def split: if_splits)
      then have "covered cfg K None (set_state who 0 fg)" using covered_set_busy [of cfg K None fg who 0] inv ch who by simp
      with False fixed inv show ?thesis by (simp add: action_trk_failed_def sat_def [symmetric])
    qed
  qed
qed

lemma covered_drop:
  "covered cfg K (Some gs) fg \<Longrightarrow> signal_key gs \<in> free_keys fg (signal_type gs) \<Longrightarrow> covered cfg K None fg"
  by (erule covered_mono) auto

lemma standby_channels_ok:
  assumes "fg_inv cfg K Ts fg" and "\<And>n. n \<in> set ns \<Longrightarrow> n < channels_count fg"
  shows "\<exists>fg'. standby_channels ns fg = Inr fg' \<and> fg_inv cfg K Ts fg' \<and> channels_count fg' = channels_count fg \<and> queue fg' = queue fg"
  using assms
proof (induction ns arbitrary: fg)
  case Nil
  then show ?case by simp
next
  case (Cons n ns)
  have n: "n < channels_count fg" using Cons.prems by simp
  note ch = fg_wf_channel [OF conjunct1 [OF Cons.prems(1)] n]
  show ?case
  proof (cases "channels_state fg ! n = 1 \<or> channels_state fg ! n = 2")
    case True
    define gs where "gs = channel_signal n fg"
    define fg1 where "fg1 = push_back_signal gs fg"
    have inv1: "fg_inv cfg K Ts fg1"
      using Cons.prems(1) covered_push_back_keep fg_wf_push_back ch(2) by (auto simp: fg1_def gs_def)
    obtain ch' where stop: "stop_channel (channels fg ! n) = Inr (ch', [])" and same: "same_channel (channels fg ! n) ch'"
      using stop_channel_spec [OF ch(1)] by blast
    define fg2 where "fg2 = fg1\<lparr>channels := (channels fg1)[n := ch']\<rparr>"
    have inv2: "fg_inv cfg K Ts fg2"
      unfolding fg2_def by (rule fg_inv_put [OF inv1]) (use n same in \<open>simp_all add: fg1_def\<close>)
    have sig: "channel_signal n fg2 = gs"
      using n same by (simp add: fg2_def fg1_def gs_def channel_signal_def same_channel_def)
    have "signal_key gs \<in> free_keys (set_state n 0 fg2) (signal_type gs)"
      by (simp add: fg2_def fg1_def free_keys_push_back)
    moreover have "covered cfg K (Some gs) (set_state n 0 fg2)"
      using covered_release [of cfg K fg2 n] inv2 sig n ch by (simp add: fg2_def fg1_def)
    ultimately have "fg_inv cfg K Ts (set_state n 0 fg2)" using covered_drop inv2 by simp
    moreover have "on_channel n stop_channel fg1 = Inr fg2"
      using n stop by (simp add: on_channel_def fg2_def) (simp add: fg1_def)
    moreover have "channels_count (set_state n 0 fg2) = channels_count fg" "queue (set_state n 0 fg2) = queue fg"
      by (simp_all add: fg2_def fg1_def)
    ultimately show ?thesis
      using Cons.IH [of "set_state n 0 fg2"] Cons.prems(2) True ch by (simp add: fg1_def gs_def) (use n in linarith)
  next
    case False
    then show ?thesis using Cons.IH [of fg] Cons.prems ch by simp (use n in linarith)
  qed
qed

lemma apply_action_ok:
  assumes inv: "fg_inv cfg K Ts fg" and en: "enough K Ts" and who: "what \<in> {0, 1, 2} \<Longrightarrow> who < channels_count fg"
  shows "\<exists>fg'. apply_action cfg who what fg = Inr fg' \<and> fg_inv cfg K Ts fg' \<and> queue fg' = queue fg"
proof -
  have len: "length (channels_state fg) = channels_count fg" using inv by (simp add: fg_wf_def)
  consider "what = 0" | "what = 1" | "what = 2" | "what = 10" | "what \<notin> {0, 1, 2, 10}" by blast
  then show ?thesis
  proof cases
    case 1
    then show ?thesis using action_acq_failed_ok [OF inv en] who len by (simp add: apply_action_def)
  next
    case 2
    then show ?thesis using action_acq_success_ok [OF inv en] who len by (simp add: apply_action_def)
  next
    case 3
    then show ?thesis using action_trk_failed_ok [OF inv] who len by (simp add: apply_action_def)
  next
    case 4
    then show ?thesis
      using standby_channels_ok [OF inv, of "[0..<channels_count fg]"] by (auto simp: apply_action_def action_standby_def)
  next
    case 5
    then show ?thesis using inv by (simp add: apply_action_def)
  qed
qed

lemma prioritise_keys: "signal_key ` set (prioritise gs xs) = signal_key ` set xs"
proof (cases "\<exists>x \<in> set xs. signal_eq x gs")
  case True
  then obtain x where x: "x \<in> set xs" "signal_key x = signal_key gs" by (auto simp: signal_eq_key)
  then have "length (list_remove gs xs) < length xs"
    unfolding list_remove_def by (intro length_filter_less [of x]) (simp_all add: signal_eq_key)
  then have "set (prioritise gs xs) = insert gs {y \<in> set xs. signal_key y \<noteq> signal_key gs}"
    by (simp add: prioritise_def Let_def signal_eq_key)
  then show ?thesis using x by (auto simp: image_iff) metis
next
  case False
  then have "list_remove gs xs = xs" unfolding list_remove_def by (intro filter_True) auto
  then show ?thesis by (simp add: prioritise_def)
qed

lemma prioritise_in_ok:
  assumes inv: "fg_inv cfg K Ts fg" and gs: "wf_signal gs" "signal_type gs = e"
  shows "fg_inv cfg K Ts (prioritise_in e gs fg)"
proof -
  have "free_keys (prioritise_in e gs fg) e' = free_keys fg e'" for e'
    by (simp add: free_keys_def prioritise_in_def prioritise_keys)
  moreover have "held_keys cfg (prioritise_in e gs fg) e' = held_keys cfg fg e'" for e'
    by (simp add: held_keys_def busy_def channel_signal_def prioritise_in_def)
  ultimately have "covered cfg K None (prioritise_in e gs fg)"
    by (intro covered_keep [OF conjunct2 [OF inv]]) simp_all
  moreover have "fg_wf Ts (prioritise_in e gs fg)"
    unfolding prioritise_in_def
  proof (rule fg_wf_available [OF conjunct1 [OF inv]])
    have "list_wf e (available fg e)" using inv by (simp add: fg_wf_def)
    then show "list_wf e (prioritise gs (available fg e))"
      by (rule list_wf_insert [OF _ gs]) (auto simp: prioritise_def Let_def)
  qed
  ultimately show ?thesis by simp
qed

lemma priorize_satellites_ok: "fg_inv cfg K Ts fg \<Longrightarrow> fg_inv cfg K Ts (priorize_satellites vs fg)"
proof (induction vs arbitrary: fg rule: list.induct)
  case Nil
  then show ?case by simp
next
  case (Cons v vs)
  obtain k sat where v: "v = (k, sat)" by (cases v)
  have p: "fg_inv cfg K Ts (prioritise_in e (Gnss_Signal sat s) f)"
    if "sat_system sat \<in> {''GPS'', ''Galileo''}" "s \<noteq> []" "string_value_of s = e" "fg_inv cfg K Ts f" for e s f
    by (rule prioritise_in_ok) (use that in \<open>auto simp: wf_signal_def Gnss_Signal_def system_set_def\<close>)
  have sv: "string_value_of ''1C'' = EvGPS_1C" "string_value_of ''2S'' = EvGPS_2S" "string_value_of ''L5'' = EvGPS_L5"
    "string_value_of ''1B'' = EvGAL_1B" "string_value_of ''5X'' = EvGAL_5X" "string_value_of ''7X'' = EvGAL_7X"
    "string_value_of ''E6'' = EvGAL_E6"
    by (simp_all add: string_value_of_def mapStringValues_def)
  note gps = p [OF _ _ sv(3) p [OF _ _ sv(2) p [OF _ _ sv(1) Cons.prems]]]
  note gal = p [OF _ _ sv(7) p [OF _ _ sv(6) p [OF _ _ sv(5) p [OF _ _ sv(4) Cons.prems]]]]
  show ?case
    unfolding v priorize_satellites.simps
    by (rule Cons.IH) (use Cons.prems gps gal in simp)
qed

end
