(* ===== verification/Receiver_Start.thy ===== *)
theory Receiver_Start
  imports Flowgraph_Correct
begin

section \<open>The receiver starts with every satellite accounted for\<close>

text \<open>
  From the constructor of the flow graph through \<^verbatim>\<open>assign_channels\<close> and the activation of the
  channels: when every kind of signal has more satellites than channels, the flow graph is
  connected without touching an empty list, the invariants of \<open>Flowgraph_Correct\<close> hold, and the
  channels in acquisition are the first \<^verbatim>\<open>Channels.in_acquisition\<close> ones.
\<close>

definition config_types :: "configuration \<Rightarrow> string_value list" where
  "config_types cfg = map string_value_of (channel_signal_strs cfg)"

definition pool_keys :: "flowgraph \<Rightarrow> string_value \<Rightarrow> (string \<times> nat \<times> int) set" where
  "pool_keys fg e = signal_key ` set (available fg e)"

definition fixed_keys :: "configuration \<Rightarrow> nat set \<Rightarrow> flowgraph \<Rightarrow> string_value \<Rightarrow> (string \<times> nat \<times> int) set" where
  "fixed_keys cfg S fg e =
     {signal_key (channel_signal i fg) | i. i \<in> S \<and> channel_satellite cfg i \<noteq> 0 \<and> signal_type (channel_signal i fg) = e}"

text \<open>While satellites are being assigned: \<open>S\<close> are the channels that have one.\<close>

definition assigning ::
  "configuration \<Rightarrow> (string_value \<Rightarrow> (string \<times> nat \<times> int) set) \<Rightarrow> string_value list \<Rightarrow> nat set \<Rightarrow> flowgraph \<Rightarrow> bool" where
  "assigning cfg K Ts S fg \<longleftrightarrow>
     length (channels_state fg) = channels_count fg
     \<and> map (signal_type \<circ> ch_signal) (channels fg) = Ts
     \<and> (\<forall>ch \<in> set (channels fg). ch_ok ch \<and> ch_phase ch = 0 \<and> sig_str (ch_signal ch) \<noteq> [])
     \<and> (\<forall>i < channels_count fg. fsm_channel (ch_fsm (channels fg ! i)) = i)
     \<and> (\<forall>e. list_wf e (available fg e))
     \<and> channels_status fg = [] \<and> queue fg = []
     \<and> (\<forall>i \<in> S. i < channels_count fg \<and> wf_signal (channel_signal i fg))
     \<and> (\<forall>e. K e \<subseteq> free_keys fg e \<union> fixed_keys cfg S fg e)"

lemma assigning_channel:
  assumes "assigning cfg K Ts S fg" and "i < channels_count fg"
  shows "ch_ok (channels fg ! i)" and "ch_phase (channels fg ! i) = 0" and "sig_str (channel_signal i fg) \<noteq> []"
    and "signal_type (channel_signal i fg) = Ts ! i" and "length Ts = channels_count fg"
    and "fsm_channel (ch_fsm (channels fg ! i)) = i"
  using assms by (auto simp: assigning_def channel_signal_def)

lemma search_unassisted:
  "channels_status fg = [] \<Longrightarrow> search_next_signal cfg s fg = Inr (sr, fg') \<Longrightarrow> \<not> assistance_available sr"
  by (auto simp: search_next_signal_def take_front_def take_assisted_def search_GPS_2S_def search_GPS_L5_def
      search_GAL_5X_def search_GAL_7X_def search_GAL_E6_def search_default_def split: string_value.splits list.splits if_splits)

text \<open>The effect of giving a channel a signal while a list changes.\<close>

lemma assigning_put:
  assumes a: "assigning cfg K Ts S fg" and i: "i < channels_count fg" "i \<notin> S"
    and gs: "wf_signal gs" "signal_type gs = Ts ! i"
    and ys: "set ys \<subseteq> set (available fg (Ts ! i))"
    and keys: "signal_key ` set (available fg (Ts ! i)) \<subseteq>
      signal_key ` set ys \<union> (if channel_satellite cfg i \<noteq> 0 then {signal_key gs} else {})"
    and ch: "ch_signal ch = gs" "ch_fsm ch = ch_fsm (channels fg ! i)"
  shows "assigning cfg K Ts (insert i S)
    (fg\<lparr>available := (available fg)(Ts ! i := ys), channels := (channels fg)[i := ch]\<rparr>)"
proof -
  let ?fg = "fg\<lparr>available := (available fg)(Ts ! i := ys), channels := (channels fg)[i := ch]\<rparr>"
  note c = assigning_channel [OF a i(1)]
  have sig: "channel_signal j ?fg = (if j = i then gs else channel_signal j fg)" for j
    using i ch by (simp add: channel_signal_def)
  have types: "map (signal_type \<circ> ch_signal) (channels ?fg) = Ts"
    using a i ch gs by (auto simp: assigning_def map_update)
  have "set ((channels fg)[i := ch]) \<subseteq> insert ch (set (channels fg))" by (rule set_update_subset_insert)
  then have chs: "\<forall>ch' \<in> set (channels ?fg). ch_ok ch' \<and> ch_phase ch' = 0 \<and> sig_str (ch_signal ch') \<noteq> []"
    using a c ch gs by (auto simp: assigning_def wf_signal_def)
  have ids: "\<forall>j < channels_count ?fg. fsm_channel (ch_fsm (channels ?fg ! j)) = j"
  proof (intro allI impI)
    fix j
    assume "j < channels_count ?fg"
    then show "fsm_channel (ch_fsm (channels ?fg ! j)) = j"
      using a c ch i by (cases "j = i") (auto simp: assigning_def)
  qed
  have av: "\<forall>e. list_wf e (available ?fg e)"
    using a ys by (auto simp: assigning_def intro: list_wf_subset)
  have S: "\<forall>j \<in> insert i S. j < channels_count ?fg \<and> wf_signal (channel_signal j ?fg)"
    using a i gs by (auto simp: sig assigning_def)
  have fixed: "fixed_keys cfg S fg e \<subseteq> fixed_keys cfg (insert i S) ?fg e" for e
    using i(2) unfolding fixed_keys_def by (auto simp: sig)
  have new: "channel_satellite cfg i \<noteq> 0 \<Longrightarrow> signal_key gs \<in> fixed_keys cfg (insert i S) ?fg (Ts ! i)"
    using gs(2) unfolding fixed_keys_def by (auto simp: sig)
  have free: "free_keys fg e \<subseteq> free_keys ?fg e \<union> fixed_keys cfg (insert i S) ?fg e" for e
    using keys new by (cases "e = Ts ! i") (auto simp: free_keys_def split: if_splits)
  have K: "K e \<subseteq> free_keys ?fg e \<union> fixed_keys cfg (insert i S) ?fg e" for e
  proof -
    have "K e \<subseteq> free_keys fg e \<union> fixed_keys cfg S fg e" using a by (simp add: assigning_def)
    then show ?thesis using free [of e] fixed [of e] by blast
  qed
  show ?thesis
    unfolding assigning_def
  proof (intro conjI allI)
    show "K e \<subseteq> free_keys ?fg e \<union> fixed_keys cfg (insert i S) ?fg e" for e by (rule K)
  qed (use a types chs ids av S in \<open>simp_all add: assigning_def\<close>)
qed

lemma assigning_pool_not_empty:
  assumes a: "assigning cfg K Ts S fg" and en: "enough K Ts" and i: "i < channels_count fg" "i \<notin> S"
  shows "available fg (Ts ! i) \<noteq> []"
proof
  define e where "e = Ts ! i"
  define I where "I = {j. j < length Ts \<and> Ts ! j = e}"
  assume "available fg (Ts ! i) = []"
  then have "free_keys fg e = {}" by (simp add: free_keys_def e_def)
  then have "K e \<subseteq> fixed_keys cfg S fg e" using a unfolding assigning_def by blast
  moreover have "fixed_keys cfg S fg e \<subseteq> (\<lambda>j. signal_key (channel_signal j fg)) ` (I - {i})"
  proof
    fix k
    assume "k \<in> fixed_keys cfg S fg e"
    then obtain j where j: "j \<in> S" "signal_type (channel_signal j fg) = e" "k = signal_key (channel_signal j fg)"
      by (auto simp: fixed_keys_def)
    moreover have "j < channels_count fg" using j a by (auto simp: assigning_def)
    ultimately show "k \<in> (\<lambda>j. signal_key (channel_signal j fg)) ` (I - {i})"
      using i assigning_channel(4,5) [OF a] by (auto simp: I_def)
  qed
  ultimately have "card (K e) \<le> card ((\<lambda>j. signal_key (channel_signal j fg)) ` (I - {i}))"
    by (intro card_mono) (auto simp: I_def)
  also have "\<dots> \<le> card (I - {i})" by (rule card_image_le) (simp add: I_def)
  also have "\<dots> \<le> count_list Ts e" unfolding count_list_card I_def [symmetric] by (rule card_mono) (auto simp: I_def)
  finally have "card (K e) \<le> count_list Ts e" .
  moreover have "e \<in> set Ts" using i assigning_channel(5) [OF a i(1)] by (simp add: e_def)
  ultimately show False using en by (auto simp: enough_def)
qed

lemma signal_system_known: "signal_system e \<in> set system_set"
  by (cases e) (simp_all add: signal_system_def system_set_def)

definition same_counts :: "flowgraph \<Rightarrow> flowgraph \<Rightarrow> bool" where
  "same_counts fg fg' \<longleftrightarrow> channels_state fg' = channels_state fg \<and> acq_channels_count fg' = acq_channels_count fg
     \<and> max_acq_channels fg' = max_acq_channels fg \<and> channels_count fg' = channels_count fg"

lemma assign_channel_ok:
  assumes a: "assigning cfg K Ts S fg" and en: "enough K Ts" and i: "i < channels_count fg" "i \<notin> S"
  shows "\<exists>fg'. assign_channel cfg i fg = Inr fg' \<and> assigning cfg K Ts (insert i S) fg' \<and> same_counts fg fg'"
proof -
  note c = assigning_channel [OF a i(1)]
  define e where "e = Ts ! i"
  have e: "string_value_of (sig_str (channel_signal i fg)) = e" using c by (simp add: e_def)
  show ?thesis
  proof (cases "channel_satellite cfg i = 0")
    case True
    have "available fg (string_value_of (sig_str (channel_signal i fg))) \<noteq> []"
      using assigning_pool_not_empty [OF a en i] e by (simp add: e_def)
    note sp = search_spec [OF this, of cfg, unfolded e]
    obtain sr ys where s:
      "search_next_signal cfg (sig_str (channel_signal i fg)) fg = Inr (sr, fg\<lparr>available := (available fg)(e := ys)\<rparr>)"
      "set (available fg e) = insert (sr_signal sr) (set ys)" "sr_signal sr \<in> set ys \<or> assistance_available sr"
      using sp by (elim exE conjE) (rule that)
    have "channels_status fg = []" using a by (simp add: assigning_def)
    then have "\<not> assistance_available sr" by (rule search_unassisted [OF _ s(1)])
    with s(2,3) have set: "set (available fg e) = set ys" "sr_signal sr \<in> set ys" by auto
    have gs: "wf_signal (sr_signal sr)" "signal_type (sr_signal sr) = e"
      using a set list_wfD [of "sig_str (channel_signal i fg)" "available fg e" "sr_signal sr"] by (simp_all add: assigning_def e)
    define fg1 where "fg1 = fg\<lparr>available := (available fg)(e := ys)\<rparr>"
    obtain ch where ch: "channel_set_signal i (sr_signal sr) fg1 = Inr (fg1\<lparr>channels := (channels fg1)[i := ch]\<rparr>)"
      "ch_signal ch = sr_signal sr" "ch_fsm ch = ch_fsm (channels fg1 ! i)"
      using on_channel_signal [OF _ gs(1), of i fg1] i by (auto simp: fg1_def)
    have "assigning cfg K Ts (insert i S) (fg1\<lparr>channels := (channels fg1)[i := ch]\<rparr>)"
      unfolding fg1_def e_def
      by (simp, rule assigning_put [OF a i]) (use gs set ch in \<open>simp_all add: e_def fg1_def\<close>)
    moreover have "assign_channel cfg i fg = Inr (fg1\<lparr>channels := (channels fg1)[i := ch]\<rparr>)"
      using i True s(1) ch(1) by (simp add: assign_channel_def Let_def fg1_def)
    ultimately show ?thesis by (auto simp: same_counts_def fg1_def)
  next
    case False
    have ne: "e \<noteq> EvSBAS_1C" using e string_value_of_not_SBAS by blast
    define gs where "gs = Gnss_Signal (Gnss_Satellite (signal_system e) (channel_satellite cfg i)) (sig_str (channel_signal i fg))"
    define ys where "ys = list_remove gs (available fg e)"
    have wfgs: "wf_signal gs" "signal_type gs = e"
      using c e signal_system_known by (simp_all add: gs_def wf_signal_def Gnss_Signal_def satellite_system)
    define fg1 where "fg1 = fg\<lparr>available := (available fg)(e := ys)\<rparr>"
    obtain ch where ch: "channel_set_signal i gs fg1 = Inr (fg1\<lparr>channels := (channels fg1)[i := ch]\<rparr>)"
      "ch_signal ch = gs" "ch_fsm ch = ch_fsm (channels fg1 ! i)"
      using on_channel_signal [OF _ wfgs(1), of i fg1] i by (auto simp: fg1_def)
    have "assigning cfg K Ts (insert i S) (fg1\<lparr>channels := (channels fg1)[i := ch]\<rparr>)"
      unfolding fg1_def e_def
      by (simp, rule assigning_put [OF a i])
        (use wfgs ch False in \<open>auto simp: e_def fg1_def ys_def signal_eq_key\<close>)
    moreover have "assign_channel cfg i fg = Inr (fg1\<lparr>channels := (channels fg1)[i := ch]\<rparr>)"
      using i False ch(1) ne by (simp add: assign_channel_def Let_def fg1_def e gs_def ys_def)
    ultimately show ?thesis by (auto simp: same_counts_def fg1_def)
  qed
qed

lemma assign_each_ok:
  assumes "assigning cfg K Ts S fg" and "enough K Ts" and "distinct is" and "set is \<inter> S = {}"
    and "\<And>i. i \<in> set is \<Longrightarrow> i < channels_count fg"
  shows "\<exists>fg'. assign_each cfg is fg = Inr fg' \<and> assigning cfg K Ts (S \<union> set is) fg' \<and> same_counts fg fg'"
  using assms
proof (induction "is" arbitrary: S fg)
  case Nil
  then show ?case by (simp add: same_counts_def)
next
  case (Cons i "is")
  obtain fg1 where f1: "assign_channel cfg i fg = Inr fg1" "assigning cfg K Ts (insert i S) fg1" "same_counts fg fg1"
    using assign_channel_ok [OF Cons.prems(1,2), of i] Cons.prems by auto
  with Cons.IH [OF f1(2) Cons.prems(2)] Cons.prems show ?case by (auto simp: same_counts_def)
qed

lemma vector_of_channels_perm:
  "distinct (vector_of_channels cfg n)" "set (vector_of_channels cfg n) = {0..<n}"
proof -
  have "distinct (foldl (\<lambda>v i. if channel_satellite cfg i = 0 then v @ [i] else i # v) v xs)
      \<and> set (foldl (\<lambda>v i. if channel_satellite cfg i = 0 then v @ [i] else i # v) v xs) = set v \<union> set xs"
    if "distinct v" "distinct xs" "set v \<inter> set xs = {}" for v xs
    using that by (induction xs arbitrary: v) auto
  from this [of "[]" "[0..<n]"] show "distinct (vector_of_channels cfg n)" "set (vector_of_channels cfg n) = {0..<n}"
    by (simp_all add: vector_of_channels_def)
qed

subsection \<open>Activation\<close>

lemma activate_channels_ok:
  assumes "fg_inv cfg K Ts fg" and "\<And>i. i \<in> set is \<Longrightarrow> i < channels_count fg"
    and "\<And>i. i < channels_count fg \<Longrightarrow> ch_phase (channels fg ! i) \<in> {0, 1}"
  shows "\<exists>fg'. activate_channels is fg = Inr fg' \<and> fg_inv cfg K Ts fg' \<and> same_counts fg fg' \<and> queue fg' = queue fg
    \<and> (\<forall>i < channels_count fg. ch_phase (channels fg' ! i) =
         (if i \<in> set is \<and> channels_state fg ! i = 1 then 1 else ch_phase (channels fg ! i)))"
  using assms
proof (induction "is" arbitrary: fg)
  case Nil
  then show ?case by (simp add: same_counts_def)
next
  case (Cons i "is")
  have i: "i < channels_count fg" using Cons.prems by simp
  note c = fg_wf_channel [OF conjunct1 [OF Cons.prems(1)] i]
  have len: "\<not> length (channels_state fg) \<le> i" using c i by linarith
  show ?case
  proof (cases "channels_state fg ! i = 1")
    case True
    obtain ch where ch: "on_channel i start_acquisition fg = Inr (fg\<lparr>channels := (channels fg)[i := ch]\<rparr>)"
      "same_channel (channels fg ! i) ch" "ch_phase ch = 1"
      using on_channel_start [OF i c(1)] Cons.prems(3) [OF i] by auto
    define fg1 where "fg1 = fg\<lparr>channels := (channels fg)[i := ch]\<rparr>"
    have "fg_inv cfg K Ts fg1" unfolding fg1_def by (rule fg_inv_put [OF Cons.prems(1) i ch(2)])
    moreover have ph: "ch_phase (channels fg1 ! j) = (if j = i then 1 else ch_phase (channels fg ! j))" for j
      using i ch(3) by (simp add: fg1_def)
    moreover have "channels_count fg1 = channels_count fg" "channels_state fg1 = channels_state fg" "queue fg1 = queue fg"
      by (simp_all add: fg1_def)
    ultimately have "\<exists>fg'. activate_channels is fg1 = Inr fg' \<and> fg_inv cfg K Ts fg' \<and> same_counts fg1 fg' \<and> queue fg' = queue fg1
      \<and> (\<forall>j < channels_count fg1. ch_phase (channels fg' ! j) =
         (if j \<in> set is \<and> channels_state fg1 ! j = 1 then 1 else ch_phase (channels fg1 ! j)))"
      using Cons.prems by (intro Cons.IH) auto
    then obtain fg' where f: "activate_channels is fg1 = Inr fg'" "fg_inv cfg K Ts fg'" "same_counts fg1 fg'" "queue fg' = queue fg"
      "\<And>j. j < channels_count fg \<Longrightarrow> ch_phase (channels fg' ! j) =
         (if j \<in> set is \<and> channels_state fg ! j = 1 then 1 else ch_phase (channels fg1 ! j))"
      by (auto simp: fg1_def)
    have "activate_channels (i # is) fg = Inr fg'" using True len ch(1) f(1) by (simp add: fg1_def)
    moreover have "same_counts fg fg'" using f(3) by (simp add: same_counts_def fg1_def)
    ultimately show ?thesis using f(2,4,5) True ph by (intro exI [where x = fg']) auto
  next
    case False
    then have eq: "activate_channels (i # is) fg = activate_channels is fg" using len by simp
    have "\<exists>fg'. activate_channels is fg = Inr fg' \<and> fg_inv cfg K Ts fg' \<and> same_counts fg fg' \<and> queue fg' = queue fg
      \<and> (\<forall>j < channels_count fg. ch_phase (channels fg' ! j) =
         (if j \<in> set is \<and> channels_state fg ! j = 1 then 1 else ch_phase (channels fg ! j)))"
      using Cons.prems by (intro Cons.IH) auto
    then show ?thesis using False unfolding eq by auto
  qed
qed

subsection \<open>The new flow graph\<close>

lemma GetChannels_nth:
  "i < length (channel_signal_strs cfg) \<Longrightarrow> GetChannels flags cfg ! i = Channel flags cfg i (channel_signal_strs cfg ! i)"
  by (simp add: GetChannels_def nth_enumerate_eq split_def)

lemma length_GetChannels: "length (GetChannels flags cfg) = length (channel_signal_strs cfg)"
  by (simp add: GetChannels_def)

lemma channel_signal_strs_known: "s \<in> set (channel_signal_strs cfg) \<Longrightarrow> s \<noteq> []"
  by (auto simp: channel_signal_strs_def Let_def)

lemma Channel_fresh:
  "ch_ok (Channel flags cfg i s)" "ch_phase (Channel flags cfg i s) = 0"
  "ch_signal (Channel flags cfg i s) = default_signal s" "fsm_channel (ch_fsm (Channel flags cfg i s)) = i"
  by (simp_all add: Channel_def fsm_wired_def set_queue_def set_channel_def set_telemetry_def set_tracking_def
      set_acquisition_def new_channel_fsm_def)

lemma signals_if_wf:
  assumes "s \<in> set (signals_if cfg c system signal prns)" and "system \<in> set system_set" and "signal \<noteq> []"
  shows "wf_signal s" and "sig_str s = signal"
  using assms by (auto simp: signals_if_def wf_signal_def Gnss_Signal_def satellite_system split: if_splits)

lemma set_signals_list_wf:
  assumes "set_signals_list boost cfg = Inr ls"
  shows "list_wf e (ls e)"
  unfolding list_wf_def
proof (intro impI ballI)
  fix s
  assume ne: "e \<noteq> EvSBAS_1C" and s: "s \<in> set (ls e)"
  obtain c system signal prns where "ls e = signals_if cfg c system signal prns" "system \<in> set system_set"
    "signal \<noteq> []" "string_value_of signal = e"
    using assms ne
    by (cases e) (auto simp: set_signals_list_def bindr_eq_Inr system_set_def string_value_of_def mapStringValues_def)
  then show "wf_signal s \<and> signal_type s = e" using signals_if_wf [of s cfg c system signal prns] s by simp
qed

lemma GNSSFlowgraph_fields:
  assumes "GNSSFlowgraph boost flags cfg = Inr fg"
  shows "channels fg = GetChannels flags cfg" and "channels_status fg = []" and "queue fg = []"
    and "set_signals_list boost cfg = Inr (available fg)"
    and "channels_state fg = map (\<lambda>i. if int i < max_acq_channels fg then 1 else 0) [0..<channels_count fg]"
    and "acq_channels_count fg = max_acq_channels fg" and "max_acq_channels fg \<le> int (channels_count fg)"
    and "max_acq_channels fg = min (int (channels_count fg)) (property_int cfg ''Channels.in_acquisition'' (int (channels_count fg)))"
  using assms by (auto simp: GNSSFlowgraph_def bindr_eq_Inr set_channels_state_def Let_def)

lemma new_flowgraph_assigning:
  assumes new: "GNSSFlowgraph boost flags cfg = Inr fg"
  shows "assigning cfg (pool_keys fg) (config_types cfg) {} fg"
proof -
  note f = GNSSFlowgraph_fields [OF new]
  have n: "channels_count fg = length (channel_signal_strs cfg)" by (simp add: f(1) length_GetChannels)
  have ch: "channels fg ! i = Channel flags cfg i (channel_signal_strs cfg ! i)" if "i < channels_count fg" for i
    using that by (simp add: f(1) length_GetChannels GetChannels_nth)
  have "map (signal_type \<circ> ch_signal) (channels fg) = config_types cfg"
    by (rule nth_equalityI) (simp_all add: n config_types_def ch Channel_fresh default_signal_def)
  moreover have "ch_ok c \<and> ch_phase c = 0 \<and> sig_str (ch_signal c) \<noteq> []" if mem: "c \<in> set (channels fg)" for c
  proof -
    obtain i where i: "i < channels_count fg" "c = channels fg ! i" using mem unfolding in_set_conv_nth by auto
    then have "channel_signal_strs cfg ! i \<noteq> []" by (intro channel_signal_strs_known [of _ cfg] nth_mem) (simp add: n)
    then show ?thesis using i ch by (simp add: Channel_fresh default_signal_def)
  qed
  moreover have "list_wf e (available fg e)" for e by (rule set_signals_list_wf [OF f(4)])
  moreover have "fsm_channel (ch_fsm (channels fg ! i)) = i" if "i < channels_count fg" for i
    using ch [OF that] by (simp add: Channel_fresh)
  moreover have "length (channels_state fg) = channels_count fg" unfolding f(5) by simp
  ultimately show ?thesis
    unfolding assigning_def using f(2,3) by (simp add: pool_keys_def free_keys_def)
qed

lemma assigned_inv:
  assumes a: "assigning cfg K Ts {0..<channels_count fg} fg"
  shows "fg_inv cfg K Ts fg"
proof -
  have "ch_ok ch \<and> wf_signal (ch_signal ch)" if mem: "ch \<in> set (channels fg)" for ch
  proof -
    obtain i where i: "i < channels_count fg" "ch = channels fg ! i" using mem unfolding in_set_conv_nth by auto
    then show ?thesis using a by (auto simp: assigning_def channel_signal_def)
  qed
  then have wf: "fg_wf Ts fg" using a by (simp add: assigning_def fg_wf_def)
  have "fixed_keys cfg {0..<channels_count fg} fg e \<subseteq> held_keys cfg fg e" for e
    by (auto simp: fixed_keys_def held_keys_def busy_def)
  then have "covered cfg K None fg" using a unfolding covered_def assigning_def by blast
  with wf show ?thesis by simp
qed

definition pools_suffice :: "configuration \<Rightarrow> flowgraph \<Rightarrow> bool" where
  "pools_suffice cfg fg \<longleftrightarrow>
     (\<forall>e \<in> set (config_types cfg). count_list (config_types cfg) e < card (pool_keys fg e))"

lemma pools_suffice_enough: "pools_suffice cfg fg \<Longrightarrow> enough (pool_keys fg) (config_types cfg)"
  by (simp add: pools_suffice_def enough_def pool_keys_def)

lemma connect_ok:
  assumes new: "GNSSFlowgraph boost flags cfg = Inr fg0" and en: "pools_suffice cfg fg0"
    and fit: "channels_fit cfg fg0" "property_int cfg ''Channels.in_acquisition'' 0 \<le> int (channels_count fg0)"
  shows "\<exists>fg. connect_desktop_flowgraph cfg fg0 = Inr (Some fg) \<and> fg_inv cfg (pool_keys fg0) (config_types cfg) fg
    \<and> same_counts fg0 fg \<and> queue fg = []
    \<and> (\<forall>i < channels_count fg. ch_phase (channels fg ! i) = (if channels_state fg ! i = 1 then 1 else 0))"
proof -
  define n where "n = channels_count fg0"
  have v: "distinct (vector_of_channels cfg n)" "set (vector_of_channels cfg n) = {0..<n}"
    by (rule vector_of_channels_perm)+
  obtain fg1 where f1: "assign_each cfg (vector_of_channels cfg n) fg0 = Inr fg1"
    "assigning cfg (pool_keys fg0) (config_types cfg) {0..<n} fg1" "same_counts fg0 fg1"
    using assign_each_ok [OF new_flowgraph_assigning [OF new] pools_suffice_enough [OF en] v(1)] v(2)
    by (auto simp: n_def)
  have n1: "channels_count fg1 = n" using f1(3) by (simp add: same_counts_def n_def)
  have inv: "fg_inv cfg (pool_keys fg0) (config_types cfg) fg1" using assigned_inv f1(2) n1 by simp
  have ph: "ch_phase (channels fg1 ! i) = 0" if "i < channels_count fg1" for i
    using assigning_channel(2) [OF f1(2) that] .
  have q1: "queue fg1 = []" using f1(2) by (simp add: assigning_def)
  obtain fg2 where f2: "activate_channels [0..<n] fg1 = Inr fg2" "fg_inv cfg (pool_keys fg0) (config_types cfg) fg2"
    "same_counts fg1 fg2" "queue fg2 = queue fg1"
    "\<And>i. i < channels_count fg1 \<Longrightarrow> ch_phase (channels fg2 ! i) =
      (if i \<in> set [0..<n] \<and> channels_state fg1 ! i = 1 then 1 else ch_phase (channels fg1 ! i))"
    using activate_channels_ok [OF inv, of "[0..<n]"] ph n1 by auto
  have "connect_desktop_flowgraph cfg fg0 = Inr (Some fg2)"
    using fit f1(1) f2(1) n1 by (simp add: connect_desktop_flowgraph_def assign_channels_def n_def)
  moreover have "same_counts fg0 fg2" using f1(3) f2(3) by (simp add: same_counts_def)
  moreover have "ch_phase (channels fg2 ! i) = (if channels_state fg2 ! i = 1 then 1 else 0)"
    if "i < channels_count fg2" for i
    using f2(3,5) ph n1 that by (simp add: same_counts_def)
  ultimately show ?thesis using f2(2,4) q1 by auto
qed

end
