(* ===== verification/Receiver_Correct.thy ===== *)
theory Receiver_Correct
  imports Receiver_Start
begin

section \<open>The running receiver\<close>

text \<open>
  The control plane as a transition system: the blocks of the channels send messages, the
  observables report the status of the channels, an operator sends commands, and the control
  thread takes one message after the other from its queue. The control thread is the only one
  that works on the flow graph, and a block message only touches its own channel and the end of
  the queue, so each step is atomic.
\<close>

datatype operator_act = Command nat nat | Assist

definition operator_acts :: "operator_act list" where
  "operator_acts = [Command 200 0, Command 200 1, Command 300 10, Command 300 11, Command 300 12, Command 300 13, Assist]"

text \<open>The acts that do not stop channels behind the back of their state machines.\<close>

definition calm_acts :: "operator_act list" where
  "calm_acts = [Command 200 0, Command 200 1, Command 300 11, Command 300 12, Command 300 13]"

definition new_control_thread :: "flowgraph \<Rightarrow> control_thread" where
  "new_control_thread fg = \<lparr>ct_flowgraph = fg, receiver_on_standby = False, ct_stop = False, ct_restart = False,
     processed_control_messages = 0, applied_actions = 0, control_calls = []\<rparr>"

inductive receiver_step ::
  "configuration \<Rightarrow> operator_act list \<Rightarrow> control_thread \<Rightarrow> control_thread \<Rightarrow> bool" for cfg acts where
  Block: "c < channels_count (ct_flowgraph ct) \<Longrightarrow>
    on_channel c (msg_handler_channel_events m) (ct_flowgraph ct) = Inr fg \<Longrightarrow>
    receiver_step cfg acts ct (ct\<lparr>ct_flowgraph := fg\<rparr>)"
| Status: "receiver_step cfg acts ct (ct\<lparr>ct_flowgraph := msg_handler_channel_status k v st (ct_flowgraph ct)\<rparr>)"
| Operator: "Command a b \<in> set acts \<Longrightarrow>
    receiver_step cfg acts ct
      (ct\<lparr>ct_flowgraph := (ct_flowgraph ct)\<lparr>queue := queue (ct_flowgraph ct) @ [CommandEvent a b]\<rparr>\<rparr>)"
| Assistance: "Assist \<in> set acts \<Longrightarrow> assist_GNSS_restart cfg vis ct = Inr ct' \<Longrightarrow> receiver_step cfg acts ct ct'"
| Iterate: "control_iteration cfg vis ct = Inr ct' \<Longrightarrow> receiver_step cfg acts ct ct'"

inductive receiver_reachable ::
  "configuration \<Rightarrow> operator_act list \<Rightarrow> control_thread \<Rightarrow> control_thread \<Rightarrow> bool" for cfg acts ct0 where
  Init: "receiver_reachable cfg acts ct0 ct0"
| Step: "receiver_reachable cfg acts ct0 ct \<Longrightarrow> receiver_step cfg acts ct ct' \<Longrightarrow> receiver_reachable cfg acts ct0 ct'"

subsection \<open>The receiver never fails\<close>

definition msg_ok :: "operator_act list \<Rightarrow> nat \<Rightarrow> control_msg \<Rightarrow> bool" where
  "msg_ok acts n msg \<longleftrightarrow>
     (case msg of ChannelEvent ev \<Rightarrow> ev_channel_id ev < n \<and> ev_event_type ev \<in> {0, 1, 2} | CommandEvent a b \<Rightarrow> Command a b \<in> set acts | OtherMsg \<Rightarrow> True)"

definition rcv_inv ::
  "configuration \<Rightarrow> operator_act list \<Rightarrow> (string_value \<Rightarrow> (string \<times> nat \<times> int) set) \<Rightarrow> string_value list
    \<Rightarrow> control_thread \<Rightarrow> bool" where
  "rcv_inv cfg acts K Ts ct \<longleftrightarrow>
     fg_inv cfg K Ts (ct_flowgraph ct) \<and> list_all (msg_ok acts (length Ts)) (queue (ct_flowgraph ct))"

lemma fg_wf_count: "fg_wf Ts fg \<Longrightarrow> channels_count fg = length Ts"
  by (auto simp: fg_wf_def)

lemma block_message_ok:
  assumes inv: "fg_inv cfg K Ts fg" and c: "c < channels_count fg"
  shows "\<exists>ch evs. on_channel c (msg_handler_channel_events m) fg =
      Inr (fg\<lparr>channels := (channels fg)[c := ch], queue := queue fg @ map ChannelEvent evs\<rparr>)
    \<and> msg_handler_channel_events m (channels fg ! c) = Inr (ch, evs) \<and> same_channel (channels fg ! c) ch
    \<and> (\<forall>ev \<in> set evs. ev_channel_id ev = c \<and> ev_event_type ev \<in> {0, 1, 2})"
proof -
  note ch = fg_wf_channel [OF conjunct1 [OF inv] c]
  obtain ch' evs where m: "msg_handler_channel_events m (channels fg ! c) = Inr (ch', evs)"
    "same_channel (channels fg ! c) ch'" "\<forall>ev \<in> set evs. ev_channel_id ev = c \<and> ev_event_type ev \<in> {0, 1, 2}"
    using message_spec [OF ch(1), of m] ch(6) by auto
  then show ?thesis using c by (simp add: on_channel_def)
qed

lemma fg_inv_frame [simp]:
  "fg_inv cfg K Ts (fg\<lparr>queue := q\<rparr>) = fg_inv cfg K Ts fg"
  "fg_inv cfg K Ts (fg\<lparr>channels_status := st\<rparr>) = fg_inv cfg K Ts fg"
  by simp_all

lemma queue_priorize [simp]: "queue (priorize_satellites vs fg) = queue fg"
  by (induction vs fg rule: priorize_satellites.induct) (simp_all add: prioritise_in_def)

lemma control_apply_action_ok:
  "fg_inv cfg K Ts (ct_flowgraph ct) \<Longrightarrow> fg_inv cfg K Ts (ct_flowgraph (control_apply_action vis what ct))"
  "queue (ct_flowgraph (control_apply_action vis what ct)) = queue (ct_flowgraph ct)"
  using priorize_satellites_ok [where cfg = cfg and K = K and Ts = Ts and fg = "ct_flowgraph ct" and vs = vis] by (simp_all add: control_apply_action_def Let_def)

lemma on_flowgraph_ok:
  assumes "\<exists>fg'. f (ct_flowgraph ct) = Inr fg' \<and> P fg'"
  shows "\<exists>ct'. on_flowgraph f ct = Inr ct' \<and> P (ct_flowgraph ct')"
  using assms by (auto simp: on_flowgraph_def)

abbreviation acts_ok :: "operator_act list \<Rightarrow> bool" where
  "acts_ok acts \<equiv> (\<forall>a b. Command a b \<in> set acts \<longrightarrow> b \<in> {0, 1, 2} \<longrightarrow> a = 200)"

lemma dispatcher_ok:
  assumes inv: "fg_inv cfg K Ts (ct_flowgraph ct)" and en: "enough K Ts" and acts: "acts_ok acts"
    and event: "\<And>m. event = Some m \<Longrightarrow> msg_ok acts (length Ts) m"
  shows "\<exists>ct'. event_dispatcher cfg vis event ct = Inr ct' \<and> fg_inv cfg K Ts (ct_flowgraph ct')
    \<and> queue (ct_flowgraph ct') = queue (ct_flowgraph ct)"
proof (cases event)
  case None
  have "\<exists>ct'. on_flowgraph (acquisition_manager cfg 0) ct = Inr ct'
    \<and> (fg_inv cfg K Ts (ct_flowgraph ct') \<and> queue (ct_flowgraph ct') = queue (ct_flowgraph ct))"
    using acquisition_manager_ok [OF conjunct1 [OF inv] conjunct2 [OF inv] en, of 0]
    by (intro on_flowgraph_ok) blast
  then show ?thesis using inv None by (simp add: event_dispatcher_def)
next
  case (Some m)
  define ct1 where "ct1 = ct\<lparr>processed_control_messages := processed_control_messages ct + 1\<rparr>"
  have fg1: "ct_flowgraph ct1 = ct_flowgraph ct" by (simp add: ct1_def)
  have act: "\<exists>ct'. on_flowgraph (apply_action cfg a b) c = Inr ct'
      \<and> (fg_inv cfg K Ts (ct_flowgraph ct') \<and> queue (ct_flowgraph ct') = queue (ct_flowgraph c))"
    if "fg_inv cfg K Ts (ct_flowgraph c)" "b \<in> {0, 1, 2} \<Longrightarrow> a < channels_count (ct_flowgraph c)" for a b c
    using apply_action_ok [OF that(1) en that(2)] by (intro on_flowgraph_ok) blast
  note ok = event [OF Some]
  show ?thesis
  proof (cases m)
    case (ChannelEvent ev)
    then have "ev_channel_id ev < channels_count (ct_flowgraph ct1)"
      using ok fg_wf_count [OF conjunct1 [OF inv]] by (simp add: msg_ok_def fg1)
    with act [of ct1] inv fg1 show ?thesis
      unfolding event_dispatcher_def Some ChannelEvent ct1_def [symmetric] Let_def
      by (cases "receiver_on_standby ct1") simp_all
  next
    case (CommandEvent a b)
    then have b: "b \<in> {0, 1, 2} \<Longrightarrow> a = 200" using ok acts by (auto simp: msg_ok_def)
    define ct2 where "ct2 = (if a = 300 then control_apply_action vis b ct1 else ct1)"
    have "fg_inv cfg K Ts (ct_flowgraph ct2)" "queue (ct_flowgraph ct2) = queue (ct_flowgraph ct)"
      using control_apply_action_ok(1) [where cfg = cfg and K = K and Ts = Ts and ct = ct1 and vis = vis and what = b]
        control_apply_action_ok(2) [of vis b ct1] inv fg1 by (simp_all add: ct2_def)
    moreover have "\<exists>ct'. on_flowgraph (apply_action cfg a b) ct2 = Inr ct'
        \<and> (fg_inv cfg K Ts (ct_flowgraph ct') \<and> queue (ct_flowgraph ct') = queue (ct_flowgraph ct2))" if "a \<noteq> 200"
      using calculation b that by (intro act) auto
    ultimately show ?thesis
      using control_apply_action_ok(1) [where cfg = cfg and K = K and Ts = Ts and ct = ct1 and vis = vis and what = b]
        control_apply_action_ok(2) [of vis b ct1] inv fg1
      unfolding event_dispatcher_def Some CommandEvent ct1_def [symmetric] Let_def
      by (cases "a = 200") (simp_all add: ct2_def [symmetric])
  next
    case OtherMsg
    then show ?thesis using inv by (simp add: event_dispatcher_def Some)
  qed
qed

lemma iteration_ok:
  assumes inv: "rcv_inv cfg acts K Ts ct" and en: "enough K Ts" and acts: "acts_ok acts"
  shows "\<exists>ct'. control_iteration cfg vis ct = Inr ct' \<and> rcv_inv cfg acts K Ts ct'"
proof (cases "queue (ct_flowgraph ct)")
  case Nil
  then show ?thesis
    using dispatcher_ok [where cfg = cfg and K = K and Ts = Ts and ct = ct and acts = acts and vis = vis and event = None] inv en acts by (auto simp: control_iteration_def rcv_inv_def)
next
  case (Cons m rest)
  define ct1 where "ct1 = ct\<lparr>ct_flowgraph := (ct_flowgraph ct)\<lparr>queue := rest\<rparr>\<rparr>"
  have "fg_inv cfg K Ts (ct_flowgraph ct1)" "queue (ct_flowgraph ct1) = rest" "msg_ok acts (length Ts) m"
    "list_all (msg_ok acts (length Ts)) rest"
    using inv Cons by (auto simp: rcv_inv_def ct1_def)
  with dispatcher_ok [where cfg = cfg and K = K and Ts = Ts and ct = ct1 and acts = acts and vis = vis and event = "Some m"] en acts Cons show ?thesis
    by (auto simp: control_iteration_def rcv_inv_def ct1_def)
qed

lemma assist_ok:
  assumes inv: "rcv_inv cfg acts K Ts ct" and en: "enough K Ts"
  shows "\<exists>ct'. assist_GNSS_restart cfg vis ct = Inr ct' \<and> rcv_inv cfg acts K Ts ct'"
proof -
  have i: "fg_inv cfg K Ts (ct_flowgraph ct)" using inv by (simp add: rcv_inv_def)
  obtain fg1 where 1: "apply_action cfg 0 10 (ct_flowgraph ct) = Inr fg1" "fg_inv cfg K Ts fg1"
    "queue fg1 = queue (ct_flowgraph ct)"
    using apply_action_ok [OF i en, of 10 0] by auto
  obtain fg2 where "apply_action cfg 0 12 (priorize_satellites vis fg1) = Inr fg2" "fg_inv cfg K Ts fg2"
    "queue fg2 = queue fg1"
    using apply_action_ok [OF priorize_satellites_ok [OF 1(2)] en, of 12 0 vis] by auto
  with 1 inv show ?thesis by (simp add: assist_GNSS_restart_def on_flowgraph_def rcv_inv_def)
qed

lemma step_inv:
  assumes step: "receiver_step cfg acts ct ct'" and inv: "rcv_inv cfg acts K Ts ct" and en: "enough K Ts" and acts: "acts_ok acts"
  shows "rcv_inv cfg acts K Ts ct'"
  using step
proof cases
  case (Block c m fg)
  have i: "fg_inv cfg K Ts (ct_flowgraph ct)" using inv by (simp add: rcv_inv_def)
  obtain ch evs where b: "fg = (ct_flowgraph ct)\<lparr>channels := (channels (ct_flowgraph ct))[c := ch],
      queue := queue (ct_flowgraph ct) @ map ChannelEvent evs\<rparr>"
    "same_channel (channels (ct_flowgraph ct) ! c) ch" "\<forall>ev \<in> set evs. ev_channel_id ev = c \<and> ev_event_type ev \<in> {0, 1, 2}"
    using block_message_ok [OF i Block(2), of m] Block(3) by auto
  have "fg_inv cfg K Ts fg"
    unfolding b(1) fg_inv_frame(1) by (rule fg_inv_put [OF i Block(2) b(2)])
  moreover have "list_all (msg_ok acts (length Ts)) (queue fg)"
    using inv b Block(2) fg_wf_count [OF conjunct1 [OF i]] by (auto simp: rcv_inv_def list_all_iff msg_ok_def)
  ultimately show ?thesis using Block(1) by (simp add: rcv_inv_def)
next
  case Status
  then show ?thesis using inv by (simp add: rcv_inv_def msg_handler_channel_status_def Let_def)
next
  case Operator
  then show ?thesis using inv by (simp add: rcv_inv_def msg_ok_def)
next
  case (Assistance vis)
  then show ?thesis using assist_ok [OF inv en, of vis] by simp
next
  case (Iterate vis)
  then show ?thesis using iteration_ok [OF inv en acts, of vis] by simp
qed

lemma reachable_rcv_inv:
  assumes "receiver_reachable cfg acts ct0 ct" and "rcv_inv cfg acts K Ts ct0" and "enough K Ts" and "acts_ok acts"
  shows "rcv_inv cfg acts K Ts ct"
  using assms by (induction rule: receiver_reachable.induct) (auto intro: step_inv)

subsection \<open>Recorded states, channels and pending events agree\<close>

definition pending :: "nat \<Rightarrow> control_msg list \<Rightarrow> nat list" where
  "pending c q = List.map_filter (\<lambda>m. case m of ChannelEvent ev \<Rightarrow>
     if ev_channel_id ev = c then Some (ev_event_type ev) else None | _ \<Rightarrow> None) q"

lemma pending_simps [simp]:
  "pending c [] = []" "pending c (q @ q') = pending c q @ pending c q'"
  "pending c (ChannelEvent ev # q) = (if ev_channel_id ev = c then ev_event_type ev # pending c q else pending c q)"
  "pending c (CommandEvent a b # q) = pending c q" "pending c (OtherMsg # q) = pending c q"
  by (simp_all add: pending_def map_filter_def)

lemma pending_events:
  "(\<And>ev. ev \<in> set evs \<Longrightarrow> ev_channel_id ev = c) \<Longrightarrow>
   pending c' (map ChannelEvent evs) = (if c' = c then map ev_event_type evs else [])"
  by (induction evs) auto

text \<open>
  \<open>p i\<close> are the events of channel \<open>i\<close> that are still to be handled. The counter of channels in
  acquisition is the number of channels recorded as such, and within its limit.
\<close>

definition synced :: "(nat \<Rightarrow> nat list) \<Rightarrow> flowgraph \<Rightarrow> bool" where
  "synced p fg \<longleftrightarrow>
     (\<forall>i < channels_count fg. agree (channels_state fg ! i) (ch_phase (channels fg ! i)) (p i))
     \<and> acq_channels_count fg = int (count_list (channels_state fg) 1) \<and> acq_channels_count fg \<le> max_acq_channels fg"

lemma count_list_update:
  "i < length xs \<Longrightarrow>
   int (count_list (xs[i := y]) x) = int (count_list xs x) - of_bool (xs ! i = x) + of_bool (y = x)"
proof (induction xs arbitrary: i)
  case (Cons z zs)
  then show ?case by (cases i) auto
qed simp

lemma synced_channel: "synced p fg \<Longrightarrow> i < channels_count fg \<Longrightarrow> agree (channels_state fg ! i) (ch_phase (channels fg ! i)) (p i)"
  by (simp add: synced_def)

text \<open>Replacing one channel and its recorded state.\<close>

lemma synced_update:
  assumes s: "synced p fg" and i: "i < channels_count fg" "i < length (channels_state fg)"
    and chs: "channels fg' = (channels fg)[i := ch]" and sts: "channels_state fg' = (channels_state fg)[i := s]"
    and new: "agree s (ch_phase ch) (p' i)" and old: "\<And>j. j \<noteq> i \<Longrightarrow> p' j = p j"
    and acq: "acq_channels_count fg' = acq_channels_count fg - of_bool (channels_state fg ! i = 1) + of_bool (s = 1)"
    and mx: "acq_channels_count fg' \<le> max_acq_channels fg'"
  shows "synced p' fg'"
  unfolding synced_def
proof (intro conjI allI impI)
  fix j
  assume j: "j < channels_count fg'"
  show "agree (channels_state fg' ! j) (ch_phase (channels fg' ! j)) (p' j)"
  proof (cases "j = i")
    case True
    then show ?thesis using i new by (simp add: chs sts)
  next
    case False
    then show ?thesis using synced_channel [OF s, of j] j old by (simp add: chs sts)
  qed
next
  show "acq_channels_count fg' = int (count_list (channels_state fg') 1)"
    using acq s i(2) by (simp add: sts count_list_update synced_def)
qed (rule mx)

lemma managed_synced:
  assumes wf: "fg_wf Ts fg" and c: "c < channels_count fg" and m: "managed cfg c fg fg'" and s: "synced p fg"
  shows "synced p fg'"
proof -
  note ag = synced_channel [OF s c] and len = fg_wf_channel(5) [OF wf c]
  show ?thesis
    using m
  proof cases
    case Skip
    then show ?thesis using s by simp
  next
    case (Start ch' e ys)
    have "ch_phase (channels fg ! c) \<in> {0, 3}" "p c = []" using ag Start by (auto simp: agree_def)
    then have "agree 1 (ch_phase ch') (p c)" using Start by (auto simp: agree_def)
    then show ?thesis
      using Start c len by (intro synced_update [OF s, of c fg' ch' 1]) simp_all
  next
    case (Idle ch' e ys)
    have st: "channels_state fg' = (channels_state fg)[c := channels_state fg ! c]" using Idle(1) by simp
    have mx: "acq_channels_count fg \<le> max_acq_channels fg" using s by (simp add: synced_def)
    show ?thesis
      by (rule synced_update [OF s c, where fg' = fg' and ch = ch' and s = "channels_state fg ! c"])
        (use st Idle len c ag mx in simp_all)
  qed
qed

lemma synced_frame [simp]:
  "synced p (fg\<lparr>queue := q\<rparr>) = synced p fg" "synced p (fg\<lparr>channels_status := st\<rparr>) = synced p fg"
  "synced p (push_back_signal gs fg) = synced p fg" "synced p (remove_signal gs fg) = synced p fg"
  "synced p (prioritise_in e gs fg) = synced p fg"
  by (simp_all add: synced_def push_back_signal_def remove_signal_def prioritise_in_def Let_def)

lemma synced_priorize [simp]: "synced p (priorize_satellites vs fg) = synced p fg"
  by (induction vs fg rule: priorize_satellites.induct) simp_all

lemma acq_max_frame [simp]:
  "acq_channels_count (push_back_signal gs fg) = acq_channels_count fg" "max_acq_channels (push_back_signal gs fg) = max_acq_channels fg"
  "acq_channels_count (remove_signal gs fg) = acq_channels_count fg" "max_acq_channels (remove_signal gs fg) = max_acq_channels fg"
  "acq_channels_count (set_state i s fg) = acq_channels_count fg" "max_acq_channels (set_state i s fg) = max_acq_channels fg"
  "max_acq_channels (decrease_acq_count fg) = max_acq_channels fg"
  by (simp_all add: push_back_signal_def remove_signal_def set_state_def decrease_acq_count_def Let_def)

lemma channels_state_set_state [simp]: "channels_state (set_state i s fg) = (channels_state fg)[i := s]"
  by (simp add: set_state_def)

text \<open>Handling the first pending event \<open>what\<close> of a channel keeps the agreement for the events that remain.\<close>

lemma recorded_in_acquisition:
  assumes "synced p fg" and "i < length (channels_state fg)" and "channels_state fg ! i = 1"
  shows "0 < acq_channels_count fg"
  using assms count_list_update [of i "channels_state fg" 0 1]
  by (auto simp: synced_def)

lemma synced_leave_acquisition:
  assumes s: "synced (p(who := what # p who)) fg" and who: "who < channels_count fg" "who < length (channels_state fg)"
    and one: "channels_state fg ! who = 1" and ag: "agree st (ch_phase (channels fg ! who)) (p who)" and st: "st \<noteq> 1"
  shows "synced p (decrease_acq_count (set_state who st fg))"
proof -
  have pos: "0 < acq_channels_count fg" by (rule recorded_in_acquisition [OF s who(2) one])
  have mx: "acq_channels_count fg \<le> max_acq_channels fg" using s by (simp add: synced_def)
  have acq: "acq_channels_count (decrease_acq_count (set_state who st fg)) = acq_channels_count fg - 1"
    using pos by (simp add: decrease_acq_count_def)
  show ?thesis
    by (rule synced_update [OF s who, of _ "channels fg ! who" st])
      (use ag one st acq mx who in simp_all)
qed

lemma action_acq_failed_synced:
  assumes inv: "fg_inv cfg K Ts fg" and en: "enough K Ts" and who: "who < channels_count fg"
    and s: "synced (p(who := 0 # p who)) fg"
  shows "\<exists>fg'. action_acq_failed cfg who fg = Inr fg' \<and> synced p fg'"
proof -
  note len = fg_wf_channel(5) [OF conjunct1 [OF inv] who]
  have ag: "agree (channels_state fg ! who) (ch_phase (channels fg ! who)) (0 # p who)"
    using synced_channel [OF s who] by simp
  have one: "channels_state fg ! who = 1" "ch_phase (channels fg ! who) = 3" "p who = []"
    using agree_first(1) [OF ag] by simp_all
  define fg0 where "fg0 = decrease_acq_count (set_state who 0 fg)"
  have s0: "synced p fg0"
    unfolding fg0_def by (rule synced_leave_acquisition [OF s]) (use who len one in \<open>simp_all add: agree_def\<close>)
  have wf0: "fg_wf Ts fg0" and cov: "covered cfg K (Some (channel_signal who fg)) fg0"
    using inv covered_release [of cfg K fg who] who len by (simp_all add: fg0_def)
  obtain fg1 where "acquisition_manager cfg who fg0 = Inr fg1" "synced p fg1"
    using acquisition_manager_keeps [OF wf0 cov en, of "synced p"] s0 managed_synced by blast
  then show ?thesis by (simp add: action_acq_failed_def fg0_def Let_def)
qed

lemma action_acq_success_synced:
  assumes inv: "fg_inv cfg K Ts fg" and en: "enough K Ts" and who: "who < channels_count fg"
    and s: "synced (p(who := 1 # p who)) fg"
  shows "\<exists>fg'. action_acq_success cfg who fg = Inr fg' \<and> synced p fg'"
proof -
  note len = fg_wf_channel(5) [OF conjunct1 [OF inv] who]
  have ag: "agree (channels_state fg ! who) (ch_phase (channels fg ! who)) (1 # p who)"
    using synced_channel [OF s who] by simp
  have one: "channels_state fg ! who = 1" "agree 2 (ch_phase (channels fg ! who)) (p who)"
    using agree_first(2) [OF ag] by simp_all
  define fg0 where "fg0 = decrease_acq_count (set_state who 2 (remove_signal (channel_signal who fg) fg))"
  have s0: "synced p fg0"
    unfolding fg0_def by (rule synced_leave_acquisition) (use s who len one in simp_all)
  have i: "fg_inv cfg K Ts fg0" unfolding fg0_def by (rule acq_success_inv [OF inv who])
  obtain fg1 where "acquisition_manager cfg who fg0 = Inr fg1" "synced p fg1"
    using acquisition_manager_keeps [OF conjunct1 [OF i] conjunct2 [OF i] en, of "synced p"] s0 managed_synced by blast
  then show ?thesis by (simp add: action_acq_success_def fg0_def)
qed

lemma action_trk_failed_synced:
  assumes inv: "fg_inv cfg K Ts fg" and who: "who < channels_count fg"
    and s: "synced (p(who := 2 # p who)) fg"
  shows "\<exists>fg'. action_trk_failed cfg who fg = Inr fg' \<and> synced p fg'"
proof -
  note ch = fg_wf_channel [OF conjunct1 [OF inv] who]
  have ag: "agree (channels_state fg ! who) (ch_phase (channels fg ! who)) (2 # p who)"
    using synced_channel [OF s who] by simp
  have two: "channels_state fg ! who = 2" "ch_phase (channels fg ! who) = 0" "p who = []"
    using agree_first(3) [OF ag] by simp_all
  have mx: "acq_channels_count fg \<le> max_acq_channels fg" using s by (simp add: synced_def)
  show ?thesis
  proof (cases "acq_channels_count fg < max_acq_channels fg")
    case True
    define fg0 where "fg0 = (set_state who 1 fg)\<lparr>acq_channels_count := acq_channels_count fg + 1\<rparr>"
    have who0: "who < channels_count fg0" "channels fg0 = channels fg" using who by (simp_all add: fg0_def)
    obtain ch1 where s1: "channel_set_signal who (channel_signal who fg) fg0 = Inr (fg0\<lparr>channels := (channels fg0)[who := ch1]\<rparr>)"
      and c1: "ch_fsm ch1 = ch_fsm (channels fg0 ! who)"
      using on_channel_signal [OF who0(1) ch(2)] by blast
    define fg1 where "fg1 = fg0\<lparr>channels := (channels fg0)[who := ch1]\<rparr>"
    have w1: "who < channels_count fg1" "channels fg1 ! who = ch1" using who0 by (simp_all add: fg1_def)
    have ok1: "ch_ok (channels fg1 ! who)" "ch_phase (channels fg1 ! who) = 0" using w1 c1 ch who0 two by simp_all
    obtain ch2 where s2: "on_channel who start_acquisition fg1 = Inr (fg1\<lparr>channels := (channels fg1)[who := ch2]\<rparr>)"
      "ch_phase ch2 = 1"
      using on_channel_start [OF w1(1) ok1(1)] ok1(2) by auto
    have "action_trk_failed cfg who fg = Inr (fg1\<lparr>channels := (channels fg1)[who := ch2]\<rparr>)"
      unfolding action_trk_failed_def Let_def if_P [OF True] fg0_def [symmetric] s1 bindr_Inr
      using s2(1) unfolding fg1_def .
    moreover have "synced p (fg1\<lparr>channels := (channels fg1)[who := ch2]\<rparr>)"
      by (rule synced_update [OF s who, of _ ch2 1])
        (use ch who two s2(2) True who0 in \<open>simp_all add: fg1_def agree_def\<close>, simp_all add: fg0_def)
    ultimately show ?thesis by blast
  next
    case False
    have "synced p (set_state who 0 fg)"
      by (rule synced_update [OF s who, of _ "channels fg ! who" 0])
        (use ch who two mx in \<open>simp_all add: agree_def\<close>)
    then show ?thesis using False by (simp add: action_trk_failed_def Let_def)
  qed
qed

text \<open>A receiver without standby commands.\<close>

definition calm_inv ::
  "configuration \<Rightarrow> (string_value \<Rightarrow> (string \<times> nat \<times> int) set) \<Rightarrow> string_value list \<Rightarrow> control_thread \<Rightarrow> bool" where
  "calm_inv cfg K Ts ct \<longleftrightarrow>
     rcv_inv cfg calm_acts K Ts ct \<and> \<not> receiver_on_standby ct
     \<and> synced (\<lambda>i. pending i (queue (ct_flowgraph ct))) (ct_flowgraph ct)"

lemma calm_acts_ok: "acts_ok calm_acts"
  by (auto simp: calm_acts_def)

lemma apply_event_synced:
  assumes inv: "fg_inv cfg K Ts fg" and en: "enough K Ts" and who: "who < channels_count fg"
    and s: "synced (p(who := what # p who)) fg"
  shows "\<exists>fg'. apply_action cfg who what fg = Inr fg' \<and> synced p fg'"
proof -
  have len: "length (channels_state fg) = channels_count fg" using inv by (simp add: fg_wf_def)
  have "agree (channels_state fg ! who) (ch_phase (channels fg ! who)) (what # p who)"
    using synced_channel [OF s who] by simp
  then consider "what = 0" | "what = 1" | "what = 2" using agree_first(4) by blast
  then show ?thesis
  proof cases
    case 1
    then show ?thesis
      using action_acq_failed_synced [OF inv en who, of p] s who len by (simp add: apply_action_def)
  next
    case 2
    then show ?thesis
      using action_acq_success_synced [OF inv en who, of p] s who len by (simp add: apply_action_def)
  next
    case 3
    then show ?thesis
      using action_trk_failed_synced [OF inv who, of p] s who len by (simp add: apply_action_def)
  qed
qed

lemma calm_dispatch:
  assumes inv: "fg_inv cfg K Ts (ct_flowgraph ct)" and en: "enough K Ts" and calm: "\<not> receiver_on_standby ct"
    and msg: "msg_ok calm_acts (length Ts) m" and q: "queue (ct_flowgraph ct) = q"
    and s: "synced (\<lambda>i. pending i (m # q)) (ct_flowgraph ct)"
    and d: "event_dispatcher cfg vis (Some m) ct = Inr ct'"
  shows "\<not> receiver_on_standby ct' \<and> synced (\<lambda>i. pending i q) (ct_flowgraph ct')"
proof (cases m)
  case (ChannelEvent ev)
  have who: "ev_channel_id ev < channels_count (ct_flowgraph ct)"
    using msg fg_wf_count [OF conjunct1 [OF inv]] by (simp add: ChannelEvent msg_ok_def)
  have "(\<lambda>i. pending i (m # q)) = (\<lambda>i. pending i q)(ev_channel_id ev := ev_event_type ev # pending (ev_channel_id ev) q)"
    by (auto simp: ChannelEvent)
  with s obtain fg' where "apply_action cfg (ev_channel_id ev) (ev_event_type ev) (ct_flowgraph ct) = Inr fg'"
    "synced (\<lambda>i. pending i q) fg'"
    using apply_event_synced [OF inv en who, of "\<lambda>i. pending i q"] by auto
  then show ?thesis using d calm by (auto simp: event_dispatcher_def ChannelEvent on_flowgraph_def)
next
  case (CommandEvent a b)
  then have "Command a b \<in> set calm_acts" using msg by (simp add: msg_ok_def)
  then show ?thesis
    using d s calm by (auto simp: calm_acts_def event_dispatcher_def CommandEvent on_flowgraph_def apply_action_def
      control_apply_action_def Let_def)
next
  case OtherMsg
  then show ?thesis using d s calm by (auto simp: event_dispatcher_def)
qed

lemma calm_iteration:
  assumes inv: "calm_inv cfg K Ts ct" and en: "enough K Ts" and it: "control_iteration cfg vis ct = Inr ct'"
  shows "calm_inv cfg K Ts ct'"
proof -
  have r: "rcv_inv cfg calm_acts K Ts ct" and i: "fg_inv cfg K Ts (ct_flowgraph ct)" and calm: "\<not> receiver_on_standby ct"
    and s: "synced (\<lambda>i. pending i (queue (ct_flowgraph ct))) (ct_flowgraph ct)"
    using inv by (auto simp: calm_inv_def rcv_inv_def)
  have r': "rcv_inv cfg calm_acts K Ts ct'" using iteration_ok [OF r en calm_acts_ok, of vis] it by auto
  have "\<not> receiver_on_standby ct' \<and> synced (\<lambda>i. pending i (queue (ct_flowgraph ct'))) (ct_flowgraph ct')"
  proof (cases "queue (ct_flowgraph ct)")
    case Nil
    obtain fg where "acquisition_manager cfg 0 (ct_flowgraph ct) = Inr fg"
      "synced (\<lambda>i. pending i []) fg \<and> queue fg = []"
      using acquisition_manager_keeps [OF conjunct1 [OF i] conjunct2 [OF i] en,
          of "\<lambda>f. synced (\<lambda>i. pending i []) f \<and> queue f = []" 0] s Nil managed_synced
      by (fastforce elim: managedE)
    then show ?thesis using it Nil calm by (auto simp: control_iteration_def event_dispatcher_def on_flowgraph_def)
  next
    case (Cons m q)
    define ct1 where "ct1 = ct\<lparr>ct_flowgraph := (ct_flowgraph ct)\<lparr>queue := q\<rparr>\<rparr>"
    have d: "event_dispatcher cfg vis (Some m) ct1 = Inr ct'" using it Cons by (simp add: control_iteration_def ct1_def)
    have i1: "fg_inv cfg K Ts (ct_flowgraph ct1)" "queue (ct_flowgraph ct1) = q" "msg_ok calm_acts (length Ts) m"
      using i r Cons by (auto simp: ct1_def rcv_inv_def)
    have "queue (ct_flowgraph ct') = q"
      using dispatcher_ok [OF i1(1) en calm_acts_ok, of "Some m" vis] i1 d by auto
    moreover have "\<not> receiver_on_standby ct' \<and> synced (\<lambda>i. pending i q) (ct_flowgraph ct')"
      by (rule calm_dispatch [OF i1(1) en _ i1(3,2) _ d]) (use calm s Cons in \<open>simp_all add: ct1_def\<close>)
    ultimately show ?thesis by simp
  qed
  with r' show ?thesis by (simp add: calm_inv_def)
qed

lemma calm_step:
  assumes step: "receiver_step cfg calm_acts ct ct'" and inv: "calm_inv cfg K Ts ct" and en: "enough K Ts"
  shows "calm_inv cfg K Ts ct'"
proof -
  have r: "rcv_inv cfg calm_acts K Ts ct" and i: "fg_inv cfg K Ts (ct_flowgraph ct)" and calm: "\<not> receiver_on_standby ct"
    and s: "synced (\<lambda>i. pending i (queue (ct_flowgraph ct))) (ct_flowgraph ct)"
    using inv by (auto simp: calm_inv_def rcv_inv_def)
  have r': "rcv_inv cfg calm_acts K Ts ct'" by (rule step_inv [OF step r en calm_acts_ok])
  show ?thesis
    using step
  proof cases
    case (Block c m fg)
    let ?fg = "ct_flowgraph ct"
    obtain ch evs where b: "fg = ?fg\<lparr>channels := (channels ?fg)[c := ch], queue := queue ?fg @ map ChannelEvent evs\<rparr>"
      "msg_handler_channel_events m (channels ?fg ! c) = Inr (ch, evs)" "\<forall>ev \<in> set evs. ev_channel_id ev = c"
      using block_message_ok [OF i Block(2), of m] Block(3) by auto
    have pend: "pending j (queue fg) = pending j (queue ?fg) @ (if j = c then map ev_event_type evs else [])" for j
      using b(1,3) pending_events [of evs c j] by simp
    note wf = fg_wf_channel [OF conjunct1 [OF i] Block(2)]
    have ag: "agree (channels_state ?fg ! c) (ch_phase ch) (pending c (queue fg))"
      using chan.message_agree [OF wf(1) b(2) synced_channel [OF s Block(2)]] by (simp add: pend)
    have mx: "acq_channels_count ?fg \<le> max_acq_channels ?fg" using s by (simp add: synced_def)
    have "synced (\<lambda>i. pending i (queue fg)) fg"
      by (rule synced_update [OF s Block(2), of fg ch "channels_state ?fg ! c"])
        (use b(1) wf Block(2) ag mx pend in simp_all)
    then show ?thesis using r' Block(1) calm by (simp add: calm_inv_def)
  next
    case Status
    then show ?thesis using r' s calm by (simp add: calm_inv_def msg_handler_channel_status_def Let_def)
  next
    case Operator
    then show ?thesis using r' s calm by (simp add: calm_inv_def)
  next
    case Assistance
    then show ?thesis by (simp add: calm_acts_def)
  next
    case (Iterate vis)
    then show ?thesis using calm_iteration [OF inv en] by blast
  qed
qed

lemma reachable_calm:
  assumes "receiver_reachable cfg calm_acts ct0 ct" and "calm_inv cfg K Ts ct0" and "enough K Ts"
  shows "calm_inv cfg K Ts ct"
  using assms by (induction rule: receiver_reachable.induct) (auto intro: calm_step)

subsection \<open>A channel that nobody will use again\<close>

text \<open>
  Recorded as tracking while its state machine is in standby: what remains when a channel is
  stopped after it has announced a successful acquisition that the control thread has not yet
  handled.
\<close>

definition lost :: "nat \<Rightarrow> flowgraph \<Rightarrow> bool" where
  "lost i fg \<longleftrightarrow> i < channels_count fg \<and> channels_state fg ! i = 2 \<and> ch_phase (channels fg ! i) = 0"

lemma managed_lost:
  assumes "fg_wf Ts fg" and "c < channels_count fg" and "managed cfg c fg fg'" and "lost i fg"
  shows "lost i fg'"
  using assms(3)
proof cases
  case (Start ch' e ys)
  then have "i \<noteq> c" using assms(4) by (auto simp: lost_def)
  then show ?thesis using Start assms(4) by (simp add: lost_def)
next
  case (Idle ch' e ys)
  then have "i \<noteq> c" using assms(4) by (auto simp: lost_def)
  then show ?thesis using Idle assms(4) by (simp add: lost_def)
qed (use assms(4) in simp)

lemma lost_frame [simp]:
  "lost i (fg\<lparr>queue := q\<rparr>) = lost i fg" "lost i (fg\<lparr>channels_status := st\<rparr>) = lost i fg"
  "lost i (push_back_signal gs fg) = lost i fg" "lost i (remove_signal gs fg) = lost i fg"
  "lost i (decrease_acq_count fg) = lost i fg" "lost i (prioritise_in e gs fg) = lost i fg"
  "lost i (fg\<lparr>acq_channels_count := n\<rparr>) = lost i fg"
  by (simp_all add: lost_def prioritise_in_def)

lemma lost_priorize [simp]: "lost i (priorize_satellites vs fg) = lost i fg"
  by (induction vs fg rule: priorize_satellites.induct) simp_all

lemma lost_other: "j \<noteq> i \<Longrightarrow> lost i (set_state j s fg) = lost i fg"
  by (simp add: lost_def)

lemma on_channel_lost: "on_channel j f fg = Inr fg' \<Longrightarrow> j \<noteq> i \<Longrightarrow> lost i fg' = lost i fg"
  by (auto simp: on_channel_def lost_def bindr_eq_Inr split: if_splits)

lemma apply_event_lost:
  assumes inv: "fg_inv cfg K Ts fg" and en: "enough K Ts" and who: "who < channels_count fg" "who \<noteq> i"
    and lost: "lost i fg" and act: "apply_action cfg who what fg = Inr fg'" and what: "what \<noteq> 10"
  shows "lost i fg'"
proof -
  note ch = fg_wf_channel [OF conjunct1 [OF inv] who(1)]
  have mgr: "lost i f'" if "fg_wf Ts f" "covered cfg K x f" "lost i f" "acquisition_manager cfg who f = Inr f'" for x f f'
    using acquisition_manager_keeps [OF that(1,2) en, of "lost i" who] that(3,4) managed_lost by fastforce
  consider "what = 0" | "what = 1" | "what = 2" | "what \<notin> {0, 1, 2}" by blast
  then show ?thesis
  proof cases
    case 1
    define fg0 where "fg0 = decrease_acq_count (set_state who 0 fg)"
    have "fg_wf Ts fg0" "covered cfg K (Some (channel_signal who fg)) fg0" "lost i fg0"
      using inv covered_release [of cfg K fg who] who ch lost by (simp_all add: fg0_def lost_other)
    from mgr [OF this] 1 act who ch show ?thesis
      by (auto simp: apply_action_def action_acq_failed_def fg0_def Let_def bindr_eq_Inr split: if_splits)
  next
    case 2
    define fg0 where "fg0 = decrease_acq_count (set_state who 2 (remove_signal (channel_signal who fg) fg))"
    have "fg_inv cfg K Ts fg0" unfolding fg0_def by (rule acq_success_inv [OF inv who(1)])
    moreover have "lost i fg0" using who lost by (simp add: fg0_def lost_other)
    ultimately show ?thesis
      using mgr [of fg0 None fg'] 2 act who ch by (simp add: apply_action_def action_acq_success_def fg0_def)
  next
    case 3
    then show ?thesis
      using act who ch lost
      by (auto simp: apply_action_def action_trk_failed_def channel_set_signal_def Let_def bindr_eq_Inr lost_other
          split: if_splits dest!: on_channel_lost [OF _ who(2)])
  next
    case 4
    then show ?thesis using act what lost by (simp add: apply_action_def)
  qed
qed

lemma lost_iteration:
  assumes r: "rcv_inv cfg calm_acts K Ts ct" and en: "enough K Ts"
    and it: "control_iteration cfg vis ct = Inr ct'"
    and lost: "lost i (ct_flowgraph ct)" and quiet: "pending i (queue (ct_flowgraph ct)) = []"
  shows "lost i (ct_flowgraph ct') \<and> pending i (queue (ct_flowgraph ct')) = []"
proof -
  have inv: "fg_inv cfg K Ts (ct_flowgraph ct)" using r by (simp add: rcv_inv_def)
  show ?thesis
  proof (cases "queue (ct_flowgraph ct)")
    case Nil
    obtain fg where "acquisition_manager cfg 0 (ct_flowgraph ct) = Inr fg" "lost i fg \<and> queue fg = []"
      using acquisition_manager_keeps [OF conjunct1 [OF inv] conjunct2 [OF inv] en, of "\<lambda>f. lost i f \<and> queue f = []" 0]
        lost Nil managed_lost by (fastforce elim: managedE)
    then show ?thesis
      using it Nil lost by (auto simp: control_iteration_def event_dispatcher_def on_flowgraph_def split: if_splits)
  next
    case (Cons m q)
    define ct1 where "ct1 = ct\<lparr>ct_flowgraph := (ct_flowgraph ct)\<lparr>queue := q\<rparr>\<rparr>"
    have d: "event_dispatcher cfg vis (Some m) ct1 = Inr ct'" using it Cons by (simp add: control_iteration_def ct1_def)
    have i1: "fg_inv cfg K Ts (ct_flowgraph ct1)" "queue (ct_flowgraph ct1) = q" "msg_ok calm_acts (length Ts) m" "lost i (ct_flowgraph ct1)"
      using inv r lost Cons by (auto simp: ct1_def rcv_inv_def)
    have q: "queue (ct_flowgraph ct') = q"
      using dispatcher_ok [OF i1(1) en calm_acts_ok, of "Some m" vis] i1 d by auto
    have "lost i (ct_flowgraph ct')"
    proof (cases m)
      case (ChannelEvent ev)
      have "ev_channel_id ev < channels_count (ct_flowgraph ct1)"
        using i1(3) fg_wf_count [OF conjunct1 [OF i1(1)]] by (simp add: ChannelEvent msg_ok_def)
      moreover have "ev_channel_id ev \<noteq> i" using quiet Cons by (auto simp: ChannelEvent)
      moreover have "ev_event_type ev \<noteq> 10" using i1(3) by (auto simp: ChannelEvent msg_ok_def)
      ultimately show ?thesis
        using d i1 apply_event_lost [OF i1(1) en] 
        by (auto simp: event_dispatcher_def ChannelEvent on_flowgraph_def bindr_eq_Inr Let_def split: if_splits)
    next
      case (CommandEvent a b)
      then have "Command a b \<in> set calm_acts" using i1(3) by (simp add: msg_ok_def)
      then show ?thesis
        using d i1(4) by (auto simp: calm_acts_def event_dispatcher_def CommandEvent on_flowgraph_def apply_action_def
          control_apply_action_def Let_def)
    next
      case OtherMsg
      then show ?thesis using d i1(4) by (auto simp: event_dispatcher_def)
    qed
    then show ?thesis using q quiet Cons by (cases m) (auto split: if_splits)
  qed
qed

lemma lost_step:
  assumes r: "rcv_inv cfg calm_acts K Ts ct" and en: "enough K Ts" and step: "receiver_step cfg calm_acts ct ct'"
    and lost: "lost i (ct_flowgraph ct)" and quiet: "pending i (queue (ct_flowgraph ct)) = []"
  shows "lost i (ct_flowgraph ct') \<and> pending i (queue (ct_flowgraph ct')) = []"
  using step
proof cases
  case (Block c m fg)
  let ?fg = "ct_flowgraph ct"
  have inv: "fg_inv cfg K Ts ?fg" using r by (simp add: rcv_inv_def)
  obtain ch evs where b: "fg = ?fg\<lparr>channels := (channels ?fg)[c := ch], queue := queue ?fg @ map ChannelEvent evs\<rparr>"
    "msg_handler_channel_events m (channels ?fg ! c) = Inr (ch, evs)" "\<forall>ev \<in> set evs. ev_channel_id ev = c"
    using block_message_ok [OF inv Block(2), of m] Block(3) by auto
  have pend: "pending i (queue fg) = (if i = c then map ev_event_type evs else [])"
    using b(1,3) pending_events [of evs c i] quiet by simp
  show ?thesis
  proof (cases "i = c")
    case True
    then have "ch_phase (channels ?fg ! c) = 0" using lost by (simp add: lost_def)
    then have "ch_phase ch = 0" "evs = []"
      using chan.message_moves [OF fg_wf_channel(1) [OF conjunct1 [OF inv] Block(2)] b(2)] by auto
    then show ?thesis using True lost pend Block by (simp add: lost_def b(1))
  next
    case False
    then show ?thesis using lost pend Block by (simp add: lost_def b(1))
  qed
next
  case Status
  then show ?thesis using lost quiet by (simp add: msg_handler_channel_status_def Let_def)
next
  case Operator
  then show ?thesis using lost quiet by simp
next
  case Assistance
  then show ?thesis by (simp add: calm_acts_def)
next
  case (Iterate vis)
  then show ?thesis using lost_iteration [OF r en _ lost quiet] by blast
qed

lemma lost_for_good:
  assumes reach: "receiver_reachable cfg calm_acts ct ct'" and r: "rcv_inv cfg calm_acts K Ts ct" and en: "enough K Ts"
    and lost: "lost i (ct_flowgraph ct)" and quiet: "pending i (queue (ct_flowgraph ct)) = []"
  shows "lost i (ct_flowgraph ct') \<and> pending i (queue (ct_flowgraph ct')) = []"
  using reach
proof (induction rule: receiver_reachable.induct)
  case Init
  then show ?case using lost quiet by simp
next
  case (Step ct1 ct2)
  then show ?case
    using lost_step [OF reachable_rcv_inv [OF Step.hyps(1) r en calm_acts_ok] en Step.hyps(2)] by simp
qed

text \<open>What a standby request does to the channels.\<close>

lemma standby_effect:
  assumes "fg_wf Ts fg" and "\<And>n. n \<in> set ns \<Longrightarrow> n < channels_count fg" and "standby_channels ns fg = Inr fg'"
    and "i < channels_count fg"
  shows "channels_state fg' ! i = (if i \<in> set ns \<and> channels_state fg ! i \<in> {1, 2} then 0 else channels_state fg ! i)
    \<and> ch_phase (channels fg' ! i) =
        (if i \<in> set ns \<and> channels_state fg ! i \<in> {1, 2} \<and> ch_phase (channels fg ! i) \<in> {1, 2} then 0 else ch_phase (channels fg ! i))"
  using assms
proof (induction ns arbitrary: fg)
  case Nil
  then show ?case by simp
next
  case (Cons n ns)
  have n: "n < channels_count fg" using Cons.prems by simp
  note ch = fg_wf_channel [OF Cons.prems(1) n]
  show ?case
  proof (cases "channels_state fg ! n = 1 \<or> channels_state fg ! n = 2")
    case True
    obtain ch' where stop: "stop_channel (channels fg ! n) = Inr (ch', [])" "same_channel (channels fg ! n) ch'"
      "ch_phase ch' = (if ch_phase (channels fg ! n) \<in> {1, 2} then 0 else ch_phase (channels fg ! n))"
      using stop_channel_spec [OF ch(1)] by blast
    define fg1 where "fg1 = push_back_signal (channel_signal n fg) fg"
    define fg2 where "fg2 = set_state n 0 (fg1\<lparr>channels := (channels fg1)[n := ch']\<rparr>)"
    have "on_channel n stop_channel fg1 = Inr (fg1\<lparr>channels := (channels fg1)[n := ch']\<rparr>)"
      using n stop(1) by (simp add: on_channel_def) (simp add: fg1_def)
    then have rest: "standby_channels ns fg2 = Inr fg'"
      using Cons.prems(3) True ch n unfolding fg2_def fg1_def by (simp split: if_splits)
    have "fg_wf Ts fg1" using fg_wf_push_back [OF Cons.prems(1) ch(2)] by (simp add: fg1_def)
    then have "fg_wf Ts fg2"
      using fg_wf_put [of Ts fg1 n ch'] n ch stop(2) by (simp add: fg2_def fg1_def same_channel_def channel_signal_def)
    from Cons.IH [OF this _ rest] Cons.prems(2,4) n ch True stop(3) show ?thesis
      by (auto simp: fg2_def fg1_def nth_list_update)
  next
    case False
    then have "standby_channels ns fg = Inr fg'" using Cons.prems(3) ch n by (simp split: if_splits)
    from Cons.IH [OF Cons.prems(1) _ this] Cons.prems(2,4) False show ?thesis by auto
  qed
qed

lemma positive_acquisition:
  assumes "ch_ok ch" and "ch_phase ch = 1"
  shows "\<exists>ch'. msg_handler_channel_events 1 ch = Inr (ch', [\<lparr>ev_channel_id = fsm_channel (ch_fsm ch), ev_event_type = 1\<rparr>])
    \<and> same_channel ch ch' \<and> ch_phase ch' = 2"
  using assms by (auto simp: fsm_defs same_channel_def Let_def)

lemma assist_stops_channel:
  assumes inv: "fg_inv cfg K Ts (ct_flowgraph ct)" and c: "c < channels_count (ct_flowgraph ct)"
    and busy: "channels_state (ct_flowgraph ct) ! c = 1" "ch_phase (channels (ct_flowgraph ct) ! c) = 2"
  shows "\<exists>ct'. assist_GNSS_restart cfg [] ct = Inr ct' \<and> fg_inv cfg K Ts (ct_flowgraph ct')
    \<and> receiver_on_standby ct' = receiver_on_standby ct \<and> queue (ct_flowgraph ct') = queue (ct_flowgraph ct)
    \<and> channels_count (ct_flowgraph ct') = channels_count (ct_flowgraph ct)
    \<and> channels_state (ct_flowgraph ct') ! c = 0 \<and> ch_phase (channels (ct_flowgraph ct') ! c) = 0"
proof -
  let ?fg = "ct_flowgraph ct" and ?ns = "[0..<channels_count (ct_flowgraph ct)]"
  obtain fg2 where st: "standby_channels ?ns ?fg = Inr fg2" "fg_inv cfg K Ts fg2"
    "channels_count fg2 = channels_count ?fg" "queue fg2 = queue ?fg"
    using standby_channels_ok [OF inv, of ?ns] by auto
  have "channels_state fg2 ! c = 0 \<and> ch_phase (channels fg2 ! c) = 0"
    using standby_effect [OF conjunct1 [OF inv] _ st(1) c] c busy by simp
  then show ?thesis
    using st by (simp add: assist_GNSS_restart_def on_flowgraph_def apply_action_def action_standby_def)
qed

lemma stale_success_loses_channel:
  assumes inv: "fg_inv cfg K Ts (ct_flowgraph ct)" and en: "enough K Ts" and calm: "\<not> receiver_on_standby ct"
    and c: "c < channels_count (ct_flowgraph ct)" and idle: "ch_phase (channels (ct_flowgraph ct) ! c) = 0"
    and q: "queue (ct_flowgraph ct) = [ChannelEvent \<lparr>ev_channel_id = c, ev_event_type = 1\<rparr>]"
  shows "\<exists>ct'. control_iteration cfg vis ct = Inr ct' \<and> fg_inv cfg K Ts (ct_flowgraph ct')
    \<and> lost c (ct_flowgraph ct') \<and> queue (ct_flowgraph ct') = []"
proof -
  define fg0 where "fg0 = (ct_flowgraph ct)\<lparr>queue := []\<rparr>"
  define fg1 where "fg1 = decrease_acq_count (set_state c 2 (remove_signal (channel_signal c fg0) fg0))"
  have i0: "fg_inv cfg K Ts fg0" and c0: "c < channels_count fg0" using inv c by (simp_all add: fg0_def)
  have i1: "fg_inv cfg K Ts fg1" unfolding fg1_def by (rule acq_success_inv [OF i0 c0])
  have len: "length (channels_state fg0) = channels_count fg0" using fg_wf_channel(5) [OF conjunct1 [OF i0] c0] .
  have "lost c fg1" using c0 len idle by (simp add: fg1_def lost_def) (simp add: fg0_def)
  moreover have "queue fg1 = []" by (simp add: fg1_def fg0_def)
  ultimately obtain fg' where "acquisition_manager cfg c fg1 = Inr fg'" "fg_inv cfg K Ts fg'" "lost c fg' \<and> queue fg' = []"
    using acquisition_manager_keeps [OF conjunct1 [OF i1] conjunct2 [OF i1] en, of "\<lambda>f. lost c f \<and> queue f = []" c]
      managed_lost by (fastforce elim: managedE)
  moreover have "apply_action cfg c 1 fg0 = acquisition_manager cfg c fg1"
    using c0 len by (simp add: apply_action_def action_acq_success_def fg1_def)
  ultimately show ?thesis
    using calm by (simp add: control_iteration_def q event_dispatcher_def on_flowgraph_def fg0_def)
qed

end
