(* ===== verification/Receiver_Properties.thy ===== *)
theory Receiver_Properties
  imports Receiver_Correct
begin

section \<open>Properties of the receiver's control plane\<close>

text \<open>
  What the invariants of \<open>Flowgraph_Correct\<close>, \<open>Receiver_Start\<close> and \<open>Receiver_Correct\<close> say of the
  receiver as a whole, with a small configuration (two GPS channels, three satellites) on which
  the hypotheses hold.
\<close>

lemma operator_acts_ok: "acts_ok operator_acts"
  by (auto simp: operator_acts_def)

lemma started_inv:
  assumes "fg_inv cfg K Ts fg" and "queue fg = []"
  shows "rcv_inv cfg acts K Ts (new_control_thread fg)"
  using assms by (simp add: rcv_inv_def new_control_thread_def)

lemma start_reachable_inv:
  assumes new: "GNSSFlowgraph boost_prns flags cfg = Inr fg0" and en: "pools_suffice cfg fg0"
    and fit: "channels_fit cfg fg0" "property_int cfg ''Channels.in_acquisition'' 0 \<le> int (channels_count fg0)"
    and con: "connect_desktop_flowgraph cfg fg0 = Inr (Some fg)"
    and reach: "receiver_reachable cfg acts (new_control_thread fg) ct" and acts: "acts_ok acts"
  shows "rcv_inv cfg acts (pool_keys fg0) (config_types cfg) ct"
proof -
  have "fg_inv cfg (pool_keys fg0) (config_types cfg) fg" "queue fg = []"
    using connect_ok [OF new en fit] con by auto
  then show ?thesis
    using reachable_rcv_inv [OF reach started_inv pools_suffice_enough [OF en] acts] by blast
qed

subsection \<open>Example configuration\<close>

definition ex_boost_prns :: "string \<Rightarrow> nat list result" where
  "ex_boost_prns s = Inr [1, 2, 3]"

definition ex_cfg :: configuration where
  "ex_cfg =
     \<lparr>property_bool = (\<lambda>_ d. d),
      property_int = (\<lambda>s d. if s = ''Channels_1C.count'' then 2 else if s = ''Channels.in_acquisition'' then 1 else d),
      property_uint64 = (\<lambda>s d. if s = ''Channels_1C.count'' then 2 else d),
      property_float = (\<lambda>_ d. d),
      property_string = (\<lambda>s d. if s = ''GPS.prns'' then ''1,2,3'' else d)\<rparr>"

definition ex_fg0 :: flowgraph where
  "ex_fg0 = (case GNSSFlowgraph ex_boost_prns 0 ex_cfg of Inr fg \<Rightarrow> fg)"

lemma ex_strs: "channel_signal_strs ex_cfg = [''1C'', ''1C'']"
  by (simp add: channel_signal_strs_def ex_cfg_def to_uint32_def numeral_2_eq_2 Let_def)

lemma ex_started: "GNSSFlowgraph ex_boost_prns 0 ex_cfg = Inr ex_fg0"
proof -
  have "\<exists>fg. GNSSFlowgraph ex_boost_prns 0 ex_cfg = Inr fg"
    by (simp add: GNSSFlowgraph_def set_signals_list_def available_galileo_prn_def available_gps_prn_def
        available_sbas_prn_def available_glonass_prn_def available_beidou_prn_def listed_prns_def ex_cfg_def
        ex_boost_prns_def)
  then show ?thesis by (auto simp: ex_fg0_def)
qed

lemma ex_available: "available ex_fg0 EvGPS_1C = map (\<lambda>p. Gnss_Signal (Gnss_Satellite ''GPS'' p) ''1C'') [1, 2, 3]"
  "e \<noteq> EvGPS_1C \<Longrightarrow> available ex_fg0 e = []"
proof -
  have "set_signals_list ex_boost_prns ex_cfg = Inr (available ex_fg0)" by (rule GNSSFlowgraph_fields(4) [OF ex_started])
  then have "available ex_fg0 = (\<lambda>e. case e of
      EvGPS_1C \<Rightarrow> map (\<lambda>p. Gnss_Signal (Gnss_Satellite ''GPS'' p) ''1C'') [1, 2, 3] | _ \<Rightarrow> [])"
    by (simp add: set_signals_list_def available_galileo_prn_def available_gps_prn_def
        available_sbas_prn_def available_glonass_prn_def available_beidou_prn_def listed_prns_def ex_cfg_def
        ex_boost_prns_def signals_if_def erase_banned_def fun_eq_iff split: string_value.splits)
  then show "available ex_fg0 EvGPS_1C = map (\<lambda>p. Gnss_Signal (Gnss_Satellite ''GPS'' p) ''1C'') [1, 2, 3]"
    "e \<noteq> EvGPS_1C \<Longrightarrow> available ex_fg0 e = []" by (simp_all split: string_value.splits)
qed

lemma ex_pool_keys: "card (pool_keys ex_fg0 EvGPS_1C) = 3"
proof -
  have "inj_on (\<lambda>p. signal_key (Gnss_Signal (Gnss_Satellite ''GPS'' p) ''1C'')) {1, 2, 3}"
    by (auto simp: inj_on_def signal_key_def Gnss_Signal_def satellite_PRN valid_PRN_def)
  from card_image [OF this] show ?thesis by (simp add: pool_keys_def ex_available image_image)
qed

lemma ex_suffices: "pools_suffice ex_cfg ex_fg0"
  using ex_pool_keys by (simp add: pools_suffice_def config_types_def ex_strs string_value_of_def mapStringValues_def)

lemma ex_fits: "channels_fit ex_cfg ex_fg0" "property_int ex_cfg ''Channels.in_acquisition'' 0 \<le> int (channels_count ex_fg0)"
proof -
  show "channels_fit ex_cfg ex_fg0"
    by (simp add: channels_fit_def too_many_def ex_available ex_cfg_def to_size_t_def)
  have "channels_count ex_fg0 = 2"
    by (simp add: GNSSFlowgraph_fields(1) [OF ex_started] length_GetChannels ex_strs)
  then show "property_int ex_cfg ''Channels.in_acquisition'' 0 \<le> int (channels_count ex_fg0)" by (simp add: ex_cfg_def)
qed

subsection \<open>The receiver never fails\<close>

text \<open>
  C13: When every kind of signal has more satellites than channels, the flow graph is connected, and
  after any sequence of messages of the blocks, status reports, operator commands, assistance and
  iterations of the control thread, the next iteration and the next message of any block
  succeed: no list of satellites is empty when a channel asks for one, no index is out of range,
  no exception is raised.
\<close>

theorem receiver_never_fails:
  assumes "GNSSFlowgraph boost_prns flags cfg = Inr fg0" and "pools_suffice cfg fg0"
    and "channels_fit cfg fg0" and "property_int cfg ''Channels.in_acquisition'' 0 \<le> int (channels_count fg0)"
  shows "\<exists>fg. connect_desktop_flowgraph cfg fg0 = Inr (Some fg)
    \<and> (\<forall>ct. receiver_reachable cfg operator_acts (new_control_thread fg) ct \<longrightarrow>
         (\<forall>vis. \<exists>ct'. control_iteration cfg vis ct = Inr ct')
         \<and> (\<forall>vis. \<exists>ct'. assist_GNSS_restart cfg vis ct = Inr ct')
         \<and> (\<forall>c m. c < channels_count fg0 \<longrightarrow>
              (\<exists>fg'. on_channel c (msg_handler_channel_events m) (ct_flowgraph ct) = Inr fg')))"
proof -
  obtain fg where con: "connect_desktop_flowgraph cfg fg0 = Inr (Some fg)" "same_counts fg0 fg"
    "fg_inv cfg (pool_keys fg0) (config_types cfg) fg"
    using connect_ok [OF assms] by blast
  note en = pools_suffice_enough [OF assms(2)]
  have n: "channels_count fg0 = length (config_types cfg)"
    using con fg_wf_count [OF conjunct1 [OF con(3)]] by (simp add: same_counts_def)
  have "(\<exists>ct'. control_iteration cfg vis ct = Inr ct') \<and> (\<exists>ct'. assist_GNSS_restart cfg vis ct = Inr ct')
      \<and> (c < channels_count fg0 \<longrightarrow> (\<exists>fg'. on_channel c (msg_handler_channel_events m) (ct_flowgraph ct) = Inr fg'))"
    if "receiver_reachable cfg operator_acts (new_control_thread fg) ct" for ct vis c m
  proof -
    have r: "rcv_inv cfg operator_acts (pool_keys fg0) (config_types cfg) ct"
      by (rule start_reachable_inv [OF assms con(1) that operator_acts_ok])
    then have i: "fg_inv cfg (pool_keys fg0) (config_types cfg) (ct_flowgraph ct)" by (simp add: rcv_inv_def)
    show ?thesis
      using iteration_ok [OF r en operator_acts_ok, of vis] assist_ok [OF r en, of vis]
        block_message_ok [OF i, of c m] fg_wf_count [OF conjunct1 [OF i]] n by auto
  qed
  then show ?thesis using con(1) by blast
qed

theorem receiver_never_fails_witness:
  "\<exists>fg. connect_desktop_flowgraph ex_cfg ex_fg0 = Inr (Some fg)
    \<and> (\<forall>vis. \<exists>ct'. control_iteration ex_cfg vis (new_control_thread fg) = Inr ct')"
  using receiver_never_fails [OF ex_started ex_suffices ex_fits] receiver_reachable.Init by blast

text \<open>
  C15: Satellites are not lost: in every state the receiver can reach, each satellite of the lists
  built from the configuration is still in its list or is the satellite of a channel that is in
  acquisition, in tracking or fixed to a satellite.
\<close>

theorem satellites_not_lost:
  assumes "GNSSFlowgraph boost_prns flags cfg = Inr fg0" and "pools_suffice cfg fg0"
    and "channels_fit cfg fg0" and "property_int cfg ''Channels.in_acquisition'' 0 \<le> int (channels_count fg0)"
    and "connect_desktop_flowgraph cfg fg0 = Inr (Some fg)"
    and "receiver_reachable cfg operator_acts (new_control_thread fg) ct"
    and s: "s \<in> set (available fg0 e)"
  shows "(\<exists>x \<in> set (available (ct_flowgraph ct) e). signal_eq x s)
    \<or> (\<exists>i < channels_count (ct_flowgraph ct). signal_eq (channel_signal i (ct_flowgraph ct)) s
         \<and> (channels_state (ct_flowgraph ct) ! i \<noteq> 0 \<or> channel_satellite cfg i \<noteq> 0))"
proof -
  have "covered cfg (pool_keys fg0) None (ct_flowgraph ct)"
    using start_reachable_inv [OF assms(1-6) operator_acts_ok] by (simp add: rcv_inv_def)
  moreover have "signal_key s \<in> pool_keys fg0 e" using s by (simp add: pool_keys_def)
  ultimately have "signal_key s \<in> free_keys (ct_flowgraph ct) e \<union> held_keys cfg (ct_flowgraph ct) e"
    unfolding covered_def by blast
  then show ?thesis by (auto simp: free_keys_def held_keys_def busy_def signal_eq_key)
qed

theorem satellites_not_lost_witness:
  "\<exists>fg. connect_desktop_flowgraph ex_cfg ex_fg0 = Inr (Some fg)
    \<and> ((\<exists>x \<in> set (available fg EvGPS_1C). signal_eq x (Gnss_Signal (Gnss_Satellite ''GPS'' 2) ''1C''))
       \<or> (\<exists>i < channels_count fg. signal_eq (channel_signal i fg) (Gnss_Signal (Gnss_Satellite ''GPS'' 2) ''1C'')
            \<and> (channels_state fg ! i \<noteq> 0 \<or> channel_satellite ex_cfg i \<noteq> 0)))"
proof -
  obtain fg where fg: "connect_desktop_flowgraph ex_cfg ex_fg0 = Inr (Some fg)"
    using connect_ok [OF ex_started ex_suffices ex_fits] by blast
  have "Gnss_Signal (Gnss_Satellite ''GPS'' 2) ''1C'' \<in> set (available ex_fg0 EvGPS_1C)" by (simp add: ex_available)
  from satellites_not_lost [OF ex_started ex_suffices ex_fits fg receiver_reachable.Init this] fg show ?thesis
    by (auto simp: new_control_thread_def)
qed

subsection \<open>Channels and flow graph agree\<close>

text \<open>
  C14: As long as no standby is requested, the state the flow graph has recorded for a channel, the
  state machine of the channel and the events of the channel that are still in the queue agree,
  whatever the interleaving: a recorded acquisition is under way or its outcome is in the queue,
  a recorded tracking is under way or its loss is in the queue, an idle channel has nothing
  pending and accepts the next start. The counter of channels in acquisition is exact and
  within its limit.
\<close>

theorem channels_agree:
  assumes "GNSSFlowgraph boost_prns flags cfg = Inr fg0" and "pools_suffice cfg fg0"
    and "channels_fit cfg fg0" and "property_int cfg ''Channels.in_acquisition'' 0 \<le> int (channels_count fg0)"
    and "0 \<le> property_int cfg ''Channels.in_acquisition'' (int (channels_count fg0))"
    and "connect_desktop_flowgraph cfg fg0 = Inr (Some fg)"
    and "receiver_reachable cfg calm_acts (new_control_thread fg) ct"
  shows "(\<forall>i < channels_count (ct_flowgraph ct).
       agree (channels_state (ct_flowgraph ct) ! i) (ch_phase (channels (ct_flowgraph ct) ! i))
         (pending i (queue (ct_flowgraph ct))))
    \<and> acq_channels_count (ct_flowgraph ct) = int (count_list (channels_state (ct_flowgraph ct)) 1)
    \<and> acq_channels_count (ct_flowgraph ct) \<le> max_acq_channels (ct_flowgraph ct)"
proof -
  obtain inv: "fg_inv cfg (pool_keys fg0) (config_types cfg) fg" and same: "same_counts fg0 fg" and q: "queue fg = []"
    and ph: "\<forall>i < channels_count fg. ch_phase (channels fg ! i) = (if channels_state fg ! i = 1 then 1 else 0)"
    using connect_ok [OF assms(1-4)] assms(6) by auto
  note f = GNSSFlowgraph_fields [OF assms(1)]
  define m where "m = max_acq_channels fg0"
  have m: "0 \<le> m" "m \<le> int (channels_count fg0)" using f(7,8) assms(5) by (simp_all add: m_def)
  have st: "channels_state fg = map (\<lambda>i. if int i < m then 1 else 0) [0..<channels_count fg0]"
    using same f(5) by (simp add: same_counts_def m_def)
  have "count_list (channels_state fg) 1 = card {i. i < channels_count fg0 \<and> int i < m}"
    unfolding st count_list_card by (rule arg_cong [where f = card]) (auto split: if_splits)
  also have "{i. i < channels_count fg0 \<and> int i < m} = {..<nat m}" using m by auto
  finally have "int (count_list (channels_state fg) 1) = m" using m by simp
  moreover have "agree (channels_state fg ! i) (ch_phase (channels fg ! i)) []" if "i < channels_count fg" for i
  proof -
    have "i < channels_count fg0" using that same by (simp add: same_counts_def)
    then have "channels_state fg ! i = (if int i < m then 1 else 0)" by (simp add: st)
    then show ?thesis using ph that by (auto simp: agree_def)
  qed
  ultimately have "synced (\<lambda>i. []) fg"
    using same f(6) m by (simp add: synced_def same_counts_def m_def)
  then have "calm_inv cfg (pool_keys fg0) (config_types cfg) (new_control_thread fg)"
    using started_inv [OF inv q, of calm_acts] q by (simp add: calm_inv_def new_control_thread_def)
  from reachable_calm [OF assms(7) this pools_suffice_enough [OF assms(2)]] show ?thesis
    by (simp add: calm_inv_def synced_def)
qed

theorem channels_agree_witness:
  "\<exists>fg. connect_desktop_flowgraph ex_cfg ex_fg0 = Inr (Some fg)
    \<and> (\<forall>i < channels_count fg. agree (channels_state fg ! i) (ch_phase (channels fg ! i)) (pending i (queue fg)))"
proof -
  obtain fg where fg: "connect_desktop_flowgraph ex_cfg ex_fg0 = Inr (Some fg)"
    using connect_ok [OF ex_started ex_suffices ex_fits] by blast
  have "0 \<le> property_int ex_cfg ''Channels.in_acquisition'' (int (channels_count ex_fg0))" by (simp add: ex_cfg_def)
  from channels_agree [OF ex_started ex_suffices ex_fits this fg receiver_reachable.Init] fg show ?thesis
    by (auto simp: new_control_thread_def)
qed



subsection \<open>Empty lists\<close>

lemma search_empty_list:
  assumes "available fg (string_value_of s) = []" and "channels_status fg = []"
  shows "search_next_signal cfg s fg = Inl UndefinedBehaviour"
  using assms string_value_of_not_SBAS [of s]
  by (cases "string_value_of s")
    (simp_all add: search_next_signal_def take_front_def take_assisted_def search_GPS_2S_def search_GPS_L5_def
      search_GAL_5X_def search_GAL_7X_def search_GAL_E6_def)

lemma empty_list_fits:
  "property_uint64 cfg (''Channels_'' @ s @ ''.count'') 0 < 2 ^ 64 \<Longrightarrow> available fg e = [] \<Longrightarrow> \<not> too_many cfg fg s e (- 1)"
  by (simp add: too_many_def to_size_t_minus_one)


definition ex_banned_cfg :: configuration where
  "ex_banned_cfg =
     \<lparr>property_bool = (\<lambda>_ d. d),
      property_int = (\<lambda>s d. if s = ''Channels_1C.count'' then 5 else d),
      property_uint64 = (\<lambda>s d. if s = ''Channels_1C.count'' then 5 else d),
      property_float = (\<lambda>_ d. d),
      property_string = (\<lambda>s d. if s = ''GPS.prns'' then ''7'' else if s = ''GNSS-SDR.GPS_banned_prns'' then ''7'' else d)\<rparr>"

definition ex_banned_prns :: "string \<Rightarrow> nat list result" where
  "ex_banned_prns s = Inr [7]"

definition ex_banned_fg :: flowgraph where
  "ex_banned_fg = (case GNSSFlowgraph ex_banned_prns 0 ex_banned_cfg of Inr fg \<Rightarrow> fg)"

lemma ex_banned_new: "GNSSFlowgraph ex_banned_prns 0 ex_banned_cfg = Inr ex_banned_fg"
proof -
  have "\<exists>fg. GNSSFlowgraph ex_banned_prns 0 ex_banned_cfg = Inr fg"
    by (simp add: GNSSFlowgraph_def set_signals_list_def available_galileo_prn_def available_gps_prn_def
        available_sbas_prn_def available_glonass_prn_def available_beidou_prn_def listed_prns_def ex_banned_cfg_def
        ex_banned_prns_def)
  then show ?thesis by (auto simp: ex_banned_fg_def)
qed

lemma ex_banned_erased: "erase_banned ''7'' [7] = []"
  by (simp add: erase_banned_def stoi_def stoi_sign_def is_space_def is_digit_def decimal_value_def to_uint32_def)

lemma ex_banned_available: "available ex_banned_fg e = []"
proof -
  have "set_signals_list ex_banned_prns ex_banned_cfg = Inr (available ex_banned_fg)"
    by (rule GNSSFlowgraph_fields(4) [OF ex_banned_new])
  then have "available ex_banned_fg = (\<lambda>x. case x of EvGPS_1C \<Rightarrow> [] | _ \<Rightarrow> [])"
    by (simp add: set_signals_list_def available_galileo_prn_def available_gps_prn_def
        available_sbas_prn_def available_glonass_prn_def available_beidou_prn_def listed_prns_def ex_banned_cfg_def
        ex_banned_prns_def signals_if_def ex_banned_erased)
  then show ?thesis by (cases e) simp_all
qed


end
