(* ===== verification/Galileo_CNAV.thy ===== *)
theory Galileo_CNAV
  imports Nav_Bits Ieee754
begin

section \<open>Layout of the Galileo C/NAV message\<close>

text \<open>
  The constants of \<^verbatim>\<open>core/system_parameters/Galileo_CNAV.h\<close>: the structure of a C/NAV page, the
  field lengths of the messages of the High Accuracy Service and their scale factors (decimal
  literals rounded to double and then to float, as the compiler does), and for every parameter
  of the page header and the message header its first bit and length.
\<close>

definition HAS_MSG_NSYS_LENGTH :: nat where
  "HAS_MSG_NSYS_LENGTH = 4"

definition HAS_MSG_ID_MASK_LENGTH :: nat where
  "HAS_MSG_ID_MASK_LENGTH = 4"

definition HAS_MSG_SATELLITE_MASK_LENGTH :: nat where
  "HAS_MSG_SATELLITE_MASK_LENGTH = 40"

definition HAS_MSG_SIGNAL_MASK_LENGTH :: nat where
  "HAS_MSG_SIGNAL_MASK_LENGTH = 16"

definition HAS_MSG_NAV_MESSAGE_LENGTH :: nat where
  "HAS_MSG_NAV_MESSAGE_LENGTH = 3"

definition HAS_MSG_MASK_RESERVED_LENGTH :: nat where
  "HAS_MSG_MASK_RESERVED_LENGTH = 6"

definition HAS_MSG_VALIDITY_INDEX_LENGTH :: nat where
  "HAS_MSG_VALIDITY_INDEX_LENGTH = 4"

definition HAS_MSG_IOD_GPS_LENGTH :: nat where
  "HAS_MSG_IOD_GPS_LENGTH = 8"

definition HAS_MSG_IOD_GAL_LENGTH :: nat where
  "HAS_MSG_IOD_GAL_LENGTH = 10"

definition HAS_MSG_DELTA_RADIAL_LENGTH :: nat where
  "HAS_MSG_DELTA_RADIAL_LENGTH = 13"

definition HAS_MSG_DELTA_IN_TRACK_LENGTH :: nat where
  "HAS_MSG_DELTA_IN_TRACK_LENGTH = 12"

definition HAS_MSG_DELTA_CROSS_TRACK_LENGTH :: nat where
  "HAS_MSG_DELTA_CROSS_TRACK_LENGTH = 12"

definition HAS_MSG_DELTA_CLOCK_MULTIPLIER_LENGTH :: nat where
  "HAS_MSG_DELTA_CLOCK_MULTIPLIER_LENGTH = 2"

definition HAS_MSG_DELTA_CLOCK_CORRECTION_LENGTH :: nat where
  "HAS_MSG_DELTA_CLOCK_CORRECTION_LENGTH = 13"

definition HAS_MSG_NSYS_SUB_LENGTH :: nat where
  "HAS_MSG_NSYS_SUB_LENGTH = 4"

definition HAS_MSG_ID_CLOCK_SUBSET_LENGTH :: nat where
  "HAS_MSG_ID_CLOCK_SUBSET_LENGTH = 4"

definition HAS_MSG_DELTA_CLOCK_MULTIPLIER_SUBSET_LENGTH :: nat where
  "HAS_MSG_DELTA_CLOCK_MULTIPLIER_SUBSET_LENGTH = 2"

definition HAS_MSG_DELTA_CLOCK_CORRECTION_SUBSET_LENGTH :: nat where
  "HAS_MSG_DELTA_CLOCK_CORRECTION_SUBSET_LENGTH = 13"

definition HAS_MSG_CODE_BIAS_LENGTH :: nat where
  "HAS_MSG_CODE_BIAS_LENGTH = 11"

definition HAS_MSG_PHASE_BIAS_LENGTH :: nat where
  "HAS_MSG_PHASE_BIAS_LENGTH = 11"

definition HAS_MSG_PHASE_DISCONTINUITY_INDICATOR_LENGTH :: nat where
  "HAS_MSG_PHASE_DISCONTINUITY_INDICATOR_LENGTH = 2"

definition MAX_SECONDS_REMEMBERING_MID :: nat where
  "MAX_SECONDS_REMEMBERING_MID = 150"

definition GALILEO_CNAV_SYMBOLS_PER_PAGE :: nat where
  "GALILEO_CNAV_SYMBOLS_PER_PAGE = 1000"

definition GALILEO_CNAV_PREAMBLE_PERIOD_SYMBOLS :: nat where
  "GALILEO_CNAV_PREAMBLE_PERIOD_SYMBOLS = 1000"

definition GALILEO_CNAV_PAGE_MS :: nat where
  "GALILEO_CNAV_PAGE_MS = 1"

definition GALILEO_CNAV_INTERLEAVER_ROWS :: nat where
  "GALILEO_CNAV_INTERLEAVER_ROWS = 8"

definition GALILEO_CNAV_INTERLEAVER_COLS :: nat where
  "GALILEO_CNAV_INTERLEAVER_COLS = 123"

definition GALILEO_CNAV_TELEMETRY_RATE_BITS_SECOND :: nat where
  "GALILEO_CNAV_TELEMETRY_RATE_BITS_SECOND = 1000"

definition GALILEO_CNAV_HAS_PAGE_DATA_BITS :: nat where
  "GALILEO_CNAV_HAS_PAGE_DATA_BITS = 448"

definition GALILEO_CNAV_PAGE_RESERVED_BITS :: nat where
  "GALILEO_CNAV_PAGE_RESERVED_BITS = 14"

definition GALILEO_CNAV_BYTES_FOR_CRC :: nat where
  "GALILEO_CNAV_BYTES_FOR_CRC = 58"

definition GALILEO_CNAV_CRC_LENGTH :: nat where
  "GALILEO_CNAV_CRC_LENGTH = 24"

definition GALILEO_CNAV_MESSAGE_BITS_PER_PAGE :: nat where
  "GALILEO_CNAV_MESSAGE_BITS_PER_PAGE = 424"

definition GALILEO_CNAV_PAGE_HEADER_BITS :: nat where
  "GALILEO_CNAV_PAGE_HEADER_BITS = 24"

definition GALILEO_CNAV_PREAMBLE_LENGTH_BITS :: nat where
  "GALILEO_CNAV_PREAMBLE_LENGTH_BITS = 16"

definition GALILEO_CNAV_MAX_NUMBER_SYMBOLS_ENCODED_BLOCK :: nat where
  "GALILEO_CNAV_MAX_NUMBER_SYMBOLS_ENCODED_BLOCK = 255"

definition GALILEO_CNAV_MT1_HEADER_BITS :: nat where
  "GALILEO_CNAV_MT1_HEADER_BITS = 32"

definition GALILEO_CNAV_OCTETS_IN_SUBPAGE :: nat where
  "GALILEO_CNAV_OCTETS_IN_SUBPAGE = 53"

definition GALILEO_CNAV_INFORMATION_VECTOR_LENGTH :: nat where
  "GALILEO_CNAV_INFORMATION_VECTOR_LENGTH = 32"

definition GALILEO_CNAV_BITS_FOR_CRC :: nat where
  "GALILEO_CNAV_BITS_FOR_CRC = GALILEO_CNAV_HAS_PAGE_DATA_BITS + GALILEO_CNAV_PAGE_RESERVED_BITS"

definition HAS_MSG_NUMBER_MASK_IDS :: nat where
  "HAS_MSG_NUMBER_MASK_IDS = 32"

definition HAS_MSG_NUMBER_GNSS_IDS :: nat where
  "HAS_MSG_NUMBER_GNSS_IDS = 16"

definition HAS_MSG_NUMBER_MESSAGE_IDS :: nat where
  "HAS_MSG_NUMBER_MESSAGE_IDS = 32"

definition HAS_MSG_NUMBER_SATELLITE_IDS :: nat where
  "HAS_MSG_NUMBER_SATELLITE_IDS = 40"

definition HAS_MSG_NUMBER_SIGNAL_MASKS :: nat where
  "HAS_MSG_NUMBER_SIGNAL_MASKS = 16"

definition HAS_MSG_DELTA_RADIAL_SCALE_FACTOR :: float32 where
  "HAS_MSG_DELTA_RADIAL_SCALE_FACTOR = to_float (to_double (25 / 10000))"

definition HAS_MSG_DELTA_IN_TRACK_SCALE_FACTOR :: float32 where
  "HAS_MSG_DELTA_IN_TRACK_SCALE_FACTOR = to_float (to_double (8 / 1000))"

definition HAS_MSG_DELTA_CROSS_TRACK_SCALE_FACTOR :: float32 where
  "HAS_MSG_DELTA_CROSS_TRACK_SCALE_FACTOR = to_float (to_double (8 / 1000))"

definition HAS_MSG_DELTA_CLOCK_SCALE_FACTOR :: float32 where
  "HAS_MSG_DELTA_CLOCK_SCALE_FACTOR = to_float (to_double (25 / 10000))"

definition HAS_MSG_CODE_BIAS_SCALE_FACTOR :: float32 where
  "HAS_MSG_CODE_BIAS_SCALE_FACTOR = to_float (to_double (2 / 100))"

definition HAS_MSG_PHASE_BIAS_SCALE_FACTOR :: float32 where
  "HAS_MSG_PHASE_BIAS_SCALE_FACTOR = to_float (to_double (1 / 100))"

definition HAS_MSG_NUMBER_MAX_TOH :: nat where
  "HAS_MSG_NUMBER_MAX_TOH = 3599"

definition HAS_MSG_GPS_SYSTEM :: nat where
  "HAS_MSG_GPS_SYSTEM = 0"

definition HAS_MSG_GALILEO_SYSTEM :: nat where
  "HAS_MSG_GALILEO_SYSTEM = 2"

definition HAS_MSG_WRONG_SYSTEM :: nat where
  "HAS_MSG_WRONG_SYSTEM = 255"

definition GALILEO_CNAV_PREAMBLE :: string where
  "GALILEO_CNAV_PREAMBLE = ''1011011101110000''"

definition GALILEO_HAS_STATUS :: "nat \<times> nat" where
  "GALILEO_HAS_STATUS = (1, 2)"

definition GALILEO_HAS_RESERVED :: "nat \<times> nat" where
  "GALILEO_HAS_RESERVED = (3, 2)"

definition GALILEO_HAS_MESSAGE_TYPE :: "nat \<times> nat" where
  "GALILEO_HAS_MESSAGE_TYPE = (5, 2)"

definition GALILEO_HAS_MESSAGE_ID :: "nat \<times> nat" where
  "GALILEO_HAS_MESSAGE_ID = (7, 5)"

definition GALILEO_HAS_MESSAGE_SIZE :: "nat \<times> nat" where
  "GALILEO_HAS_MESSAGE_SIZE = (12, 5)"

definition GALILEO_HAS_MESSAGE_PAGE_ID :: "nat \<times> nat" where
  "GALILEO_HAS_MESSAGE_PAGE_ID = (17, 8)"

definition GALILEO_MT1_HEADER_TOH :: "nat \<times> nat" where
  "GALILEO_MT1_HEADER_TOH = (1, 12)"

definition GALILEO_MT1_HEADER_MASK_FLAG :: "nat \<times> nat" where
  "GALILEO_MT1_HEADER_MASK_FLAG = (13, 1)"

definition GALILEO_MT1_HEADER_ORBIT_CORRECTION_FLAG :: "nat \<times> nat" where
  "GALILEO_MT1_HEADER_ORBIT_CORRECTION_FLAG = (14, 1)"

definition GALILEO_MT1_HEADER_CLOCK_FULLSET_FLAG :: "nat \<times> nat" where
  "GALILEO_MT1_HEADER_CLOCK_FULLSET_FLAG = (15, 1)"

definition GALILEO_MT1_HEADER_CLOCK_SUBSET_FLAG :: "nat \<times> nat" where
  "GALILEO_MT1_HEADER_CLOCK_SUBSET_FLAG = (16, 1)"

definition GALILEO_MT1_HEADER_CODE_BIAS_FLAG :: "nat \<times> nat" where
  "GALILEO_MT1_HEADER_CODE_BIAS_FLAG = (17, 1)"

definition GALILEO_MT1_HEADER_PHASE_BIAS_FLAG :: "nat \<times> nat" where
  "GALILEO_MT1_HEADER_PHASE_BIAS_FLAG = (18, 1)"

definition GALILEO_MT1_HEADER_RESERVED :: "nat \<times> nat" where
  "GALILEO_MT1_HEADER_RESERVED = (19, 4)"

definition GALILEO_MT1_HEADER_MASK_ID :: "nat \<times> nat" where
  "GALILEO_MT1_HEADER_MASK_ID = (23, 5)"

definition GALILEO_MT1_HEADER_IOD_SET_ID :: "nat \<times> nat" where
  "GALILEO_MT1_HEADER_IOD_SET_ID = (28, 5)"

text \<open>The parameters of the two headers tile them, in the order of the declarations.\<close>

fun tiles :: "nat \<Rightarrow> (nat \<times> nat) list \<Rightarrow> nat \<Rightarrow> bool" where
  "tiles p [] n \<longleftrightarrow> p = Suc n"
| "tiles p ((f, l) # ps) n \<longleftrightarrow> f = p \<and> 0 < l \<and> tiles (f + l) ps n"

lemma has_headers_tiled:
  "tiles 1 [GALILEO_HAS_STATUS, GALILEO_HAS_RESERVED, GALILEO_HAS_MESSAGE_TYPE, GALILEO_HAS_MESSAGE_ID,
     GALILEO_HAS_MESSAGE_SIZE, GALILEO_HAS_MESSAGE_PAGE_ID] GALILEO_CNAV_PAGE_HEADER_BITS"
  "tiles 1 [GALILEO_MT1_HEADER_TOH, GALILEO_MT1_HEADER_MASK_FLAG, GALILEO_MT1_HEADER_ORBIT_CORRECTION_FLAG,
     GALILEO_MT1_HEADER_CLOCK_FULLSET_FLAG, GALILEO_MT1_HEADER_CLOCK_SUBSET_FLAG, GALILEO_MT1_HEADER_CODE_BIAS_FLAG,
     GALILEO_MT1_HEADER_PHASE_BIAS_FLAG, GALILEO_MT1_HEADER_RESERVED, GALILEO_MT1_HEADER_MASK_ID,
     GALILEO_MT1_HEADER_IOD_SET_ID] GALILEO_CNAV_MT1_HEADER_BITS"
  by code_simp+

end
