(* ===== verification/Galileo_Cnav_Message.thy ===== *)
theory Galileo_Cnav_Message
  imports Galileo_CNAV
begin

section \<open>Galileo C/NAV pages\<close>

text \<open>
  The classes \<^verbatim>\<open>Galileo_HAS_page\<close> and \<^verbatim>\<open>Galileo_Cnav_Message\<close> (\<^verbatim>\<open>galileo_has_page.h\<close>,
  \<^verbatim>\<open>galileo_cnav_message.cc/.h\<close>): the CRC of a page, its header and the encoded part of a message of
  the High Accuracy Service. \<open>crc\<close> stands for the CRC of Boost; \<^verbatim>\<open>uint8_t\<close> members are bytes, the
  wider unsigned members natural numbers.
\<close>

subsection \<open>State\<close>

record galileo_has_page =
  has_message_string :: string
  has_time_stamp :: nat
  has_tow :: nat
  has_status :: "8 word"
  has_reserved :: "8 word"
  has_message_type :: "8 word"
  has_message_id :: "8 word"
  has_message_size :: "8 word"
  has_message_page_id :: "8 word"

definition new_has_page :: galileo_has_page where
  "new_has_page = \<lparr>has_message_string = '''', has_time_stamp = 0, has_tow = 0, has_status = 0, has_reserved = 0,
     has_message_type = 0, has_message_id = 0, has_message_size = 0, has_message_page_id = 0\<rparr>"

record galileo_cnav_message =
  has_page :: galileo_has_page
  d_has_page_status :: "8 word"
  d_has_reserved :: "8 word"
  d_received_message_page_id :: "8 word"
  d_received_message_type :: "8 word"
  d_received_message_id :: "8 word"
  d_received_message_size :: "8 word"
  d_test_mode :: bool
  d_flag_CRC_test :: bool
  d_page_dummy :: bool
  d_new_HAS_page :: bool

definition new_cnav_message :: galileo_cnav_message where
  "new_cnav_message = \<lparr>has_page = new_has_page, d_has_page_status = 0, d_has_reserved = 0, d_received_message_page_id = 0,
     d_received_message_type = 0, d_received_message_id = 0, d_received_message_size = 0, d_test_mode = False,
     d_flag_CRC_test = False, d_page_dummy = False, d_new_HAS_page = False\<rparr>"

subsection \<open>Reading a page\<close>

definition cnav_frame_bytes :: "462 word \<Rightarrow> 8 word list" where
  "cnav_frame_bytes bits = rev (map (\<lambda>j. ucast (drop_bit (8 * j) bits)) [0..<GALILEO_CNAV_BYTES_FOR_CRC])"

definition cnav_CRC_test :: "(8 word list \<Rightarrow> nat) \<Rightarrow> 462 word \<Rightarrow> 24 word \<Rightarrow> bool" where
  "cnav_CRC_test crc bits checksum \<longleftrightarrow> unat checksum = crc (take GALILEO_CNAV_BYTES_FOR_CRC (cnav_frame_bytes bits))"

definition read_has_page_header_parameter :: "24 word \<Rightarrow> nat \<times> nat \<Rightarrow> 8 word" where
  "read_has_page_header_parameter bits parameter = read_bits bits [parameter]"

definition dummy_header :: string where
  "dummy_header = ''101011110011101111000011''"

definition read_HAS_page_header :: "string \<Rightarrow> galileo_cnav_message \<Rightarrow> galileo_cnav_message result" where
  "read_HAS_page_header page_string st =
     (if page_string = dummy_header then Inr (st\<lparr>d_page_dummy := True\<rparr>)
      else bindr (bitset_of_string page_string) (\<lambda>has_page_header.
        Inr (st\<lparr>d_page_dummy := False,
          d_has_page_status := read_has_page_header_parameter has_page_header GALILEO_HAS_STATUS,
          d_has_reserved := read_has_page_header_parameter has_page_header GALILEO_HAS_RESERVED,
          d_received_message_type := read_has_page_header_parameter has_page_header GALILEO_HAS_MESSAGE_TYPE,
          d_received_message_id := read_has_page_header_parameter has_page_header GALILEO_HAS_MESSAGE_ID,
          d_received_message_size := read_has_page_header_parameter has_page_header GALILEO_HAS_MESSAGE_SIZE + 1,
          d_received_message_page_id := read_has_page_header_parameter has_page_header GALILEO_HAS_MESSAGE_PAGE_ID\<rparr>)))"

text \<open>The encoded part of a page with a right CRC: kept for dummy pages and in the modes 0 and 1.\<close>

definition store_HAS_page :: "string \<Rightarrow> galileo_cnav_message \<Rightarrow> galileo_cnav_message result" where
  "store_HAS_page page_string st =
     (let st1 = st\<lparr>d_test_mode := \<not> d_page_dummy st \<and> d_has_page_status st = 0\<rparr>;
          use_has = (\<not> d_page_dummy st \<and> (d_has_page_status st = 0 \<or> d_has_page_status st = 1))
      in if use_has \<or> d_page_dummy st1
         then bindr (substr page_string (GALILEO_CNAV_PAGE_RESERVED_BITS + GALILEO_CNAV_PAGE_HEADER_BITS)
                       GALILEO_CNAV_MESSAGE_BITS_PER_PAGE) (\<lambda>message.
           let page = (has_page st1)\<lparr>has_message_string := message\<rparr>;
               page1 = (if d_page_dummy st1 then page
                        else page\<lparr>has_status := d_has_page_status st1, has_reserved := d_has_reserved st1,
                          has_message_type := d_received_message_type st1, has_message_id := d_received_message_id st1,
                          has_message_size := d_received_message_size st1,
                          has_message_page_id := d_received_message_page_id st1\<rparr>)
           in Inr (st1\<lparr>has_page := page1, d_new_HAS_page := True\<rparr>))
         else Inr st1)"

definition read_HAS_page :: "(8 word list \<Rightarrow> nat) \<Rightarrow> string \<Rightarrow> galileo_cnav_message \<Rightarrow> galileo_cnav_message result" where
  "read_HAS_page crc page_string st =
     bindr (substr page_string 0 GALILEO_CNAV_BITS_FOR_CRC) (\<lambda>has_page_bits.
     bindr (substr page_string GALILEO_CNAV_BITS_FOR_CRC GALILEO_CNAV_CRC_LENGTH) (\<lambda>CRC_data.
     bindr (bitset_of_string has_page_bits) (\<lambda>Word_for_CRC_bits.
     bindr (bitset_of_string CRC_data) (\<lambda>checksum.
     let st1 = st\<lparr>d_new_HAS_page := False, has_page := new_has_page\<lparr>has_tow := 2 ^ 32 - 1\<rparr>,
                  d_flag_CRC_test := cnav_CRC_test crc Word_for_CRC_bits checksum\<rparr>
     in if d_flag_CRC_test st1
        then bindr (substr page_string GALILEO_CNAV_PAGE_RESERVED_BITS GALILEO_CNAV_PAGE_HEADER_BITS) (\<lambda>header.
             bindr (read_HAS_page_header header st1) (store_HAS_page page_string))
        else Inr st1))))"

subsection \<open>Accessors\<close>

definition is_HAS_in_test_mode :: "galileo_cnav_message \<Rightarrow> bool" where
  "is_HAS_in_test_mode st = d_test_mode st"

definition is_HAS_page_dummy :: "galileo_cnav_message \<Rightarrow> bool" where
  "is_HAS_page_dummy st = d_page_dummy st"

definition have_new_HAS_page :: "galileo_cnav_message \<Rightarrow> bool" where
  "have_new_HAS_page st = d_new_HAS_page st"

definition get_HAS_encoded_page :: "galileo_cnav_message \<Rightarrow> galileo_has_page" where
  "get_HAS_encoded_page st = has_page st"

definition cnav_get_flag_CRC_test :: "galileo_cnav_message \<Rightarrow> bool" where
  "cnav_get_flag_CRC_test st = d_flag_CRC_test st"

definition set_time_stamp :: "nat \<Rightarrow> galileo_cnav_message \<Rightarrow> galileo_cnav_message" where
  "set_time_stamp time_stamp st = st\<lparr>has_page := (has_page st)\<lparr>has_time_stamp := time_stamp\<rparr>\<rparr>"

definition set_tow :: "nat \<Rightarrow> galileo_cnav_message \<Rightarrow> galileo_cnav_message" where
  "set_tow tow st = st\<lparr>has_page := (has_page st)\<lparr>has_tow := tow\<rparr>\<rparr>"

subsection \<open>Every page of the right length is processed\<close>

lemma read_HAS_page_header_total: "bin_string header \<Longrightarrow> \<exists>st1. read_HAS_page_header header st = Inr st1"
  by (simp add: read_HAS_page_header_def bitset_of_string_def)

lemma read_HAS_page_total:
  assumes "bin_string page" and "486 \<le> length page"
  shows "\<exists>st'. read_HAS_page crc page st = Inr st'"
proof -
  have subs: "substr page 0 462 = Inr (take 462 page)" "substr page 462 24 = Inr (take 24 (drop 462 page))"
    "substr page 14 24 = Inr (take 24 (drop 14 page))" "substr page 38 424 = Inr (take 424 (drop 38 page))"
    using assms(2) by (simp_all add: substr_ok)
  have bits: "\<exists>w. bitset_of_string s = Inr (w :: 'n::len word)" if "bin_string s" for s
    using that by (simp add: bitset_of_string_def)
  obtain w :: "462 word" where w: "bitset_of_string (take 462 page) = Inr w" using bits assms(1) by blast
  obtain c :: "24 word" where c: "bitset_of_string (take 24 (drop 462 page)) = Inr c" using bits assms(1) by blast
  have store: "\<exists>st'. store_HAS_page page st1 = Inr st'" for st1
    by (simp add: store_HAS_page_def Let_def GALILEO_CNAV_PAGE_RESERVED_BITS_def GALILEO_CNAV_PAGE_HEADER_BITS_def
        GALILEO_CNAV_MESSAGE_BITS_PER_PAGE_def subs)
  have header: "\<exists>st'. bindr (read_HAS_page_header (take 24 (drop 14 page)) st1) (store_HAS_page page) = Inr st'" for st1
    using read_HAS_page_header_total [of "take 24 (drop 14 page)" st1] assms(1) store by (metis bindr_Inr bin_string_drop bin_string_take)
  show ?thesis
    using w c by (simp add: read_HAS_page_def Let_def subs header GALILEO_CNAV_BITS_FOR_CRC_def GALILEO_CNAV_HAS_PAGE_DATA_BITS_def
        GALILEO_CNAV_PAGE_RESERVED_BITS_def GALILEO_CNAV_CRC_LENGTH_def GALILEO_CNAV_PAGE_HEADER_BITS_def)
qed

end
