(* ===== verification/Viterbi.thy ===== *)
theory Viterbi
  imports Ieee754
begin

section \<open>The Viterbi decoder\<close>

text \<open>
  The class \<^verbatim>\<open>Viterbi_Decoder\<close> of \<^verbatim>\<open>viterbi_decoder.cc/.h\<close>, which the Galileo telemetry decoder uses
  with constraint length 7, two symbols per bit and the generators 121 and 91. Its vectors are
  lists and its members are kept between calls, as in the class; states, bits and generators are
  not negative and are natural numbers. An index outside a vector that the code could reach, an
  input that is too short or an output that is too short, is \<open>UndefinedBehaviour\<close>.
\<close>

unbundle bit_operations_syntax

subsection \<open>State\<close>

record viterbi_decoder =
  d_prev_section :: "float32 list"
  d_next_section :: "float32 list"
  d_rec_array :: "float32 list"
  d_metric_c :: "float32 list"
  d_prev_bit :: "nat list"
  d_prev_state :: "nat list"
  d_g :: "nat list"
  d_out0 :: "nat list"
  d_out1 :: "nat list"
  d_state0 :: "nat list"
  d_state1 :: "nat list"
  d_KK :: nat
  d_nn :: nat
  d_LL :: nat
  d_mm :: nat
  d_states :: nat
  d_number_symbols :: nat

definition d_MAXLOG :: float32 where
  "d_MAXLOG = 10000000"

subsection \<open>The encoder tables\<close>

definition parity_counter :: "nat \<Rightarrow> nat \<Rightarrow> nat" where
  "parity_counter symbol len =
     fst (fold (\<lambda>_ (temp_parity, symbol). (temp_parity XOR (symbol AND 1), drop_bit 1 symbol)) [0..<len] (0, symbol))"

definition nsc_enc_bit :: "nat \<Rightarrow> nat \<Rightarrow> nat list \<Rightarrow> nat \<Rightarrow> nat \<Rightarrow> nat \<times> nat" where
  "nsc_enc_bit KK nn g input state_in =
     (let state = push_bit (KK - 1) input XOR state_in;
          out = fold (\<lambda>i out. push_bit 1 out + parity_counter (state AND (g ! i)) KK) [0..<nn] 0
      in (out, drop_bit 1 state))"

definition nsc_transit :: "nat \<Rightarrow> nat \<Rightarrow> nat list \<Rightarrow> nat \<Rightarrow> nat list \<times> nat list" where
  "nsc_transit KK nn g input =
     (let rows = map (nsc_enc_bit KK nn g input) [0..<push_bit (KK - 1) 1] in (map fst rows, map snd rows))"

text \<open>The constructor, and \<^verbatim>\<open>reset\<close>, which computes the tables again and nothing else.\<close>

definition viterbi_reset :: "viterbi_decoder \<Rightarrow> viterbi_decoder" where
  "viterbi_reset v =
     (let t0 = nsc_transit (d_KK v) (d_nn v) (d_g v) 0; t1 = nsc_transit (d_KK v) (d_nn v) (d_g v) 1
      in v\<lparr>d_out0 := fst t0, d_out1 := fst t1, d_state0 := snd t0, d_state1 := snd t1\<rparr>)"

definition new_viterbi_decoder :: "nat \<Rightarrow> nat \<Rightarrow> nat \<Rightarrow> nat list \<Rightarrow> viterbi_decoder" where
  "new_viterbi_decoder KK nn LL g =
     (let mm = KK - 1; states = push_bit mm 1; t0 = nsc_transit KK nn g 0; t1 = nsc_transit KK nn g 1
      in \<lparr>d_prev_section = replicate states (- d_MAXLOG), d_next_section = replicate states (- d_MAXLOG),
          d_rec_array = replicate nn 0, d_metric_c = replicate (push_bit nn 1) 0,
          d_prev_bit = replicate (states * (LL + mm)) 0, d_prev_state = replicate (states * (LL + mm)) 0,
          d_g = g, d_out0 = fst t0, d_out1 = fst t1, d_state0 = snd t0, d_state1 = snd t1,
          d_KK = KK, d_nn = nn, d_LL = LL, d_mm = mm, d_states = states, d_number_symbols = push_bit nn 1\<rparr>)"

subsection \<open>Decoding\<close>

definition Gamma_metric :: "nat \<Rightarrow> float32 list \<Rightarrow> nat \<Rightarrow> float32" where
  "Gamma_metric nn rec symbol =
     fst (fold (\<lambda>i (rm, mask). (if symbol AND mask \<noteq> 0 then fadd rm (rec ! (nn - i - 1)) else rm, push_bit 1 mask))
       [0..<nn] (0, 1))"

text \<open>The kernel \<^verbatim>\<open>volk_gnsssdr_32f_index_max_32u\<close>: the index of the first greatest value.\<close>

definition index_max :: "float32 list \<Rightarrow> nat" where
  "index_max src =
     fst (fold (\<lambda>i (index, mx). if mx < src ! i then (i, src ! i) else (index, mx)) [1..<length src] (0, src ! 0))"

text \<open>One hypothesis on the information bit: a metric above the stored one replaces it.\<close>

definition store_metric :: "nat \<Rightarrow> nat \<Rightarrow> nat \<Rightarrow> nat \<Rightarrow> float32 \<Rightarrow> viterbi_decoder \<Rightarrow> viterbi_decoder" where
  "store_metric t state b target metric v =
     (if d_next_section v ! target < metric
      then v\<lparr>d_next_section := (d_next_section v)[target := metric],
             d_prev_state := (d_prev_state v)[t * d_states v + target := state],
             d_prev_bit := (d_prev_bit v)[t * d_states v + target := b]\<rparr>
      else v)"

definition step_state :: "nat \<Rightarrow> nat \<Rightarrow> viterbi_decoder \<Rightarrow> viterbi_decoder" where
  "step_state t state v =
     (let v1 = store_metric t state 0 (d_state0 v ! state) (fadd (d_prev_section v ! state) (d_metric_c v ! (d_out0 v ! state))) v
      in store_metric t state 1 (d_state1 v1 ! state) (fadd (d_prev_section v1 ! state) (d_metric_c v1 ! (d_out1 v1 ! state))) v1)"

text \<open>
  \<open>fetch_symbols\<close> is the call of \<^verbatim>\<open>std::copy\<close>: the range ends at \<^verbatim>\<open>d_nn * t + (d_nn - 1)\<close>, so the
  last element of the array is not written.
\<close>

definition fetch_symbols :: "float32 list \<Rightarrow> nat \<Rightarrow> viterbi_decoder \<Rightarrow> viterbi_decoder result" where
  "fetch_symbols input_c t v =
     (if d_nn v * t + (d_nn v - 1) \<le> length input_c
      then Inr (v\<lparr>d_rec_array := take (d_nn v - 1) (drop (d_nn v * t) input_c) @ drop (d_nn v - 1) (d_rec_array v)\<rparr>)
      else Inl UndefinedBehaviour)"

definition normalize_sections :: "viterbi_decoder \<Rightarrow> viterbi_decoder" where
  "normalize_sections v =
     (let max_val = d_next_section v ! index_max (d_next_section v)
      in v\<lparr>d_prev_section := map (\<lambda>x. fsub x max_val) (d_next_section v),
           d_next_section := replicate (d_states v) (- d_MAXLOG)\<rparr>)"

definition trellis_step :: "float32 list \<Rightarrow> nat \<Rightarrow> viterbi_decoder \<Rightarrow> viterbi_decoder result" where
  "trellis_step input_c t v =
     bindr (fetch_symbols input_c t v) (\<lambda>v1.
     let v2 = v1\<lparr>d_metric_c := map (Gamma_metric (d_nn v1) (d_rec_array v1)) [0..<d_number_symbols v1]\<rparr>;
         v3 = fold (step_state t) [0..<d_states v2] v2
     in Inr (normalize_sections v3))"

fun trellis :: "float32 list \<Rightarrow> nat list \<Rightarrow> viterbi_decoder \<Rightarrow> viterbi_decoder result" where
  "trellis input_c [] v = Inr v"
| "trellis input_c (t # ts) v = bindr (trellis_step input_c t v) (trellis input_c ts)"

text \<open>The tail gives no output; the loops run downwards.\<close>

definition trace_tail :: "viterbi_decoder \<Rightarrow> nat" where
  "trace_tail v = fold (\<lambda>t state. d_prev_state v ! (t * d_states v + state)) (rev [d_LL v..<d_LL v + d_mm v]) 0"

definition trace_step :: "viterbi_decoder \<Rightarrow> nat \<Rightarrow> nat list \<times> nat \<Rightarrow> (nat list \<times> nat) result" where
  "trace_step v t s =
     (case s of (out, state) \<Rightarrow>
        if t < length out
        then Inr (out[t := d_prev_bit v ! (t * d_states v + state)], d_prev_state v ! (t * d_states v + state))
        else Inl UndefinedBehaviour)"

fun trace_back :: "viterbi_decoder \<Rightarrow> nat \<Rightarrow> nat list \<times> nat \<Rightarrow> nat list result" where
  "trace_back v 0 s = Inr (fst s)"
| "trace_back v (Suc t) s = bindr (trace_step v t s) (trace_back v t)"

definition viterbi_decode :: "nat list \<Rightarrow> float32 list \<Rightarrow> viterbi_decoder \<Rightarrow> (viterbi_decoder \<times> nat list) result" where
  "viterbi_decode output_u_int input_c v =
     bindr (trellis input_c [0..<d_LL v + d_mm v] (v\<lparr>d_prev_section := (d_prev_section v)[0 := 0]\<rparr>)) (\<lambda>v1.
     bindr (trace_back v1 (d_LL v1) (output_u_int, trace_tail v1)) (\<lambda>out. Inr (v1, out)))"

end
