(* ===== verification/Galileo_Telemetry.thy ===== *)
theory Galileo_Telemetry
  imports Galileo_Inav_Data Galileo_Fnav_Message Galileo_Cnav_Message Gnss_Signals Viterbi
begin

section \<open>The Galileo telemetry decoder\<close>

text \<open>
  The block \<^verbatim>\<open>galileo_telemetry_decoder_gs\<close>, which turns the symbols of one tracking channel into
  navigation data: frame synchronisation on the preamble, deinterleaving, Viterbi decoding and the
  page decoders of I/NAV (\<^verbatim>\<open>frame_type\<close> 1), F/NAV (2) and C/NAV (3), and the time of week of each
  symbol. \<open>general_work\<close> is one call of the block, which consumes one symbol; what it publishes on
  its message ports is a list of \<open>tlm_message\<close>. Text written to the console and to log and dump
  files is left out.

  Symbol counters, times of week and sample counters are words of the width of the members, since
  the code relies on their wrap-around; sizes are natural numbers. The circular buffer
  \<^verbatim>\<open>d_symbol_history\<close> is a list, the oldest symbol first.
\<close>

unbundle bit_operations_syntax

subsection \<open>Constants of the signals\<close>

definition GALILEO_E1_CODE_PERIOD_MS :: "32 word" where
  "GALILEO_E1_CODE_PERIOD_MS = 4"

definition GALILEO_E5A_I_SECONDARY_CODE_LENGTH :: int where
  "GALILEO_E5A_I_SECONDARY_CODE_LENGTH = 20"

definition GALILEO_E5A_CODE_PERIOD_MS :: int where
  "GALILEO_E5A_CODE_PERIOD_MS = 1"

definition GALILEO_FNAV_PREAMBLE_LENGTH_BITS :: nat where
  "GALILEO_FNAV_PREAMBLE_LENGTH_BITS = 12"

definition GALILEO_FNAV_CODES_PER_SYMBOL :: nat where
  "GALILEO_FNAV_CODES_PER_SYMBOL = 20"

definition GALILEO_FNAV_SYMBOLS_PER_PAGE :: nat where
  "GALILEO_FNAV_SYMBOLS_PER_PAGE = 500"

definition GALILEO_FNAV_INTERLEAVER_ROWS :: nat where
  "GALILEO_FNAV_INTERLEAVER_ROWS = 8"

definition GALILEO_FNAV_INTERLEAVER_COLS :: nat where
  "GALILEO_FNAV_INTERLEAVER_COLS = 61"

definition GALILEO_FNAV_PREAMBLE :: string where
  "GALILEO_FNAV_PREAMBLE = ''101101110000''"

definition GALILEO_E6_CODE_PERIOD_MS :: "32 word" where
  "GALILEO_E6_CODE_PERIOD_MS = 1"

definition CRC_ERROR_LIMIT :: int where
  "CRC_ERROR_LIMIT = 6"

subsection \<open>Data exchanged with the other blocks\<close>

record gnss_synchro =
  sync_System :: char
  sync_Signal :: string
  sync_PRN :: nat
  sync_Channel_ID :: int
  Acq_delay_samples :: double
  Acq_doppler_hz :: double
  Acq_samplestamp_samples :: "64 word"
  Acq_doppler_step :: "32 word"
  sync_fs :: int
  Prompt_I :: double
  Prompt_Q :: double
  CN0_dB_hz :: double
  Carrier_Doppler_hz :: double
  Carrier_phase_rads :: double
  Code_phase_samples :: double
  Tracking_sample_counter :: "64 word"
  correlation_length_ms :: int
  TOW_at_current_symbol_ms :: "32 word"
  Pseudorange_m :: double
  RX_time :: double
  interp_TOW_ms :: double
  Flag_valid_acquisition :: bool
  Flag_valid_symbol_output :: bool
  Flag_valid_word :: bool
  Flag_valid_pseudorange :: bool
  Flag_PLL_180_deg_phase_locked :: bool

record gnss_time =
  time_rx_time :: double
  time_week :: int
  time_tow_ms :: int
  time_tow_ms_fraction :: double

record nav_message_packet =
  packet_system :: string
  packet_signal :: string
  packet_prn :: int
  packet_tow_at_current_symbol_ms :: int
  packet_nav_message :: string

datatype tlm_message =
    Tlm_Ephemeris galileo_ephemeris
  | Tlm_Iono galileo_iono
  | Tlm_Utc galileo_utc_model
  | Tlm_Almanac galileo_almanac_helper
  | To_OSNMA galileo_osnma
  | To_Tracking int
  | E6_HAS_from_TLM galileo_has_page
  | TOW_from_TLM nat "32 word" "64 word"
  | Nav_msg_from_TLM nav_message_packet

record tlm_conf =
  conf_enable_reed_solomon :: bool
  conf_dump_crc_stats :: bool
  conf_enable_navdata_monitor :: bool
  conf_there_are_e6_channels :: bool
  conf_enable_osnma :: bool

record tlm_crc_stats =
  num_crc_ok :: "32 word"
  num_crc_not_ok :: "32 word"

definition update_CRC_stats :: "bool \<Rightarrow> tlm_crc_stats \<Rightarrow> tlm_crc_stats" where
  "update_CRC_stats CRC s =
     (if CRC then s\<lparr>num_crc_ok := num_crc_ok s + 1\<rparr> else s\<lparr>num_crc_not_ok := num_crc_not_ok s + 1\<rparr>)"

subsection \<open>State\<close>

record galileo_telemetry_decoder =
  d_viterbi :: viterbi_decoder
  d_preamble_samples :: "int list"
  d_page_part_symbols :: "float32 list"
  d_symbol_history :: "float32 list"
  d_satellite :: gnss_satellite
  d_cnav_nav :: galileo_cnav_message
  d_inav_nav :: galileo_inav_message
  d_fnav_nav :: galileo_fnav_message
  d_nav_msg_packet :: nav_message_packet
  d_current_timetag :: gnss_time
  d_Tlm_CRC_Stats :: tlm_crc_stats
  d_delta_t :: double
  d_symbol_counter :: "64 word"
  d_preamble_index :: "64 word"
  d_last_valid_preamble :: "64 word"
  d_received_sample_counter :: "64 word"
  d_frame_type :: int
  d_samples_per_preamble :: nat
  d_preamble_period_symbols :: nat
  d_CRC_error_counter :: int
  d_channel :: int
  d_flag_even_word_arrived :: int
  d_PRN_code_period_ms :: "32 word"
  d_required_symbols :: nat
  d_frame_length_symbols :: nat
  d_stat :: nat
  d_TOW_at_Preamble_ms :: "32 word"
  d_TOW_at_current_symbol_ms :: "32 word"
  d_max_symbols_without_valid_frame :: "32 word"
  d_received_tow_ms :: "32 word"
  d_band :: char
  d_sent_tlm_failed_msg :: bool
  d_flag_frame_sync :: bool
  d_flag_PLL_180_deg_phase_locked :: bool
  d_flag_preamble :: bool
  d_first_eph_sent :: bool
  d_cnav_dummy_page :: bool
  d_print_cnav_page :: bool
  d_enable_navdata_monitor :: bool
  d_dump_crc_stats :: bool
  d_enable_reed_solomon_inav :: bool
  d_valid_timetag :: bool
  d_E6_TOW_set :: bool
  d_there_are_e6_channels :: bool
  d_enable_osnma :: bool

type_synonym telemetry = galileo_telemetry_decoder

text \<open>
  What the constructor sets by the frame type: the preamble, its period in symbols, the required
  symbols, the symbols of a frame, the code period and the alarm for missing frames.
\<close>

record frame_parameters =
  par_preamble :: string
  par_period :: nat
  par_required :: nat
  par_length :: nat
  par_code_period :: "32 word"
  par_max_symbols :: nat

definition parameters_of :: "int \<Rightarrow> frame_parameters" where
  "parameters_of frame_type =
     (if frame_type = 1
      then \<lparr>par_preamble = GALILEO_INAV_PREAMBLE, par_period = GALILEO_INAV_PREAMBLE_PERIOD_SYMBOLS,
            par_required = GALILEO_INAV_PAGE_SYMBOLS + GALILEO_INAV_PREAMBLE_LENGTH_BITS,
            par_length = GALILEO_INAV_PAGE_PART_SYMBOLS - GALILEO_INAV_PREAMBLE_LENGTH_BITS,
            par_code_period = GALILEO_E1_CODE_PERIOD_MS, par_max_symbols = GALILEO_INAV_PAGE_SYMBOLS * 30\<rparr>
      else if frame_type = 2
      then \<lparr>par_preamble = GALILEO_FNAV_PREAMBLE, par_period = GALILEO_FNAV_SYMBOLS_PER_PAGE,
            par_required = GALILEO_FNAV_SYMBOLS_PER_PAGE + GALILEO_FNAV_PREAMBLE_LENGTH_BITS,
            par_length = GALILEO_FNAV_SYMBOLS_PER_PAGE - GALILEO_FNAV_PREAMBLE_LENGTH_BITS,
            par_code_period = word_of_int (GALILEO_E5A_CODE_PERIOD_MS * GALILEO_E5A_I_SECONDARY_CODE_LENGTH),
            par_max_symbols = GALILEO_FNAV_SYMBOLS_PER_PAGE * 5\<rparr>
      else if frame_type = 3
      then \<lparr>par_preamble = GALILEO_CNAV_PREAMBLE, par_period = GALILEO_CNAV_SYMBOLS_PER_PAGE,
            par_required = GALILEO_CNAV_SYMBOLS_PER_PAGE + GALILEO_CNAV_PREAMBLE_LENGTH_BITS,
            par_length = GALILEO_CNAV_SYMBOLS_PER_PAGE - GALILEO_CNAV_PREAMBLE_LENGTH_BITS,
            par_code_period = GALILEO_E6_CODE_PERIOD_MS, par_max_symbols = GALILEO_CNAV_SYMBOLS_PER_PAGE * 60\<rparr>
      else \<lparr>par_preamble = '''', par_period = 0, par_required = 0, par_length = 0, par_code_period = 0, par_max_symbols = 0\<rparr>)"

definition new_packet :: nav_message_packet where
  "new_packet = \<lparr>packet_system = '''', packet_signal = '''', packet_prn = 0, packet_tow_at_current_symbol_ms = 0, packet_nav_message = ''''\<rparr>"

text \<open>
  The Viterbi decoder is built for the data bits of a frame: half of its symbols less the six bits
  of the tail. For an unknown frame type the length is zero.
\<close>

definition galileo_make_telemetry_decoder_gs :: "gnss_satellite \<Rightarrow> tlm_conf \<Rightarrow> int \<Rightarrow> telemetry" where
  "galileo_make_telemetry_decoder_gs satellite conf frame_type =
     (let par = parameters_of frame_type;
          sat = Gnss_Satellite (sat_system satellite) (sat_PRN satellite);
          rs = (frame_type = 1 \<and> conf_enable_reed_solomon conf);
          inav = (if rs then enable_reed_solomon new_inav_message else new_inav_message)
      in \<lparr>d_viterbi = new_viterbi_decoder 7 2 (par_length par div 2 - 6) [121, 91],
          d_preamble_samples = map (\<lambda>c. if c = CHR ''1'' then 1 else - 1) (par_preamble par),
          d_page_part_symbols = replicate (par_length par) 0, d_symbol_history = [], d_satellite = sat,
          d_cnav_nav = new_cnav_message, d_inav_nav = init_PRN (int (sat_PRN sat)) inav, d_fnav_nav = new_fnav_message,
          d_nav_msg_packet = new_packet,
          d_current_timetag = \<lparr>time_rx_time = 0, time_week = 0, time_tow_ms = 0, time_tow_ms_fraction = 0\<rparr>,
          d_Tlm_CRC_Stats = \<lparr>num_crc_ok = 0, num_crc_not_ok = 0\<rparr>, d_delta_t = 0, d_symbol_counter = 0,
          d_preamble_index = 0, d_last_valid_preamble = 0, d_received_sample_counter = 0, d_frame_type = frame_type,
          d_samples_per_preamble = length (par_preamble par), d_preamble_period_symbols = par_period par,
          d_CRC_error_counter = 0, d_channel = 0, d_flag_even_word_arrived = 0, d_PRN_code_period_ms = par_code_period par,
          d_required_symbols = par_required par, d_frame_length_symbols = par_length par, d_stat = 0,
          d_TOW_at_Preamble_ms = 0, d_TOW_at_current_symbol_ms = 0,
          d_max_symbols_without_valid_frame = of_nat (par_max_symbols par), d_received_tow_ms = - 1, d_band = CHR ''1'',
          d_sent_tlm_failed_msg = False, d_flag_frame_sync = False, d_flag_PLL_180_deg_phase_locked = False,
          d_flag_preamble = False, d_first_eph_sent = False, d_cnav_dummy_page = False, d_print_cnav_page = True,
          d_enable_navdata_monitor = conf_enable_navdata_monitor conf, d_dump_crc_stats = conf_dump_crc_stats conf,
          d_enable_reed_solomon_inav = rs, d_valid_timetag = False, d_E6_TOW_set = False,
          d_there_are_e6_channels = conf_there_are_e6_channels conf, d_enable_osnma = conf_enable_osnma conf\<rparr>)"

text \<open>\<^verbatim>\<open>msg_handler_read_galileo_tow_map\<close>: the map is a function; a missing satellite is only logged.\<close>

definition msg_handler_read_galileo_tow_map :: "(nat \<rightharpoonup> 32 word \<times> 64 word) \<Rightarrow> telemetry \<Rightarrow> telemetry" where
  "msg_handler_read_galileo_tow_map received_tow_map st =
     (if d_frame_type st = 3
      then case received_tow_map (sat_PRN (d_satellite st)) of
             None \<Rightarrow> st
           | Some (tow, sample) \<Rightarrow>
               if tow < 604800000 then st\<lparr>d_received_tow_ms := tow, d_received_sample_counter := sample\<rparr> else st
      else st)"

definition tow_unknown :: "telemetry \<Rightarrow> tlm_message list" where
  "tow_unknown st = (if d_there_are_e6_channels st then [TOW_from_TLM (sat_PRN (d_satellite st)) (- 1) 0] else [])"

definition tlm_set_satellite :: "gnss_satellite \<Rightarrow> telemetry \<Rightarrow> telemetry \<times> tlm_message list" where
  "tlm_set_satellite satellite st =
     (let st1 = st\<lparr>d_satellite := Gnss_Satellite (sat_system satellite) (sat_PRN satellite),
                   d_last_valid_preamble := d_symbol_counter st, d_sent_tlm_failed_msg := False,
                   d_received_tow_ms := - 1, d_E6_TOW_set := False, d_valid_timetag := False\<rparr>
      in (st1, tow_unknown st1))"

definition tlm_reset :: "telemetry \<Rightarrow> telemetry \<times> tlm_message list" where
  "tlm_reset st =
     (let inav = set_TOW0_flag False (set_flag_TOW_set False (d_inav_nav st));
          st1 = st\<lparr>d_flag_frame_sync := False, d_TOW_at_current_symbol_ms := 0, d_TOW_at_Preamble_ms := 0,
                   d_fnav_nav := fnav_set_flag_TOW_set False (d_fnav_nav st), d_inav_nav := inav,
                   d_last_valid_preamble := d_symbol_counter st, d_sent_tlm_failed_msg := False, d_E6_TOW_set := False,
                   d_stat := 0, d_received_tow_ms := - 1, d_viterbi := viterbi_reset (d_viterbi st), d_valid_timetag := False\<rparr>;
          st2 = (if d_enable_reed_solomon_inav st1 then st1\<lparr>d_inav_nav := enable_reed_solomon (d_inav_nav st1)\<rparr> else st1)
      in (st2, tow_unknown st1))"

definition tlm_set_channel :: "int \<Rightarrow> telemetry \<Rightarrow> telemetry" where
  "tlm_set_channel channel st = st\<lparr>d_channel := channel\<rparr>"

subsection \<open>From symbols to pages\<close>

definition deinterleaver :: "nat \<Rightarrow> nat \<Rightarrow> float32 list \<Rightarrow> float32 list \<Rightarrow> float32 list" where
  "deinterleaver rows cols inp out =
     fold (\<lambda>r out. fold (\<lambda>c out. out[c * rows + r := inp ! (r * cols + c)]) [0..<cols] out) [0..<rows] out"

text \<open>Every second symbol changes its sign, for the inverter behind the second generator.\<close>

definition invert_second :: "float32 list \<Rightarrow> float32 list" where
  "invert_second xs = map (\<lambda>i. if (i + 1) mod 2 = 0 then - (xs ! i) else xs ! i) [0..<length xs]"

definition page_string_of :: "nat list \<Rightarrow> string" where
  "page_string_of bits = map (\<lambda>b. if 0 < b then CHR ''1'' else CHR ''0'') bits"

text \<open>The steps 1 to 3 that the three decoders share: the decoder, the bits and the page string.\<close>

definition decode_symbols ::
  "nat \<Rightarrow> nat \<Rightarrow> float32 list \<Rightarrow> nat \<Rightarrow> viterbi_decoder \<Rightarrow> (viterbi_decoder \<times> nat list \<times> string) result" where
  "decode_symbols rows cols symbols frame_length v =
     (let soft = invert_second (deinterleaver rows cols symbols (replicate frame_length 0));
          decoded_length = frame_length div 2
      in bindr (viterbi_decode (replicate decoded_length 0) soft v) (\<lambda>(v', bits).
         Inr (v', bits, page_string_of bits)))"

text \<open>\<^verbatim>\<open>static_cast<uint32_t>\<close> of a double: truncation, undefined when the value does not fit.\<close>

definition double_to_uint32 :: "double \<Rightarrow> 32 word result" where
  "double_to_uint32 x =
     (if - 1 < x \<and> x < 2 ^ 32 then Inr (word_of_int (if 0 \<le> x then \<lfloor>x\<rfloor> else 0)) else Inl UndefinedBehaviour)"

definition delta_t_of :: "double \<Rightarrow> double \<Rightarrow> double \<Rightarrow> double \<Rightarrow> int \<Rightarrow> 32 word \<Rightarrow> double" where
  "delta_t_of a0g a1g t0g wn0g week tow =
     dadd a0g (dmul a1g (dadd (dsub (ddiv (of_int (uint tow)) 1000) t0g)
       (dmul 604800 (fmod (to_float (dsub (of_int week) wn0g)) 64))))"

subsection \<open>I/NAV\<close>

text \<open>A page part: the odd part completes a word and, when its CRC is right, goes to OSNMA.\<close>

definition inav_page_part :: "(byte list \<Rightarrow> nat) \<Rightarrow> nat list \<Rightarrow> string \<Rightarrow> telemetry \<Rightarrow> (telemetry \<times> tlm_message list) result" where
  "inav_page_part crc page_part_bits page_String st =
     (case page_part_bits of
        [] \<Rightarrow> Inl UndefinedBehaviour
      | b # _ \<Rightarrow>
          bindr (split_page crc page_String (d_flag_even_word_arrived st) (d_inav_nav st)) (\<lambda>nav.
          let st1 = st\<lparr>d_inav_nav := nav\<rparr>
          in if b = 1
             then let msgs = (if get_flag_CRC_test nav \<and> d_band st1 = CHR ''1'' \<and> d_enable_osnma st1
                              then [To_OSNMA ((get_osnma nav)\<lparr>osnma_PRN := int (sat_PRN (d_satellite st1))\<rparr>)] else [])
                  in Inr (st1\<lparr>d_flag_even_word_arrived := 0\<rparr>, msgs)
             else Inr (st1\<lparr>d_flag_even_word_arrived := 1\<rparr>, [])))"

definition inav_push_ephemeris :: "libm \<Rightarrow> telemetry \<Rightarrow> (telemetry \<times> tlm_message list) result" where
  "inav_push_ephemeris lm st =
     (let (nav, new) = have_new_ephemeris (d_inav_nav st); st1 = st\<lparr>d_inav_nav := nav\<rparr>
      in if new
         then Inr (st1\<lparr>d_first_eph_sent := True\<rparr>, [Tlm_Ephemeris (get_ephemeris nav)])
         else if d_band st1 = CHR ''1'' \<and> \<not> d_first_eph_sent st1
         then let (nav2, new2) = have_new_reduced_ced nav; st2 = st1\<lparr>d_inav_nav := nav2\<rparr>
              in if new2 then bindr (get_reduced_ced lm nav2) (\<lambda>eph. Inr (st2, [Tlm_Ephemeris eph])) else Inr (st2, [])
         else Inr (st1, []))"

definition inav_push_iono :: "telemetry \<Rightarrow> telemetry \<times> tlm_message list" where
  "inav_push_iono st =
     (let (nav, new) = have_new_iono_and_GST (d_inav_nav st)
      in (st\<lparr>d_inav_nav := nav\<rparr>, if new then [Tlm_Iono (get_iono nav)] else []))"

definition inav_push_utc :: "telemetry \<Rightarrow> telemetry \<times> tlm_message list" where
  "inav_push_utc st =
     (let (nav, new) = have_new_utc_model (d_inav_nav st); st1 = st\<lparr>d_inav_nav := nav\<rparr>; utc = get_utc_model nav
      in if new
         then (st1\<lparr>d_delta_t := delta_t_of (A_0G_utc utc) (A_1G_utc utc) (of_int (t_0G_utc utc)) (of_int (WN_0G_utc utc))
                     (get_Galileo_week nav) (d_TOW_at_current_symbol_ms st1)\<rparr>, [Tlm_Utc utc])
         else (st1, []))"

definition inav_push_almanac :: "telemetry \<Rightarrow> telemetry \<times> tlm_message list" where
  "inav_push_almanac st =
     (let (nav, new) = have_new_almanac (d_inav_nav st)
      in (st\<lparr>d_inav_nav := nav\<rparr>, if new then [Tlm_Almanac (get_almanac nav)] else []))"

definition monitor_page :: "string \<Rightarrow> telemetry \<Rightarrow> telemetry" where
  "monitor_page page_String st =
     (if d_enable_navdata_monitor st
      then st\<lparr>d_nav_msg_packet := (d_nav_msg_packet st)\<lparr>packet_nav_message := page_String\<rparr>\<rparr> else st)"

definition decode_INAV_word ::
  "(byte list \<Rightarrow> nat) \<Rightarrow> libm \<Rightarrow> float32 list \<Rightarrow> nat \<Rightarrow> telemetry \<Rightarrow> (telemetry \<times> tlm_message list) result" where
  "decode_INAV_word crc lm page_part_symbols frame_length st =
     bindr (decode_symbols GALILEO_INAV_INTERLEAVER_ROWS GALILEO_INAV_INTERLEAVER_COLS page_part_symbols frame_length (d_viterbi st))
       (\<lambda>(v, bits, page_String).
     bindr (inav_page_part crc bits page_String (monitor_page page_String (st\<lparr>d_viterbi := v\<rparr>))) (\<lambda>(st1, m1).
     bindr (inav_push_ephemeris lm st1) (\<lambda>(st2, m2).
     let (st3, m3) = inav_push_iono st2; (st4, m4) = inav_push_utc st3; (st5, m5) = inav_push_almanac st4
     in Inr (st5, m1 @ m2 @ m3 @ m4 @ m5))))"

subsection \<open>F/NAV\<close>

definition decode_FNAV_word ::
  "(byte list \<Rightarrow> nat) \<Rightarrow> float32 list \<Rightarrow> nat \<Rightarrow> telemetry \<Rightarrow> (telemetry \<times> tlm_message list) result" where
  "decode_FNAV_word crc page_symbols frame_length st =
     bindr (decode_symbols GALILEO_FNAV_INTERLEAVER_ROWS GALILEO_FNAV_INTERLEAVER_COLS page_symbols frame_length (d_viterbi st))
       (\<lambda>(v, bits, page_String).
     let st1 = monitor_page page_String (st\<lparr>d_viterbi := v\<rparr>)
     in bindr (fnav_split_page crc page_String (d_fnav_nav st1)) (\<lambda>nav.
        let (nav1, new1) = fnav_have_new_ephemeris nav; m1 = (if new1 then [Tlm_Ephemeris (fnav_get_ephemeris nav1)] else []);
            (nav2, new2) = fnav_have_new_iono_and_GST nav1; m2 = (if new2 then [Tlm_Iono (fnav_get_iono nav2)] else []);
            (nav3, new3) = fnav_have_new_utc_model nav2; m3 = (if new3 then [Tlm_Utc (fnav_get_utc_model nav3)] else [])
        in Inr (st1\<lparr>d_fnav_nav := nav3\<rparr>, m1 @ m2 @ m3)))"

subsection \<open>C/NAV\<close>

definition cnav_push_page :: "telemetry \<Rightarrow> telemetry \<times> tlm_message list" where
  "cnav_push_page st =
     (if \<not> have_new_HAS_page (d_cnav_nav st) then (st, [])
      else if is_HAS_page_dummy (d_cnav_nav st)
      then (st\<lparr>d_print_cnav_page := True, d_cnav_dummy_page := True\<rparr>, [])
      else let nav = (if d_E6_TOW_set st then set_tow (unat (d_TOW_at_Preamble_ms st div 1000)) (d_cnav_nav st) else d_cnav_nav st)
           in (st\<lparr>d_cnav_nav := nav, d_print_cnav_page := False\<rparr>, [E6_HAS_from_TLM (get_HAS_encoded_page nav)]))"

definition decode_CNAV_word ::
  "(byte list \<Rightarrow> nat) \<Rightarrow> 64 word \<Rightarrow> float32 list \<Rightarrow> nat \<Rightarrow> telemetry \<Rightarrow> (telemetry \<times> tlm_message list) result" where
  "decode_CNAV_word crc time_stamp page_symbols page_length st =
     bindr (decode_symbols GALILEO_CNAV_INTERLEAVER_ROWS GALILEO_CNAV_INTERLEAVER_COLS page_symbols page_length (d_viterbi st))
       (\<lambda>(v, bits, page_String).
     let st1 = monitor_page page_String (st\<lparr>d_viterbi := v\<rparr>)
     in bindr (read_HAS_page crc page_String (d_cnav_nav st1)) (\<lambda>nav.
        Inr (cnav_push_page (st1\<lparr>d_cnav_nav := set_time_stamp (unat time_stamp) nav\<rparr>))))"

subsection \<open>One call of the block\<close>

text \<open>
  The tags of the symbol: \<open>None\<close> is a tag with another value than a \<^verbatim>\<open>GnssTime\<close>. Without a tag, a
  valid time tag moves on by one code period.
\<close>

definition read_timetags :: "gnss_time option list \<Rightarrow> telemetry \<Rightarrow> telemetry" where
  "read_timetags tags_vec st =
     (if tags_vec \<noteq> []
      then fold (\<lambda>t st. case t of Some timetag \<Rightarrow> st\<lparr>d_current_timetag := timetag, d_valid_timetag := True\<rparr> | None \<Rightarrow> st) tags_vec st
      else if d_valid_timetag st
      then let tow = to_int32 (uint (word_of_int (time_tow_ms (d_current_timetag st)) + d_PRN_code_period_ms st));
               tag = (d_current_timetag st)\<lparr>time_tow_ms := tow\<rparr>
           in st\<lparr>d_current_timetag :=
                (if 604800000 \<le> tow then tag\<lparr>time_tow_ms := tow - 604800000, time_week := time_week tag + 1\<rparr> else tag)\<rparr>
      else st)"

text \<open>\<open>boost::circular_buffer::push_back\<close>: a full buffer drops its oldest element.\<close>

definition push_symbol :: "nat \<Rightarrow> float32 \<Rightarrow> float32 list \<Rightarrow> float32 list" where
  "push_symbol capacity x buf = (if capacity \<le> length buf then drop 1 (buf @ [x]) else buf @ [x])"

definition receive_symbol :: "gnss_synchro \<Rightarrow> telemetry \<Rightarrow> telemetry result" where
  "receive_symbol sy st =
     (case sync_Signal sy of
        [] \<Rightarrow> Inl UndefinedBehaviour
      | band # _ \<Rightarrow>
          Inr (st\<lparr>d_band := band,
                  d_symbol_history := push_symbol (d_required_symbols st + 1) (to_float (Prompt_I sy)) (d_symbol_history st),
                  d_symbol_counter := d_symbol_counter st + 1\<rparr>))"

definition check_telemetry :: "telemetry \<Rightarrow> telemetry \<times> tlm_message list" where
  "check_telemetry st =
     (if \<not> d_sent_tlm_failed_msg st \<and> ucast (d_max_symbols_without_valid_frame st) < d_symbol_counter st - d_last_valid_preamble st
      then (st\<lparr>d_sent_tlm_failed_msg := True\<rparr>, [To_Tracking 1]) else (st, []))"

definition preamble_correlation :: "telemetry \<Rightarrow> int" where
  "preamble_correlation st =
     fold (\<lambda>i corr. if d_symbol_history st ! i < 0 then corr - d_preamble_samples st ! i else corr + d_preamble_samples st ! i)
       [0..<d_samples_per_preamble st] 0"

definition preamble_found :: "telemetry \<Rightarrow> bool" where
  "preamble_found st \<longleftrightarrow> d_required_symbols st < length (d_symbol_history st)
     \<and> int (d_samples_per_preamble st) \<le> \<bar>preamble_correlation st\<bar>"

definition stat_0 :: "telemetry \<Rightarrow> telemetry" where
  "stat_0 st = (if preamble_found st then st\<lparr>d_preamble_index := d_symbol_counter st, d_stat := 1\<rparr> else st)"

definition stat_1 :: "telemetry \<Rightarrow> telemetry" where
  "stat_1 st =
     (if preamble_found st
      then let preamble_diff = to_int32 (uint (d_symbol_counter st - d_preamble_index st))
           in if \<bar>preamble_diff - int (d_preamble_period_symbols st)\<bar> = 0
              then st\<lparr>d_preamble_index := d_symbol_counter st, d_CRC_error_counter := 0,
                      d_flag_PLL_180_deg_phase_locked := (preamble_correlation st < 0), d_stat := 2\<rparr>
              else if int (d_preamble_period_symbols st) < preamble_diff then st\<lparr>d_stat := 0\<rparr> else st
      else st)"

text \<open>The symbols of the page, with their sign changed when the carrier is locked with a phase of 180 degrees.\<close>

definition fetch_page :: "telemetry \<Rightarrow> telemetry result" where
  "fetch_page st =
     (if d_samples_per_preamble st + d_frame_length_symbols st \<le> length (d_symbol_history st)
      then let page = take (d_frame_length_symbols st) (drop (d_samples_per_preamble st) (d_symbol_history st))
           in Inr (st\<lparr>d_page_part_symbols := (if d_flag_PLL_180_deg_phase_locked st then map uminus page else page)\<rparr>)
      else Inl UndefinedBehaviour)"

text \<open>After a page: a right CRC confirms the synchronisation, too many wrong ones lose it.\<close>

definition any_crc_ok :: "telemetry \<Rightarrow> bool" where
  "any_crc_ok st \<longleftrightarrow> get_flag_CRC_test (d_inav_nav st) \<or> fnav_get_flag_CRC_test (d_fnav_nav st) \<or> cnav_get_flag_CRC_test (d_cnav_nav st)"

definition after_page :: "telemetry \<Rightarrow> telemetry \<times> tlm_message list" where
  "after_page st =
     (let crc_ok = any_crc_ok st;
          st1 = (if d_dump_crc_stats st then st\<lparr>d_Tlm_CRC_Stats := update_CRC_stats crc_ok (d_Tlm_CRC_Stats st)\<rparr> else st);
          st2 = st1\<lparr>d_preamble_index := d_symbol_counter st1\<rparr>
      in if crc_ok
         then (st2\<lparr>d_CRC_error_counter := 0, d_flag_preamble := True, d_last_valid_preamble := d_symbol_counter st2,
                   d_flag_frame_sync := True\<rparr>, [])
         else let st3 = st2\<lparr>d_CRC_error_counter := d_CRC_error_counter st2 + 1\<rparr>
              in if CRC_ERROR_LIMIT < d_CRC_error_counter st3
                 then (st3\<lparr>d_flag_frame_sync := False, d_stat := 0, d_TOW_at_current_symbol_ms := 0, d_TOW_at_Preamble_ms := 0,
                          d_E6_TOW_set := False, d_valid_timetag := False,
                          d_fnav_nav := fnav_set_flag_TOW_set False (d_fnav_nav st3),
                          d_inav_nav := set_flag_TOW_set False (d_inav_nav st3)\<rparr>, tow_unknown st3)
                 else (st3, []))"

text \<open>\<open>None\<close> in place of the state: the block returns -1 for an unknown frame type and its work is over.\<close>

definition stat_2 ::
  "(byte list \<Rightarrow> nat) \<Rightarrow> libm \<Rightarrow> gnss_synchro \<Rightarrow> telemetry \<Rightarrow> (telemetry option \<times> tlm_message list) result" where
  "stat_2 crc lm sy st =
     (if d_symbol_counter st = d_preamble_index st + of_nat (d_preamble_period_symbols st)
      then bindr (fetch_page st) (\<lambda>st1.
        let decoded =
          (if d_frame_type st1 = 1
           then bindr (decode_INAV_word crc lm (d_page_part_symbols st1) (d_frame_length_symbols st1) st1) (\<lambda>r. Inr (Some r))
           else if d_frame_type st1 = 2
           then bindr (decode_FNAV_word crc (d_page_part_symbols st1) (d_frame_length_symbols st1) st1) (\<lambda>r. Inr (Some r))
           else if d_frame_type st1 = 3
           then if sync_fs sy = 0 then Inl UndefinedBehaviour
                else bindr (decode_CNAV_word crc (Tracking_sample_counter sy div word_of_int (sync_fs sy))
                       (d_page_part_symbols st1) (d_frame_length_symbols st1) st1) (\<lambda>r. Inr (Some r))
           else Inr None)
        in bindr decoded (\<lambda>r.
           case r of None \<Rightarrow> Inr (None, [])
           | Some (st2, m2) \<Rightarrow> let (st3, m3) = after_page st2 in Inr (Some st3, m2 @ m3)))
      else Inr (Some st, []))"

definition frame_sync ::
  "(byte list \<Rightarrow> nat) \<Rightarrow> libm \<Rightarrow> gnss_synchro \<Rightarrow> telemetry \<Rightarrow> (telemetry option \<times> tlm_message list) result" where
  "frame_sync crc lm sy st =
     (if d_stat st = 0 then Inr (Some (stat_0 st), [])
      else if d_stat st = 1 then Inr (Some (stat_1 st), [])
      else if d_stat st = 2 then stat_2 crc lm sy st
      else Inr (Some st, []))"

subsection \<open>The time of week\<close>

definition publish_tow :: "gnss_synchro \<Rightarrow> telemetry \<Rightarrow> tlm_message list" where
  "publish_tow sy st =
     (if d_there_are_e6_channels st \<and> \<not> d_valid_timetag st
      then [TOW_from_TLM (sat_PRN (d_satellite st)) (d_TOW_at_current_symbol_ms st) (Tracking_sample_counter sy)] else [])"

text \<open>\<open>seconds\<close> is the time of week of a word, \<open>delay\<close> what has passed since the preamble it refers to.\<close>

definition set_TOW :: "int \<Rightarrow> 32 word \<Rightarrow> telemetry \<Rightarrow> telemetry result" where
  "set_TOW seconds delay st =
     bindr (double_to_uint32 (dmul (of_int seconds) 1000)) (\<lambda>tow.
     Inr (st\<lparr>d_TOW_at_Preamble_ms := tow, d_TOW_at_current_symbol_ms := tow + delay\<rparr>))"

definition advance_TOW :: "32 word \<Rightarrow> telemetry \<Rightarrow> telemetry" where
  "advance_TOW period st = st\<lparr>d_TOW_at_current_symbol_ms := d_TOW_at_current_symbol_ms st + period\<rparr>"

definition inav_delay :: "telemetry \<Rightarrow> 32 word" where
  "inav_delay st = of_nat GALILEO_INAV_PAGE_PART_MS + of_nat (d_required_symbols st + 1) * d_PRN_code_period_ms st"

text \<open>The three words with a time of week are handled alike; \<open>nav'\<close> has the flag of the word cleared.\<close>

definition inav_set_TOW ::
  "gnss_synchro \<Rightarrow> int \<Rightarrow> galileo_inav_message \<Rightarrow> telemetry \<Rightarrow> (telemetry \<times> tlm_message list) result" where
  "inav_set_TOW sy tow nav' st =
     bindr (set_TOW tow (inav_delay st) st) (\<lambda>st1. let st2 = st1\<lparr>d_inav_nav := nav'\<rparr> in Inr (st2, publish_tow sy st2))"

definition inav_TOW_at_preamble :: "gnss_synchro \<Rightarrow> telemetry \<Rightarrow> (telemetry \<times> tlm_message list) result" where
  "inav_TOW_at_preamble sy st =
     (let nav = d_inav_nav st
      in if \<not> get_flag_TOW_set nav then Inr (st, [])
         else if is_TOW5_set nav then inav_set_TOW sy (get_TOW5 nav) (set_TOW5_flag False nav) st
         else if is_TOW6_set nav then inav_set_TOW sy (get_TOW6 nav) (set_TOW6_flag False nav) st
         else if is_TOW0_set nav then inav_set_TOW sy (get_TOW0 nav) (set_TOW0_flag False nav) st
         else Inr (advance_TOW (d_PRN_code_period_ms st) st, []))"

definition fnav_delay :: "telemetry \<Rightarrow> 32 word" where
  "fnav_delay st = of_nat (d_required_symbols st + 1) * of_nat GALILEO_FNAV_CODES_PER_SYMBOL * word_of_int GALILEO_E5A_CODE_PERIOD_MS"

definition fnav_set_TOW :: "gnss_synchro \<Rightarrow> nat \<Rightarrow> telemetry \<Rightarrow> (telemetry \<times> tlm_message list) result" where
  "fnav_set_TOW sy k st =
     bindr (set_TOW (fnav_TOW k (d_fnav_nav st)) (fnav_delay st) st) (\<lambda>st1.
     let st2 = st1\<lparr>d_fnav_nav := fnav_set_TOW_flag k False (d_fnav_nav st)\<rparr> in Inr (st2, publish_tow sy st2))"

definition fnav_TOW_at_preamble :: "gnss_synchro \<Rightarrow> telemetry \<Rightarrow> (telemetry \<times> tlm_message list) result" where
  "fnav_TOW_at_preamble sy st =
     (let nav = d_fnav_nav st
      in if \<not> fnav_get_flag_TOW_set nav then Inr (st, [])
         else if fnav_TOW_is_set 1 nav then fnav_set_TOW sy 1 st
         else if fnav_TOW_is_set 2 nav then fnav_set_TOW sy 2 st
         else if fnav_TOW_is_set 3 nav then fnav_set_TOW sy 3 st
         else if fnav_TOW_is_set 4 nav then fnav_set_TOW sy 4 st
         else Inr (advance_TOW (of_nat GALILEO_FNAV_CODES_PER_SYMBOL * word_of_int GALILEO_E5A_CODE_PERIOD_MS) st, []))"

text \<open>Integer division by 1000 truncates; the result is converted to \<^verbatim>\<open>uint32_t\<close>.\<close>

definition cnav_TOW_at_preamble :: "gnss_synchro \<Rightarrow> telemetry \<Rightarrow> telemetry result" where
  "cnav_TOW_at_preamble sy st =
     (if d_valid_timetag st
      then let predicted = word_of_int (1000 * (time_tow_ms (d_current_timetag st) sdiv 1000))
           in Inr (st\<lparr>d_TOW_at_Preamble_ms := predicted,
                      d_TOW_at_current_symbol_ms := predicted + of_nat (d_required_symbols st + 1) * d_PRN_code_period_ms st,
                      d_E6_TOW_set := True\<rparr>)
      else if d_received_tow_ms st < 604800000
      then let diff = sint (Tracking_sample_counter sy - d_received_sample_counter st)
           in if sync_fs sy = 0 then Inl UndefinedBehaviour
              else bindr (double_to_uint32 (ddiv (dmul (to_double (of_int diff)) 1000) (to_double (of_int (sync_fs sy))))) (\<lambda>ms.
                let now = d_received_tow_ms st + ms + GALILEO_E6_CODE_PERIOD_MS
                in Inr (st\<lparr>d_TOW_at_current_symbol_ms := now, d_TOW_at_Preamble_ms := now div 1000 * 1000, d_E6_TOW_set := True\<rparr>))
      else Inr st)"

definition publish_packet :: "gnss_synchro \<Rightarrow> telemetry \<Rightarrow> telemetry \<times> tlm_message list" where
  "publish_packet sy st =
     (if d_enable_navdata_monitor st \<and> packet_nav_message (d_nav_msg_packet st) \<noteq> ''''
      then let packet = (d_nav_msg_packet st)\<lparr>packet_system := [sync_System sy],
                 packet_signal := takeWhile (\<lambda>c. c \<noteq> CHR 0x00) (sync_Signal sy), packet_prn := to_int32 (int (sync_PRN sy)),
                 packet_tow_at_current_symbol_ms := sint (d_TOW_at_current_symbol_ms st)\<rparr>
           in (st\<lparr>d_nav_msg_packet := packet\<lparr>packet_nav_message := ''''\<rparr>\<rparr>, [Nav_msg_from_TLM packet])
      else (st, []))"

definition update_TOW :: "gnss_synchro \<Rightarrow> telemetry \<Rightarrow> (telemetry \<times> tlm_message list) result" where
  "update_TOW sy st =
     (if d_flag_preamble st
      then if d_frame_type st = 1
           then bindr (inav_TOW_at_preamble sy st) (\<lambda>(st1, m1). let (st2, m2) = publish_packet sy st1 in Inr (st2, m1 @ m2))
           else if d_frame_type st = 2
           then bindr (fnav_TOW_at_preamble sy st) (\<lambda>(st1, m1). let (st2, m2) = publish_packet sy st1 in Inr (st2, m1 @ m2))
           else if d_frame_type st = 3
           then bindr (cnav_TOW_at_preamble sy st) (\<lambda>st1. Inr (if d_E6_TOW_set st1 then publish_packet sy st1 else (st1, [])))
           else Inr (st, [])
      else if d_frame_type st = 1 \<and> get_flag_TOW_set (d_inav_nav st)
           \<or> d_frame_type st = 2 \<and> fnav_get_flag_TOW_set (d_fnav_nav st)
           \<or> d_frame_type st = 3 \<and> d_E6_TOW_set st
      then Inr (advance_TOW (d_PRN_code_period_ms st) st, [])
      else Inr (st, []))"

definition update_delta_t :: "telemetry \<Rightarrow> telemetry" where
  "update_delta_t st =
     (let nav = d_inav_nav st
      in if d_frame_type st = 1 \<and> get_flag_TOW_set nav \<and> get_flag_GGTO nav
         then st\<lparr>d_delta_t := delta_t_of (get_A0G nav) (get_A1G nav) (get_t0G nav) (get_WN0G nav) (get_Galileo_week nav)
                   (d_TOW_at_current_symbol_ms st)\<rparr>
         else st)"

text \<open>The symbol that leaves the block; \<^verbatim>\<open>Flag_valid_word\<close> is set, never cleared.\<close>

definition word_is_valid :: "telemetry \<Rightarrow> bool" where
  "word_is_valid st \<longleftrightarrow> d_frame_type st = 1 \<and> get_flag_TOW_set (d_inav_nav st)
     \<or> d_frame_type st = 2 \<and> fnav_get_flag_TOW_set (d_fnav_nav st) \<or> d_frame_type st = 3 \<and> d_E6_TOW_set st"

definition output_symbol :: "gnss_synchro \<Rightarrow> telemetry \<Rightarrow> gnss_synchro option" where
  "output_symbol sy st =
     (let sy1 = (if word_is_valid st then sy\<lparr>Flag_valid_word := True\<rparr> else sy)
      in if Flag_valid_word sy1
         then Some (sy1\<lparr>TOW_at_current_symbol_ms := d_TOW_at_current_symbol_ms st,
                Carrier_phase_rads := (if d_flag_PLL_180_deg_phase_locked st then dadd (Carrier_phase_rads sy1) GNSS_PI
                                       else Carrier_phase_rads sy1),
                Flag_PLL_180_deg_phase_locked := d_flag_PLL_180_deg_phase_locked st\<rparr>)
         else None)"

text \<open>
  \<open>Produced\<close> and \<open>Nothing\<close> are the return values 1 and 0 of \<^verbatim>\<open>general_work\<close>, \<open>Finished\<close> is -1.
\<close>

datatype work_result = Produced gnss_synchro | Nothing | Finished

definition general_work ::
  "(byte list \<Rightarrow> nat) \<Rightarrow> libm \<Rightarrow> gnss_synchro \<times> gnss_time option list \<Rightarrow> telemetry
     \<Rightarrow> (telemetry \<times> tlm_message list \<times> work_result) result" where
  "general_work crc lm inp st =
     (case inp of (sy, tags) \<Rightarrow>
        bindr (receive_symbol sy st) (\<lambda>st1.
        let st2 = (read_timetags tags st1)\<lparr>d_flag_preamble := False\<rparr>; (st3, m3) = check_telemetry st2
        in bindr (frame_sync crc lm sy st3) (\<lambda>(r, m4).
           case r of
             None \<Rightarrow> Inr (st3, m3 @ m4, Finished)
           | Some st4 \<Rightarrow>
               bindr (update_TOW sy st4) (\<lambda>(st5, m5).
               let st6 = update_delta_t st5
               in Inr (st6, m3 @ m4 @ m5, case output_symbol sy st6 of Some out \<Rightarrow> Produced out | None \<Rightarrow> Nothing)))))"

end
