(* ===== verification/Viterbi_Correct.thy ===== *)
theory Viterbi_Correct
  imports Viterbi
begin

section \<open>Correctness of the Viterbi decoder\<close>

text \<open>
  The convolutional code of the Galileo interface document as a reference, and what
  \<^verbatim>\<open>Viterbi_Decoder\<close> does with its symbols: a block whose first symbols have the right sign is
  decoded to the transmitted bits whatever the decoder has processed before, and the second
  symbols have no influence at all.
\<close>

subsection \<open>The code\<close>

text \<open>
  Generators 171 and 133 (octal). The register holds the last six bits, the newest first; each bit
  gives two symbols.
\<close>

definition conv_G1 :: "bool \<Rightarrow> bool list \<Rightarrow> bool" where
  "conv_G1 b r = odd (count_list [b, r ! 0, r ! 1, r ! 2, r ! 5] True)"

definition conv_G2 :: "bool \<Rightarrow> bool list \<Rightarrow> bool" where
  "conv_G2 b r = odd (count_list [b, r ! 1, r ! 2, r ! 4, r ! 5] True)"

fun conv_encode :: "bool list \<Rightarrow> bool list \<Rightarrow> bool list" where
  "conv_encode r [] = []"
| "conv_encode r (b # bs) = conv_G1 b r # conv_G2 b r # conv_encode (b # butlast r) bs"

text \<open>A block ends with six zero bits.\<close>

definition coded_block :: "bool list \<Rightarrow> bool list" where
  "coded_block bits = conv_encode (replicate 6 False) (bits @ replicate 6 False)"

definition symbol_agrees :: "bool \<Rightarrow> float32 \<Rightarrow> bool" where
  "symbol_agrees c r \<longleftrightarrow> to_float r = r \<and> (if c then 0 < r else r < 0)"

subsection \<open>The tables\<close>

abbreviation galileo_enc :: "nat \<Rightarrow> nat \<Rightarrow> nat \<times> nat" where
  "galileo_enc \<equiv> nsc_enc_bit 7 2 [121, 91]"

definition first_symbol :: "nat \<Rightarrow> nat \<Rightarrow> bool" where
  "first_symbol b s \<longleftrightarrow> odd (fst (galileo_enc b s) div 2)"

text \<open>The bits of the word made up of the input and a state.\<close>

lemma of_bool_xor: "(of_bool P XOR of_bool Q :: nat) = of_bool (P \<noteq> Q)"
  by (cases P; cases Q) simp_all

lemma parity_counter_odd: "parity_counter y n = of_bool (odd (length (filter (bit y) [0..<n])))"
proof -
  define f :: "nat \<Rightarrow> nat \<times> nat \<Rightarrow> nat \<times> nat" where "f = (\<lambda>_ (p, s). (p XOR (s AND 1), drop_bit 1 s))"
  have "fold f [0..<n] (0, y) = (of_bool (odd (length (filter (bit y) [0..<n]))), drop_bit n y)"
  proof (induction n)
    case (Suc n)
    have one: "drop_bit n y AND 1 = of_bool (bit y n)" by (simp add: and_one_eq bit_iff_odd_drop_bit mod_2_eq_odd)
    have "fold f [0..<Suc n] (0, y) = f n (of_bool (odd (length (filter (bit y) [0..<n]))), drop_bit n y)"
      by (simp add: Suc.IH)
    also have "\<dots> = (of_bool (odd (length (filter (bit y) [0..<n])) \<noteq> bit y n), drop_bit (Suc n) y)"
      by (simp only: f_def prod.case one of_bool_xor drop_bit_drop_bit) simp
    finally show ?case by (cases "bit y n") simp_all
  qed simp
  then show ?thesis by (simp add: parity_counter_def f_def)
qed

lemma encoder_word:
  fixes s b :: nat
  assumes "s < 64" and "b < 2"
  shows "push_bit 6 b XOR s = 64 * b + s" and "bit s n \<Longrightarrow> n < 6"
proof -
  have n: "n < 6" if "bit s n" for n
    using assms(1) bit_take_bit_iff [of 6 s n] take_bit_nat_eq_self [of s 6] that by simp
  then have "push_bit 6 b AND s = 0" by (intro bit_eqI) (force simp: bit_simps)
  then have "push_bit 6 b XOR s = push_bit 6 b + s" by (simp add: disjunctive_add_eq_xor)
  then show "push_bit 6 b XOR s = 64 * b + s" by (simp add: push_bit_eq_mult)
  show "bit s n \<Longrightarrow> n < 6" by (rule n)
qed

lemma seven_positions: "[0..<7] = [0, 1, 2, 3, 4, 5, 6::nat]"
  by (simp add: upt_rec)

lemma galileo_enc_eq:
  assumes "s < 64" and "b < 2"
  shows "galileo_enc b s =
    (2 * of_bool (odd (count_list [b = 1, bit s 5, bit s 4, bit s 3, bit s 0] True))
       + of_bool (odd (count_list [b = 1, bit s 4, bit s 3, bit s 1, bit s 0] True)),
     32 * b + s div 2)"
proof -
  define w where "w = 64 * b + s"
  have w: "push_bit 6 b XOR s = w" unfolding w_def by (rule encoder_word(1) [OF assms])
  have "\<not> bit s 6" using encoder_word(2) [OF assms, of 6] by auto
  then have hi: "bit w 6 = (b = 1)"
    using assms(2) by (auto simp: bit_simps bit_0 less_2_cases_iff simp flip: w)
  have lo: "bit w n = bit s n" if "n < 6" for n using that by (simp flip: w add: bit_simps)
  have one: "bit (Suc 0) 0" by (simp add: bit_0)
  have p1: "parity_counter (w AND 121) 7 = of_bool (odd (count_list [b = 1, bit s 5, bit s 4, bit s 3, bit s 0] True))"
    by (simp add: parity_counter_odd seven_positions bit_and_iff lo hi one)
  have p2: "parity_counter (w AND 91) 7 = of_bool (odd (count_list [b = 1, bit s 4, bit s 3, bit s 1, bit s 0] True))"
    by (simp add: parity_counter_odd seven_positions bit_and_iff lo hi one)
  have "[0..<2] = [0, 1::nat]" by (simp add: upt_rec)
  moreover have "drop_bit 1 w = 32 * b + s div 2" by (simp add: w_def drop_bit_eq_div)
  moreover have "galileo_enc b s = (fold (\<lambda>i out. push_bit 1 out + parity_counter (w AND ([121, 91] ! i)) 7) [0..<2] 0, drop_bit 1 w)"
    using w by (simp add: nsc_enc_bit_def Let_def del: drop_bit_xor One_nat_def)
  ultimately show ?thesis
    by (simp add: p1 p2 push_bit_eq_mult del: count_list.simps)
qed

lemma first_symbol_eq:
  assumes "s < 64" and "b < 2"
  shows "first_symbol b s = odd (count_list [b = 1, bit s 5, bit s 4, bit s 3, bit s 0] True)"
  using assms by (simp add: first_symbol_def galileo_enc_eq del: count_list.simps)

lemma galileo_enc_facts:
  assumes "s < 64" and "b < 2"
  shows "snd (galileo_enc b s) = 32 * b + s div 2" and "fst (galileo_enc b s) < 4"
    and "snd (galileo_enc b s) < 64"
  using assms by (simp_all add: galileo_enc_eq del: count_list.simps) 

text \<open>Two branches into one state carry the same bit and different first symbols.\<close>

lemma first_symbol_pair:
  assumes "s < 64" "s' < 64" "b < 2" and "s div 2 = s' div 2" "s \<noteq> s'"
  shows "first_symbol b s \<noteq> first_symbol b s'"
proof -
  have "bit s (Suc n) = bit s' (Suc n)" for n using assms(4) by (simp add: bit_Suc)
  then have "bit s 5 = bit s' 5" "bit s 4 = bit s' 4" "bit s 3 = bit s' 3"
    by (simp_all only: numeral_nat)
  moreover have "bit s 0 \<noteq> bit s' 0" using assms(4,5) by (simp add: bit_0) presburger
  ultimately show ?thesis using assms(1-3) by (auto simp: first_symbol_eq)
qed

lemma same_target:
  assumes "s < 64" "s' < 64" "b < 2" "b' < 2" and same: "snd (galileo_enc b s) = snd (galileo_enc b' s')"
    and other: "s \<noteq> s' \<or> b \<noteq> b'"
  shows "first_symbol b s \<noteq> first_symbol b' s'"
proof -
  have eq: "32 * b + s div 2 = 32 * b' + s' div 2" using assms by (simp add: galileo_enc_facts)
  have "s div 2 < 32" "s' div 2 < 32" using assms by simp_all
  with eq have b: "b = b'" by linarith
  with eq have "s div 2 = s' div 2" by simp
  then show ?thesis using b other assms first_symbol_pair [of s s' b] by auto
qed

text \<open>States are registers read as numbers.\<close>

definition register_state :: "bool list \<Rightarrow> nat" where
  "register_state r = horner_sum of_bool 2 (rev r)"

lemma register_step:
  assumes "length r = 6"
  shows "register_state r < 64" and "first_symbol (of_bool b) (register_state r) = conv_G1 b r"
    and "snd (galileo_enc (of_bool b) (register_state r)) = register_state (b # butlast r)"
proof -
  obtain r0 r1 r2 r3 r4 r5 where r: "r = [r0, r1, r2, r3, r4, r5]"
    using assms by (auto simp: length_Suc_conv eval_nat_numeral)
  have lt: "register_state r < 64"
    unfolding r register_state_def by (cases r0; cases r1; cases r2; cases r3; cases r4; cases r5) simp_all
  have bits: "bit (register_state r) n = (n < 6 \<and> r ! (5 - n))" for n
    using assms by (auto simp: register_state_def bit_horner_sum_bit_iff rev_nth)
  have s: "of_bool b < (2::nat)" by simp
  show "register_state r < 64" by (rule lt)
  show "first_symbol (of_bool b) (register_state r) = conv_G1 b r"
    by (simp add: first_symbol_eq [OF lt s] bits conv_G1_def)
  show "snd (galileo_enc (of_bool b) (register_state r)) = register_state (b # butlast r)"
    by (subst galileo_enc_facts(1) [OF lt s]) (simp add: r register_state_def)
qed



subsection \<open>The invariant of a decoder\<close>

text \<open>
  \<open>viterbi_used LL v\<close>: \<open>v\<close> was constructed for blocks of \<open>LL\<close> bits and has decoded any inputs since.
\<close>

inductive viterbi_used :: "nat \<Rightarrow> viterbi_decoder \<Rightarrow> bool" for LL where
  New: "viterbi_used LL (new_viterbi_decoder 7 2 LL [121, 91])"
| Decode: "viterbi_used LL v \<Longrightarrow> viterbi_decode out input_c v = Inr (v', out') \<Longrightarrow> viterbi_used LL v'"
| Reset: "viterbi_used LL v \<Longrightarrow> viterbi_used LL (viterbi_reset v)"

definition viterbi_config :: "nat \<Rightarrow> viterbi_decoder \<Rightarrow> bool" where
  "viterbi_config LL v \<longleftrightarrow> d_KK v = 7 \<and> d_nn v = 2 \<and> d_LL v = LL \<and> d_mm v = 6 \<and> d_states v = 64
     \<and> d_number_symbols v = 4 \<and> d_g v = [121, 91]
     \<and> (\<forall>s<64. d_out0 v ! s = fst (galileo_enc 0 s) \<and> d_out1 v ! s = fst (galileo_enc 1 s)
          \<and> d_state0 v ! s = snd (galileo_enc 0 s) \<and> d_state1 v ! s = snd (galileo_enc 1 s))"

definition viterbi_wf :: "nat \<Rightarrow> viterbi_decoder \<Rightarrow> bool" where
  "viterbi_wf LL v \<longleftrightarrow> viterbi_config LL v
     \<and> length (d_rec_array v) = 2 \<and> d_rec_array v ! 1 = 0
     \<and> length (d_prev_section v) = 64 \<and> (\<forall>s<64. d_prev_section v ! s \<le> 0)
     \<and> d_next_section v = replicate 64 (- d_MAXLOG)
     \<and> length (d_prev_state v) = 64 * (LL + 6) \<and> length (d_prev_bit v) = 64 * (LL + 6)
     \<and> (\<forall>s \<in> set (d_prev_state v). s < 64) \<and> (\<forall>b \<in> set (d_prev_bit v). b < 2)"

lemma new_viterbi_wf: "viterbi_wf LL (new_viterbi_decoder 7 2 LL [121, 91])"
  by (simp add: viterbi_wf_def viterbi_config_def new_viterbi_decoder_def nsc_transit_def Let_def
      push_bit_eq_mult d_MAXLOG_def)

lemma viterbi_reset_wf: "viterbi_wf LL v \<Longrightarrow> viterbi_wf LL (viterbi_reset v)"
  by (simp add: viterbi_wf_def viterbi_config_def viterbi_reset_def nsc_transit_def Let_def push_bit_eq_mult)

lemma index_max_greatest:
  assumes "src \<noteq> []"
  shows "index_max src < length src" and "i < length src \<Longrightarrow> src ! i \<le> src ! index_max src"
proof -
  let ?f = "\<lambda>i (index, mx). if mx < src ! i then (i, src ! i) else (index, mx)"
  define P where "P n p \<longleftrightarrow> fst p < length src \<and> snd p = src ! fst p \<and> (\<forall>i<n. src ! i \<le> snd p)" for n and p :: "nat \<times> rat"
  have "P n (fold ?f [1..<n] (0, src ! 0))" if "1 \<le> n" "n \<le> length src" for n
    using that
  proof (induction n rule: dec_induct)
    case base
    then show ?case using assms by (simp add: P_def)
  next
    case (step n)
    obtain index mx where f: "fold ?f [1..<n] (0, src ! 0) = (index, mx)" by fastforce
    have "P n (index, mx)" using step f by simp
    then show ?case using step f by (auto simp: P_def less_Suc_eq intro: order.trans [OF _ less_imp_le])
  qed
  from this [of "length src"] have "P (length src) (fold ?f [1..<length src] (0, src ! 0))"
    using assms by (simp add: Suc_leI)
  then show "index_max src < length src" and "i < length src \<Longrightarrow> src ! i \<le> src ! index_max src"
    by (auto simp: P_def index_max_def)
qed

text \<open>With the second symbol absent, a branch metric is the first symbol or nothing.\<close>

lemma Gamma_first:
  assumes "length rec = 2" "rec ! 1 = 0" "out < 4"
  shows "Gamma_metric 2 rec out = (if odd (out div 2) then to_float (rec ! 0) else 0)"
proof -
  have "[0..<2] = [0, 1::nat]" by (simp add: upt_rec)
  moreover have "out \<in> {0, 1, 2, 3}" using assms(3) by auto
  ultimately show ?thesis using assms by (auto simp: Gamma_metric_def fadd_def)
qed


subsection \<open>One section of the trellis\<close>

text \<open>\<open>branched t v0 v\<close>: only branches of section \<open>t\<close> were stored between \<open>v0\<close> and \<open>v\<close>.\<close>

definition branched :: "nat \<Rightarrow> viterbi_decoder \<Rightarrow> viterbi_decoder \<Rightarrow> bool" where
  "branched t v0 v \<longleftrightarrow>
     (\<exists>a b c. v = v0\<lparr>d_next_section := a, d_prev_state := b, d_prev_bit := c\<rparr>)
     \<and> length (d_next_section v) = length (d_next_section v0)
     \<and> length (d_prev_state v) = length (d_prev_state v0) \<and> length (d_prev_bit v) = length (d_prev_bit v0)
     \<and> (\<forall>i < t * d_states v0. d_prev_state v ! i = d_prev_state v0 ! i \<and> d_prev_bit v ! i = d_prev_bit v0 ! i)
     \<and> ((\<forall>s \<in> set (d_prev_state v0). s < 64) \<longrightarrow> (\<forall>s \<in> set (d_prev_state v). s < 64))
     \<and> ((\<forall>b \<in> set (d_prev_bit v0). b < 2) \<longrightarrow> (\<forall>b \<in> set (d_prev_bit v). b < 2))"

text \<open>
  \<open>wins t g n s b D v\<close>: no metric exceeds \<open>g\<close>, and once the branch with bit \<open>b\<close> from \<open>s\<close> to \<open>n\<close> was
  considered (\<open>D\<close>), it holds the metric \<open>g\<close> of \<open>n\<close>, which was below \<open>g\<close> before.
\<close>

definition wins :: "nat \<Rightarrow> float32 \<Rightarrow> nat \<Rightarrow> nat \<Rightarrow> nat \<Rightarrow> bool \<Rightarrow> viterbi_decoder \<Rightarrow> bool" where
  "wins t g n s b D v \<longleftrightarrow> (\<forall>k<64. d_next_section v ! k \<le> g)
     \<and> (if D then d_next_section v ! n = g \<and> d_prev_state v ! (t * 64 + n) = s \<and> d_prev_bit v ! (t * 64 + n) = b
        else d_next_section v ! n < g)"

lemma branched_refl: "branched t v v"
proof -
  have "v = v\<lparr>d_next_section := d_next_section v, d_prev_state := d_prev_state v, d_prev_bit := d_prev_bit v\<rparr>"
    by simp
  then show ?thesis unfolding branched_def by blast
qed

lemma branched_fields:
  assumes "branched t v0 v"
  shows "d_states v = d_states v0" "d_state0 v = d_state0 v0" "d_state1 v = d_state1 v0" "d_out0 v = d_out0 v0"
    "d_out1 v = d_out1 v0" "d_prev_section v = d_prev_section v0" "d_metric_c v = d_metric_c v0"
    "d_rec_array v = d_rec_array v0" "viterbi_config LL v = viterbi_config LL v0"
proof -
  obtain a b c where v: "v = v0\<lparr>d_next_section := a, d_prev_state := b, d_prev_bit := c\<rparr>"
    using assms unfolding branched_def by blast
  show "d_states v = d_states v0" "d_state0 v = d_state0 v0" "d_state1 v = d_state1 v0" "d_out0 v = d_out0 v0"
    "d_out1 v = d_out1 v0" "d_prev_section v = d_prev_section v0" "d_metric_c v = d_metric_c v0"
    "d_rec_array v = d_rec_array v0" "viterbi_config LL v = viterbi_config LL v0"
    unfolding v by (simp_all add: viterbi_config_def)
qed

lemma branched_store:
  assumes "branched t v0 v" and "s < 64" and "b < 2"
  shows "branched t v0 (store_metric t s b n m v)"
proof -
  obtain x y z where v: "v = v0\<lparr>d_next_section := x, d_prev_state := y, d_prev_bit := z\<rparr>"
    using assms unfolding branched_def by blast
  have "\<exists>x y z. store_metric t s b n m v = v0\<lparr>d_next_section := x, d_prev_state := y, d_prev_bit := z\<rparr>"
    unfolding v store_metric_def by auto
  then show ?thesis
    using assms branched_fields(1) [OF assms(1)] set_update_subset_insert [of "d_prev_state v"] set_update_subset_insert [of "d_prev_bit v"]
    by (auto simp: branched_def store_metric_def dest!: subsetD [OF set_update_subset_insert])
qed

lemma wins_other:
  assumes "wins t g n s b D v" and "d_states v = 64" "length (d_next_section v) = 64" "n < 64"
    and "m \<le> g" and "target = n \<Longrightarrow> m < g"
  shows "wins t g n s b D (store_metric t s' b' target m v)"
proof (cases "d_next_section v ! target < m")
  case True
  have upd: "(d_next_section v)[target := m] ! k = (if k = target then m else d_next_section v ! k)" if "k < 64" for k
    using that assms(3) by (auto simp: nth_list_update)
  have "\<not> (D \<and> target = n)" using assms(1,6) True by (auto simp: wins_def)
  then show ?thesis using assms True by (auto simp: wins_def store_metric_def upd)
qed (use assms in \<open>simp add: store_metric_def\<close>)

lemma wins_branch:
  assumes "wins t g n s b False v" and "d_states v = 64" "length (d_next_section v) = 64" "n < 64"
    and "t * 64 + n < length (d_prev_state v)" "t * 64 + n < length (d_prev_bit v)"
  shows "wins t g n s b True (store_metric t s b n g v)"
  using assms by (auto simp: wins_def store_metric_def nth_list_update split: if_splits)

definition branch_metric :: "viterbi_decoder \<Rightarrow> nat \<Rightarrow> nat \<Rightarrow> float32" where
  "branch_metric v b k = fadd (d_prev_section v ! k) (d_metric_c v ! fst (galileo_enc b k))"

lemma step_state_branches:
  assumes "branched t v0 v" and "viterbi_config LL v0" and "k < 64"
  shows "step_state t k v = store_metric t k 1 (snd (galileo_enc 1 k)) (branch_metric v0 1 k)
    (store_metric t k 0 (snd (galileo_enc 0 k)) (branch_metric v0 0 k) v)"
proof -
  define v1 where "v1 = store_metric t k 0 (snd (galileo_enc 0 k)) (branch_metric v0 0 k) v"
  have br: "branched t v0 v1" unfolding v1_def by (rule branched_store [OF assms(1,3)]) simp
  have "store_metric t k 0 (d_state0 v ! k) (fadd (d_prev_section v ! k) (d_metric_c v ! (d_out0 v ! k))) v = v1"
    using assms(2,3) by (simp add: v1_def branch_metric_def viterbi_config_def branched_fields [OF assms(1)])
  then have "step_state t k v = store_metric t k 1 (snd (galileo_enc 1 k)) (branch_metric v0 1 k) v1"
    using assms(2,3) by (simp add: step_state_def branch_metric_def viterbi_config_def branched_fields [OF br])
  then show ?thesis by (simp add: v1_def)
qed

lemma branched_states:
  assumes "viterbi_config LL v0" and "K \<le> 64"
  shows "branched t v0 (fold (step_state t) [0..<K] v0)"
  using assms(2)
proof (induction K)
  case (Suc K)
  then show ?case using assms(1) by (simp add: step_state_branches branched_store)
qed (simp add: branched_refl)

lemma wins_states:
  assumes cfg: "viterbi_config LL v0" and len: "length (d_next_section v0) = 64"
    "length (d_prev_state v0) = 64 * (LL + 6)" "length (d_prev_bit v0) = 64 * (LL + 6)" and t: "t < LL + 6"
    and s: "s < 64" "b < 2" "n = snd (galileo_enc b s)"
    and init: "wins t g n s b False v0"
    and best: "branch_metric v0 b s = g"
    and le: "\<And>k c. k < 64 \<Longrightarrow> c < 2 \<Longrightarrow> branch_metric v0 c k \<le> g"
    and lt: "\<And>k c. k < 64 \<Longrightarrow> c < 2 \<Longrightarrow> snd (galileo_enc c k) = n \<Longrightarrow> k \<noteq> s \<or> c \<noteq> b \<Longrightarrow> branch_metric v0 c k < g"
    and K: "K \<le> 64"
  shows "wins t g n s b (s < K) (fold (step_state t) [0..<K] v0)"
  using K
proof (induction K)
  case 0
  then show ?case using init by simp
next
  case (Suc K)
  let ?v = "fold (step_state t) [0..<K] v0"
  have n: "n < 64" using s by (simp add: galileo_enc_facts(3))
  have idx: "t * 64 + n < 64 * (LL + 6)" using t n by simp
  have good: "d_states w = 64" "length (d_next_section w) = 64" "t * 64 + n < length (d_prev_state w)"
    "t * 64 + n < length (d_prev_bit w)" if "branched t v0 w" for w
    using that cfg len idx branched_fields(1) [OF that] by (auto simp: branched_def viterbi_config_def)
  have br: "branched t v0 ?v" using Suc.prems by (intro branched_states [OF cfg]) simp
  have one: "wins t g n s b (D \<or> (K = s \<and> c = b)) (store_metric t K c (snd (galileo_enc c K)) (branch_metric v0 c K) w)"
    if w: "branched t v0 w" and c: "c < 2" and D: "wins t g n s b D w" "D \<Longrightarrow> \<not> (K = s \<and> c = b)" for w c D
  proof (cases "K = s \<and> c = b")
    case True
    then have "\<not> D" using D(2) by blast
    then show ?thesis using True D(1) good [OF w] n best s(3) wins_branch [of t g n s b w] by simp
  next
    case False
    then have "wins t g n s b D (store_metric t K c (snd (galileo_enc c K)) (branch_metric v0 c K) w)"
      using D(1) good [OF w] n le [of K c] lt [of K c] c Suc.prems by (intro wins_other) auto
    moreover have "(D \<or> (K = s \<and> c = b)) = D" using False by blast
    ultimately show ?thesis by (simp only:)
  qed
  have first: "wins t g n s b (s < K \<or> (K = s \<and> 0 = b)) (store_metric t K 0 (snd (galileo_enc 0 K)) (branch_metric v0 0 K) ?v)"
    by (rule one [OF br]) (use Suc in auto)
  have "wins t g n s b ((s < K \<or> (K = s \<and> 0 = b)) \<or> (K = s \<and> 1 = b))
      (store_metric t K 1 (snd (galileo_enc 1 K)) (branch_metric v0 1 K) (store_metric t K 0 (snd (galileo_enc 0 K)) (branch_metric v0 0 K) ?v))"
    by (rule one [OF branched_store [OF br] _ first]) (use Suc.prems in auto)
  moreover have "((s < K \<or> (K = s \<and> 0 = b)) \<or> (K = s \<and> 1 = b)) = (s < Suc K)" using s(2) by auto
  ultimately show ?case using Suc.prems br cfg by (simp add: step_state_branches)
qed


text \<open>Any step keeps the decoder well formed and the earlier sections as they are.\<close>

lemma to_float_nonpos: "x \<le> 0 \<Longrightarrow> to_float x \<le> 0"
  using to_float_mono [of x 0] by simp

lemma normalize_wf:
  assumes "viterbi_config LL v" "length (d_rec_array v) = 2" "d_rec_array v ! 1 = 0"
    "length (d_next_section v) = 64" "length (d_prev_state v) = 64 * (LL + 6)" "length (d_prev_bit v) = 64 * (LL + 6)"
    "\<forall>s \<in> set (d_prev_state v). s < 64" "\<forall>b \<in> set (d_prev_bit v). b < 2"
  shows "viterbi_wf LL (normalize_sections v)"
proof -
  have "d_next_section v \<noteq> []" using assms(4) by auto
  then have "fsub (d_next_section v ! s) (d_next_section v ! index_max (d_next_section v)) \<le> 0" if "s < 64" for s
    using index_max_greatest(2) [of "d_next_section v" s] that assms(4) by (simp add: fsub_def to_float_nonpos)
  then show ?thesis using assms by (simp add: viterbi_wf_def viterbi_config_def normalize_sections_def Let_def)
qed

definition with_metrics :: "float32 \<Rightarrow> viterbi_decoder \<Rightarrow> viterbi_decoder" where
  "with_metrics r v = v\<lparr>d_rec_array := [r, 0], d_metric_c := map (Gamma_metric 2 [r, 0]) [0..<4]\<rparr>"

lemma trellis_step_eq:
  assumes "viterbi_wf LL v" and "2 * t < length input_c"
  shows "trellis_step input_c t v
    = Inr (normalize_sections (fold (step_state t) [0..<64] (with_metrics (input_c ! (2 * t)) v)))"
proof -
  note upt_rec_numeral [simp del]
  obtain x where rec: "d_rec_array v = [x, 0]"
  proof -
    have two: "length (d_rec_array v) = 2" "d_rec_array v ! 1 = 0" using assms(1) by (simp_all add: viterbi_wf_def)
    then obtain x y where xy: "d_rec_array v = [x, y]" by (metis length_0_conv length_Suc_conv numeral_2_eq_2)
    then show ?thesis using two that by simp
  qed
  have "take 1 (drop (2 * t) input_c) = [input_c ! (2 * t)]"
    using assms(2) by (simp add: take_Suc hd_drop_conv_nth)
  then have "fetch_symbols input_c t v = Inr (v\<lparr>d_rec_array := [input_c ! (2 * t), 0]\<rparr>)"
    using assms rec by (simp add: fetch_symbols_def viterbi_wf_def viterbi_config_def)
  then show ?thesis
    using assms(1) by (simp add: trellis_step_def with_metrics_def viterbi_wf_def viterbi_config_def Let_def)
qed

lemma with_metrics_fields:
  "viterbi_config LL (with_metrics r v) = viterbi_config LL v" "d_rec_array (with_metrics r v) = [r, 0]"
  "d_next_section (with_metrics r v) = d_next_section v" "d_prev_section (with_metrics r v) = d_prev_section v"
  "d_prev_state (with_metrics r v) = d_prev_state v" "d_prev_bit (with_metrics r v) = d_prev_bit v"
  "d_states (with_metrics r v) = d_states v"
  by (simp_all add: with_metrics_def viterbi_config_def)

lemma branch_metric_eq:
  assumes "k < 64" "b < 2"
  shows "branch_metric (with_metrics r v) b k = fadd (d_prev_section v ! k) (if first_symbol b k then to_float r else 0)"
proof -
  have "d_metric_c (with_metrics r v) ! fst (galileo_enc b k) = Gamma_metric 2 [r, 0] (fst (galileo_enc b k))"
    using galileo_enc_facts(2) [OF assms] by (simp add: with_metrics_def del: upt.simps upt_rec_numeral)
  then show ?thesis
    using Gamma_first [of "[r, 0]"] galileo_enc_facts(2) [OF assms]
    by (simp add: branch_metric_def with_metrics_fields first_symbol_def)
qed

lemma trellis_step_frame:
  assumes wf: "viterbi_wf LL v" and len: "2 * t < length input_c" and step: "trellis_step input_c t v = Inr v'"
  shows "viterbi_wf LL v'" and "i < t * 64 \<Longrightarrow> d_prev_state v' ! i = d_prev_state v ! i \<and> d_prev_bit v' ! i = d_prev_bit v ! i"
proof -
  note upt_rec_numeral [simp del]
  let ?v2 = "with_metrics (input_c ! (2 * t)) v"
  let ?v3 = "fold (step_state t) [0..<64] ?v2"
  have cfg: "viterbi_config LL ?v2" using wf by (simp add: viterbi_wf_def with_metrics_fields)
  have br: "branched t ?v2 ?v3" by (rule branched_states [OF cfg]) simp
  have v': "v' = normalize_sections ?v3" using step trellis_step_eq [OF wf len] by simp
  have lens: "length (d_next_section ?v3) = 64" "length (d_prev_state ?v3) = 64 * (LL + 6)" "length (d_prev_bit ?v3) = 64 * (LL + 6)"
    "\<forall>s \<in> set (d_prev_state ?v3). s < 64" "\<forall>b \<in> set (d_prev_bit ?v3). b < 2"
    using br wf by (simp_all add: branched_def with_metrics_fields viterbi_wf_def)
  show "viterbi_wf LL v'" unfolding v'
    using cfg lens by (intro normalize_wf) (simp_all add: branched_fields [OF br] with_metrics_fields)
  have "d_states v = 64" using wf by (simp add: viterbi_wf_def viterbi_config_def)
  then show "i < t * 64 \<Longrightarrow> d_prev_state v' ! i = d_prev_state v ! i \<and> d_prev_bit v' ! i = d_prev_bit v ! i"
    using br by (simp add: v' normalize_sections_def Let_def branched_def with_metrics_fields)
qed

text \<open>The branch of the transmitted bit wins when its first symbol has the right sign.\<close>

lemma trellis_step_wins:
  assumes wf: "viterbi_wf LL v" and t: "t < LL + 6" and len: "2 * t < length input_c"
    and s: "s < 64" "b < 2" and lead: "d_prev_section v ! s = 0"
    and agrees: "symbol_agrees (first_symbol b s) (input_c ! (2 * t))"
    and step: "trellis_step input_c t v = Inr v'"
  shows "d_prev_section v' ! snd (galileo_enc b s) = 0"
    and "d_prev_state v' ! (t * 64 + snd (galileo_enc b s)) = s"
    and "d_prev_bit v' ! (t * 64 + snd (galileo_enc b s)) = b"
proof -
  note upt_rec_numeral [simp del]
  define r where "r = input_c ! (2 * t)"
  define g where "g = (if first_symbol b s then r else 0)"
  let ?n = "snd (galileo_enc b s)" and ?v2 = "with_metrics r v"
  let ?v3 = "fold (step_state t) [0..<64] ?v2"
  have r: "to_float r = r" "0 \<le> g" "first_symbol b s \<Longrightarrow> 0 < r" "\<not> first_symbol b s \<Longrightarrow> r < 0"
    using agrees by (auto simp: symbol_agrees_def r_def g_def split: if_splits)
  have cfg: "viterbi_config LL ?v2" using wf by (simp add: viterbi_wf_def with_metrics_fields)
  have prev: "d_prev_section v ! k \<le> 0" if "k < 64" for k using wf that by (simp add: viterbi_wf_def)
  have bm: "branch_metric ?v2 c k \<le> (if first_symbol c k then r else 0)" if "k < 64" "c < 2" for k c
  proof -
    let ?x = "if first_symbol c k then r else 0"
    have "branch_metric ?v2 c k = to_float (d_prev_section v ! k + ?x)"
      using branch_metric_eq [OF that] r by (simp add: fadd_def)
    also have "\<dots> \<le> to_float ?x" using prev [OF that(1)] by (intro to_float_mono) simp
    finally show ?thesis using r by (cases "first_symbol c k") simp_all
  qed
  have n: "?n < 64" by (rule galileo_enc_facts(3) [OF s])
  have win: "wins t g ?n s b (s < 64) ?v3"
  proof (rule wins_states [OF cfg])
    show "branch_metric ?v2 b s = g"
      using branch_metric_eq [OF s] r lead by (simp add: fadd_def g_def)
    show "wins t g ?n s b False ?v2"
      using wf r n by (auto simp: wins_def with_metrics_fields viterbi_wf_def d_MAXLOG_def)
    show "branch_metric ?v2 c k \<le> g" if "k < 64" "c < 2" for k c
      using bm [OF that] r by (auto simp: g_def split: if_splits)
    show "branch_metric ?v2 c k < g" if "k < 64" "c < 2" "snd (galileo_enc c k) = ?n" "k \<noteq> s \<or> c \<noteq> b" for k c
    proof -
      have "first_symbol c k \<noteq> first_symbol b s" by (rule same_target [OF that(1) s(1) that(2) s(2) that(3,4)])
      then show ?thesis using bm [OF that(1,2)] r by (auto simp: g_def split: if_splits)
    qed
  qed (use wf t s in \<open>auto simp: viterbi_wf_def with_metrics_fields\<close>)
  have lens: "length (d_next_section ?v3) = 64"
    using branched_states [OF cfg, of 64 t] wf by (simp add: branched_def with_metrics_fields viterbi_wf_def)
  have top: "d_next_section ?v3 ! ?n = g" "\<And>k. k < 64 \<Longrightarrow> d_next_section ?v3 ! k \<le> g"
    using win s(1) by (auto simp: wins_def)
  have "d_next_section ?v3 \<noteq> []" using lens by auto
  then have mx: "d_next_section ?v3 ! index_max (d_next_section ?v3) = g"
    using index_max_greatest [of "d_next_section ?v3"] top n lens by (metis order.antisym)
  have v': "v' = normalize_sections ?v3" using step trellis_step_eq [OF wf len] by (simp add: r_def)
  show "d_prev_section v' ! ?n = 0"
    using n lens by (simp add: v' normalize_sections_def Let_def mx top(1) fsub_def)
  show "d_prev_state v' ! (t * 64 + ?n) = s" "d_prev_bit v' ! (t * 64 + ?n) = b"
    using win s(1) by (auto simp: v' normalize_sections_def Let_def wins_def)
qed


subsection \<open>Whole blocks\<close>

lemma trellis_ok:
  assumes "viterbi_wf LL v" and "\<forall>t \<in> set ts. 2 * t < length input_c"
  shows "\<exists>v'. trellis input_c ts v = Inr v' \<and> viterbi_wf LL v'"
  using assms
proof (induction ts arbitrary: v)
  case (Cons t ts)
  then obtain v1 where v1: "trellis_step input_c t v = Inr v1" using trellis_step_eq by simp
  then have "viterbi_wf LL v1" using Cons.prems trellis_step_frame(1) [of LL v t input_c v1] by simp
  then show ?case using Cons v1 by simp
qed simp

lemma trellis_short:
  assumes "viterbi_wf LL v" and "trellis input_c ts v = Inr v'" and "t \<in> set ts"
  shows "2 * t < length input_c"
  using assms
proof (induction ts arbitrary: v)
  case (Cons u ts)
  show ?case
  proof (cases "2 * u < length input_c")
    case True
    then obtain v1 where v1: "trellis_step input_c u v = Inr v1" using Cons.prems trellis_step_eq by simp
    then have "viterbi_wf LL v1" using Cons.prems True trellis_step_frame(1) [of LL v u input_c v1] by simp
    then show ?thesis using Cons v1 True by auto
  next
    case False
    then show ?thesis using Cons.prems by (simp add: trellis_step_def fetch_symbols_def viterbi_wf_def viterbi_config_def)
  qed
qed simp

lemma start_wf: "viterbi_wf LL v \<Longrightarrow> viterbi_wf LL (v\<lparr>d_prev_section := (d_prev_section v)[0 := 0]\<rparr>)"
  by (auto simp: viterbi_wf_def viterbi_config_def nth_list_update)

lemma used_wf: "viterbi_used LL v \<Longrightarrow> viterbi_wf LL v"
proof (induction rule: viterbi_used.induct)
  case New
  then show ?case by (rule new_viterbi_wf)
next
  case (Decode v out input_c v' out')
  let ?v0 = "v\<lparr>d_prev_section := (d_prev_section v)[0 := 0]\<rparr>"
  have tr: "trellis input_c [0..<d_LL v + d_mm v] ?v0 = Inr v'"
    using Decode.hyps(2) by (auto simp: viterbi_decode_def bindr_eq_Inr)
  have "\<forall>t \<in> set [0..<d_LL v + d_mm v]. 2 * t < length input_c"
    using trellis_short [OF start_wf [OF Decode.IH] tr] by blast
  then show ?case using trellis_ok [OF start_wf [OF Decode.IH]] tr by fastforce
next
  case (Reset v)
  then show ?case by (simp add: viterbi_reset_wf)
qed

text \<open>The states the encoder goes through.\<close>

fun state_path :: "bool list \<Rightarrow> nat \<Rightarrow> nat" where
  "state_path bs 0 = 0"
| "state_path bs (Suc t) = snd (galileo_enc (of_bool (bs ! t)) (state_path bs t))"

lemma state_path_less: "state_path bs t < 64"
  by (induction t) (simp_all add: galileo_enc_facts(3))

lemma state_path_zeros:
  assumes "\<forall>t<k. \<not> bs ! (n + t)"
  shows "state_path bs (n + k) = state_path bs n div 2 ^ k"
  using assms
proof (induction k)
  case (Suc k)
  then show ?case
    using galileo_enc_facts(1) [of "state_path bs (n + k)" 0] state_path_less [of bs "n + k"]
    by (simp flip: div_mult2_eq add: mult.commute)
qed simp

text \<open>The first symbols of the encoder are those of the path.\<close>

lemma conv_encode_path:
  assumes "length r = 6" and "t < length bs"
  shows "conv_encode r bs ! (2 * t) = first_symbol (of_bool (bs ! t))
    (fold (\<lambda>b s. snd (galileo_enc (of_bool b) s)) (take t bs) (register_state r))"
  using assms
proof (induction bs arbitrary: r t)
  case (Cons b bs)
  show ?case
  proof (cases t)
    case 0
    then show ?thesis using Cons.prems by (simp add: register_step(2))
  next
    case (Suc t')
    then show ?thesis using Cons.prems Cons.IH [of "b # butlast r" t'] by (simp add: register_step(3))
  qed
qed simp

lemma state_path_fold:
  "t \<le> length bs \<Longrightarrow> fold (\<lambda>b s. snd (galileo_enc (of_bool b) s)) (take t bs) 0 = state_path bs t"
proof (induction t)
  case (Suc t)
  then show ?case by (simp add: take_Suc_conv_app_nth)
qed simp

lemma coded_first_symbol:
  assumes "t < length bits + 6"
  shows "coded_block bits ! (2 * t) = first_symbol (of_bool ((bits @ replicate 6 False) ! t)) (state_path (bits @ replicate 6 False) t)"
proof -
  have "register_state (replicate 6 False) = 0" by (simp add: register_state_def eval_nat_numeral)
  then show ?thesis
    using assms conv_encode_path [of "replicate 6 False" t "bits @ replicate 6 False"] state_path_fold [of t "bits @ replicate 6 False"]
    by (simp add: coded_block_def)
qed


lemma trellis_append: "trellis input_c (ts @ us) v = bindr (trellis input_c ts v) (trellis input_c us)"
  by (induction ts arbitrary: v) (simp_all split: bindr_splits)

text \<open>After \<open>T\<close> sections the stored branches lead back along the path of the transmitted bits.\<close>

definition traced :: "bool list \<Rightarrow> nat \<Rightarrow> viterbi_decoder \<Rightarrow> bool" where
  "traced bs T v \<longleftrightarrow> (\<forall>t<T. d_prev_state v ! (t * 64 + state_path bs (Suc t)) = state_path bs t
     \<and> d_prev_bit v ! (t * 64 + state_path bs (Suc t)) = of_bool (bs ! t))"

lemma trellis_traced:
  assumes wf: "viterbi_wf LL v" and start: "d_prev_section v ! 0 = 0" and len: "2 * LL + 11 \<le> length input_c"
    and agrees: "\<forall>t < LL + 6. symbol_agrees (first_symbol (of_bool (bs ! t)) (state_path bs t)) (input_c ! (2 * t))"
    and T: "T \<le> LL + 6"
  shows "\<exists>v'. trellis input_c [0..<T] v = Inr v' \<and> viterbi_wf LL v' \<and> d_prev_section v' ! state_path bs T = 0 \<and> traced bs T v'"
  using T
proof (induction T)
  case 0
  then show ?case using wf start by (simp add: traced_def)
next
  case (Suc T)
  then obtain v1 where v1: "trellis input_c [0..<T] v = Inr v1" "viterbi_wf LL v1" "d_prev_section v1 ! state_path bs T = 0"
    "traced bs T v1" by auto
  have lt: "2 * T < length input_c" "T < LL + 6" using Suc.prems len by simp_all
  obtain v2 where v2: "trellis_step input_c T v1 = Inr v2" using trellis_step_eq [OF v1(2) lt(1)] by simp
  have ag: "symbol_agrees (first_symbol (of_bool (bs ! T)) (state_path bs T)) (input_c ! (2 * T))" using agrees lt by simp
  note won = trellis_step_wins [OF v1(2) lt(2) lt(1) state_path_less _ v1(3) ag v2]
  have "t * 64 + state_path bs (Suc t) < T * 64" if "t < T" for t
    using that state_path_less [of bs "Suc t"] by linarith
  then have "traced bs (Suc T) v2"
    using v1(4) won(2,3) trellis_step_frame(2) [OF v1(2) lt(1) v2] by (auto simp: traced_def less_Suc_eq)
  moreover have "viterbi_wf LL v2" by (rule trellis_step_frame(1) [OF v1(2) lt(1) v2])
  moreover have "d_prev_section v2 ! state_path bs (Suc T) = 0" using won(1) by simp
  moreover have "trellis input_c [0..<Suc T] v = Inr v2" using v1(1) v2 by (simp add: trellis_append)
  ultimately show ?case by blast
qed

lemma trace_path:
  assumes "traced bs T v" and "d_states v = 64" and "a \<le> b" "b \<le> T"
  shows "fold (\<lambda>t state. d_prev_state v ! (t * d_states v + state)) (rev [a..<b]) (state_path bs b) = state_path bs a"
  using assms(3,4)
proof (induction b rule: dec_induct)
  case (step b)
  then show ?case using assms(1,2) by (simp add: traced_def del: state_path.simps)
qed simp

lemma trace_back_path:
  assumes "traced bs T v" and "d_states v = 64" and "t \<le> T" "t \<le> length out"
  shows "trace_back v t (out, state_path bs t) = Inr (map (\<lambda>i. of_bool (bs ! i)) [0..<t] @ drop t out)"
  using assms(3,4)
proof (induction t arbitrary: out)
  case (Suc t)
  have "trace_step v t (out, state_path bs (Suc t)) = Inr (out[t := of_bool (bs ! t)], state_path bs t)"
    using Suc.prems assms(1,2) by (simp add: trace_step_def traced_def del: state_path.simps)
  then have "trace_back v (Suc t) (out, state_path bs (Suc t))
      = Inr (map (\<lambda>i. of_bool (bs ! i)) [0..<t] @ drop t (out[t := of_bool (bs ! t)]))"
    using Suc by simp
  also have "drop t (out[t := of_bool (bs ! t)]) = of_bool (bs ! t) # drop (Suc t) out"
    using Suc.prems by (simp add: drop_update_swap Cons_nth_drop_Suc [symmetric])
  finally show ?case by simp
qed simp

lemma viterbi_decodes:
  assumes wf: "viterbi_wf LL v" and bits: "length bits = LL" and out: "LL \<le> length out" and len: "2 * LL + 11 \<le> length input_c"
    and agrees: "\<forall>t < LL + 6. symbol_agrees (coded_block bits ! (2 * t)) (input_c ! (2 * t))"
  shows "\<exists>v'. viterbi_decode out input_c v = Inr (v', map of_bool bits @ drop LL out) \<and> viterbi_wf LL v'"
proof -
  let ?v0 = "v\<lparr>d_prev_section := (d_prev_section v)[0 := 0]\<rparr>"
  let ?bs = "bits @ replicate 6 False"
  have wf0: "viterbi_wf LL ?v0" by (rule start_wf [OF wf])
  have "d_prev_section v \<noteq> []" using wf by (auto simp: viterbi_wf_def)
  then have "d_prev_section ?v0 ! 0 = 0" by simp
  then obtain v1 where v1: "trellis input_c [0..<LL + 6] ?v0 = Inr v1" "viterbi_wf LL v1" "traced ?bs (LL + 6) v1"
    using trellis_traced [OF wf0 _ len, of ?bs "LL + 6"] agrees bits by (auto simp: coded_first_symbol)
  have cfg: "d_states v1 = 64" "d_LL v1 = LL" "d_mm v1 = 6" "d_LL v = LL" "d_mm v = 6"
    using v1(2) wf by (simp_all add: viterbi_wf_def viterbi_config_def)
  have "state_path ?bs (LL + 6) = state_path ?bs LL div 2 ^ 6" using bits by (intro state_path_zeros) (simp add: nth_append)
  then have zero: "state_path ?bs (LL + 6) = 0" using state_path_less [of ?bs LL] by simp
  have "trace_tail v1 = state_path ?bs LL"
    using trace_path [OF v1(3) cfg(1), of LL "LL + 6"] zero by (simp add: trace_tail_def cfg)
  then have "trace_back v1 (d_LL v1) (out, trace_tail v1) = Inr (map (\<lambda>i. of_bool (?bs ! i)) [0..<LL] @ drop LL out)"
    using trace_back_path [OF v1(3) cfg(1), of LL out] out by (simp add: cfg)
  moreover have "map (\<lambda>i. of_bool (?bs ! i)) [0..<LL] = map of_bool bits"
    using bits by (intro nth_equalityI) (simp_all add: nth_append)
  ultimately show ?thesis using v1 by (simp add: viterbi_decode_def cfg)
qed


lemma length_conv_encode [simp]: "length (conv_encode r bs) = 2 * length bs"
  by (induction r bs rule: conv_encode.induct) simp_all

lemma length_coded_block [simp]: "length (coded_block bits) = 2 * length bits + 12"
  by (simp add: coded_block_def)

subsection \<open>Properties\<close>

text \<open>
  C20: Round trip through the convolutional code. Let a block of \<open>LL\<close> bits be encoded with the
  generators of the Galileo interface document and received so that the first symbol of every
  bit has the right sign, with any amplitude. Then \<^verbatim>\<open>Viterbi_Decoder::decode\<close>, on a decoder
  that has decoded or been reset any number of times before, with any inputs, returns, and it
  writes exactly the bits of the block to the first \<open>LL\<close> places of its output. The path metrics
  of earlier blocks, which \<^verbatim>\<open>decode\<close> does not clear, do no harm to such a block.
\<close>

theorem viterbi_roundtrip:
  assumes "viterbi_used LL v" and "length bits = LL" and "LL \<le> length out" and "length input_c = 2 * (LL + 6)"
    and "\<forall>t < LL + 6. symbol_agrees (coded_block bits ! (2 * t)) (input_c ! (2 * t))"
  shows "\<exists>v'. viterbi_decode out input_c v = Inr (v', map of_bool bits @ drop LL out) \<and> viterbi_used LL v'"
  using viterbi_decodes [OF used_wf [OF assms(1)] assms(2,3) _ assms(5)] assms(1,4) viterbi_used.Decode by fastforce

lemma hard_symbol_agrees: "symbol_agrees c (if c then 1 else - 1)"
  using to_float_int [of 1] to_float_int [of "- 1"] by (simp add: symbol_agrees_def)

theorem viterbi_roundtrip_witness:
  "\<exists>v'. viterbi_decode (replicate 5 0) (map (\<lambda>c. if c then 1 else - 1) (coded_block [True, False, True])) (new_viterbi_decoder 7 2 3 [121, 91])
     = Inr (v', [1, 0, 1, 0, 0]) \<and> viterbi_used 3 v'"
  using viterbi_roundtrip [OF viterbi_used.New [of 3], where bits = "[True, False, True]" and out = "replicate 5 0"
      and input_c = "map (\<lambda>c. if c then 1 else - 1) (coded_block [True, False, True])"] hard_symbol_agrees
  by (simp add: eval_nat_numeral)

lemma trellis_second_ignored:
  assumes "viterbi_wf LL v" and "length i1 = length i2" and "\<forall>t. 2 * t < length i1 \<longrightarrow> i1 ! (2 * t) = i2 ! (2 * t)"
  shows "trellis i1 ts v = trellis i2 ts v"
  using assms(1)
proof (induction ts arbitrary: v)
  case (Cons t ts)
  show ?case
  proof (cases "2 * t < length i1")
    case True
    then have "trellis_step i1 t v = trellis_step i2 t v" using trellis_step_eq [OF Cons.prems] assms(2,3) by simp
    moreover obtain v1 where v1: "trellis_step i2 t v = Inr v1" using trellis_step_eq [OF Cons.prems] True assms(2) by simp
    moreover have "viterbi_wf LL v1" using trellis_step_frame(1) [OF Cons.prems _ v1] True assms(2) by simp
    ultimately show ?thesis using Cons.IH by simp
  next
    case False
    then show ?thesis
      using Cons.prems assms(2) by (simp add: trellis_step_def fetch_symbols_def viterbi_wf_def viterbi_config_def)
  qed
qed simp

text \<open>
  C25: Half of the received symbols are never used. \<^verbatim>\<open>std::copy\<close> is given a range of \<^verbatim>\<open>d_nn - 1\<close>
  elements, so the second symbol of every bit stays zero in the branch metrics: two inputs that
  agree on the first symbols are decoded to the same bits, and leave the decoder in the same
  state, whatever their second symbols are. The code of rate one half is decoded as a code of
  rate one.
\<close>

theorem viterbi_second_symbols_ignored:
  assumes "viterbi_used LL v" and "length i1 = length i2" and "\<forall>t. 2 * t < length i1 \<longrightarrow> i1 ! (2 * t) = i2 ! (2 * t)"
  shows "viterbi_decode out i1 v = viterbi_decode out i2 v"
  using trellis_second_ignored [OF start_wf [OF used_wf [OF assms(1)]] assms(2,3)] by (simp add: viterbi_decode_def)

theorem viterbi_second_symbols_ignored_witness:
  "viterbi_decode [0] [1, 1, 1, 1, 1, 1, 1, 1, 1, 1, 1, 1, 1, 1] (new_viterbi_decoder 7 2 1 [121, 91])
     = viterbi_decode [0] [1, - 9, 1, 0, 1, - 1, 1, 1, 1, 5, 1, 1, 1, - 7] (new_viterbi_decoder 7 2 1 [121, 91])"
proof (rule viterbi_second_symbols_ignored [OF viterbi_used.New])
  show "\<forall>t. 2 * t < length [1, 1, 1, 1, 1, 1, 1, 1, 1, 1, 1, 1, 1, 1 :: rat] \<longrightarrow>
    [1, 1, 1, 1, 1, 1, 1, 1, 1, 1, 1, 1, 1, 1 :: rat] ! (2 * t) = [1, - 9, 1, 0, 1, - 1, 1, 1, 1, 5, 1, 1, 1, - 7] ! (2 * t)"
  proof (intro allI impI)
    fix t :: nat
    assume "2 * t < length [1, 1, 1, 1, 1, 1, 1, 1, 1, 1, 1, 1, 1, 1 :: rat]"
    then have "t \<in> {0, 1, 2, 3, 4, 5, 6}" by auto
    then show "[1, 1, 1, 1, 1, 1, 1, 1, 1, 1, 1, 1, 1, 1 :: rat] ! (2 * t) = [1, - 9, 1, 0, 1, - 1, 1, 1, 1, 5, 1, 1, 1, - 7] ! (2 * t)"
      by auto
  qed
qed simp

end
