(* ===== verification/Telemetry_Symbols.thy ===== *)
theory Telemetry_Symbols
  imports Galileo_Telemetry Viterbi_Correct
begin

section \<open>From transmitted to decoded pages\<close>

text \<open>
  The channel coding of a page as the Galileo interface document describes it (convolutional code
  with an inverted second generator, block interleaver), and that the steps 1 to 3 of the page
  decoders undo it: symbols with the right signs, in either polarity, give back the page.
\<close>

subsection \<open>The interleaver\<close>

lemma deinterleave_column:
  assumes "r < rows" and "k \<le> cols" and "length out = rows * cols" and j: "j < rows * cols"
  shows "fold (\<lambda>c out. out[c * rows + r := inp ! (r * cols + c)]) [0..<k] out ! j =
    (if j mod rows = r \<and> j div rows < k then inp ! (r * cols + j div rows) else out ! j)"
    and "length (fold (\<lambda>c out. out[c * rows + r := inp ! (r * cols + c)]) [0..<k] out) = length out"
proof -
  let ?f = "\<lambda>c out. out[c * rows + r := inp ! (r * cols + c)]"
  have len: "length (fold ?f [0..<k] out) = length out" for k by (induction k) simp_all
  show "length (fold ?f [0..<k] out) = length out" by (rule len)
  show "fold ?f [0..<k] out ! j = (if j mod rows = r \<and> j div rows < k then inp ! (r * cols + j div rows) else out ! j)"
    using assms(2)
  proof (induction k)
    case (Suc k)
    have "j = k * rows + r \<longleftrightarrow> j mod rows = r \<and> j div rows = k"
      using assms(1) by (metis add.commute div_mod_decomp div_mult_self1 mod_less mod_mult_self2 add.right_neutral
          div_eq_0_iff gr_implies_not0 mult.commute)
    then show ?case using Suc j assms(3) len [of k] by (auto simp: nth_list_update)
  qed simp
qed

lemma deinterleaver_nth:
  assumes "length out = rows * cols" and "j < rows * cols"
  shows "deinterleaver rows cols inp out ! j = inp ! (j mod rows * cols + j div rows)"
    and "length (deinterleaver rows cols inp out) = length out"
proof -
  let ?g = "\<lambda>r out. fold (\<lambda>c out. out[c * rows + r := inp ! (r * cols + c)]) [0..<cols] out"
  have step: "length (fold ?g [0..<R] out) = rows * cols
      \<and> (fold ?g [0..<R] out) ! j = (if j mod rows < R then inp ! (j mod rows * cols + j div rows) else out ! j)" if "R \<le> rows" for R
    using that
  proof (induction R)
    case (Suc R)
    have "j div rows < cols" using assms(2) by (simp add: less_mult_imp_div_less mult.commute)
    then show ?case
      using Suc deinterleave_column [of R rows cols cols "fold ?g [0..<R] out" j inp] assms(2) by (auto simp: less_Suc_eq)
  qed (simp add: assms)
  have "j mod rows < rows" using assms(2) by (cases "rows = 0") auto
  then show "deinterleaver rows cols inp out ! j = inp ! (j mod rows * cols + j div rows)"
    "length (deinterleaver rows cols inp out) = length out"
    using step [of rows] assms(1) by (simp_all add: deinterleaver_def)
qed

text \<open>The block interleaver of the transmitter: written by columns, read by rows.\<close>

definition interleaved :: "nat \<Rightarrow> nat \<Rightarrow> 'a list \<Rightarrow> 'a list" where
  "interleaved rows cols code = map (\<lambda>k. code ! (k mod cols * rows + k div cols)) [0..<rows * cols]"

definition inverted_G2 :: "bool list \<Rightarrow> bool list" where
  "inverted_G2 code = map (\<lambda>i. if odd i then \<not> code ! i else code ! i) [0..<length code]"

definition transmitted :: "nat \<Rightarrow> nat \<Rightarrow> bool list \<Rightarrow> bool list" where
  "transmitted rows cols bits = interleaved rows cols (inverted_G2 (coded_block bits))"

definition received_page :: "nat \<Rightarrow> nat \<Rightarrow> bool list \<Rightarrow> float32 list \<Rightarrow> bool" where
  "received_page rows cols bits symbols \<longleftrightarrow> list_all2 symbol_agrees (transmitted rows cols bits) symbols"

lemma length_transmitted [simp]: "length (transmitted rows cols bits) = rows * cols"
  by (simp add: transmitted_def interleaved_def)

lemma interleaved_nth:
  assumes "j < rows * cols"
  shows "interleaved rows cols code ! (j mod rows * cols + j div rows) = code ! j"
proof -
  have rows: "j mod rows < rows" "j div rows < cols"
    using assms by (auto simp: less_mult_imp_div_less mult.commute intro!: mod_less_divisor gr0I)
  then have lt: "j mod rows * cols + j div rows < rows * cols"
  proof -
    have "j mod rows * cols + j div rows < Suc (j mod rows) * cols" using rows by simp
    also have "\<dots> \<le> rows * cols" using rows(1) by (intro mult_le_mono1) simp
    finally show ?thesis .
  qed
  have "(j mod rows * cols + j div rows) mod cols = j div rows" "(j mod rows * cols + j div rows) div cols = j mod rows"
    using rows by simp_all
  then show ?thesis using lt by (simp add: interleaved_def)
qed

lemma length_invert_second [simp]: "length (invert_second xs) = length xs"
  by (simp add: invert_second_def)

lemma invert_second_nth: "i < length xs \<Longrightarrow> invert_second xs ! i = (if odd i then - (xs ! i) else xs ! i)"
  by (auto simp: invert_second_def mod_2_eq_odd)

lemma symbol_agrees_minus: "symbol_agrees (\<not> c) (- r) = symbol_agrees c r"
  by (auto simp: symbol_agrees_def to_float_def rnd_minus)

text \<open>The symbols the Viterbi decoder gets agree with the code of the page.\<close>

lemma soft_symbols_agree:
  assumes "received_page rows cols bits symbols" and "rows * cols = 2 * length bits + 12" and j: "j < rows * cols"
  shows "symbol_agrees (coded_block bits ! j) (invert_second (deinterleaver rows cols symbols (replicate (rows * cols) 0)) ! j)"
proof -
  let ?i = "j mod rows * cols + j div rows" and ?d = "deinterleaver rows cols symbols (replicate (rows * cols) 0)"
  have len: "length ?d = rows * cols" using deinterleaver_nth(2) [of "replicate (rows * cols) 0" rows cols j symbols] j by simp
  have d: "?d ! j = symbols ! ?i" using deinterleaver_nth(1) [of "replicate (rows * cols) 0" rows cols j symbols] j by simp
  have "transmitted rows cols bits ! ?i = inverted_G2 (coded_block bits) ! j"
    unfolding transmitted_def by (rule interleaved_nth [OF j])
  also have "\<dots> = (if odd j then \<not> coded_block bits ! j else coded_block bits ! j)"
    using j assms(2) by (simp add: inverted_G2_def)
  finally have t: "transmitted rows cols bits ! ?i = (if odd j then \<not> coded_block bits ! j else coded_block bits ! j)" .
  have "?i < rows * cols"
  proof -
    have "j div rows < cols" "j mod rows < rows" using j by (auto simp: less_mult_imp_div_less mult.commute intro!: mod_less_divisor gr0I)
    then have "?i < Suc (j mod rows) * cols" "Suc (j mod rows) * cols \<le> rows * cols" by (simp, intro mult_le_mono1) simp
    then show ?thesis by simp
  qed
  then have "symbol_agrees (transmitted rows cols bits ! ?i) (symbols ! ?i)"
    using assms(1) by (simp add: received_page_def list_all2_conv_all_nth)
  then show ?thesis
    using invert_second_nth [of j ?d] j len symbol_agrees_minus [of "\<not> coded_block bits ! j" "symbols ! ?i"]
    by (simp add: d t split: if_splits)
qed

text \<open>The page string of a decoded frame: its bits and the six places of the tail.\<close>

definition page_text :: "bool list \<Rightarrow> string" where
  "page_text bits = map bit_char bits @ replicate 6 (CHR ''0'')"

lemma decode_symbols_ok:
  assumes wf: "viterbi_wf LL v" and bits: "length bits = LL" and len: "rows * cols = 2 * LL + 12"
    and recv: "received_page rows cols bits symbols"
  shows "\<exists>v'. decode_symbols rows cols symbols (rows * cols) v
      = Inr (v', map of_bool bits @ replicate 6 0, page_text bits) \<and> viterbi_wf LL v'"
proof -
  let ?soft = "invert_second (deinterleaver rows cols symbols (replicate (rows * cols) 0))"
  have "length (deinterleaver rows cols symbols (replicate (rows * cols) 0)) = rows * cols"
    using deinterleaver_nth(2) [of "replicate (rows * cols) 0" rows cols 0 symbols] len by simp
  then have l: "length ?soft = 2 * LL + 12" using len by simp
  have ag: "\<forall>t < LL + 6. symbol_agrees (coded_block bits ! (2 * t)) (?soft ! (2 * t))"
    using soft_symbols_agree [OF recv] len bits by simp
  have out: "LL \<le> length (replicate (rows * cols div 2) (0::nat))" using len by simp
  obtain v' where v': "viterbi_decode (replicate (rows * cols div 2) 0) ?soft v
      = Inr (v', map of_bool bits @ drop LL (replicate (rows * cols div 2) 0))" "viterbi_wf LL v'"
    using viterbi_decodes [OF wf bits out _ ag] l by auto
  moreover have "drop LL (replicate (rows * cols div 2) 0) = replicate 6 (0::nat)" using len by simp
  moreover have "page_string_of (map of_bool bits @ replicate 6 0) = page_text bits"
    by (simp add: page_string_of_def page_text_def bit_char_def)
  ultimately show ?thesis by (simp add: decode_symbols_def Let_def)
qed

text \<open>Any symbols at all give some page.\<close>

lemma trace_back_total:
  assumes "viterbi_wf LL v" and "t \<le> LL"
  shows "t \<le> length out \<Longrightarrow> s < 64 \<Longrightarrow> \<forall>b \<in> set out. b < 2 \<Longrightarrow>
    \<exists>out'. trace_back v t (out, s) = Inr out' \<and> length out' = length out \<and> (\<forall>b \<in> set out'. b < 2)"
  using assms(2)
proof (induction t arbitrary: out s)
  case (Suc t)
  let ?i = "t * d_states v + s"
  have "?i < 64 * (LL + 6)" using Suc.prems assms(1) by (simp add: viterbi_wf_def viterbi_config_def)
  then have "d_prev_bit v ! ?i < 2" "d_prev_state v ! ?i < 64" using assms(1) by (simp_all add: viterbi_wf_def)
  moreover from this have "\<forall>b \<in> set (out[t := d_prev_bit v ! ?i]). b < 2"
    using Suc.prems(3) by (auto dest!: subsetD [OF set_update_subset_insert])
  ultimately show ?case
    using Suc.prems Suc.IH [of "out[t := d_prev_bit v ! ?i]" "d_prev_state v ! ?i"] by (simp add: trace_step_def)
qed simp

lemma trace_tail_less:
  assumes "viterbi_wf LL v"
  shows "trace_tail v < 64"
proof -
  have cfg: "d_LL v = LL" "d_mm v = 6" "d_states v = 64" using assms by (simp_all add: viterbi_wf_def viterbi_config_def)
  have "fold (\<lambda>t state. d_prev_state v ! (t * 64 + state)) ts s < 64" if "\<forall>t \<in> set ts. t < LL + 6" "s < 64" for ts s
    using that
  proof (induction ts arbitrary: s)
    case (Cons t ts)
    then have "t * 64 + s < 64 * (LL + 6)" by simp
    then have "d_prev_state v ! (t * 64 + s) < 64" using assms by (simp add: viterbi_wf_def)
    then show ?case using Cons by simp
  qed simp
  then show ?thesis by (simp add: trace_tail_def cfg)
qed

lemma viterbi_decode_total:
  assumes wf: "viterbi_wf LL v" and out: "LL \<le> length out" "\<forall>b \<in> set out. b < 2" and len: "2 * LL + 11 \<le> length inp"
  shows "\<exists>v' out'. viterbi_decode out inp v = Inr (v', out') \<and> viterbi_wf LL v' \<and> length out' = length out \<and> (\<forall>b \<in> set out'. b < 2)"
proof -
  have cfg: "d_LL v = LL" "d_mm v = 6" using wf by (simp_all add: viterbi_wf_def viterbi_config_def)
  obtain v1 where v1: "trellis inp [0..<d_LL v + d_mm v] (v\<lparr>d_prev_section := (d_prev_section v)[0 := 0]\<rparr>) = Inr v1" "viterbi_wf LL v1"
    using trellis_ok [OF start_wf [OF wf], of "[0..<d_LL v + d_mm v]" inp] len cfg by fastforce
  have "d_LL v1 = LL" using v1(2) by (simp add: viterbi_wf_def viterbi_config_def)
  then obtain out' where "trace_back v1 (d_LL v1) (out, trace_tail v1) = Inr out'" "length out' = length out" "\<forall>b \<in> set out'. b < 2"
    using trace_back_total [OF v1(2) order_refl out(1) trace_tail_less [OF v1(2)] out(2)] by auto
  then show ?thesis using v1 by (simp add: viterbi_decode_def)
qed

lemma bin_string_page_string_of [simp]: "bin_string (page_string_of bits)"
  by (auto simp: page_string_of_def list_all_iff is_bit_char_def)

lemma decode_symbols_total:
  assumes wf: "viterbi_wf LL v" and len: "rows * cols = 2 * LL + 12"
  shows "\<exists>v' bits. decode_symbols rows cols symbols (rows * cols) v = Inr (v', bits, page_string_of bits)
    \<and> viterbi_wf LL v' \<and> length bits = LL + 6 \<and> (\<forall>b \<in> set bits. b < 2)"
proof -
  let ?soft = "invert_second (deinterleaver rows cols symbols (replicate (rows * cols) 0))"
  have "length (deinterleaver rows cols symbols (replicate (rows * cols) 0)) = rows * cols"
    using deinterleaver_nth(2) [of "replicate (rows * cols) 0" rows cols 0 symbols] len by simp
  then have l: "length ?soft = 2 * LL + 12" using len by simp
  have out: "LL \<le> length (replicate (rows * cols div 2) (0::nat))" "\<forall>b \<in> set (replicate (rows * cols div 2) (0::nat)). b < 2"
    using len by simp_all
  have "2 * LL + 11 \<le> length ?soft" unfolding l by simp
  from viterbi_decode_total [OF wf out this] obtain v' out' where
    "viterbi_decode (replicate (rows * cols div 2) 0) ?soft v = Inr (v', out')" "viterbi_wf LL v'"
    "length out' = length (replicate (rows * cols div 2) (0::nat))" "\<forall>b \<in> set out'. b < 2" by blast
  then show ?thesis using len by (simp add: decode_symbols_def Let_def)
qed

end
