(* ===== verification/Telemetry_Correct.thy ===== *)
theory Telemetry_Correct
  imports Telemetry_Symbols Galileo_Inav_Session Galileo_Fnav_Correct
begin

section \<open>Invariants of the telemetry decoder\<close>

text \<open>
  The reachable states of the block, under any symbols, time tags and calls of its setters, and
  what holds in all of them; from it, that I/NAV and F/NAV channels process every symbol.
\<close>

subsection \<open>Times of week have 20 bits\<close>

lemma inav_TOW_0_range: "inav_reachable crc st \<Longrightarrow> TOW_0 (word0 st) \<in> {0..<2 ^ 20}"
proof (induction rule: inav_reachable.induct)
  case start
  then show ?case by (simp add: new_inav_message_def new_word0_def)
next
  case (page st s f st')
  have dec: "TOW_0 (word0 (decode_page n bits x)) \<in> {0..<2 ^ 20}" if "TOW_0 (word0 x) \<in> {0..<2 ^ 20}" for n bits x
    using that nav_u32_range [of TOW_0_BIT bits]
    by (simp add: decode_page_def page_readers with_rs_def Let_def TOW_0_BIT_def in_range_def slices_length_def)
  have odd: "TOW_0 (word0 y) \<in> {0..<2 ^ 20}" if "split_odd crc p x = Inr y" "TOW_0 (word0 x) \<in> {0..<2 ^ 20}" for p x y
    using split_odd_cases(3) [OF that(1)] that(2) dec by auto
  from page show ?case by (auto simp: split_page_def bindr_eq_Inr split: list.splits if_splits dest: odd)
next
  case (ephemeris st)
  have "word0 (read_missing_pages x) = word0 x" for x
    by (simp add: read_missing_pages_def read_page_1_def read_page_2_def read_page_3_def read_page_4_def Let_def)
  then have "word0 (fst (have_new_ephemeris st)) = word0 st" by (simp add: have_new_ephemeris_def Let_def split: prod.split)
  then show ?case using ephemeris by simp
qed (simp_all add: have_new_iono_and_GST_def have_new_utc_model_def have_new_almanac_def have_new_reduced_ced_def
    set_flag_TOW_set_def set_TOW5_flag_def set_TOW6_flag_def set_TOW0_flag_def init_PRN_def enable_reed_solomon_def)

lemma fnav_u32_range:
  assumes "in_range 214 p" and "slices_length p \<le> 31"
  shows "fnav_u32 bits p \<in> {0..<2 ^ slices_length p}"
  using fnav.read_u_int32(2,3) [OF assms, of bits] by (simp add: fnav_u32_def)

lemma fnav_TOW_frame [simp]:
  "fnav_TOW k (x\<lparr>fflags := f\<rparr>) = fnav_TOW k x" "fnav_TOW k (x\<lparr>IOD_ephemeris_fnav := i\<rparr>) = fnav_TOW k x"
  by (simp_all add: fnav_TOW_def)

lemma fnav_TOW_range: "fnav_reachable crc st \<Longrightarrow> fnav_TOW k st \<in> {0..<2 ^ 20}"
proof (induction arbitrary: k rule: fnav_reachable.induct)
  case start
  then show ?case by (simp add: fnav_TOW_def new_fnav_message_def new_fnav_page1_def new_fnav_page2_def new_fnav_page3_def new_fnav_page4_def)
next
  case (page st s st')
  have pages: "FNAV_TOW_1 (decode_fpage1 bits) \<in> {0..<2 ^ 20}" "FNAV_TOW_2 (decode_fpage2 bits) \<in> {0..<2 ^ 20}"
    "FNAV_TOW_3 (decode_fpage3 bits) \<in> {0..<2 ^ 20}" "FNAV_TOW_4 (decode_fpage4 bits) \<in> {0..<2 ^ 20}" for bits
    using fnav_u32_range [of FNAV_TOW_1_BIT bits] fnav_u32_range [of FNAV_TOW_2_BIT bits]
      fnav_u32_range [of FNAV_TOW_3_BIT bits] fnav_u32_range [of FNAV_TOW_4_BIT bits]
    by (simp_all add: decode_fpage1_def decode_fpage2_def decode_fpage3_def decode_fpage4_def in_range_def slices_length_def
        FNAV_TOW_1_BIT_def FNAV_TOW_2_BIT_def FNAV_TOW_3_BIT_def FNAV_TOW_4_BIT_def)
  have dec: "fnav_TOW k y \<in> {0..<2 ^ 20}" if "fnav_decode_page p x = Inr y" "\<And>k. fnav_TOW k x \<in> {0..<2 ^ 20}" for p x y k
  proof -
    have "(fpage1 y = fpage1 x \<or> (\<exists>bits. fpage1 y = decode_fpage1 bits)) \<and> (fpage2 y = fpage2 x \<or> (\<exists>bits. fpage2 y = decode_fpage2 bits))
        \<and> (fpage3 y = fpage3 x \<or> (\<exists>bits. fpage3 y = decode_fpage3 bits)) \<and> (fpage4 y = fpage4 x \<or> (\<exists>bits. fpage4 y = decode_fpage4 bits))"
      using that(1) by (auto simp: fnav_decode_page_def bindr_eq_Inr Let_def read_fpage_1_def read_fpage_2_def read_fpage_3_def
          read_fpage_4_def read_fpage_5_def read_fpage_6_def split: if_splits)
    then show ?thesis
      using pages that(2) [of 1] that(2) [of 2] that(2) [of 3] that(2) [of 4] unfolding fnav_TOW_def by (elim conjE disjE exE) simp_all
  qed
  from page show ?case by (auto simp: fnav_split_page_def bindr_eq_Inr split: if_splits dest!: dec)
qed (simp_all add: fnav_have_new_ephemeris_def fnav_have_new_iono_and_GST_def fnav_have_new_utc_model_def
    fnav_have_new_almanac_def fnav_set_TOW_flag_def fnav_set_flag_TOW_set_def)

lemma double_to_uint32_int:
  assumes "0 \<le> n" and "n < 2 ^ 32"
  shows "double_to_uint32 (of_int n) = Inr (word_of_int n)"
proof -
  have "(0::rat) \<le> of_int n" "(of_int n :: rat) < of_int (2 ^ 32)"
    using assms by (simp_all only: of_int_0_le_iff of_int_less_iff)
  then have "- 1 < (of_int n :: rat)" "(of_int n :: rat) < 2 ^ 32" "(0::rat) \<le> of_int n" by simp_all
  then show ?thesis by (simp add: double_to_uint32_def)
qed

lemma double_to_uint32_TOW:
  assumes "tow \<in> {0..<2 ^ 20}"
  shows "double_to_uint32 (dmul (of_int tow) 1000) = Inr (word_of_int (tow * 1000))"
proof -
  have "to_double (of_int (tow * 1000)) = of_int (tow * 1000)" by (rule to_double_int) (use assms in simp)
  then have d: "dmul (of_int tow) 1000 = of_int (tow * 1000)" by (simp add: dmul_def)
  show ?thesis unfolding d by (rule double_to_uint32_int) (use assms in simp_all)
qed

subsection \<open>The invariant\<close>

definition data_bits :: "int \<Rightarrow> nat" where
  "data_bits frame_type = (if frame_type = 1 then 114 else if frame_type = 2 then 238 else 486)"

definition frame_config :: "telemetry \<Rightarrow> bool" where
  "frame_config st \<longleftrightarrow> d_frame_type st \<in> {1, 2, 3}
     \<and> d_samples_per_preamble st = length (par_preamble (parameters_of (d_frame_type st)))
     \<and> d_preamble_period_symbols st = par_period (parameters_of (d_frame_type st))
     \<and> d_required_symbols st = par_required (parameters_of (d_frame_type st))
     \<and> d_frame_length_symbols st = par_length (parameters_of (d_frame_type st))"

lemmas frame_numbers = parameters_of_def GALILEO_INAV_PREAMBLE_def GALILEO_INAV_PREAMBLE_PERIOD_SYMBOLS_def
  GALILEO_INAV_PAGE_SYMBOLS_def GALILEO_INAV_PREAMBLE_LENGTH_BITS_def GALILEO_INAV_PAGE_PART_SYMBOLS_def
  GALILEO_FNAV_PREAMBLE_def GALILEO_FNAV_SYMBOLS_PER_PAGE_def GALILEO_FNAV_PREAMBLE_LENGTH_BITS_def
  GALILEO_CNAV_PREAMBLE_def GALILEO_CNAV_SYMBOLS_PER_PAGE_def GALILEO_CNAV_PREAMBLE_LENGTH_BITS_def

definition sync_inv :: "telemetry \<Rightarrow> bool" where
  "sync_inv st \<longleftrightarrow> frame_config st \<and> viterbi_wf (data_bits (d_frame_type st)) (d_viterbi st)
     \<and> length (d_symbol_history st) \<le> d_required_symbols st + 1 \<and> d_stat st \<le> 2
     \<and> (d_stat st \<noteq> 0 \<longrightarrow> length (d_symbol_history st) = d_required_symbols st + 1)
     \<and> (d_stat st = 2 \<longrightarrow> 0 \<le> d_CRC_error_counter st \<and> d_CRC_error_counter st \<le> CRC_ERROR_LIMIT)"

definition nav_inv :: "(byte list \<Rightarrow> nat) \<Rightarrow> galileo_inav_message \<Rightarrow> galileo_fnav_message \<Rightarrow> int \<Rightarrow> bool" where
  "nav_inv crc inav fnav even_arrived \<longleftrightarrow> inav_reachable crc inav \<and> fnav_reachable crc fnav
     \<and> (even_arrived = 1 \<longrightarrow> length (page_Even inav) = 114 \<and> bin_string (page_Even inav))"

abbreviation tlm_inv :: "(byte list \<Rightarrow> nat) \<Rightarrow> telemetry \<Rightarrow> bool" where
  "tlm_inv crc st \<equiv> sync_inv st \<and> nav_inv crc (d_inav_nav st) (d_fnav_nav st) (d_flag_even_word_arrived st)"

text \<open>What a call publishes for OSNMA.\<close>

definition osnma_messages :: "tlm_message list \<Rightarrow> galileo_osnma list" where
  "osnma_messages ms = concat (map (\<lambda>m. case m of To_OSNMA x \<Rightarrow> [x] | _ \<Rightarrow> []) ms)"

lemma osnma_messages_simps [simp]:
  "osnma_messages [] = []" "osnma_messages (ms @ ns) = osnma_messages ms @ osnma_messages ns"
  "osnma_messages (To_OSNMA x # ms) = x # osnma_messages ms" "osnma_messages (Tlm_Ephemeris e # ms) = osnma_messages ms"
  "osnma_messages (Tlm_Iono i # ms) = osnma_messages ms" "osnma_messages (Tlm_Utc u # ms) = osnma_messages ms"
  "osnma_messages (Tlm_Almanac a # ms) = osnma_messages ms" "osnma_messages (To_Tracking k # ms) = osnma_messages ms"
  "osnma_messages (E6_HAS_from_TLM p # ms) = osnma_messages ms" "osnma_messages (TOW_from_TLM n t s # ms) = osnma_messages ms"
  "osnma_messages (Nav_msg_from_TLM q # ms) = osnma_messages ms"
  by (simp_all add: osnma_messages_def)

lemma page_Even_frame [simp]:
  "page_Even (fst (have_new_ephemeris st)) = page_Even st" "page_Even (fst (have_new_iono_and_GST st)) = page_Even st"
  "page_Even (fst (have_new_utc_model st)) = page_Even st" "page_Even (fst (have_new_almanac st)) = page_Even st"
  "page_Even (fst (have_new_reduced_ced st)) = page_Even st" "page_Even (set_flag_TOW_set b st) = page_Even st"
  "page_Even (set_TOW5_flag b st) = page_Even st" "page_Even (set_TOW6_flag b st) = page_Even st"
  "page_Even (set_TOW0_flag b st) = page_Even st" "page_Even (enable_reed_solomon st) = page_Even st"
proof -
  have "page_Even (read_missing_pages x) = page_Even x" for x
    by (simp add: read_missing_pages_def read_page_1_def read_page_2_def read_page_3_def read_page_4_def Let_def)
  then show "page_Even (fst (have_new_ephemeris st)) = page_Even st" by (simp add: have_new_ephemeris_def Let_def split: prod.split)
qed (simp_all add: have_new_iono_and_GST_def have_new_utc_model_def have_new_almanac_def have_new_reduced_ced_def
    set_flag_TOW_set_def set_TOW5_flag_def set_TOW6_flag_def set_TOW0_flag_def enable_reed_solomon_def)

lemma CRC_flag_frame [simp]:
  "get_flag_CRC_test (fst (have_new_ephemeris st)) = get_flag_CRC_test st" "get_flag_CRC_test (fst (have_new_iono_and_GST st)) = get_flag_CRC_test st"
  "get_flag_CRC_test (fst (have_new_utc_model st)) = get_flag_CRC_test st" "get_flag_CRC_test (fst (have_new_almanac st)) = get_flag_CRC_test st"
  "get_flag_CRC_test (fst (have_new_reduced_ced st)) = get_flag_CRC_test st"
proof -
  have "get_flag_CRC_test (read_missing_pages x) = get_flag_CRC_test x" for x
    by (simp add: read_missing_pages_def read_page_1_def read_page_2_def read_page_3_def read_page_4_def Let_def get_flag_CRC_test_def)
  then show "get_flag_CRC_test (fst (have_new_ephemeris st)) = get_flag_CRC_test st"
    by (simp add: have_new_ephemeris_def clear_ephemeris_flags_def Let_def get_flag_CRC_test_def split: prod.split)
qed (simp_all add: have_new_iono_and_GST_def have_new_utc_model_def have_new_almanac_def have_new_reduced_ced_def get_flag_CRC_test_def)

text \<open>The calls on the message objects keep the second part.\<close>

lemma nav_inv_calls [intro]:
  assumes "nav_inv crc inav fnav e"
  shows "nav_inv crc (fst (have_new_ephemeris inav)) fnav e" "nav_inv crc (fst (have_new_iono_and_GST inav)) fnav e"
    "nav_inv crc (fst (have_new_utc_model inav)) fnav e" "nav_inv crc (fst (have_new_almanac inav)) fnav e"
    "nav_inv crc (fst (have_new_reduced_ced inav)) fnav e" "nav_inv crc (set_flag_TOW_set b inav) fnav e"
    "nav_inv crc (set_TOW5_flag b inav) fnav e" "nav_inv crc (set_TOW6_flag b inav) fnav e"
    "nav_inv crc (set_TOW0_flag b inav) fnav e" "nav_inv crc (enable_reed_solomon inav) fnav e"
    "nav_inv crc inav (fst (fnav_have_new_ephemeris fnav)) e" "nav_inv crc inav (fst (fnav_have_new_iono_and_GST fnav)) e"
    "nav_inv crc inav (fst (fnav_have_new_utc_model fnav)) e" "nav_inv crc inav (fnav_set_TOW_flag k b fnav) e"
    "nav_inv crc inav (fnav_set_flag_TOW_set b fnav) e"
  using assms by (auto simp: nav_inv_def intro: inav_reachable.intros fnav_reachable.intros)

subsection \<open>The stages of a call\<close>

lemma length_push_symbol: "length (push_symbol capacity x buf) = (if capacity \<le> length buf then length buf else Suc (length buf))"
  by (simp add: push_symbol_def del: drop_append)

definition timetagged :: "telemetry \<Rightarrow> telemetry \<Rightarrow> bool" where
  "timetagged st st' \<longleftrightarrow> (\<exists>tag valid. st' = st\<lparr>d_current_timetag := tag, d_valid_timetag := valid\<rparr>)"

lemma timetagged_intros:
  "timetagged st st" "timetagged st (st\<lparr>d_current_timetag := tag\<rparr>)"
  "timetagged st st' \<Longrightarrow> timetagged st (st'\<lparr>d_current_timetag := tag, d_valid_timetag := valid\<rparr>)"
proof -
  have "st = st\<lparr>d_current_timetag := d_current_timetag st, d_valid_timetag := d_valid_timetag st\<rparr>" by simp
  then show "timetagged st st" unfolding timetagged_def by blast
  have "st\<lparr>d_current_timetag := tag\<rparr> = st\<lparr>d_current_timetag := tag, d_valid_timetag := d_valid_timetag st\<rparr>" by simp
  then show "timetagged st (st\<lparr>d_current_timetag := tag\<rparr>)" unfolding timetagged_def by blast
  show "timetagged st st' \<Longrightarrow> timetagged st (st'\<lparr>d_current_timetag := tag, d_valid_timetag := valid\<rparr>)"
    unfolding timetagged_def by (elim exE, intro exI [of _ tag] exI [of _ valid]) simp
qed

lemma read_timetags_frame: "timetagged st (read_timetags tags st)"
proof -
  define f :: "gnss_time option \<Rightarrow> telemetry \<Rightarrow> telemetry" where
    "f = (\<lambda>t st. case t of Some timetag \<Rightarrow> st\<lparr>d_current_timetag := timetag, d_valid_timetag := True\<rparr> | None \<Rightarrow> st)"
  have "timetagged st (fold f ts st')" if "timetagged st st'" for ts st'
    using that by (induction ts arbitrary: st') (simp_all add: f_def timetagged_intros split: option.split)
  then show ?thesis by (simp add: read_timetags_def f_def [symmetric] Let_def timetagged_intros)
qed

lemma check_telemetry_frame: "\<exists>b. fst (check_telemetry st) = st\<lparr>d_sent_tlm_failed_msg := b\<rparr>"
  by (cases st) (simp add: check_telemetry_def, blast)

text \<open>The searching states only move between them when the buffer is full.\<close>

lemma stat_0_inv:
  assumes "sync_inv st" and "d_stat st = 0"
  shows "sync_inv (stat_0 st)"
  using assms by (auto simp: sync_inv_def frame_config_def stat_0_def preamble_found_def)

lemma stat_1_inv:
  assumes "sync_inv st" and "d_stat st = 1"
  shows "sync_inv (stat_1 st)"
  using assms by (auto simp: sync_inv_def frame_config_def stat_1_def preamble_found_def Let_def CRC_ERROR_LIMIT_def)

lemma stat_frame:
  "d_inav_nav (stat_0 st) = d_inav_nav st" "d_fnav_nav (stat_0 st) = d_fnav_nav st"
  "d_flag_even_word_arrived (stat_0 st) = d_flag_even_word_arrived st" "d_frame_type (stat_0 st) = d_frame_type st"
  "d_inav_nav (stat_1 st) = d_inav_nav st" "d_fnav_nav (stat_1 st) = d_fnav_nav st"
  "d_flag_even_word_arrived (stat_1 st) = d_flag_even_word_arrived st" "d_frame_type (stat_1 st) = d_frame_type st"
  by (simp_all add: stat_0_def stat_1_def Let_def)

lemma fetch_page_ok:
  assumes "sync_inv st" and "d_stat st = 2"
  obtains page where "fetch_page st = Inr (st\<lparr>d_page_part_symbols := page\<rparr>)" "length page = d_frame_length_symbols st"
proof -
  have "d_samples_per_preamble st + d_frame_length_symbols st \<le> length (d_symbol_history st)"
    using assms by (auto simp: sync_inv_def frame_config_def frame_numbers)
  then show ?thesis using that by (simp add: fetch_page_def Let_def)
qed

lemma after_page_inv:
  assumes "sync_inv st" and "d_stat st = 2"
  shows "sync_inv (fst (after_page st))"
  using assms by (auto simp: sync_inv_def frame_config_def after_page_def Let_def CRC_ERROR_LIMIT_def)

lemma after_page_nav:
  assumes "nav_inv crc (d_inav_nav st) (d_fnav_nav st) e"
  shows "nav_inv crc (d_inav_nav (fst (after_page st))) (d_fnav_nav (fst (after_page st))) e"
  using assms by (simp add: after_page_def Let_def nav_inv_calls)

text \<open>Any page part of 120 digits is processed.\<close>

lemma split_page_any:
  assumes "nav_inv crc inav fnav e" and "bin_string page" and "length page = 120" and "b = hd page"
  obtains nav where "split_page crc page e inav = Inr nav" "nav_inv crc nav fnav (if hd page = CHR ''1'' then 0 else 1)"
proof -
  obtain c cs where page: "page = c # cs" using assms(3) by (cases page) auto
  show ?thesis
  proof (cases "c = CHR ''1''")
    case True
    show ?thesis
    proof (cases "e = 1")
      case e: True
      have "bin_string (page_Even inav @ page)" "length (page_Even inav @ page) = 234"
        using assms e by (simp_all add: nav_inv_def)
      then obtain nav where nav: "split_odd crc (page_Even inav @ page) inav = Inr nav" by (simp add: split_odd_page)
      then have "split_page crc page e inav = Inr nav" using True e by (simp add: split_page_def page)
      then show ?thesis using that [of nav] assms(1) True page inav_reachable.page by (fastforce simp: nav_inv_def)
    next
      case False
      then show ?thesis using that [of inav] assms(1) True page by (simp add: split_page_def nav_inv_def)
    qed
  next
    case False
    then have sp: "split_page crc page e inav = Inr (inav\<lparr>page_Even := take 114 page\<rparr>)"
      using assms(3) by (simp add: split_page_def page)
    moreover have "inav_reachable crc (inav\<lparr>page_Even := take 114 page\<rparr>)"
      using inav_reachable.page [OF _ sp] assms(1) by (simp add: nav_inv_def)
    ultimately show ?thesis using that assms False page by (auto simp: nav_inv_def bin_simps)
  qed
qed

lemma inav_page_part_ok:
  assumes "nav_inv crc (d_inav_nav st) (d_fnav_nav st) (d_flag_even_word_arrived st)" and "length bits = 120"
    and "hd bits = 1 \<longleftrightarrow> 0 < hd bits"
  obtains nav e m where "inav_page_part crc bits (page_string_of bits) st = Inr (st\<lparr>d_inav_nav := nav, d_flag_even_word_arrived := e\<rparr>, m)"
    "nav_inv crc nav (d_fnav_nav st) e"
proof -
  obtain b bs where bits: "bits = b # bs" using assms(2) by (cases bits) auto
  have len: "length (page_string_of bits) = 120" using assms(2) by (simp add: page_string_of_def)
  have hd: "hd (page_string_of bits) = CHR ''1'' \<longleftrightarrow> b = 1" using assms(3) by (simp add: page_string_of_def bits)
  obtain nav where nav: "split_page crc (page_string_of bits) (d_flag_even_word_arrived st) (d_inav_nav st) = Inr nav"
    "nav_inv crc nav (d_fnav_nav st) (if hd (page_string_of bits) = CHR ''1'' then 0 else 1)"
    using split_page_any [OF assms(1) bin_string_page_string_of len refl] by blast
  show ?thesis
  proof (cases "b = 1")
    case True
    then show ?thesis using that [where nav = nav and e = 0] nav hd by (simp add: inav_page_part_def bits Let_def)
  next
    case False
    then show ?thesis using that [where nav = nav and e = 1] nav hd by (simp add: inav_page_part_def bits Let_def)
  qed
qed

text \<open>
  \<open>same_sync st st'\<close>: the members that the invariant of the synchronisation depends on, the decoder
  apart, and the band are the same.
\<close>

definition same_sync :: "telemetry \<Rightarrow> telemetry \<Rightarrow> bool" where
  "same_sync st st' \<longleftrightarrow> d_frame_type st' = d_frame_type st \<and> d_samples_per_preamble st' = d_samples_per_preamble st
     \<and> d_preamble_period_symbols st' = d_preamble_period_symbols st \<and> d_required_symbols st' = d_required_symbols st
     \<and> d_frame_length_symbols st' = d_frame_length_symbols st \<and> d_symbol_history st' = d_symbol_history st
     \<and> d_stat st' = d_stat st \<and> d_CRC_error_counter st' = d_CRC_error_counter st \<and> d_band st' = d_band st
     \<and> d_symbol_counter st' = d_symbol_counter st \<and> d_preamble_index st' = d_preamble_index st
     \<and> d_satellite st' = d_satellite st \<and> d_enable_osnma st' = d_enable_osnma st
     \<and> d_flag_PLL_180_deg_phase_locked st' = d_flag_PLL_180_deg_phase_locked st"

lemma same_sync_inv: "sync_inv st \<Longrightarrow> same_sync st st' \<Longrightarrow> viterbi_wf (data_bits (d_frame_type st)) (d_viterbi st') \<Longrightarrow> sync_inv st'"
  by (simp add: sync_inv_def frame_config_def same_sync_def)

lemma same_sync_trans: "same_sync a b \<Longrightarrow> same_sync b c \<Longrightarrow> same_sync a c"
  by (simp add: same_sync_def)

text \<open>The data sets: only the reduced ephemeris can fail, and it is not computed once an ephemeris was sent.\<close>

lemma inav_push_ephemeris_inv:
  assumes "inav_push_ephemeris lm st = Inr (st', m)" and "nav_inv crc (d_inav_nav st) fnav e"
  shows "nav_inv crc (d_inav_nav st') fnav e" "same_sync st st'" "d_viterbi st' = d_viterbi st" "d_fnav_nav st' = d_fnav_nav st"
    "d_flag_even_word_arrived st' = d_flag_even_word_arrived st" "d_first_eph_sent st \<Longrightarrow> d_first_eph_sent st'"
proof -
  obtain nav new where e: "have_new_ephemeris (d_inav_nav st) = (nav, new)" by fastforce
  obtain nav2 new2 where r: "have_new_reduced_ced nav = (nav2, new2)" by fastforce
  have inv: "nav_inv crc nav fnav e" "nav_inv crc nav2 fnav e"
    using nav_inv_calls(1) [OF assms(2)] nav_inv_calls(5) [where inav = nav and fnav = fnav and e = e and crc = crc] e r by simp_all
  show "nav_inv crc (d_inav_nav st') fnav e" "same_sync st st'" "d_viterbi st' = d_viterbi st" "d_fnav_nav st' = d_fnav_nav st"
    "d_flag_even_word_arrived st' = d_flag_even_word_arrived st" "d_first_eph_sent st \<Longrightarrow> d_first_eph_sent st'"
    using assms(1) inv by (auto simp: inav_push_ephemeris_def e r Let_def same_sync_def bindr_eq_Inr split: if_splits)
qed

lemma inav_push_ephemeris_ok:
  assumes "d_first_eph_sent st \<or> d_band st \<noteq> CHR ''1''"
  shows "\<exists>st' m. inav_push_ephemeris lm st = Inr (st', m)"
  using assms by (auto simp: inav_push_ephemeris_def Let_def split: prod.split)

lemma inav_push_rest_inv:
  assumes "nav_inv crc (d_inav_nav st) fnav e" and "st' \<in> {fst (inav_push_iono st), fst (inav_push_utc st), fst (inav_push_almanac st)}"
  shows "nav_inv crc (d_inav_nav st') fnav e" "same_sync st st'" "d_viterbi st' = d_viterbi st" "d_fnav_nav st' = d_fnav_nav st"
    "d_flag_even_word_arrived st' = d_flag_even_word_arrived st" "d_first_eph_sent st' = d_first_eph_sent st"
  using assms nav_inv_calls(2,3,4) [OF assms(1)]
  by (auto simp: inav_push_iono_def inav_push_utc_def inav_push_almanac_def Let_def same_sync_def split: prod.splits if_splits)

lemma monitor_page_frame [simp]:
  "d_inav_nav (monitor_page p st) = d_inav_nav st" "d_fnav_nav (monitor_page p st) = d_fnav_nav st"
  "d_cnav_nav (monitor_page p st) = d_cnav_nav st" "d_flag_even_word_arrived (monitor_page p st) = d_flag_even_word_arrived st"
  "d_viterbi (monitor_page p st) = d_viterbi st" "same_sync st (monitor_page p st)"
  "d_first_eph_sent (monitor_page p st) = d_first_eph_sent st" "d_band (monitor_page p st) = d_band st"
  "d_enable_osnma (monitor_page p st) = d_enable_osnma st" "d_satellite (monitor_page p st) = d_satellite st"
  by (simp_all add: monitor_page_def same_sync_def)

lemma same_sync_updates [simp]:
  "same_sync st (st'\<lparr>d_viterbi := v\<rparr>) = same_sync st st'" "same_sync st (st'\<lparr>d_inav_nav := n\<rparr>) = same_sync st st'"
  "same_sync st (st'\<lparr>d_fnav_nav := fn\<rparr>) = same_sync st st'" "same_sync st (st'\<lparr>d_cnav_nav := c\<rparr>) = same_sync st st'"
  "same_sync st (st'\<lparr>d_flag_even_word_arrived := e\<rparr>) = same_sync st st'" "same_sync (st\<lparr>d_viterbi := v\<rparr>) st' = same_sync st st'"
  "same_sync st st" "same_sync (st\<lparr>d_page_part_symbols := p\<rparr>) st' = same_sync st st'"
  by (simp_all add: same_sync_def)

text \<open>The data sets after a page of I/NAV, in one step.\<close>

definition inav_push_all :: "libm \<Rightarrow> telemetry \<Rightarrow> (telemetry \<times> tlm_message list) result" where
  "inav_push_all lm st =
     bindr (inav_push_ephemeris lm st) (\<lambda>(st2, m2).
     let (st3, m3) = inav_push_iono st2; (st4, m4) = inav_push_utc st3; (st5, m5) = inav_push_almanac st4
     in Inr (st5, m2 @ m3 @ m4 @ m5))"

lemma decode_INAV_word_push:
  "decode_INAV_word crc lm symbols frame_length st =
     bindr (decode_symbols 8 30 symbols frame_length (d_viterbi st)) (\<lambda>(v, bits, page).
     bindr (inav_page_part crc bits page (monitor_page page (st\<lparr>d_viterbi := v\<rparr>))) (\<lambda>(st1, m1).
     bindr (inav_push_all lm st1) (\<lambda>(st5, m5). Inr (st5, m1 @ m5))))"
proof -
  have "bindr (inav_push_ephemeris lm st1) (\<lambda>(st2, m2).
      let (st3, m3) = inav_push_iono st2; (st4, m4) = inav_push_utc st3; (st5, m5) = inav_push_almanac st4
      in Inr (st5, m1 @ m2 @ m3 @ m4 @ m5)) = bindr (inav_push_all lm st1) (\<lambda>(st5, m5). Inr (st5, m1 @ m5))" for st1 m1
    by (cases "inav_push_ephemeris lm st1") (auto simp: inav_push_all_def Let_def split: prod.split)
  then show ?thesis
    by (simp add: decode_INAV_word_def GALILEO_INAV_INTERLEAVER_ROWS_def GALILEO_INAV_INTERLEAVER_COLS_def Let_def)
qed

lemma inav_push_all_inv:
  assumes "inav_push_all lm st = Inr (st', m)" and "nav_inv crc (d_inav_nav st) (d_fnav_nav st) e"
  shows "nav_inv crc (d_inav_nav st') (d_fnav_nav st') e" "same_sync st st'" "d_viterbi st' = d_viterbi st"
    "d_flag_even_word_arrived st' = d_flag_even_word_arrived st" "d_first_eph_sent st \<Longrightarrow> d_first_eph_sent st'"
proof -
  obtain st2 m2 where s2: "inav_push_ephemeris lm st = Inr (st2, m2)" using assms(1) by (auto simp: inav_push_all_def bindr_eq_Inr)
  define st3 st4 where "st3 = fst (inav_push_iono st2)" and "st4 = fst (inav_push_utc st3)"
  have st': "st' = fst (inav_push_almanac st4)"
    using assms(1) by (auto simp: inav_push_all_def s2 st3_def st4_def Let_def split: prod.splits)
  note i2 = inav_push_ephemeris_inv [OF s2 assms(2)]
  note i3 = inav_push_rest_inv [OF i2(1), of st3] and i4 = inav_push_rest_inv [of crc st3 "d_fnav_nav st" e st4]
    and i5 = inav_push_rest_inv [of crc st4 "d_fnav_nav st" e st']
  show "nav_inv crc (d_inav_nav st') (d_fnav_nav st') e" "same_sync st st'" "d_viterbi st' = d_viterbi st"
    "d_flag_even_word_arrived st' = d_flag_even_word_arrived st" "d_first_eph_sent st \<Longrightarrow> d_first_eph_sent st'"
    using i2 i3 i4 i5 by (auto simp: st3_def st4_def st' intro: same_sync_trans)
qed

lemma inav_push_all_ok:
  assumes "d_first_eph_sent st \<or> d_band st \<noteq> CHR ''1''"
  shows "\<exists>st' m. inav_push_all lm st = Inr (st', m)"
  using inav_push_ephemeris_ok [OF assms, of lm] by (auto simp: inav_push_all_def Let_def split: prod.split)

lemma decode_INAV_page:
  assumes inv: "tlm_inv crc st" and ft: "d_frame_type st = 1"
  obtains v bits st1 m1 where "decode_INAV_word crc lm symbols (d_frame_length_symbols st) st = bindr (inav_push_all lm st1) (\<lambda>(st5, m5). Inr (st5, m1 @ m5))"
    "tlm_inv crc st1" "same_sync st st1" "d_first_eph_sent st1 = d_first_eph_sent st"
proof -
  have vit: "viterbi_wf 114 (d_viterbi st)" and len: "d_frame_length_symbols st = 8 * 30"
    using inv ft by (simp_all add: sync_inv_def frame_config_def data_bits_def frame_numbers)
  obtain v bits where v: "decode_symbols 8 30 symbols (8 * 30) (d_viterbi st) = Inr (v, bits, page_string_of bits)"
    "viterbi_wf 114 v" "length bits = 114 + 6" "\<forall>b \<in> set bits. b < 2"
    using decode_symbols_total [OF vit, of 8 30 symbols] by auto
  have "hd bits < 2" using v(3,4) by (cases bits) auto
  then have bit: "hd bits = 1 \<longleftrightarrow> 0 < hd bits" by linarith
  let ?st = "monitor_page (page_string_of bits) (st\<lparr>d_viterbi := v\<rparr>)"
  have n: "nav_inv crc (d_inav_nav ?st) (d_fnav_nav ?st) (d_flag_even_word_arrived ?st)" and l: "length bits = 120"
    using inv v(3) by simp_all
  obtain nav e m1 where p: "inav_page_part crc bits (page_string_of bits) ?st = Inr (?st\<lparr>d_inav_nav := nav, d_flag_even_word_arrived := e\<rparr>, m1)"
    "nav_inv crc nav (d_fnav_nav ?st) e"
    by (rule inav_page_part_ok [OF n l bit])
  let ?st1 = "?st\<lparr>d_inav_nav := nav, d_flag_even_word_arrived := e\<rparr>"
  have ss: "same_sync st ?st1" using same_sync_trans [of st "st\<lparr>d_viterbi := v\<rparr>" ?st] by simp
  then have "sync_inv ?st1" using same_sync_inv [of st ?st1] inv v(2) ft by (simp add: data_bits_def)
  then show ?thesis using that [of ?st1 m1] p v(1) ss len by (simp add: decode_INAV_word_push)
qed

lemma decode_INAV_inv:
  assumes "tlm_inv crc st" "d_frame_type st = 1" "decode_INAV_word crc lm symbols (d_frame_length_symbols st) st = Inr (st', m)"
  shows "tlm_inv crc st'" "same_sync st st'" "d_first_eph_sent st \<Longrightarrow> d_first_eph_sent st'"
proof -
  obtain st1 m1 where d: "decode_INAV_word crc lm symbols (d_frame_length_symbols st) st = bindr (inav_push_all lm st1) (\<lambda>(st5, m5). Inr (st5, m1 @ m5))"
    "tlm_inv crc st1" "same_sync st st1" "d_first_eph_sent st1 = d_first_eph_sent st"
    by (rule decode_INAV_page [OF assms(1,2)])
  have "bindr (inav_push_all lm st1) (\<lambda>(st5, m5). Inr (st5, m1 @ m5)) = Inr (st', m)" using d(1) assms(3) by simp
  then obtain m5 where p: "inav_push_all lm st1 = Inr (st', m5)" by (auto simp: bindr_eq_Inr)
  note i = inav_push_all_inv [OF p, of crc "d_flag_even_word_arrived st1"]
  show "tlm_inv crc st'" "same_sync st st'" "d_first_eph_sent st \<Longrightarrow> d_first_eph_sent st'"
    using i d same_sync_inv [of st1 st'] same_sync_trans [of st st1 st'] by (auto simp: sync_inv_def)
qed

lemma decode_INAV_ok:
  assumes "tlm_inv crc st" "d_frame_type st = 1" "d_first_eph_sent st \<or> d_band st \<noteq> CHR ''1''"
  shows "\<exists>st' m. decode_INAV_word crc lm symbols (d_frame_length_symbols st) st = Inr (st', m)"
proof -
  obtain st1 m1 where d: "decode_INAV_word crc lm symbols (d_frame_length_symbols st) st = bindr (inav_push_all lm st1) (\<lambda>(st5, m5). Inr (st5, m1 @ m5))"
    "tlm_inv crc st1" "same_sync st st1" "d_first_eph_sent st1 = d_first_eph_sent st"
    by (rule decode_INAV_page [OF assms(1,2)])
  then show ?thesis using inav_push_all_ok [of st1 lm] assms(3) by (auto simp: same_sync_def)
qed

lemma decode_FNAV_ok:
  assumes inv: "tlm_inv crc st" and ft: "d_frame_type st = 2"
  shows "\<exists>st' m. decode_FNAV_word crc symbols (d_frame_length_symbols st) st = Inr (st', m) \<and> tlm_inv crc st' \<and> same_sync st st'
    \<and> d_first_eph_sent st' = d_first_eph_sent st"
proof -
  have vit: "viterbi_wf 238 (d_viterbi st)" and len: "d_frame_length_symbols st = 8 * 61"
    using inv ft by (simp_all add: sync_inv_def frame_config_def data_bits_def frame_numbers)
  obtain v bits where v: "decode_symbols 8 61 symbols (8 * 61) (d_viterbi st) = Inr (v, bits, page_string_of bits)"
    "viterbi_wf 238 v" "length bits = 238 + 6"
    using decode_symbols_total [OF vit, of 8 61 symbols] by auto
  let ?st = "monitor_page (page_string_of bits) (st\<lparr>d_viterbi := v\<rparr>)"
  have l: "238 \<le> length (page_string_of bits)" using v(3) by (simp add: page_string_of_def)
  have fr: "fnav_reachable crc (d_fnav_nav ?st)" using inv by (simp add: nav_inv_def)
  obtain nav where nav: "fnav_split_page crc (page_string_of bits) (d_fnav_nav ?st) = Inr nav"
    using split_page_total [OF fr bin_string_page_string_of l] by blast
  obtain nav1 b1 nav2 b2 nav3 b3 where n: "fnav_have_new_ephemeris nav = (nav1, b1)" "fnav_have_new_iono_and_GST nav1 = (nav2, b2)"
    "fnav_have_new_utc_model nav2 = (nav3, b3)" by (metis surj_pair)
  have "fnav_reachable crc nav" by (rule fnav_reachable.page [OF fr nav])
  then have "nav_inv crc (d_inav_nav st) nav (d_flag_even_word_arrived st)" using inv by (simp add: nav_inv_def)
  from nav_inv_calls(11) [OF this] have "nav_inv crc (d_inav_nav st) nav1 (d_flag_even_word_arrived st)" by (simp add: n)
  from nav_inv_calls(12) [OF this] have "nav_inv crc (d_inav_nav st) nav2 (d_flag_even_word_arrived st)" by (simp add: n)
  from nav_inv_calls(13) [OF this] have ni: "nav_inv crc (d_inav_nav st) nav3 (d_flag_even_word_arrived st)" by (simp add: n)
  have ss: "same_sync st (?st\<lparr>d_fnav_nav := nav3\<rparr>)" using same_sync_trans [of st "st\<lparr>d_viterbi := v\<rparr>" ?st] by simp
  then have "sync_inv (?st\<lparr>d_fnav_nav := nav3\<rparr>)" using same_sync_inv [of st "?st\<lparr>d_fnav_nav := nav3\<rparr>"] inv v(2) ft by (simp add: data_bits_def)
  then show ?thesis
    using v(1) nav n ni ss len by (simp add: decode_FNAV_word_def GALILEO_FNAV_INTERLEAVER_ROWS_def GALILEO_FNAV_INTERLEAVER_COLS_def Let_def)
qed

lemma cnav_push_page_frame:
  "same_sync st (fst (cnav_push_page st))" "d_viterbi (fst (cnav_push_page st)) = d_viterbi st"
  "d_inav_nav (fst (cnav_push_page st)) = d_inav_nav st" "d_fnav_nav (fst (cnav_push_page st)) = d_fnav_nav st"
  "d_flag_even_word_arrived (fst (cnav_push_page st)) = d_flag_even_word_arrived st"
  "d_first_eph_sent (fst (cnav_push_page st)) = d_first_eph_sent st"
  by (simp_all add: cnav_push_page_def Let_def same_sync_def)

lemma decode_CNAV_ok:
  assumes inv: "tlm_inv crc st" and ft: "d_frame_type st = 3"
  shows "\<exists>st' m. decode_CNAV_word crc ts symbols (d_frame_length_symbols st) st = Inr (st', m) \<and> tlm_inv crc st' \<and> same_sync st st'
    \<and> d_first_eph_sent st' = d_first_eph_sent st"
proof -
  have vit: "viterbi_wf 486 (d_viterbi st)" and len: "d_frame_length_symbols st = 8 * 123"
    using inv ft by (simp_all add: sync_inv_def frame_config_def data_bits_def frame_numbers)
  obtain v bits where v: "decode_symbols 8 123 symbols (8 * 123) (d_viterbi st) = Inr (v, bits, page_string_of bits)"
    "viterbi_wf 486 v" "length bits = 486 + 6"
    using decode_symbols_total [OF vit, of 8 123 symbols] by auto
  let ?st = "monitor_page (page_string_of bits) (st\<lparr>d_viterbi := v\<rparr>)"
  have l: "486 \<le> length (page_string_of bits)" using v(3) by (simp add: page_string_of_def)
  obtain nav where nav: "read_HAS_page crc (page_string_of bits) (d_cnav_nav ?st) = Inr nav"
    using read_HAS_page_total [OF bin_string_page_string_of l] by blast
  let ?st1 = "?st\<lparr>d_cnav_nav := set_time_stamp (unat ts) nav\<rparr>"
  have ss: "same_sync st (fst (cnav_push_page ?st1))"
    using same_sync_trans [of st "st\<lparr>d_viterbi := v\<rparr>" ?st] same_sync_trans [of st ?st1 "fst (cnav_push_page ?st1)"]
    by (simp add: cnav_push_page_frame)
  then have "sync_inv (fst (cnav_push_page ?st1))"
    using same_sync_inv [of st "fst (cnav_push_page ?st1)"] inv v(2) ft by (simp add: data_bits_def cnav_push_page_frame)
  moreover obtain st2 m2 where "cnav_push_page ?st1 = (st2, m2)" by fastforce
  ultimately show ?thesis
    using v(1) nav ss len inv cnav_push_page_frame [of ?st1]
    by (simp add: decode_CNAV_word_def GALILEO_CNAV_INTERLEAVER_ROWS_def GALILEO_CNAV_INTERLEAVER_COLS_def Let_def)
qed

text \<open>A page in the synchronised state; \<open>fit st\<close> is what the decoding of I/NAV relies on.\<close>

definition fit :: "telemetry \<Rightarrow> bool" where
  "fit st \<longleftrightarrow> d_frame_type st = 2 \<or> d_frame_type st = 1 \<and> (d_first_eph_sent st \<or> d_band st \<noteq> CHR ''1'')"

definition decode_frame ::
  "(byte list \<Rightarrow> nat) \<Rightarrow> libm \<Rightarrow> gnss_synchro \<Rightarrow> telemetry \<Rightarrow> (telemetry \<times> tlm_message list) result" where
  "decode_frame crc lm sy st =
     (if d_frame_type st = 1 then decode_INAV_word crc lm (d_page_part_symbols st) (d_frame_length_symbols st) st
      else if d_frame_type st = 2 then decode_FNAV_word crc (d_page_part_symbols st) (d_frame_length_symbols st) st
      else if sync_fs sy = 0 then Inl UndefinedBehaviour
      else decode_CNAV_word crc (Tracking_sample_counter sy div word_of_int (sync_fs sy)) (d_page_part_symbols st) (d_frame_length_symbols st) st)"

lemma decode_frame_inv:
  assumes "tlm_inv crc st" "decode_frame crc lm sy st = Inr (st', m)"
  shows "tlm_inv crc st'" "same_sync st st'" "d_first_eph_sent st \<Longrightarrow> d_first_eph_sent st'"
proof -
  have "d_frame_type st \<in> {1, 2, 3}" using assms(1) by (simp add: sync_inv_def frame_config_def)
  then consider "d_frame_type st = 1" | "d_frame_type st = 2" | "d_frame_type st = 3" by auto
  then have "tlm_inv crc st' \<and> same_sync st st' \<and> (d_first_eph_sent st \<longrightarrow> d_first_eph_sent st')"
  proof cases
    case 1
    then show ?thesis using assms decode_INAV_inv [OF assms(1) 1, of lm "d_page_part_symbols st" st' m] by (simp add: decode_frame_def)
  next
    case 2
    then show ?thesis using assms decode_FNAV_ok [OF assms(1) 2, of "d_page_part_symbols st"] by (auto simp: decode_frame_def)
  next
    case 3
    then show ?thesis
      using assms decode_CNAV_ok [OF assms(1) 3, of "Tracking_sample_counter sy div word_of_int (sync_fs sy)" "d_page_part_symbols st"]
      by (auto simp: decode_frame_def split: if_splits)
  qed
  then show "tlm_inv crc st'" "same_sync st st'" "d_first_eph_sent st \<Longrightarrow> d_first_eph_sent st'" by simp_all
qed

lemma decode_frame_ok:
  assumes "tlm_inv crc st" "fit st"
  shows "\<exists>st' m. decode_frame crc lm sy st = Inr (st', m)"
proof (cases "d_frame_type st = 2")
  case True
  then show ?thesis using decode_FNAV_ok [OF assms(1) True, of "d_page_part_symbols st"] by (auto simp: decode_frame_def)
next
  case False
  then show ?thesis using assms(2) decode_INAV_ok [OF assms(1)] by (simp add: decode_frame_def fit_def)
qed

definition page_step ::
  "(byte list \<Rightarrow> nat) \<Rightarrow> libm \<Rightarrow> gnss_synchro \<Rightarrow> float32 list \<Rightarrow> telemetry \<Rightarrow> (telemetry option \<times> tlm_message list) result" where
  "page_step crc lm sy page st =
    (if d_symbol_counter st = d_preamble_index st + of_nat (d_preamble_period_symbols st)
     then bindr (decode_frame crc lm sy (st\<lparr>d_page_part_symbols := page\<rparr>)) (\<lambda>(st2, m2). Inr (Some (fst (after_page st2)), m2 @ snd (after_page st2)))
     else Inr (Some st, []))"

lemma stat_2_eq:
  assumes "tlm_inv crc st" "d_stat st = 2"
  shows "\<exists>page. \<forall>lm sy. stat_2 crc lm sy st = page_step crc lm sy page st"
proof -
  obtain page where page: "fetch_page st = Inr (st\<lparr>d_page_part_symbols := page\<rparr>)" "length page = d_frame_length_symbols st"
    by (rule fetch_page_ok [OF _ assms(2)]) (use assms(1) in auto)
  have ft: "d_frame_type st \<in> {1, 2, 3}" using assms(1) by (simp add: sync_inv_def frame_config_def)
  have eq: "stat_2 crc lm sy st = page_step crc lm sy page st" for lm sy
    using ft by (auto simp: page_step_def stat_2_def page(1) decode_frame_def Let_def bindr_def split: sum.split prod.split)
  then show ?thesis by blast
qed

lemma sync_inv_page [simp]: "sync_inv (st\<lparr>d_page_part_symbols := page\<rparr>) = sync_inv st"
  by (simp add: sync_inv_def frame_config_def)

lemma after_page_frame:
  "d_flag_even_word_arrived (fst (after_page st)) = d_flag_even_word_arrived st" "d_frame_type (fst (after_page st)) = d_frame_type st"
  "d_first_eph_sent (fst (after_page st)) = d_first_eph_sent st" "d_band (fst (after_page st)) = d_band st"
  "d_symbol_history (fst (after_page st)) = d_symbol_history st"
  "d_flag_PLL_180_deg_phase_locked (fst (after_page st)) = d_flag_PLL_180_deg_phase_locked st"
  by (simp_all add: after_page_def Let_def)

lemma stat_2_inv:
  assumes inv: "tlm_inv crc st" and st: "d_stat st = 2" and step: "stat_2 crc lm sy st = Inr (r, m)"
  shows "\<exists>st'. r = Some st' \<and> tlm_inv crc st' \<and> d_frame_type st' = d_frame_type st \<and> d_band st' = d_band st
    \<and> (d_first_eph_sent st \<longrightarrow> d_first_eph_sent st') \<and> d_symbol_history st' = d_symbol_history st
    \<and> d_flag_PLL_180_deg_phase_locked st' = d_flag_PLL_180_deg_phase_locked st"
proof -
  obtain page where eq: "\<forall>lm sy. stat_2 crc lm sy st = page_step crc lm sy page st" using stat_2_eq [OF inv st] by blast
  show ?thesis
  proof (cases "d_symbol_counter st = d_preamble_index st + of_nat (d_preamble_period_symbols st)")
    case True
    then obtain st2 m2 where d: "decode_frame crc lm sy (st\<lparr>d_page_part_symbols := page\<rparr>) = Inr (st2, m2)" "r = Some (fst (after_page st2))"
      using step eq by (auto simp: page_step_def bindr_eq_Inr)
    note i = decode_frame_inv [OF _ d(1)]
    have i2: "tlm_inv crc st2" "same_sync st st2" "d_first_eph_sent st \<Longrightarrow> d_first_eph_sent st2" using i inv by simp_all
    moreover have "d_stat st2 = 2" using i2(2) st by (simp add: same_sync_def)
    ultimately show ?thesis
      using d(2) after_page_inv [of st2] after_page_nav [of crc st2 "d_flag_even_word_arrived st2"]
      by (simp add: after_page_frame same_sync_def)
  next
    case False
    then have "r = Some st" using step eq by (simp add: page_step_def)
    then show ?thesis using inv by simp
  qed
qed

lemma frame_sync_inv:
  assumes inv: "tlm_inv crc st" and step: "frame_sync crc lm sy st = Inr (r, m)"
  shows "\<exists>st'. r = Some st' \<and> tlm_inv crc st' \<and> d_frame_type st' = d_frame_type st \<and> (d_first_eph_sent st \<longrightarrow> d_first_eph_sent st')"
proof -
  have "d_stat st \<le> 2" using inv by (simp add: sync_inv_def)
  then consider "d_stat st = 0" | "d_stat st = 1" | "d_stat st = 2" by linarith
  then show ?thesis
  proof cases
    case 1
    then show ?thesis using step inv stat_0_inv [of st] by (auto simp: frame_sync_def stat_frame) (simp_all add: stat_0_def)
  next
    case 2
    then show ?thesis using step inv stat_1_inv [of st] by (auto simp: frame_sync_def stat_frame) (simp_all add: stat_1_def Let_def)
  next
    case 3
    then show ?thesis using step stat_2_inv [OF inv 3, of lm sy r m] by (auto simp: frame_sync_def)
  qed
qed

lemma frame_sync_ok:
  assumes inv: "tlm_inv crc st" and fit: "fit st"
  shows "\<exists>st' m. frame_sync crc lm sy st = Inr (Some st', m)"
proof (cases "d_stat st = 2")
  case True
  obtain page where eq: "\<forall>lm sy. stat_2 crc lm sy st = page_step crc lm sy page st" using stat_2_eq [OF inv True] by blast
  have "\<exists>st' m. decode_frame crc lm sy (st\<lparr>d_page_part_symbols := page\<rparr>) = Inr (st', m)"
    by (rule decode_frame_ok) (use inv fit in \<open>simp_all add: fit_def\<close>)
  then show ?thesis using True by (auto simp: frame_sync_def eq page_step_def)
qed (simp add: frame_sync_def)

subsection \<open>The time of week and the whole call\<close>

lemma set_TOW_ok: "tow \<in> {0..<2 ^ 20} \<Longrightarrow> set_TOW tow delay st =
    Inr (st\<lparr>d_TOW_at_Preamble_ms := word_of_int (tow * 1000), d_TOW_at_current_symbol_ms := word_of_int (tow * 1000) + delay\<rparr>)"
  unfolding set_TOW_def by (subst double_to_uint32_TOW) simp_all

text \<open>\<open>only_times st st'\<close>: the members of the synchronisation, the decoder and the messages but their flags are the same.\<close>

definition only_times :: "telemetry \<Rightarrow> telemetry \<Rightarrow> bool" where
  "only_times st st' \<longleftrightarrow> same_sync st st' \<and> d_viterbi st' = d_viterbi st \<and> d_first_eph_sent st' = d_first_eph_sent st
     \<and> d_flag_even_word_arrived st' = d_flag_even_word_arrived st \<and> page_Even (d_inav_nav st') = page_Even (d_inav_nav st)"

lemma publish_packet_frame:
  "only_times st (fst (publish_packet sy st))" "d_inav_nav (fst (publish_packet sy st)) = d_inav_nav st"
  "d_fnav_nav (fst (publish_packet sy st)) = d_fnav_nav st"
  by (simp_all add: publish_packet_def Let_def only_times_def same_sync_def)

lemma inav_TOW_ok:
  assumes "nav_inv crc (d_inav_nav st) (d_fnav_nav st) e"
  shows "\<exists>st' m. inav_TOW_at_preamble sy st = Inr (st', m) \<and> only_times st st' \<and> nav_inv crc (d_inav_nav st') (d_fnav_nav st') e"
proof -
  have r: "inav_reachable crc (d_inav_nav st)" using assms by (simp add: nav_inv_def)
  have tow: "TOW_5 (word5 (d_inav_nav st)) \<in> {0..<2 ^ 20}" "TOW_6 (word6 (d_inav_nav st)) \<in> {0..<2 ^ 20}"
    "TOW_0 (word0 (d_inav_nav st)) \<in> {0..<2 ^ 20}"
    using reachable_inv [OF r] inav_TOW_0_range [OF r] by (simp_all add: inav_inv_def times_wf_def)
  have set: "\<exists>st' m. inav_set_TOW sy t nav st = Inr (st', m) \<and> only_times st st' \<and> d_inav_nav st' = nav \<and> d_fnav_nav st' = d_fnav_nav st"
    if "t \<in> {0..<2 ^ 20}" "page_Even nav = page_Even (d_inav_nav st)" for t nav
    using that by (simp add: inav_set_TOW_def set_TOW_ok Let_def only_times_def same_sync_def)
  have out: "\<exists>st' m. inav_set_TOW sy t nav st = Inr (st', m) \<and> only_times st st' \<and> nav_inv crc (d_inav_nav st') (d_fnav_nav st') e"
    if "t \<in> {0..<2 ^ 20}" "nav_inv crc nav (d_fnav_nav st) e" "page_Even nav = page_Even (d_inav_nav st)" for t nav
    using set [OF that(1,3)] that(2) by auto
  note flags = nav_inv_calls(7,8,9) [OF assms, of False]
  show ?thesis
  proof (cases "get_flag_TOW_set (d_inav_nav st)")
    case True
    note d = inav_TOW_at_preamble_def Let_def get_TOW5_def get_TOW6_def get_TOW0_def
    consider "is_TOW5_set (d_inav_nav st)" | "\<not> is_TOW5_set (d_inav_nav st)" "is_TOW6_set (d_inav_nav st)"
      | "\<not> is_TOW5_set (d_inav_nav st)" "\<not> is_TOW6_set (d_inav_nav st)" "is_TOW0_set (d_inav_nav st)"
      | "\<not> is_TOW5_set (d_inav_nav st)" "\<not> is_TOW6_set (d_inav_nav st)" "\<not> is_TOW0_set (d_inav_nav st)" by blast
    then show ?thesis
    proof cases
      case 1
      then show ?thesis using out [OF tow(1) flags(1)] True unfolding d by simp
    next
      case 2
      then show ?thesis using out [OF tow(2) flags(2)] True unfolding d by simp
    next
      case 3
      then show ?thesis using out [OF tow(3) flags(3)] True unfolding d by simp
    next
      case 4
      then show ?thesis using assms True unfolding d by (simp add: advance_TOW_def only_times_def same_sync_def)
    qed
  next
    case False
    then show ?thesis using assms by (simp add: inav_TOW_at_preamble_def only_times_def same_sync_def)
  qed
qed

lemma fnav_TOW_ok:
  assumes "nav_inv crc (d_inav_nav st) (d_fnav_nav st) e"
  shows "\<exists>st' m. fnav_TOW_at_preamble sy st = Inr (st', m) \<and> only_times st st' \<and> nav_inv crc (d_inav_nav st') (d_fnav_nav st') e"
proof -
  have r: "fnav_reachable crc (d_fnav_nav st)" using assms by (simp add: nav_inv_def)
  have "\<exists>st' m. fnav_set_TOW sy k st = Inr (st', m) \<and> only_times st st' \<and> nav_inv crc (d_inav_nav st') (d_fnav_nav st') e" for k
    using fnav_TOW_range [OF r, of k] nav_inv_calls(14) [OF assms, of k False]
    by (simp add: fnav_set_TOW_def set_TOW_ok Let_def only_times_def same_sync_def)
  then show ?thesis using assms by (simp add: fnav_TOW_at_preamble_def Let_def advance_TOW_def only_times_def same_sync_def)
qed

lemma cnav_TOW_frame:
  "cnav_TOW_at_preamble sy st = Inr st' \<Longrightarrow> only_times st st' \<and> d_inav_nav st' = d_inav_nav st \<and> d_fnav_nav st' = d_fnav_nav st"
  by (auto simp: cnav_TOW_at_preamble_def Let_def bindr_eq_Inr only_times_def same_sync_def split: if_splits)

lemma only_times_trans: "only_times a b \<Longrightarrow> only_times b c \<Longrightarrow> only_times a c"
  by (simp add: only_times_def same_sync_def)

lemma only_times_inv: "tlm_inv crc st \<Longrightarrow> only_times st st' \<Longrightarrow> nav_inv crc (d_inav_nav st') (d_fnav_nav st') (d_flag_even_word_arrived st) \<Longrightarrow> tlm_inv crc st'"
  using same_sync_inv [of st st'] by (simp add: only_times_def sync_inv_def)

lemma update_TOW_inv:
  assumes inv: "tlm_inv crc st" and step: "update_TOW sy st = Inr (st', m)"
  shows "only_times st st'" "tlm_inv crc st'"
proof -
  let ?e = "d_flag_even_word_arrived st"
  have adv: "only_times st (advance_TOW p st)" "d_inav_nav (advance_TOW p st) = d_inav_nav st" "d_fnav_nav (advance_TOW p st) = d_fnav_nav st"
    "only_times st st" for p
    by (simp_all add: advance_TOW_def only_times_def same_sync_def)
  have n: "nav_inv crc (d_inav_nav st) (d_fnav_nav st) ?e" using inv by simp
  have "only_times st st' \<and> nav_inv crc (d_inav_nav st') (d_fnav_nav st') ?e"
  proof (cases "d_flag_preamble st")
    case True
    have pub: "only_times st st2 \<and> nav_inv crc (d_inav_nav st2) (d_fnav_nav st2) ?e"
      if "only_times st st1" "nav_inv crc (d_inav_nav st1) (d_fnav_nav st1) ?e" "publish_packet sy st1 = (st2, m2)" for st1 st2 m2
      using that publish_packet_frame [where sy = sy and st = st1] only_times_trans [of st st1 st2] by simp
    have "d_frame_type st \<in> {1, 2, 3}" using inv by (simp add: sync_inv_def frame_config_def)
    then consider "d_frame_type st = 1" | "d_frame_type st = 2" | "d_frame_type st = 3" by auto
    then show ?thesis
    proof cases
      case 1
      obtain st1 m1 where s1: "inav_TOW_at_preamble sy st = Inr (st1, m1)" "only_times st st1" "nav_inv crc (d_inav_nav st1) (d_fnav_nav st1) ?e"
        using inav_TOW_ok [OF n] by blast
      then show ?thesis using step True 1 pub [OF s1(2,3)] by (auto simp: update_TOW_def Let_def split: prod.splits)
    next
      case 2
      obtain st1 m1 where s1: "fnav_TOW_at_preamble sy st = Inr (st1, m1)" "only_times st st1" "nav_inv crc (d_inav_nav st1) (d_fnav_nav st1) ?e"
        using fnav_TOW_ok [OF n] by blast
      then show ?thesis using step True 2 pub [OF s1(2,3)] by (auto simp: update_TOW_def Let_def split: prod.splits)
    next
      case 3
      then obtain st1 where s1: "cnav_TOW_at_preamble sy st = Inr st1" using step True by (auto simp: update_TOW_def bindr_eq_Inr)
      then have ok: "only_times st st1" "nav_inv crc (d_inav_nav st1) (d_fnav_nav st1) ?e" using cnav_TOW_frame [OF s1] n by simp_all
      have out: "(if d_E6_TOW_set st1 then publish_packet sy st1 else (st1, [])) = (st', m)"
        using step True 3 s1 by (simp add: update_TOW_def)
      show ?thesis
      proof (cases "d_E6_TOW_set st1")
        case True
        then have "publish_packet sy st1 = (st', m)" using out by simp
        then show ?thesis by (rule pub [OF ok])
      next
        case False
        then have "st' = st1" using out by simp
        then show ?thesis using ok by blast
      qed
    qed
  next
    case False
    then show ?thesis using step n adv by (auto simp: update_TOW_def split: if_splits)
  qed
  then show "only_times st st'" "tlm_inv crc st'" using only_times_inv [OF inv] by blast+
qed

lemma update_TOW_ok:
  assumes "nav_inv crc (d_inav_nav st) (d_fnav_nav st) e" and "d_frame_type st \<in> {1, 2}"
  shows "\<exists>st' m. update_TOW sy st = Inr (st', m)"
proof -
  obtain st1 m1 st2 m2 where r: "inav_TOW_at_preamble sy st = Inr (st1, m1)" "fnav_TOW_at_preamble sy st = Inr (st2, m2)"
    using inav_TOW_ok [OF assms(1), of sy] fnav_TOW_ok [OF assms(1), of sy] by blast
  show ?thesis
  proof (cases "d_flag_preamble st")
    case True
    obtain st3 m3 where p3: "publish_packet sy st1 = (st3, m3)" by (rule prod.exhaust)
    obtain st4 m4 where p4: "publish_packet sy st2 = (st4, m4)" by (rule prod.exhaust)
    have "update_TOW sy st = Inr (if d_frame_type st = 1 then (st3, m1 @ m3) else (st4, m2 @ m4))"
      using True assms(2) by (elim insertE emptyE) (simp_all add: update_TOW_def r p3 p4)
    then show ?thesis by simp
  next
    case False
    then show ?thesis by (simp add: update_TOW_def)
  qed
qed

lemma update_delta_t_frame:
  "only_times st (update_delta_t st)" "d_inav_nav (update_delta_t st) = d_inav_nav st" "d_fnav_nav (update_delta_t st) = d_fnav_nav st"
  by (simp_all add: update_delta_t_def Let_def only_times_def same_sync_def)

lemma sync_inv_frame [simp]:
  "sync_inv (st\<lparr>d_flag_preamble := b\<rparr>) = sync_inv st" "sync_inv (st\<lparr>d_sent_tlm_failed_msg := b\<rparr>) = sync_inv st"
  "sync_inv (st\<lparr>d_received_tow_ms := tow\<rparr>) = sync_inv st" "sync_inv (st\<lparr>d_received_sample_counter := n\<rparr>) = sync_inv st"
  "sync_inv (st\<lparr>d_current_timetag := t\<rparr>) = sync_inv st" "sync_inv (st\<lparr>d_valid_timetag := b\<rparr>) = sync_inv st"
  by (simp_all add: sync_inv_def frame_config_def)

text \<open>The state with which the frame synchronisation starts.\<close>

definition prepared :: "gnss_synchro \<Rightarrow> telemetry \<Rightarrow> telemetry \<Rightarrow> bool" where
  "prepared sy st st3 \<longleftrightarrow> (\<exists>tag valid b. st3 = st\<lparr>d_band := hd (sync_Signal sy),
      d_symbol_history := push_symbol (d_required_symbols st + 1) (to_float (Prompt_I sy)) (d_symbol_history st),
      d_symbol_counter := d_symbol_counter st + 1, d_current_timetag := tag, d_valid_timetag := valid,
      d_flag_preamble := False, d_sent_tlm_failed_msg := b\<rparr>)"

lemma prepared_inv:
  assumes "prepared sy st st3" and "tlm_inv crc st"
  shows "tlm_inv crc st3"
  using assms by (auto simp: prepared_def sync_inv_def frame_config_def length_push_symbol)

lemma prepared_frame:
  assumes "prepared sy st st3"
  shows "d_frame_type st3 = d_frame_type st" "d_first_eph_sent st3 = d_first_eph_sent st" "d_band st3 = hd (sync_Signal sy)"
    "d_inav_nav st3 = d_inav_nav st" "d_flag_even_word_arrived st3 = d_flag_even_word_arrived st"
    "d_satellite st3 = d_satellite st" "d_enable_osnma st3 = d_enable_osnma st" "d_stat st3 = d_stat st"
    "d_preamble_index st3 = d_preamble_index st" "d_CRC_error_counter st3 = d_CRC_error_counter st"
    "d_flag_PLL_180_deg_phase_locked st3 = d_flag_PLL_180_deg_phase_locked st" "d_symbol_counter st3 = d_symbol_counter st + 1"
    "d_symbol_history st3 = push_symbol (d_required_symbols st + 1) (to_float (Prompt_I sy)) (d_symbol_history st)"
  using assms by (auto simp: prepared_def)

lemma general_work_start:
  assumes "sync_Signal sy \<noteq> []"
  obtains st3 m3 where "prepared sy st st3" "osnma_messages m3 = []"
    "\<And>crc lm. general_work crc lm (sy, tags) st = bindr (frame_sync crc lm sy st3) (\<lambda>(r, m4).
       case r of None \<Rightarrow> Inr (st3, m3 @ m4, Finished)
       | Some st4 \<Rightarrow> bindr (update_TOW sy st4) (\<lambda>(st5, m5).
          let st6 = update_delta_t st5
          in Inr (st6, m3 @ m4 @ m5, case output_symbol sy st6 of Some out \<Rightarrow> Produced out | None \<Rightarrow> Nothing)))"
proof -
  define st1 where "st1 = st\<lparr>d_band := hd (sync_Signal sy),
      d_symbol_history := push_symbol (d_required_symbols st + 1) (to_float (Prompt_I sy)) (d_symbol_history st),
      d_symbol_counter := d_symbol_counter st + 1\<rparr>"
  have r: "receive_symbol sy st = Inr st1" using assms by (cases "sync_Signal sy") (simp_all add: receive_symbol_def st1_def)
  obtain tag valid where tags: "read_timetags tags st1 = st1\<lparr>d_current_timetag := tag, d_valid_timetag := valid\<rparr>"
    using read_timetags_frame [of st1 tags] by (auto simp: timetagged_def)
  define st2 where "st2 = (read_timetags tags st1)\<lparr>d_flag_preamble := False\<rparr>"
  obtain b where b: "fst (check_telemetry st2) = st2\<lparr>d_sent_tlm_failed_msg := b\<rparr>" using check_telemetry_frame by blast
  obtain m3 where st3: "check_telemetry st2 = (st2\<lparr>d_sent_tlm_failed_msg := b\<rparr>, m3)"
    using b by (cases "check_telemetry st2") simp
  show ?thesis
  proof (rule that [of "st2\<lparr>d_sent_tlm_failed_msg := b\<rparr>" m3])
    show "prepared sy st (st2\<lparr>d_sent_tlm_failed_msg := b\<rparr>)"
      unfolding prepared_def by (rule exI [of _ tag], rule exI [of _ valid], rule exI [of _ b]) (unfold st2_def tags, simp add: st1_def)
    show "osnma_messages m3 = []" using st3 by (auto simp: check_telemetry_def split: if_splits)
  qed (simp add: general_work_def r st2_def [symmetric] st3)
qed

lemma general_work_inv:
  assumes inv: "tlm_inv crc st" and step: "general_work crc lm (sy, tags) st = Inr (st', m, r)"
  shows "tlm_inv crc st'" "d_frame_type st' = d_frame_type st" "d_first_eph_sent st \<Longrightarrow> d_first_eph_sent st'" "r \<noteq> Finished"
proof -
  have sig: "sync_Signal sy \<noteq> []" using step by (cases "sync_Signal sy") (simp_all add: general_work_def receive_symbol_def)
  obtain st3 m3 where p: "prepared sy st st3"
    and eq: "\<And>crc lm. general_work crc lm (sy, tags) st = bindr (frame_sync crc lm sy st3) (\<lambda>(r, m4).
       case r of None \<Rightarrow> Inr (st3, m3 @ m4, Finished)
       | Some st4 \<Rightarrow> bindr (update_TOW sy st4) (\<lambda>(st5, m5).
          let st6 = update_delta_t st5
          in Inr (st6, m3 @ m4 @ m5, case output_symbol sy st6 of Some out \<Rightarrow> Produced out | None \<Rightarrow> Nothing)))"
    by (rule general_work_start [OF sig]) blast
  note s3 = prepared_inv [OF p inv] prepared_frame [OF p]
  obtain o4 m4 where f: "frame_sync crc lm sy st3 = Inr (o4, m4)" using step eq [of crc lm] by (auto simp: bindr_eq_Inr)
  obtain st4 where s4: "o4 = Some st4" "tlm_inv crc st4" "d_frame_type st4 = d_frame_type st3" "d_first_eph_sent st3 \<longrightarrow> d_first_eph_sent st4"
    using frame_sync_inv [OF s3(1) f] by blast
  obtain st5 m5 where s5: "update_TOW sy st4 = Inr (st5, m5)" "st' = update_delta_t st5"
      "r = (case output_symbol sy st' of Some out \<Rightarrow> Produced out | None \<Rightarrow> Nothing)"
    using step eq [of crc lm] f s4(1) by (auto simp: bindr_eq_Inr Let_def)
  note i5 = update_TOW_inv [OF s4(2) s5(1)]
  show "tlm_inv crc st'" "d_frame_type st' = d_frame_type st" "d_first_eph_sent st \<Longrightarrow> d_first_eph_sent st'" "r \<noteq> Finished"
    using i5 s4 s3 s5 update_delta_t_frame [of st5] only_times_inv [OF i5(2), of st'] only_times_trans [of st4 st5 st']
    by (simp_all add: only_times_def same_sync_def split: option.split)
qed

lemma general_work_ok:
  assumes inv: "tlm_inv crc st" and sig: "sync_Signal sy \<noteq> []"
    and ft: "d_frame_type st = 2 \<or> d_frame_type st = 1 \<and> (d_first_eph_sent st \<or> hd (sync_Signal sy) \<noteq> CHR ''1'')"
  shows "\<exists>st' m r. general_work crc lm (sy, tags) st = Inr (st', m, r)"
proof -
  obtain st3 m3 where p: "prepared sy st st3"
    and eq: "\<And>crc lm. general_work crc lm (sy, tags) st = bindr (frame_sync crc lm sy st3) (\<lambda>(r, m4).
       case r of None \<Rightarrow> Inr (st3, m3 @ m4, Finished)
       | Some st4 \<Rightarrow> bindr (update_TOW sy st4) (\<lambda>(st5, m5).
          let st6 = update_delta_t st5
          in Inr (st6, m3 @ m4 @ m5, case output_symbol sy st6 of Some out \<Rightarrow> Produced out | None \<Rightarrow> Nothing)))"
    by (rule general_work_start [OF sig]) blast
  note s3 = prepared_inv [OF p inv] prepared_frame [OF p]
  have "fit st3" using ft s3(2,3,4) by (simp add: fit_def)
  then obtain st4 m4 where f: "frame_sync crc lm sy st3 = Inr (Some st4, m4)" using frame_sync_ok [OF s3(1)] by blast
  then have s4: "tlm_inv crc st4" "d_frame_type st4 = d_frame_type st3" using frame_sync_inv [OF s3(1) f] by auto
  then have "nav_inv crc (d_inav_nav st4) (d_fnav_nav st4) (d_flag_even_word_arrived st4)" "d_frame_type st4 \<in> {1, 2}"
    using ft s3(2) by auto
  then obtain st5 m5 where "update_TOW sy st4 = Inr (st5, m5)" using update_TOW_ok by blast
  then show ?thesis using eq [of crc lm] f by (simp add: Let_def)
qed

subsection \<open>Reachable states\<close>

text \<open>Every operation of the block, in any order; the parameters of the build are fixed at its start.\<close>

inductive telemetry_reachable :: "(byte list \<Rightarrow> nat) \<Rightarrow> libm \<Rightarrow> telemetry \<Rightarrow> bool" for crc :: "byte list \<Rightarrow> nat" and lm :: libm where
  made: "frame_type \<in> {1, 2, 3} \<Longrightarrow> telemetry_reachable crc lm (galileo_make_telemetry_decoder_gs sat conf frame_type)"
| worked: "telemetry_reachable crc lm st \<Longrightarrow> general_work crc lm (sy, tags) st = Inr (st', m, r) \<Longrightarrow> telemetry_reachable crc lm st'"
| tow_map: "telemetry_reachable crc lm st \<Longrightarrow> telemetry_reachable crc lm (msg_handler_read_galileo_tow_map received st)"
| satellite: "telemetry_reachable crc lm st \<Longrightarrow> telemetry_reachable crc lm (fst (tlm_set_satellite sat st))"
| was_reset: "telemetry_reachable crc lm st \<Longrightarrow> telemetry_reachable crc lm (fst (tlm_reset st))"
| channel: "telemetry_reachable crc lm st \<Longrightarrow> telemetry_reachable crc lm (tlm_set_channel n st)"

lemma made_inv:
  assumes "frame_type \<in> {1, 2, 3}"
  shows "tlm_inv crc (galileo_make_telemetry_decoder_gs sat conf frame_type)"
proof -
  let ?st = "galileo_make_telemetry_decoder_gs sat conf frame_type"
  have len: "par_length (parameters_of frame_type) div 2 - 6 = data_bits frame_type"
    using assms by (auto simp: data_bits_def frame_numbers)
  have "sync_inv ?st"
    using assms new_viterbi_wf [of "data_bits frame_type"]
    by (simp add: galileo_make_telemetry_decoder_gs_def Let_def sync_inv_def frame_config_def len)
  moreover have "nav_inv crc (d_inav_nav ?st) (d_fnav_nav ?st) (d_flag_even_word_arrived ?st)"
    by (auto simp: galileo_make_telemetry_decoder_gs_def Let_def nav_inv_def intro!: inav_reachable.intros fnav_reachable.intros)
  ultimately show ?thesis by blast
qed

lemma tlm_reset_inv:
  assumes "tlm_inv crc st"
  shows "tlm_inv crc (fst (tlm_reset st))"
proof
  show "sync_inv (fst (tlm_reset st))"
    using assms viterbi_reset_wf by (simp add: tlm_reset_def Let_def sync_inv_def frame_config_def)
  have "nav_inv crc (set_TOW0_flag False (set_flag_TOW_set False (d_inav_nav st))) (fnav_set_flag_TOW_set False (d_fnav_nav st))
      (d_flag_even_word_arrived st)"
    using assms by (auto intro: nav_inv_calls)
  then show "nav_inv crc (d_inav_nav (fst (tlm_reset st))) (d_fnav_nav (fst (tlm_reset st))) (d_flag_even_word_arrived (fst (tlm_reset st)))"
    by (auto simp: tlm_reset_def Let_def intro: nav_inv_calls)
qed

lemma telemetry_reachable_inv: "telemetry_reachable crc lm st \<Longrightarrow> tlm_inv crc st"
proof (induction rule: telemetry_reachable.induct)
  case (made frame_type sat conf)
  then show ?case by (rule made_inv)
next
  case (worked st sy tags st' m r)
  then show ?case using general_work_inv(1) by blast
next
  case (tow_map st received)
  then show ?case by (simp add: msg_handler_read_galileo_tow_map_def split: option.split)
next
  case (satellite st sat)
  then show ?case by (simp add: tlm_set_satellite_def Let_def sync_inv_def frame_config_def)
next
  case (was_reset st)
  from was_reset.IH show ?case by (rule tlm_reset_inv)
next
  case (channel st n)
  then show ?case by (simp add: tlm_set_channel_def sync_inv_def frame_config_def)
qed

end
