(* ===== verification/Telemetry_Run.thy ===== *)
theory Telemetry_Run
  imports Telemetry_Correct
begin

section \<open>Runs of the telemetry decoder\<close>

text \<open>
  Sequences of calls of the block: what it does between two pages, what it does with a page, and
  with that the whole path from the symbols of two page parts to the message for OSNMA.
\<close>

primrec works ::
  "(byte list \<Rightarrow> nat) \<Rightarrow> libm \<Rightarrow> (gnss_synchro \<times> gnss_time option list) list \<Rightarrow> telemetry \<Rightarrow> (telemetry \<times> tlm_message list) result" where
  "works crc lm [] st = Inr (st, [])"
| "works crc lm (x # xs) st =
     bindr (general_work crc lm x st) (\<lambda>(st1, m1, r).
     if r = Finished then Inr (st1, m1) else bindr (works crc lm xs st1) (\<lambda>(st2, m2). Inr (st2, m1 @ m2)))"

abbreviation symbols_of :: "(gnss_synchro \<times> gnss_time option list) list \<Rightarrow> float32 list" where
  "symbols_of xs \<equiv> map (\<lambda>x. to_float (Prompt_I (fst x))) xs"

definition E1_symbols :: "(gnss_synchro \<times> gnss_time option list) list \<Rightarrow> bool" where
  "E1_symbols xs \<longleftrightarrow> (\<forall>x \<in> set xs. \<exists>cs. sync_Signal (fst x) = CHR ''1'' # cs)"

lemma push_full: "length buf = capacity \<Longrightarrow> push_symbol capacity x buf = drop 1 (buf @ [x])"
  by (simp add: push_symbol_def)

subsection \<open>Between two pages\<close>

text \<open>\<open>tracks st\<close>: a synchronised I/NAV channel that has sent an ephemeris.\<close>

definition tracks :: "(byte list \<Rightarrow> nat) \<Rightarrow> telemetry \<Rightarrow> bool" where
  "tracks crc st \<longleftrightarrow> tlm_inv crc st \<and> d_frame_type st = 1 \<and> d_stat st = 2 \<and> d_first_eph_sent st"

definition kept :: "telemetry \<Rightarrow> telemetry \<Rightarrow> bool" where
  "kept st st' \<longleftrightarrow> d_satellite st' = d_satellite st \<and> d_enable_osnma st' = d_enable_osnma st
     \<and> d_flag_PLL_180_deg_phase_locked st' = d_flag_PLL_180_deg_phase_locked st"

definition waiting :: "telemetry \<Rightarrow> telemetry \<Rightarrow> bool" where
  "waiting st st' \<longleftrightarrow> kept st st' \<and> d_preamble_index st' = d_preamble_index st \<and> d_CRC_error_counter st' = d_CRC_error_counter st
     \<and> d_flag_even_word_arrived st' = d_flag_even_word_arrived st \<and> page_Even (d_inav_nav st') = page_Even (d_inav_nav st)"

lemma kept_trans: "kept a b \<Longrightarrow> kept b c \<Longrightarrow> kept a c"
  by (simp add: kept_def)

lemma waiting_trans: "waiting a b \<Longrightarrow> waiting b c \<Longrightarrow> waiting a c"
  by (simp add: waiting_def kept_def)

lemma tracks_numbers:
  assumes "tracks crc st"
  shows "d_samples_per_preamble st = 10" "d_preamble_period_symbols st = 250" "d_required_symbols st = 510"
    "d_frame_length_symbols st = 240" "length (d_symbol_history st) = 511"
  using assms by (auto simp: tracks_def sync_inv_def frame_config_def frame_numbers)

text \<open>The times of week send nothing to OSNMA.\<close>

lemma update_TOW_osnma:
  assumes "update_TOW sy st = Inr (st', m)"
  shows "osnma_messages m = []"
proof -
  have pub: "osnma_messages (publish_tow sy x) = []" "osnma_messages (snd (publish_packet sy x)) = []" for x
    by (simp_all add: publish_tow_def publish_packet_def Let_def)
  have inav: "osnma_messages n = []" if "inav_TOW_at_preamble sy st = Inr (x, n)" for x n
    using that pub by (auto simp: inav_TOW_at_preamble_def inav_set_TOW_def Let_def bindr_eq_Inr split: if_splits)
  have fnav: "osnma_messages n = []" if "fnav_TOW_at_preamble sy st = Inr (x, n)" for x n
    using that pub by (auto simp: fnav_TOW_at_preamble_def fnav_set_TOW_def Let_def bindr_eq_Inr split: if_splits)
  have out: "osnma_messages m = []" if eq: "bindr r (\<lambda>(st1, m1). let (st2, m2) = publish_packet sy st1 in Inr (st2, m1 @ m2)) = Inr (st', m)"
    and none: "\<And>x n. r = Inr (x, n) \<Longrightarrow> osnma_messages n = []" for r
  proof -
    obtain x n where r: "r = Inr (x, n)" using eq by (cases r) auto
    have "m = n @ snd (publish_packet sy x)" using eq r by (cases "publish_packet sy x") simp
    then show ?thesis using pub(2) none [OF r] by simp
  qed
  show ?thesis
  proof (cases "d_flag_preamble st")
    case True
    consider "d_frame_type st = 1" | "d_frame_type st = 2" | "d_frame_type st = 3" | "d_frame_type st \<notin> {1, 2, 3}" by auto
    then show ?thesis
    proof cases
      case 1
      then show ?thesis using assms True inav by (intro out [of "inav_TOW_at_preamble sy st"]) (simp_all add: update_TOW_def)
    next
      case 2
      then show ?thesis using assms True fnav by (intro out [of "fnav_TOW_at_preamble sy st"]) (simp_all add: update_TOW_def)
    next
      case 3
      then obtain x where "cnav_TOW_at_preamble sy st = Inr x" using assms True by (auto simp: update_TOW_def bindr_eq_Inr)
      then have "m = (if d_E6_TOW_set x then snd (publish_packet sy x) else [])" using assms True 3 by (simp add: update_TOW_def split: if_splits)
      then show ?thesis using pub(2) by simp
    next
      case 4
      then show ?thesis using assms True by (simp add: update_TOW_def)
    qed
  next
    case False
    then show ?thesis using assms by (simp add: update_TOW_def split: if_splits)
  qed
qed

text \<open>A call is its frame synchronisation, with the times of week afterwards.\<close>

lemma tracked_work:
  assumes tr: "tracks crc st" and sig: "sync_Signal sy = CHR ''1'' # cs"
  obtains st3 st4 m4 st' m r where "prepared sy st st3" "tlm_inv crc st3" "stat_2 crc lm sy st3 = Inr (Some st4, m4)"
    "general_work crc lm (sy, tags) st = Inr (st', m, r)" "r \<noteq> Finished" "osnma_messages m = osnma_messages m4" "only_times st4 st'" "tlm_inv crc st'"
    "d_frame_type st' = 1" "d_first_eph_sent st'"
proof -
  have inv: "tlm_inv crc st" "d_frame_type st = 1" "d_stat st = 2" "d_first_eph_sent st" using tr by (simp_all add: tracks_def)
  have s: "sync_Signal sy \<noteq> []" using sig by simp
  obtain st3 m3 where p: "prepared sy st st3" and m3: "osnma_messages m3 = []"
    and eq: "\<And>crc lm. general_work crc lm (sy, tags) st = bindr (frame_sync crc lm sy st3) (\<lambda>(r, m4).
       case r of None \<Rightarrow> Inr (st3, m3 @ m4, Finished)
       | Some st4 \<Rightarrow> bindr (update_TOW sy st4) (\<lambda>(st5, m5).
          let st6 = update_delta_t st5
          in Inr (st6, m3 @ m4 @ m5, case output_symbol sy st6 of Some out \<Rightarrow> Produced out | None \<Rightarrow> Nothing)))"
    by (rule general_work_start [OF s]) blast
  note i3 = prepared_inv [OF p inv(1)] and f3 = prepared_frame [OF p]
  have "fit st3" using f3 inv by (simp add: fit_def)
  then obtain st4 m4 where f: "frame_sync crc lm sy st3 = Inr (Some st4, m4)" using frame_sync_ok [OF i3] by blast
  then have i4: "tlm_inv crc st4" "d_frame_type st4 = 1" using frame_sync_inv [OF i3 f] f3 inv by auto
  then have "nav_inv crc (d_inav_nav st4) (d_fnav_nav st4) (d_flag_even_word_arrived st4)" "d_frame_type st4 \<in> {1, 2}" by auto
  then obtain st5 m5 where u: "update_TOW sy st4 = Inr (st5, m5)" using update_TOW_ok by blast
  note i5 = update_TOW_inv [OF i4(1) u] and m5 = update_TOW_osnma [OF u]
  define r where "r = (case output_symbol sy (update_delta_t st5) of Some out \<Rightarrow> Produced out | None \<Rightarrow> Nothing)"
  have work: "general_work crc lm (sy, tags) st = Inr (update_delta_t st5, m3 @ m4 @ m5, r)"
    using eq [of crc lm] f u by (simp add: Let_def r_def)
  note iw = general_work_inv [OF inv(1) work]
  show ?thesis
  proof (rule that [OF p i3 _ work iw(4) _ _ iw(1)])
    show "stat_2 crc lm sy st3 = Inr (Some st4, m4)" using f f3 inv by (simp add: frame_sync_def)
    show "only_times st4 (update_delta_t st5)" by (rule only_times_trans [OF i5(1) update_delta_t_frame(1)])
  qed (use iw inv m3 m5 in simp_all)
qed

lemma quiet_call:
  assumes tr: "tracks crc st" and sig: "sync_Signal sy = CHR ''1'' # cs"
    and off: "d_symbol_counter st + 1 \<noteq> d_preamble_index st + 250"
  obtains st' m r where "general_work crc lm (sy, tags) st = Inr (st', m, r)" "r \<noteq> Finished" "tracks crc st'" "waiting st st'"
    "d_symbol_counter st' = d_symbol_counter st + 1"
    "d_symbol_history st' = drop 1 (d_symbol_history st @ [to_float (Prompt_I sy)])" "osnma_messages m = []"
proof -
  obtain st3 st4 m4 st' m r where w: "prepared sy st st3" "tlm_inv crc st3" "stat_2 crc lm sy st3 = Inr (Some st4, m4)"
    "general_work crc lm (sy, tags) st = Inr (st', m, r)" "r \<noteq> Finished" "osnma_messages m = osnma_messages m4" "only_times st4 st'" "tlm_inv crc st'"
    "d_frame_type st' = 1" "d_first_eph_sent st'"
    by (rule tracked_work [OF tr sig])
  note f3 = prepared_frame [OF w(1)] and n = tracks_numbers [OF tr]
  have st2: "d_stat st3 = 2" using f3 tr by (simp add: tracks_def)
  have "d_preamble_period_symbols st3 = 250" using w(1) n by (auto simp: prepared_def)
  then have "st4 = st3" "m4 = []" using w(3) off f3 by (simp_all add: stat_2_def)
  then have ot: "only_times st3 st'" and none: "osnma_messages m = []" using w(6,7) by simp_all
  show ?thesis
  proof (rule that [OF w(4,5)])
    show "tracks crc st'" using w(8,9,10) ot st2 by (simp add: tracks_def only_times_def same_sync_def)
    show "waiting st st'" using ot f3 by (simp add: waiting_def kept_def only_times_def same_sync_def)
    show "d_symbol_counter st' = d_symbol_counter st + 1" using ot f3 by (simp add: only_times_def same_sync_def)
    show "d_symbol_history st' = drop 1 (d_symbol_history st @ [to_float (Prompt_I sy)])"
      using ot f3 n by (simp add: only_times_def same_sync_def push_full)
    show "osnma_messages m = []" by (rule none)
  qed
qed

lemma word64_small: "n < 249 \<Longrightarrow> (c :: 64 word) + of_nat n + 1 \<noteq> c + 250"
proof
  assume n: "n < 249" and eq: "(c :: 64 word) + of_nat n + 1 = c + 250"
  have "(of_nat (n + 1) :: 64 word) = of_nat 250" using eq by (simp add: add.assoc add.commute)
  then have "take_bit 64 (n + 1) = take_bit 64 (250 :: nat)" by (simp only: word_of_nat_eq_iff) simp
  then show False using n by (simp add: take_bit_nat_eq_self)
qed

lemma quiet_calls:
  assumes "tracks crc st" and "E1_symbols xs" and "d_symbol_counter st = d_preamble_index st + of_nat k" and "k + length xs \<le> 249"
  shows "\<exists>st' m. works crc lm xs st = Inr (st', m) \<and> tracks crc st' \<and> waiting st st'
    \<and> d_symbol_counter st' = d_preamble_index st' + of_nat (k + length xs)
    \<and> d_symbol_history st' = drop (length xs) (d_symbol_history st @ symbols_of xs) \<and> osnma_messages m = []"
  using assms
proof (induction xs arbitrary: st k)
  case Nil
  then show ?case by (simp add: waiting_def kept_def)
next
  case (Cons x xs)
  obtain sy tags where x: "x = (sy, tags)" by (rule prod.exhaust)
  obtain cs where sig: "sync_Signal sy = CHR ''1'' # cs" using Cons.prems(2) by (auto simp: E1_symbols_def x)
  have off: "d_symbol_counter st + 1 \<noteq> d_preamble_index st + 250"
    using word64_small [of k "d_preamble_index st"] Cons.prems(3,4) by simp
  obtain st1 m1 r where s1: "general_work crc lm (sy, tags) st = Inr (st1, m1, r)" "r \<noteq> Finished" "tracks crc st1" "waiting st st1"
    "d_symbol_counter st1 = d_symbol_counter st + 1"
    "d_symbol_history st1 = drop 1 (d_symbol_history st @ [to_float (Prompt_I sy)])" "osnma_messages m1 = []"
    by (rule quiet_call [OF Cons.prems(1) sig off])
  have c1: "d_symbol_counter st1 = d_preamble_index st1 + of_nat (Suc k)"
    using s1(4,5) Cons.prems(3) by (simp add: waiting_def algebra_simps)
  obtain st2 m2 where s2: "works crc lm xs st1 = Inr (st2, m2)" "tracks crc st2" "waiting st1 st2"
    "d_symbol_counter st2 = d_preamble_index st2 + of_nat (Suc k + length xs)"
    "d_symbol_history st2 = drop (length xs) (d_symbol_history st1 @ symbols_of xs)" "osnma_messages m2 = []"
    using Cons.IH [OF s1(3) _ c1] Cons.prems(2,4) by (auto simp: E1_symbols_def)
  have "works crc lm (x # xs) st = Inr (st2, m1 @ m2)" using s1(1,2) s2(1) by (simp add: x)
  moreover have "d_symbol_history st2 = drop (length (x # xs)) (d_symbol_history st @ symbols_of (x # xs))"
    using tracks_numbers(5) [OF Cons.prems(1)] unfolding s2(5) s1(6) by (cases "d_symbol_history st") (simp_all add: x)
  ultimately show ?case using s2 s1(7) waiting_trans [OF s1(4) s2(3)] by simp
qed

subsection \<open>A page\<close>

lemma inav_push_all_frame:
  assumes "inav_push_all lm st = Inr (st', m)"
  shows "page_Even (d_inav_nav st') = page_Even (d_inav_nav st)" "get_flag_CRC_test (d_inav_nav st') = get_flag_CRC_test (d_inav_nav st)"
    "osnma_messages m = []"
proof -
  define same where "same x y \<longleftrightarrow> page_Even (d_inav_nav y) = page_Even (d_inav_nav x) \<and> get_flag_CRC_test (d_inav_nav y) = get_flag_CRC_test (d_inav_nav x)"
    for x y :: telemetry
  have eph: "same st st2 \<and> osnma_messages m2 = []" if "inav_push_ephemeris lm st = Inr (st2, m2)" for st2 m2
  proof -
    obtain nav new where e: "have_new_ephemeris (d_inav_nav st) = (nav, new)" by (rule prod.exhaust)
    obtain nav2 new2 where r: "have_new_reduced_ced nav = (nav2, new2)" by (rule prod.exhaust)
    have "page_Even nav = page_Even (d_inav_nav st)" "page_Even nav2 = page_Even nav"
      "get_flag_CRC_test nav = get_flag_CRC_test (d_inav_nav st)" "get_flag_CRC_test nav2 = get_flag_CRC_test nav"
      using page_Even_frame(1) [of "d_inav_nav st"] page_Even_frame(5) [of nav] CRC_flag_frame(1) [of "d_inav_nav st"] CRC_flag_frame(5) [of nav] e r
      by simp_all
    then show ?thesis using that by (auto simp: inav_push_ephemeris_def e r Let_def bindr_eq_Inr same_def split: if_splits)
  qed
  have iono: "same x (fst (inav_push_iono x)) \<and> osnma_messages (snd (inav_push_iono x)) = []" for x
    using page_Even_frame(2) [of "d_inav_nav x"] CRC_flag_frame(2) [of "d_inav_nav x"]
    by (cases "have_new_iono_and_GST (d_inav_nav x)") (simp add: inav_push_iono_def Let_def same_def)
  have utc: "same x (fst (inav_push_utc x)) \<and> osnma_messages (snd (inav_push_utc x)) = []" for x
    using page_Even_frame(3) [of "d_inav_nav x"] CRC_flag_frame(3) [of "d_inav_nav x"]
    by (cases "have_new_utc_model (d_inav_nav x)") (simp add: inav_push_utc_def Let_def same_def)
  have alm: "same x (fst (inav_push_almanac x)) \<and> osnma_messages (snd (inav_push_almanac x)) = []" for x
    using page_Even_frame(4) [of "d_inav_nav x"] CRC_flag_frame(4) [of "d_inav_nav x"]
    by (cases "have_new_almanac (d_inav_nav x)") (simp add: inav_push_almanac_def Let_def same_def)
  obtain st2 m2 where s2: "inav_push_ephemeris lm st = Inr (st2, m2)" using assms by (auto simp: inav_push_all_def bindr_eq_Inr)
  define st3 st4 where "st3 = fst (inav_push_iono st2)" and "st4 = fst (inav_push_utc st3)"
  have "st' = fst (inav_push_almanac st4)" "m = m2 @ snd (inav_push_iono st2) @ snd (inav_push_utc st3) @ snd (inav_push_almanac st4)"
    using assms s2 by (auto simp: inav_push_all_def Let_def st3_def st4_def split: prod.splits)
  then show "page_Even (d_inav_nav st') = page_Even (d_inav_nav st)" "get_flag_CRC_test (d_inav_nav st') = get_flag_CRC_test (d_inav_nav st)"
    "osnma_messages m = []"
    using eph [OF s2] iono [of st2] utc [of st3] alm [of st4] by (simp_all add: same_def st3_def [symmetric] st4_def [symmetric])
qed

text \<open>The symbols of a page in the buffer, with the sign that the phase of the carrier asks for.\<close>

definition in_phase :: "bool \<Rightarrow> float32 list \<Rightarrow> float32 list" where
  "in_phase flipped symbols = (if flipped then map uminus symbols else symbols)"

abbreviation page_in :: "bool \<Rightarrow> float32 list \<Rightarrow> float32 list" where
  "page_in flipped history \<equiv> in_phase flipped (take 240 (drop 10 history))"

lemma hd_bits: "length bits = 114 \<Longrightarrow> hd (map of_bool bits @ replicate 6 0) = (of_bool (hd bits) :: nat)"
  by (cases bits) simp_all

text \<open>The navigation data after a page, and what its odd part publishes.\<close>

definition page_published :: "telemetry \<Rightarrow> galileo_inav_message \<Rightarrow> bool list \<Rightarrow> galileo_osnma list" where
  "page_published st nav bits =
     (if hd bits \<and> get_flag_CRC_test nav \<and> d_enable_osnma st then [(get_osnma nav)\<lparr>osnma_PRN := int (sat_PRN (d_satellite st))\<rparr>] else [])"

lemma inav_page_part_odd:
  assumes "inav_page_part crc (map of_bool bits @ replicate 6 0) page st = Inr (st1, m1)" and "length bits = 114" and "d_band st = CHR ''1''"
  obtains nav where "split_page crc page (d_flag_even_word_arrived st) (d_inav_nav st) = Inr nav"
    "st1 = st\<lparr>d_inav_nav := nav, d_flag_even_word_arrived := (if hd bits then 0 else 1)\<rparr>"
    "osnma_messages m1 = page_published st nav bits"
proof -
  obtain b bs where bits: "bits = b # bs" using assms(2) by (cases bits) auto
  obtain nav where nav: "split_page crc page (d_flag_even_word_arrived st) (d_inav_nav st) = Inr nav"
    using assms(1) by (auto simp: inav_page_part_def bits bindr_eq_Inr)
  show ?thesis
    by (rule that [OF nav]) (use assms(1,3) nav in \<open>auto simp: inav_page_part_def bits Let_def page_published_def split: if_splits\<close>)
qed

lemma decode_page_part:
  assumes inv: "tlm_inv crc st" and ft: "d_frame_type st = 1" "d_first_eph_sent st" "d_band st = CHR ''1''" and len: "length bits = 114"
    and recv: "received_page 8 30 bits symbols"
  obtains st5 m5 nav where "decode_INAV_word crc lm symbols (d_frame_length_symbols st) st = Inr (st5, m5)"
    "split_page crc (page_text bits) (d_flag_even_word_arrived st) (d_inav_nav st) = Inr nav"
    "page_Even (d_inav_nav st5) = page_Even nav" "get_flag_CRC_test (d_inav_nav st5) = get_flag_CRC_test nav"
    "d_flag_even_word_arrived st5 = (if hd bits then 0 else 1)" "osnma_messages m5 = page_published st nav bits"
proof -
  have vit: "viterbi_wf 114 (d_viterbi st)" and fl: "d_frame_length_symbols st = 8 * 30"
    using inv ft by (simp_all add: sync_inv_def frame_config_def data_bits_def frame_numbers)
  obtain v where v: "decode_symbols 8 30 symbols (8 * 30) (d_viterbi st) = Inr (v, map of_bool bits @ replicate 6 0, page_text bits)"
    using decode_symbols_ok [OF vit len _ recv] by auto
  let ?st = "monitor_page (page_text bits) (st\<lparr>d_viterbi := v\<rparr>)"
  obtain st5 m where d: "decode_INAV_word crc lm symbols (d_frame_length_symbols st) st = Inr (st5, m)"
    using decode_INAV_ok [OF inv ft(1)] ft(2) by blast
  then obtain st1 m1 m5 where p: "inav_page_part crc (map of_bool bits @ replicate 6 0) (page_text bits) ?st = Inr (st1, m1)"
    and a: "inav_push_all lm st1 = Inr (st5, m5)" and m: "m = m1 @ m5"
    unfolding decode_INAV_word_push fl v by (auto simp: bindr_eq_Inr)
  have band: "d_band ?st = CHR ''1''" using ft(3) by simp
  obtain nav where nav: "split_page crc (page_text bits) (d_flag_even_word_arrived ?st) (d_inav_nav ?st) = Inr nav"
    "st1 = ?st\<lparr>d_inav_nav := nav, d_flag_even_word_arrived := (if hd bits then 0 else 1)\<rparr>"
    "osnma_messages m1 = page_published ?st nav bits"
    by (rule inav_page_part_odd [OF p len band])
  have "d_flag_even_word_arrived st5 = d_flag_even_word_arrived st1"
  proof -
    have "nav_inv crc (d_inav_nav st) (d_fnav_nav st) (d_flag_even_word_arrived st)" using inv by blast
    then have n: "nav_inv crc (d_inav_nav ?st) (d_fnav_nav ?st) (d_flag_even_word_arrived ?st)" by simp
    have l: "length (map of_bool bits @ replicate 6 (0::nat)) = 120" using len by simp
    have h: "hd (map of_bool bits @ replicate 6 (0::nat)) = 1 \<longleftrightarrow> 0 < hd (map of_bool bits @ replicate 6 (0::nat))"
      unfolding hd_bits [OF len] by simp
    have pg: "page_string_of (map of_bool bits @ replicate 6 0) = page_text bits" by (simp add: page_string_of_def page_text_def bit_char_def)
    obtain nav' e m' where "inav_page_part crc (map of_bool bits @ replicate 6 0) (page_text bits) ?st
        = Inr (?st\<lparr>d_inav_nav := nav', d_flag_even_word_arrived := e\<rparr>, m')" "nav_inv crc nav' (d_fnav_nav ?st) e"
      by (rule inav_page_part_ok [OF n l h]) (unfold pg, blast)
    then have "nav_inv crc (d_inav_nav st1) (d_fnav_nav st1) (d_flag_even_word_arrived st1)" using p by simp
    then show ?thesis by (rule inav_push_all_inv(4) [OF a])
  qed
  then show ?thesis using that [OF d, of nav] nav inav_push_all_frame [OF a] m by (simp add: page_published_def)
qed

lemma after_page_kept:
  assumes "d_stat st = 2" and "d_CRC_error_counter st < 6"
  shows "kept st (fst (after_page st))" "d_stat (fst (after_page st)) = 2" "d_preamble_index (fst (after_page st)) = d_symbol_counter st"
    "d_symbol_counter (fst (after_page st)) = d_symbol_counter st" "d_symbol_history (fst (after_page st)) = d_symbol_history st"
    "page_Even (d_inav_nav (fst (after_page st))) = page_Even (d_inav_nav st)"
    "0 \<le> d_CRC_error_counter st \<Longrightarrow> d_CRC_error_counter (fst (after_page st)) \<le> d_CRC_error_counter st + 1"
    "get_flag_CRC_test (d_inav_nav st) \<Longrightarrow> d_CRC_error_counter (fst (after_page st)) = 0" "osnma_messages (snd (after_page st)) = []"
  using assms by (simp_all add: after_page_def Let_def kept_def CRC_ERROR_LIMIT_def any_crc_ok_def tow_unknown_def)

lemma page_call:
  assumes tr: "tracks crc st" and sig: "sync_Signal sy = CHR ''1'' # cs" and crc: "d_CRC_error_counter st < 6"
    and on: "d_symbol_counter st + 1 = d_preamble_index st + 250" and len: "length bits = 114"
    and recv: "received_page 8 30 bits (page_in (d_flag_PLL_180_deg_phase_locked st) (drop 1 (d_symbol_history st @ [to_float (Prompt_I sy)])))"
  obtains st' m r nav where "general_work crc lm (sy, tags) st = Inr (st', m, r)" "r \<noteq> Finished" "tracks crc st'" "kept st st'"
    "d_symbol_counter st' = d_preamble_index st'" "d_symbol_history st' = drop 1 (d_symbol_history st @ [to_float (Prompt_I sy)])"
    "d_CRC_error_counter st' \<le> d_CRC_error_counter st + 1" "get_flag_CRC_test nav \<longrightarrow> d_CRC_error_counter st' = 0"
    "split_page crc (page_text bits) (d_flag_even_word_arrived st) (d_inav_nav st) = Inr nav"
    "page_Even (d_inav_nav st') = page_Even nav" "d_flag_even_word_arrived st' = (if hd bits then 0 else 1)"
    "osnma_messages m = page_published st nav bits"
proof -
  obtain st3 st4 m4 st' m r where w: "prepared sy st st3" "tlm_inv crc st3" "stat_2 crc lm sy st3 = Inr (Some st4, m4)"
    "general_work crc lm (sy, tags) st = Inr (st', m, r)" "r \<noteq> Finished" "osnma_messages m = osnma_messages m4" "only_times st4 st'" "tlm_inv crc st'"
    "d_frame_type st' = 1" "d_first_eph_sent st'"
    by (rule tracked_work [OF tr sig])
  note f3 = prepared_frame [OF w(1)] and n = tracks_numbers [OF tr]
  have st3: "d_stat st3 = 2" "d_frame_type st3 = 1" "d_first_eph_sent st3" "d_preamble_period_symbols st3 = 250" "d_samples_per_preamble st3 = 10"
    "d_frame_length_symbols st3 = 240" "d_symbol_history st3 = drop 1 (d_symbol_history st @ [to_float (Prompt_I sy)])" "d_band st3 = CHR ''1''"
    using f3 tr n w(1) sig by (auto simp: tracks_def prepared_def push_full)
  define pg where "pg = page_in (d_flag_PLL_180_deg_phase_locked st) (drop 1 (d_symbol_history st @ [to_float (Prompt_I sy)]))"
  let ?st = "st3\<lparr>d_page_part_symbols := pg\<rparr>"
  have fetch: "fetch_page st3 = Inr ?st" using st3 n f3 by (simp add: fetch_page_def pg_def in_phase_def Let_def)
  have i: "tlm_inv crc ?st" using w(2) by simp
  have ft: "d_frame_type ?st = 1" "d_first_eph_sent ?st" "d_band ?st = CHR ''1''" using st3 by simp_all
  obtain st5 m5 nav where d: "decode_INAV_word crc lm pg (d_frame_length_symbols ?st) ?st = Inr (st5, m5)"
    "split_page crc (page_text bits) (d_flag_even_word_arrived ?st) (d_inav_nav ?st) = Inr nav"
    "page_Even (d_inav_nav st5) = page_Even nav" "get_flag_CRC_test (d_inav_nav st5) = get_flag_CRC_test nav"
    "d_flag_even_word_arrived st5 = (if hd bits then 0 else 1)" "osnma_messages m5 = page_published ?st nav bits"
    by (rule decode_page_part [OF i ft len recv [folded pg_def]])
  have ss: "same_sync ?st st5" by (rule decode_INAV_inv(2) [OF i ft(1) d(1)])
  have st4: "st4 = fst (after_page st5)" "m4 = m5 @ snd (after_page st5)"
    using w(3) d(1) fetch st3 on f3 by (auto simp: stat_2_def Let_def split: prod.splits)
  have s5: "d_stat st5 = 2" "d_CRC_error_counter st5 < 6" "0 \<le> d_CRC_error_counter st5"
    using ss st3 f3 crc w(2) by (simp_all add: same_sync_def sync_inv_def)
  note a = after_page_kept [OF s5(1,2)]
  show ?thesis
  proof (rule that [OF w(4,5), of nav])
    show "tracks crc st'" using w a(2) by (simp add: tracks_def only_times_def same_sync_def st4)
    show "kept st st'" using w(7) a(1) ss f3 by (simp add: st4 kept_def only_times_def same_sync_def)
    show "d_symbol_counter st' = d_preamble_index st'" using w(7) a(3,4) by (simp add: st4 only_times_def same_sync_def)
    show "d_symbol_history st' = drop 1 (d_symbol_history st @ [to_float (Prompt_I sy)])"
      using w(7) a(5) ss st3(7) by (simp add: st4 only_times_def same_sync_def)
    show "d_CRC_error_counter st' \<le> d_CRC_error_counter st + 1"
      using w(7) a(7) [OF s5(3)] ss f3 by (simp add: st4 only_times_def same_sync_def)
    show "get_flag_CRC_test nav \<longrightarrow> d_CRC_error_counter st' = 0" using w(7) a(8) d(4) by (simp add: st4 only_times_def same_sync_def)
    show "split_page crc (page_text bits) (d_flag_even_word_arrived st) (d_inav_nav st) = Inr nav" using d(2) f3 by simp
    show "page_Even (d_inav_nav st') = page_Even nav" using w(7) a(6) d(3) by (simp add: st4 only_times_def)
    show "d_flag_even_word_arrived st' = (if hd bits then 0 else 1)"
      using w(7) d(5) after_page_frame(1) [of st5] by (simp add: st4 only_times_def)
    show "osnma_messages m = page_published st nav bits" using w(6) d(6) a(9) f3 by (simp add: st4 page_published_def)
  qed
qed

subsection \<open>Two page parts\<close>

lemma works_append:
  assumes "tlm_inv crc st"
  shows "works crc lm (xs @ ys) st = bindr (works crc lm xs st) (\<lambda>(st1, m1). bindr (works crc lm ys st1) (\<lambda>(st2, m2). Inr (st2, m1 @ m2)))"
  using assms
proof (induction xs arbitrary: st)
  case Nil
  then show ?case by (cases "works crc lm ys st") auto
next
  case (Cons x xs)
  obtain sy tags where x: "x = (sy, tags)" by (rule prod.exhaust)
  show ?case
  proof (cases "general_work crc lm x st")
    case (Inr w)
    obtain st1 m1 r where w: "w = (st1, m1, r)" by (cases w)
    note i = general_work_inv [OF Cons.prems Inr [unfolded x w]]
    show ?thesis
      using Cons.IH [OF i(1)] i(4) by (cases "works crc lm xs st1") (auto simp: Inr w bindr_def split: sum.split prod.split)
  qed simp
qed

text \<open>The 250 symbols up to the next page.\<close>

lemma page_cycle:
  assumes tr: "tracks crc st" and c: "d_symbol_counter st = d_preamble_index st" and crc: "d_CRC_error_counter st < 6"
    and xs: "E1_symbols xs" "length xs = 250" and len: "length bits = 114"
    and recv: "received_page 8 30 bits (page_in (d_flag_PLL_180_deg_phase_locked st) (drop 250 (d_symbol_history st @ symbols_of xs)))"
  obtains st' m before nav where "works crc lm xs st = Inr (st', m)" "tracks crc st'" "kept st st'"
    "d_symbol_counter st' = d_preamble_index st'" "d_symbol_history st' = drop 250 (d_symbol_history st @ symbols_of xs)"
    "d_CRC_error_counter st' \<le> d_CRC_error_counter st + 1" "get_flag_CRC_test nav \<longrightarrow> d_CRC_error_counter st' = 0"
    "page_Even before = page_Even (d_inav_nav st)" "split_page crc (page_text bits) (d_flag_even_word_arrived st) before = Inr nav"
    "page_Even (d_inav_nav st') = page_Even nav" "d_flag_even_word_arrived st' = (if hd bits then 0 else 1)"
    "osnma_messages m = page_published st nav bits"
proof -
  obtain ys x where xs': "xs = ys @ [x]" "length ys = 249" using xs(2) by (cases xs rule: rev_cases) auto
  obtain sy tags where x: "x = (sy, tags)" by (rule prod.exhaust)
  obtain cs where sig: "sync_Signal sy = CHR ''1'' # cs" using xs(1) by (auto simp: E1_symbols_def xs' x)
  have c0: "d_symbol_counter st = d_preamble_index st + of_nat 0" using c by simp
  obtain st1 m1 where s1: "works crc lm ys st = Inr (st1, m1)" "tracks crc st1" "waiting st st1"
    "d_symbol_counter st1 = d_preamble_index st1 + of_nat 249" "d_symbol_history st1 = drop 249 (d_symbol_history st @ symbols_of ys)"
    "osnma_messages m1 = []"
    using quiet_calls [OF tr _ c0, of ys lm] xs(1) xs'(2) by (auto simp: E1_symbols_def xs'(1))
  have h: "drop 1 (d_symbol_history st1 @ [to_float (Prompt_I sy)]) = drop 250 (d_symbol_history st @ symbols_of xs)"
    using s1(5) tracks_numbers(5) [OF tr] xs'(2) by (simp add: xs'(1) x)
  have on: "d_symbol_counter st1 + 1 = d_preamble_index st1 + 250" using s1(4) by simp
  have wt: "d_CRC_error_counter st1 = d_CRC_error_counter st" "page_Even (d_inav_nav st1) = page_Even (d_inav_nav st)"
    "d_flag_even_word_arrived st1 = d_flag_even_word_arrived st" "d_enable_osnma st1 = d_enable_osnma st" "d_satellite st1 = d_satellite st"
    "d_flag_PLL_180_deg_phase_locked st1 = d_flag_PLL_180_deg_phase_locked st"
    using s1(3) by (simp_all add: waiting_def kept_def)
  have c1: "d_CRC_error_counter st1 < 6" using crc wt(1) by simp
  obtain st' m r nav where s2: "general_work crc lm (sy, tags) st1 = Inr (st', m, r)" "r \<noteq> Finished" "tracks crc st'" "kept st1 st'"
    "d_symbol_counter st' = d_preamble_index st'" "d_symbol_history st' = drop 1 (d_symbol_history st1 @ [to_float (Prompt_I sy)])"
    "d_CRC_error_counter st' \<le> d_CRC_error_counter st1 + 1" "get_flag_CRC_test nav \<longrightarrow> d_CRC_error_counter st' = 0"
    "split_page crc (page_text bits) (d_flag_even_word_arrived st1) (d_inav_nav st1) = Inr nav"
    "page_Even (d_inav_nav st') = page_Even nav" "d_flag_even_word_arrived st' = (if hd bits then 0 else 1)"
    "osnma_messages m = page_published st1 nav bits"
    by (rule page_call [OF s1(2) sig c1 on len recv [folded h wt(6)]])
  have "tlm_inv crc st" using tr by (simp add: tracks_def)
  then have run: "works crc lm xs st = Inr (st', m1 @ m)"
    unfolding xs'(1) by (subst works_append) (simp_all add: s1(1) x s2(1,2))
  have k: "kept st st'" using s1(3) s2(4) by (simp add: waiting_def kept_def)
  have pp: "page_published st1 nav bits = page_published st nav bits" using wt by (simp add: page_published_def)
  show ?thesis
    by (rule that [where before = "d_inav_nav st1" and nav = nav, OF run s2(3) k s2(5)])
      (use s2 h wt pp s1(6) in simp_all)
qed

text \<open>The page pair as OSNMA gets it.\<close>

definition osnma_of_pages :: "nat \<Rightarrow> bool list \<Rightarrow> bool list \<Rightarrow> galileo_osnma" where
  "osnma_of_pages prn pe po = \<lparr>osnma_PRN = int prn, OSNMA_data = map bit_char (take 40 (drop 18 po)),
     osnma_nav_data = map bit_char (take 112 (drop 2 pe) @ take 16 (drop 2 po))\<rparr>"

text \<open>An even and an odd page part with a right CRC, and their symbols in a stream: the pair at place \<open>k\<close>.\<close>

definition good_pair :: "(byte list \<Rightarrow> nat) \<Rightarrow> bool list \<Rightarrow> bool list \<Rightarrow> bool" where
  "good_pair crc pe po \<longleftrightarrow> length pe = 114 \<and> length po = 114 \<and> \<not> hd pe \<and> hd po \<and> crc_ok crc (map bit_char pe @ page_text po)"

definition carried :: "bool \<Rightarrow> float32 list \<Rightarrow> nat \<Rightarrow> bool list \<Rightarrow> bool list \<Rightarrow> bool" where
  "carried flipped stream k pe po \<longleftrightarrow>
     received_page 8 30 pe (in_phase flipped (take 240 (drop (500 * k + 260) stream))) \<and>
     received_page 8 30 po (in_phase flipped (take 240 (drop (500 * k + 510) stream)))"

lemma split_odd_osnma:
  assumes "length pe = 114" "length po = 114" "hd po" "crc_ok crc (map bit_char pe @ page_text po)"
    and "page_Even nav = map bit_char pe" and "split_page crc (page_text po) 1 nav = Inr nav'"
  shows "get_flag_CRC_test nav'" "(get_osnma nav')\<lparr>osnma_PRN := int prn\<rparr> = osnma_of_pages prn pe po"
proof -
  obtain cs where po: "page_text po = CHR ''1'' # cs"
    using assms(2,3) by (cases po) (simp_all add: page_text_def bit_char_def)
  have b: "bin_string (map bit_char pe @ page_text po)" "length (map bit_char pe @ page_text po) = 234"
    using assms(1,2) by (auto simp: page_text_def bin_simps)
  have "split_page crc (page_text po) 1 nav = split_odd crc (map bit_char pe @ page_text po) nav"
    unfolding po by (simp add: split_page_def assms(5))
  then have s: "split_odd crc (map bit_char pe @ page_text po) nav = Inr nav'" using assms(6) by simp
  then show "get_flag_CRC_test nav'" unfolding split_odd_page [OF b] using assms(4) by (auto simp: get_flag_CRC_test_def)
  have "data_OSNMA nav' = page_osnma (map bit_char pe @ page_text po)" "data_nav nav' = page_word (map bit_char pe @ page_text po)"
    using s unfolding split_odd_page [OF b] using assms(4) by auto
  then show "(get_osnma nav')\<lparr>osnma_PRN := int prn\<rparr> = osnma_of_pages prn pe po"
    using assms(1,2) by (simp add: get_osnma_def osnma_of_pages_def page_osnma_def page_word_def page_text_def take_map drop_map)
qed

lemma pair_cycle:
  assumes st: "tracks crc st" "d_symbol_counter st = d_preamble_index st" "d_CRC_error_counter st < 5" "d_enable_osnma st"
    and xs: "E1_symbols xs" "length xs = 500" and pair: "good_pair crc pe po"
    and car: "carried (d_flag_PLL_180_deg_phase_locked st) (d_symbol_history st @ symbols_of xs) 0 pe po"
  obtains st' m where "works crc lm xs st = Inr (st', m)" "tracks crc st'" "kept st st'" "d_symbol_counter st' = d_preamble_index st'"
    "d_CRC_error_counter st' = 0" "d_symbol_history st' = drop 500 (d_symbol_history st @ symbols_of xs)"
    "osnma_messages m = [osnma_of_pages (sat_PRN (d_satellite st)) pe po]"
proof -
  have bits: "length pe = 114" "length po = 114" "\<not> hd pe" "hd po" "crc_ok crc (map bit_char pe @ page_text po)"
    using pair by (simp_all add: good_pair_def)
  define ys zs where "ys = take 250 xs" and "zs = drop 250 xs"
  have xs': "xs = ys @ zs" "E1_symbols ys" "E1_symbols zs" "length ys = 250" "length zs = 250"
    using xs set_take_subset [of 250 xs] set_drop_subset [of 250 xs] by (auto simp: ys_def zs_def E1_symbols_def)
  have h: "length (d_symbol_history st) = 511" by (rule tracks_numbers(5) [OF st(1)])
  have e: "take 240 (drop 10 (drop 250 (d_symbol_history st @ symbols_of ys))) = take 240 (drop (500 * 0 + 260) (d_symbol_history st @ symbols_of xs))"
    using h xs'(4) by (simp add: xs'(1))
  have c0: "d_CRC_error_counter st < 6" using st(3) by simp
  have pe: "received_page 8 30 pe (in_phase (d_flag_PLL_180_deg_phase_locked st) (take 240 (drop (500 * 0 + 260) (d_symbol_history st @ symbols_of xs))))"
    and po: "received_page 8 30 po (in_phase (d_flag_PLL_180_deg_phase_locked st) (take 240 (drop (500 * 0 + 510) (d_symbol_history st @ symbols_of xs))))"
    using car unfolding carried_def by blast+
  obtain st1 m1 nava nav where s1: "works crc lm ys st = Inr (st1, m1)" "tracks crc st1" "kept st st1" "d_symbol_counter st1 = d_preamble_index st1"
    "d_symbol_history st1 = drop 250 (d_symbol_history st @ symbols_of ys)" "d_CRC_error_counter st1 \<le> d_CRC_error_counter st + 1"
    "get_flag_CRC_test nav \<longrightarrow> d_CRC_error_counter st1 = 0" "page_Even nava = page_Even (d_inav_nav st)"
    "split_page crc (page_text pe) (d_flag_even_word_arrived st) nava = Inr nav"
    "page_Even (d_inav_nav st1) = page_Even nav" "d_flag_even_word_arrived st1 = (if hd pe then 0 else 1)"
    "osnma_messages m1 = page_published st nav pe"
    by (rule page_cycle [OF st(1,2) c0 xs'(2,4) bits(1) pe [folded e]])
  have even: "page_Even (d_inav_nav st1) = map bit_char pe"
  proof -
    obtain c cs where page: "page_text pe = c # cs" "c \<noteq> CHR ''1''" using bits(1,3) by (cases pe) (auto simp: page_text_def bit_char_def)
    have "take 114 (page_text pe) = map bit_char pe" using bits(1) by (simp add: page_text_def)
    moreover have "nav = nava\<lparr>page_Even := take 114 (page_text pe)\<rparr>"
      using s1(9) page bits(1) by (simp add: split_page_def page_text_def split: if_splits)
    ultimately show ?thesis using s1(10) by simp
  qed
  have o: "take 240 (drop 10 (drop 250 (d_symbol_history st1 @ symbols_of zs))) = take 240 (drop (500 * 0 + 510) (d_symbol_history st @ symbols_of xs))"
    using h xs'(4) s1(5) by (simp add: xs'(1))
  have k: "d_flag_PLL_180_deg_phase_locked st1 = d_flag_PLL_180_deg_phase_locked st" "d_enable_osnma st1" "d_satellite st1 = d_satellite st"
    using s1(3) st(4) by (simp_all add: kept_def)
  have c1: "d_CRC_error_counter st1 < 6" using s1(6) st(3) by simp
  obtain st2 m2 navb nav2 where s2: "works crc lm zs st1 = Inr (st2, m2)" "tracks crc st2" "kept st1 st2" "d_symbol_counter st2 = d_preamble_index st2"
    "d_symbol_history st2 = drop 250 (d_symbol_history st1 @ symbols_of zs)" "d_CRC_error_counter st2 \<le> d_CRC_error_counter st1 + 1"
    "get_flag_CRC_test nav2 \<longrightarrow> d_CRC_error_counter st2 = 0" "page_Even navb = page_Even (d_inav_nav st1)"
    "split_page crc (page_text po) (d_flag_even_word_arrived st1) navb = Inr nav2"
    "page_Even (d_inav_nav st2) = page_Even nav2" "d_flag_even_word_arrived st2 = (if hd po then 0 else 1)"
    "osnma_messages m2 = page_published st1 nav2 po"
    by (rule page_cycle [OF s1(2,4) c1 xs'(3,5) bits(2) po [folded o k(1)]])
  have n: "page_Even navb = map bit_char pe" using s2(8) even by simp
  have sp: "split_page crc (page_text po) 1 navb = Inr nav2" using s2(9) s1(11) bits(3) by simp
  note res = split_odd_osnma [OF bits(1,2,4,5) n sp]
  show ?thesis
  proof (rule that [OF _ s2(2) kept_trans [OF s1(3) s2(3)] s2(4)])
    show "works crc lm xs st = Inr (st2, m1 @ m2)"
      using st(1) unfolding xs'(1) tracks_def by (subst works_append) (simp_all add: s1(1) s2(1))
    show "d_CRC_error_counter st2 = 0" using s2(7) res(1) by blast
    show "d_symbol_history st2 = drop 500 (d_symbol_history st @ symbols_of xs)" using s2(5) s1(5) h xs' by simp
    show "osnma_messages (m1 @ m2) = [osnma_of_pages (sat_PRN (d_satellite st)) pe po]"
      using s1(12) s2(12) bits k res(1) res(2) [of "sat_PRN (d_satellite st)"] by (simp add: page_published_def)
  qed
qed

text \<open>Any number of page pairs, one after the other.\<close>

lemma carried_drop:
  assumes "length h = 511"
  shows "carried f (drop 500 (h @ ys) @ zs) k pe po = carried f (h @ ys @ zs) (Suc k) pe po"
proof -
  have "drop (500 * k + n) (drop 500 (h @ ys) @ zs) = drop (500 * Suc k + n) (h @ ys @ zs)" for n
  proof -
    have "drop 500 (h @ ys) @ zs = drop 500 (h @ ys @ zs)" using assms by simp
    then show ?thesis by (simp add: ac_simps del: drop_append)
  qed
  then show ?thesis by (simp only: carried_def)
qed

lemma pairs_run:
  assumes "tracks crc st" "d_symbol_counter st = d_preamble_index st" "d_CRC_error_counter st < 5" "d_enable_osnma st"
    and "E1_symbols xs" "length xs = 500 * length pairs" and "\<forall>(pe, po) \<in> set pairs. good_pair crc pe po"
    and "\<forall>k < length pairs. carried (d_flag_PLL_180_deg_phase_locked st) (d_symbol_history st @ symbols_of xs) k (fst (pairs ! k)) (snd (pairs ! k))"
  shows "\<exists>st' m. works crc lm xs st = Inr (st', m) \<and> tracks crc st' \<and> kept st st'
    \<and> osnma_messages m = map (\<lambda>(pe, po). osnma_of_pages (sat_PRN (d_satellite st)) pe po) pairs"
  using assms
proof (induction pairs arbitrary: st xs)
  case Nil
  then show ?case by (simp add: kept_def)
next
  case (Cons p pairs)
  obtain pe po where p: "p = (pe, po)" by (rule prod.exhaust)
  define ys zs where "ys = take 500 xs" and "zs = drop 500 xs"
  have xs': "xs = ys @ zs" "E1_symbols ys" "E1_symbols zs" "length ys = 500" "length zs = 500 * length pairs"
    using Cons.prems(5,6) set_take_subset [of 500 xs] set_drop_subset [of 500 xs] by (auto simp: ys_def zs_def E1_symbols_def)
  let ?f = "d_flag_PLL_180_deg_phase_locked st"
  have h: "length (d_symbol_history st) = 511" by (rule tracks_numbers(5) [OF Cons.prems(1)])
  have good: "good_pair crc pe po" using Cons.prems(7) by (simp add: p)
  have "carried ?f (d_symbol_history st @ symbols_of xs) 0 pe po" using Cons.prems(8) by (auto simp: p)
  then have "carried ?f (d_symbol_history st @ symbols_of ys) 0 pe po"
    using h xs'(4) by (simp add: carried_def xs'(1))
  then obtain st1 m1 where s1: "works crc lm ys st = Inr (st1, m1)" "tracks crc st1" "kept st st1" "d_symbol_counter st1 = d_preamble_index st1"
    "d_CRC_error_counter st1 = 0" "d_symbol_history st1 = drop 500 (d_symbol_history st @ symbols_of ys)"
    "osnma_messages m1 = [osnma_of_pages (sat_PRN (d_satellite st)) pe po]"
    by (rule pair_cycle [OF Cons.prems(1,2,3,4) xs'(2,4) good])
  have k: "d_flag_PLL_180_deg_phase_locked st1 = ?f" "d_enable_osnma st1" "d_satellite st1 = d_satellite st"
    using s1(3) Cons.prems(4) by (simp_all add: kept_def)
  have "\<forall>k < length pairs. carried ?f (d_symbol_history st1 @ symbols_of zs) k (fst (pairs ! k)) (snd (pairs ! k))"
  proof (intro allI impI)
    fix k
    assume "k < length pairs"
    then have "carried ?f (d_symbol_history st @ symbols_of ys @ symbols_of zs) (Suc k) (fst (pairs ! k)) (snd (pairs ! k))"
      using Cons.prems(8) by (auto simp: xs'(1) dest!: spec [of _ "Suc k"])
    then show "carried ?f (d_symbol_history st1 @ symbols_of zs) k (fst (pairs ! k)) (snd (pairs ! k))"
      unfolding s1(6) carried_drop [OF h] .
  qed
  then obtain st2 m2 where s2: "works crc lm zs st1 = Inr (st2, m2)" "tracks crc st2" "kept st1 st2"
    "osnma_messages m2 = map (\<lambda>(pe, po). osnma_of_pages (sat_PRN (d_satellite st)) pe po) pairs"
    using Cons.IH [OF s1(2,4) _ k(2) xs'(3,5)] s1(5) k Cons.prems(7) by auto
  have "works crc lm xs st = Inr (st2, m1 @ m2)"
    using Cons.prems(1) unfolding xs'(1) tracks_def by (subst works_append) (simp_all add: s1(1) s2(1))
  then show ?case using s2 s1(7) kept_trans [OF s1(3) s2(3)] by (simp add: p)
qed

end
