(* ===== verification/Telemetry_Properties.thy ===== *)
theory Telemetry_Properties
  imports Telemetry_Run
begin

section \<open>Correctness of the telemetry decoder\<close>

text \<open>
  What the Galileo telemetry decoder promises: the invariant of its synchronisation, that I/NAV and
  F/NAV channels never fail, and that the symbols of a page pair reach OSNMA as the bits that were
  transmitted.
\<close>

text \<open>A symbol of E1 and one of E5a, for the concrete runs.\<close>

definition symbol_with :: "string \<Rightarrow> rat \<Rightarrow> gnss_synchro" where
  "symbol_with signal prompt = \<lparr>sync_System = CHR ''E'', sync_Signal = signal, sync_PRN = 11, sync_Channel_ID = 0,
     Acq_delay_samples = 0, Acq_doppler_hz = 0, Acq_samplestamp_samples = 0, Acq_doppler_step = 0, sync_fs = 4000000,
     Prompt_I = prompt, Prompt_Q = 0, CN0_dB_hz = 45, Carrier_Doppler_hz = 0, Carrier_phase_rads = 0, Code_phase_samples = 0,
     Tracking_sample_counter = 0, correlation_length_ms = 4, TOW_at_current_symbol_ms = 0, Pseudorange_m = 0, RX_time = 0,
     interp_TOW_ms = 0, Flag_valid_acquisition = True, Flag_valid_symbol_output = True, Flag_valid_word = False,
     Flag_valid_pseudorange = False, Flag_PLL_180_deg_phase_locked = False\<rparr>"

abbreviation plain_conf :: tlm_conf where
  "plain_conf \<equiv> \<lparr>conf_enable_reed_solomon = False, conf_dump_crc_stats = False, conf_enable_navdata_monitor = False,
     conf_there_are_e6_channels = False, conf_enable_osnma = True\<rparr>"

text \<open>Crude stand-ins for the functions of the C library, enough for a run.\<close>

definition sample_libm :: libm where
  "sample_libm = \<lparr>c_sqrt = (\<lambda>x. x), c_atan2 = (\<lambda>y x. y)\<rparr>"

abbreviation E11 :: gnss_satellite where
  "E11 \<equiv> Gnss_Satellite ''Galileo'' 11"

text \<open>
  C22: In every reachable state of the telemetry decoder the symbol buffer holds at most its
  capacity; a preamble has been found (states 1 and 2) only when the buffer is full, so the reads of
  the preamble and of the page symbols stay inside it; and a synchronised channel has seen at most
  \<^verbatim>\<open>CRC_ERROR_LIMIT\<close> consecutive pages with a wrong CRC.
\<close>

theorem telemetry_invariant:
  assumes "telemetry_reachable crc lm st"
  shows "d_stat st \<le> 2 \<and> length (d_symbol_history st) \<le> d_required_symbols st + 1
    \<and> (d_stat st \<noteq> 0 \<longrightarrow> length (d_symbol_history st) = d_required_symbols st + 1)
    \<and> d_samples_per_preamble st + d_frame_length_symbols st \<le> d_required_symbols st
    \<and> (d_stat st = 2 \<longrightarrow> 0 \<le> d_CRC_error_counter st \<and> d_CRC_error_counter st \<le> CRC_ERROR_LIMIT)"
proof -
  have "sync_inv st" using telemetry_reachable_inv [OF assms] by blast
  moreover from this have "d_samples_per_preamble st + d_frame_length_symbols st \<le> d_required_symbols st"
    by (auto simp: sync_inv_def frame_config_def frame_numbers)
  ultimately show ?thesis by (simp add: sync_inv_def)
qed

theorem telemetry_invariant_witness:
  "d_samples_per_preamble (fst (tlm_reset (galileo_make_telemetry_decoder_gs E11 plain_conf 1))) = 10
    \<and> length (d_symbol_history (fst (tlm_reset (galileo_make_telemetry_decoder_gs E11 plain_conf 1)))) \<le> 511"
proof -
  let ?st = "fst (tlm_reset (galileo_make_telemetry_decoder_gs E11 plain_conf 1))"
  have r: "telemetry_reachable (\<lambda>_. 0) sample_libm ?st" by (rule telemetry_reachable.was_reset, rule telemetry_reachable.made) simp
  have "d_required_symbols ?st = 510" "d_samples_per_preamble ?st = 10"
    by (simp_all add: tlm_reset_def Let_def galileo_make_telemetry_decoder_gs_def frame_numbers)
  then show ?thesis using telemetry_invariant [OF r] by simp
qed



text \<open>
  C23: Whatever symbols a reachable channel has received, the steps that I/NAV, F/NAV and C/NAV share
  (deinterleaver, inversion of the second generator, Viterbi decoder) succeed, and the page string they
  pass on is a string of binary digits of exactly the length of the page: half of its symbols. The bit
  sets and substrings of the three message decoders rely on this.
\<close>

theorem decoded_page_well_formed:
  assumes "telemetry_reachable crc lm st"
    and "(d_frame_type st, rows, cols) \<in> {(1, GALILEO_INAV_INTERLEAVER_ROWS, GALILEO_INAV_INTERLEAVER_COLS),
       (2, GALILEO_FNAV_INTERLEAVER_ROWS, GALILEO_FNAV_INTERLEAVER_COLS), (3, GALILEO_CNAV_INTERLEAVER_ROWS, GALILEO_CNAV_INTERLEAVER_COLS)}"
  shows "\<exists>v bits page. decode_symbols rows cols symbols (d_frame_length_symbols st) (d_viterbi st) = Inr (v, bits, page)
    \<and> length page = d_frame_length_symbols st div 2 \<and> list_all is_bit_char page \<and> length bits = length page \<and> set bits \<subseteq> {0, 1}"
proof -
  have inv: "sync_inv st" using telemetry_reachable_inv [OF assms(1)] by blast
  have wf: "viterbi_wf (data_bits (d_frame_type st)) (d_viterbi st)" using inv by (simp add: sync_inv_def)
  have n: "rows * cols = 2 * data_bits (d_frame_type st) + 12" "d_frame_length_symbols st = rows * cols"
    using assms(2) inv by (auto simp: sync_inv_def frame_config_def data_bits_def frame_numbers
        GALILEO_INAV_INTERLEAVER_ROWS_def GALILEO_INAV_INTERLEAVER_COLS_def GALILEO_FNAV_INTERLEAVER_ROWS_def
        GALILEO_FNAV_INTERLEAVER_COLS_def GALILEO_CNAV_INTERLEAVER_ROWS_def GALILEO_CNAV_INTERLEAVER_COLS_def)
  obtain v bits where d: "decode_symbols rows cols symbols (rows * cols) (d_viterbi st) = Inr (v, bits, page_string_of bits)"
    "length bits = data_bits (d_frame_type st) + 6" "\<forall>b \<in> set bits. b < 2"
    using decode_symbols_total [OF wf n(1), of symbols] by blast
  have "set bits \<subseteq> {0, 1}" using d(3) by auto
  moreover have "length (page_string_of bits) = length bits" by (simp add: page_string_of_def)
  ultimately show ?thesis using d n by simp
qed

theorem decoded_page_well_formed_witness:
  "\<exists>v bits page. decode_symbols 8 30 (replicate 240 (- 1)) 240 (d_viterbi (galileo_make_telemetry_decoder_gs E11 plain_conf 1)) = Inr (v, bits, page)
    \<and> length page = 120"
proof -
  let ?st = "galileo_make_telemetry_decoder_gs E11 plain_conf 1"
  have r: "telemetry_reachable (\<lambda>_. 0) sample_libm ?st" by (rule telemetry_reachable.made) simp
  have t: "d_frame_type ?st = 1" "d_frame_length_symbols ?st = 240"
    by (simp_all add: galileo_make_telemetry_decoder_gs_def Let_def frame_numbers)
  show ?thesis
    using decoded_page_well_formed [OF r, where rows = 8 and cols = 30 and symbols = "replicate 240 (- 1)"] unfolding t
    by (auto simp: GALILEO_INAV_INTERLEAVER_ROWS_def GALILEO_INAV_INTERLEAVER_COLS_def)
qed

text \<open>
  C18: From symbols to OSNMA. Take a synchronised E1 I/NAV channel right after a page, with OSNMA
  enabled, its first ephemeris sent and fewer than five consecutive CRC failures. When the buffer and
  the next symbols carry the transmitted form of any number of page pairs (an even and an odd part,
  convolutional code with inverted second generator, block interleaver, right signs up to the carrier
  phase the channel has detected) with a right CRC, then the block processes the symbols and what it
  publishes for OSNMA is exactly, in order and nothing else, the 40 authentication bits and the 128
  navigation bits of each page, under the PRN of its satellite.
\<close>

theorem osnma_from_symbols:
  assumes st: "tracks crc st" "d_symbol_counter st = d_preamble_index st" "d_CRC_error_counter st < 5" "d_enable_osnma st"
    and xs: "E1_symbols xs" "length xs = 500 * length pairs"
    and pairs: "\<forall>(pe, po) \<in> set pairs. good_pair crc pe po"
    and stream: "\<forall>k < length pairs. carried (d_flag_PLL_180_deg_phase_locked st) (d_symbol_history st @ symbols_of xs) k (fst (pairs ! k)) (snd (pairs ! k))"
  shows "\<exists>st' m. works crc lm xs st = Inr (st', m) \<and> tracks crc st'
    \<and> osnma_messages m = map (\<lambda>(pe, po). osnma_of_pages (sat_PRN (d_satellite st)) pe po) pairs"
  using pairs_run [OF assms, of lm] by blast

definition hard_symbols :: "bool list \<Rightarrow> rat list" where
  "hard_symbols code = map (\<lambda>c. if c then 1 else - 1) code"

definition sample_even :: "bool list" where
  "sample_even = False # replicate 113 False"

definition sample_odd :: "bool list" where
  "sample_odd = True # replicate 113 False"

text \<open>
  The stream that carries some page pairs, with ones in place of the preambles; a channel that has just
  finished the page before it, and the symbols that follow.
\<close>

definition pair_symbols :: "bool list \<times> bool list \<Rightarrow> rat list" where
  "pair_symbols p = hard_symbols (transmitted 8 30 (fst p)) @ replicate 10 1 @ hard_symbols (transmitted 8 30 (snd p)) @ replicate 10 1"

definition stream_of :: "(bool list \<times> bool list) list \<Rightarrow> rat list" where
  "stream_of pairs = replicate 260 1 @ concat (map pair_symbols pairs) @ replicate 251 1"

definition channel_at :: "rat list \<Rightarrow> telemetry" where
  "channel_at stream = (galileo_make_telemetry_decoder_gs E11 plain_conf 1)\<lparr>d_stat := 2, d_first_eph_sent := True,
     d_symbol_history := take 511 stream\<rparr>"

definition inputs_of :: "rat list \<Rightarrow> (gnss_synchro \<times> gnss_time option list) list" where
  "inputs_of stream = map (\<lambda>x. (symbol_with ''1B'' x, [])) (drop 511 stream)"

lemma length_hard_symbols [simp]: "length (hard_symbols code) = length code"
  by (simp add: hard_symbols_def)

lemma hard_symbols_received: "received_page rows cols bits (hard_symbols (transmitted rows cols bits))"
  by (simp add: received_page_def hard_symbols_def list_all2_conv_all_nth hard_symbol_agrees)

lemma sample_lengths: "length sample_even = 114" "length sample_odd = 114"
  by (simp_all add: sample_even_def sample_odd_def)

lemma length_pair_symbols [simp]: "length (pair_symbols p) = 500"
  by (simp add: pair_symbols_def)

lemma length_stream_of: "length (stream_of pairs) = 511 + 500 * length pairs"
  by (simp add: stream_of_def length_concat comp_def sum_list_triv)

lemma drop_pair_symbols: "drop (500 * k) (concat (map pair_symbols pairs)) = concat (map pair_symbols (drop k pairs))"
proof (induction pairs arbitrary: k)
  case (Cons p pairs)
  show ?case
  proof (cases k)
    case (Suc l)
    have "drop (500 * k) (pair_symbols p @ concat (map pair_symbols pairs)) = drop (500 * l) (concat (map pair_symbols pairs))"
      by (simp add: Suc)
    then show ?thesis using Cons.IH [of l] by (simp add: Suc)
  qed simp
qed simp

lemma stream_carries:
  assumes "k < length pairs"
  shows "carried False (stream_of pairs) k (fst (pairs ! k)) (snd (pairs ! k))"
proof -
  have len: "500 * k \<le> length (concat (map pair_symbols pairs))" using assms by (simp add: length_concat comp_def sum_list_triv)
  have s: "drop (500 * k + (260 + n)) (stream_of pairs) = drop n (pair_symbols (pairs ! k) @ concat (map pair_symbols (drop (Suc k) pairs)) @ replicate 251 1)" for n
  proof -
    have "drop (500 * k + (260 + n)) (stream_of pairs) = drop n (drop (500 * k) (drop 260 (stream_of pairs)))" by (simp add: ac_simps)
    also have "drop 260 (stream_of pairs) = concat (map pair_symbols pairs) @ replicate 251 1" by (simp add: stream_of_def)
    also have "drop (500 * k) \<dots> = concat (map pair_symbols (drop k pairs)) @ replicate 251 1"
      using len by (simp add: drop_pair_symbols)
    also have "drop k pairs = pairs ! k # drop (Suc k) pairs" using assms by (rule Cons_nth_drop_Suc [symmetric])
    finally show ?thesis by simp
  qed
  have "take 240 (drop (500 * k + 260) (stream_of pairs)) = hard_symbols (transmitted 8 30 (fst (pairs ! k)))"
    using s [of 0] by (simp add: pair_symbols_def)
  moreover have "take 240 (drop (500 * k + 510) (stream_of pairs)) = hard_symbols (transmitted 8 30 (snd (pairs ! k)))"
    using s [of 250] by (simp add: pair_symbols_def)
  ultimately show ?thesis by (simp add: carried_def in_phase_def hard_symbols_received)
qed

lemma sample_crc: "crc_ok (\<lambda>_. 0) (map bit_char sample_even @ page_text sample_odd)"
  by (simp add: crc_ok_def sample_even_def sample_odd_def page_text_def bit_char_def drop_Cons')

lemma E11_fields: "sat_system E11 = ''Galileo''" "sat_PRN E11 = 11"
  by (simp_all add: satellite_PRN satellite_system valid_PRN_def system_set_def)

lemma channel_tracks:
  assumes "511 \<le> length stream"
  shows "tracks crc (channel_at stream)"
proof -
  have "tlm_inv crc (galileo_make_telemetry_decoder_gs E11 plain_conf 1)" by (rule made_inv) simp
  then show ?thesis
    using assms
    by (simp add: tracks_def channel_at_def sync_inv_def frame_config_def galileo_make_telemetry_decoder_gs_def Let_def
        frame_numbers CRC_ERROR_LIMIT_def)
qed

lemma channel_fields:
  "d_symbol_counter (channel_at stream) = d_preamble_index (channel_at stream)" "d_CRC_error_counter (channel_at stream) < 5"
  "d_enable_osnma (channel_at stream)" "d_satellite (channel_at stream) = E11"
  "d_flag_PLL_180_deg_phase_locked (channel_at stream) = False" "d_symbol_history (channel_at stream) = take 511 stream"
  by (simp_all add: channel_at_def galileo_make_telemetry_decoder_gs_def Let_def E11_fields)

lemma stream_inputs:
  "E1_symbols (inputs_of stream)" "length (inputs_of stream) = length stream - 511"
  "d_symbol_history (channel_at (stream_of pairs)) @ symbols_of (inputs_of (stream_of pairs)) = stream_of pairs"
proof -
  show "E1_symbols (inputs_of stream)" "length (inputs_of stream) = length stream - 511"
    by (auto simp: E1_symbols_def inputs_of_def symbol_with_def)
  have "x = 1 \<or> x = - 1" if "x \<in> set (pair_symbols p)" for p x using that by (auto simp: pair_symbols_def hard_symbols_def)
  then have "x = 1 \<or> x = - 1" if "x \<in> set (stream_of pairs)" for x using that by (auto simp: stream_of_def)
  then have "x = 1 \<or> x = - 1" if "x \<in> set (drop 511 (stream_of pairs))" for x using that by (blast dest: in_set_dropD)
  then have "\<forall>x \<in> set (drop 511 (stream_of pairs)). to_float x = x"
    using to_float_int [of 1] to_float_int [of "- 1"] by auto
  then have "map to_float (drop 511 (stream_of pairs)) = drop 511 (stream_of pairs)" by (intro map_idI) blast
  then have "symbols_of (inputs_of (stream_of pairs)) = drop 511 (stream_of pairs)"
    by (simp add: inputs_of_def symbol_with_def comp_def del: drop_map)
  then show "d_symbol_history (channel_at (stream_of pairs)) @ symbols_of (inputs_of (stream_of pairs)) = stream_of pairs"
    by (simp only: channel_fields(6) append_take_drop_id)
qed

lemma stream_carried:
  "\<forall>k < length pairs. carried (d_flag_PLL_180_deg_phase_locked (channel_at (stream_of pairs)))
     (d_symbol_history (channel_at (stream_of pairs)) @ symbols_of (inputs_of (stream_of pairs))) k (fst (pairs ! k)) (snd (pairs ! k))"
  by (simp only: stream_inputs(3) channel_fields(5)) (simp add: stream_carries)

lemma stream_length: "length (inputs_of (stream_of pairs)) = 500 * length pairs" "511 \<le> length (stream_of pairs)"
  using stream_inputs(2) [of "stream_of pairs"] by (simp_all add: length_stream_of)

lemma sample_good: "good_pair (\<lambda>_. 0) sample_even sample_odd"
  using sample_lengths sample_crc by (simp add: good_pair_def) (simp add: sample_even_def sample_odd_def)

theorem osnma_from_symbols_witness:
  "\<exists>st' m. works (\<lambda>_. 0) sample_libm (inputs_of (stream_of [(sample_even, sample_odd)])) (channel_at (stream_of [(sample_even, sample_odd)]))
      = Inr (st', m) \<and> tracks (\<lambda>_. 0) st' \<and> osnma_messages m = [osnma_of_pages 11 sample_even sample_odd]"
  using osnma_from_symbols [OF channel_tracks [OF stream_length(2)] channel_fields(1,2,3) stream_inputs(1) stream_length(1) _ stream_carried,
      of "[(sample_even, sample_odd)]" "\<lambda>_. 0" sample_libm] sample_good
  by (simp add: channel_fields(4) E11_fields)

text \<open>
  C24: Old authentication data is published again. When an odd page part arrives although no even part
  came before it (the even part was lost, or its first bit was decoded wrongly), \<^verbatim>\<open>split_page\<close> leaves the
  message alone, with the CRC flag of the page before: if that page was right, the block publishes the
  OSNMA and navigation data of that earlier page a second time, whatever the odd part carries and
  whatever its CRC would say.
\<close>

theorem stale_osnma_published:
  assumes st: "tracks crc st" "d_CRC_error_counter st < 6" "d_symbol_counter st + 1 = d_preamble_index st + 250" "d_enable_osnma st"
    and sig: "sync_Signal sy = CHR ''1'' # cs"
    and even: "d_flag_even_word_arrived st = 0" and old: "get_flag_CRC_test (d_inav_nav st)"
    and po: "length po = 114" "hd po"
    and recv: "received_page 8 30 po (in_phase (d_flag_PLL_180_deg_phase_locked st)
      (take 240 (drop 10 (drop 1 (d_symbol_history st @ [to_float (Prompt_I sy)])))))"
  shows "\<exists>st' m r. general_work crc lm (sy, tags) st = Inr (st', m, r)
    \<and> osnma_messages m = [(get_osnma (d_inav_nav st))\<lparr>osnma_PRN := int (sat_PRN (d_satellite st))\<rparr>]"
proof -
  obtain st' m r nav where w: "general_work crc lm (sy, tags) st = Inr (st', m, r)" "r \<noteq> Finished" "tracks crc st'" "kept st st'"
    "d_symbol_counter st' = d_preamble_index st'" "d_symbol_history st' = drop 1 (d_symbol_history st @ [to_float (Prompt_I sy)])"
    "d_CRC_error_counter st' \<le> d_CRC_error_counter st + 1" "get_flag_CRC_test nav \<longrightarrow> d_CRC_error_counter st' = 0"
    "split_page crc (page_text po) (d_flag_even_word_arrived st) (d_inav_nav st) = Inr nav"
    "page_Even (d_inav_nav st') = page_Even nav" "d_flag_even_word_arrived st' = (if hd po then 0 else 1)"
    "osnma_messages m = page_published st nav po"
    by (rule page_call [OF st(1) sig st(2,3) po(1) recv])
  obtain cs' where "page_text po = CHR ''1'' # cs'" using po by (cases po) (simp_all add: page_text_def bit_char_def)
  then have "nav = d_inav_nav st" using w(9) even by (simp add: split_page_def)
  then show ?thesis using w(1,12) po(2) old st(4) by (auto simp: page_published_def)
qed

text \<open>The message after the pages of the sample run, and a buffer with an odd page part of ones.\<close>

definition sample_nav :: galileo_inav_message where
  "sample_nav = (case split_page (\<lambda>_. 0) (page_text sample_odd) 1 (new_inav_message\<lparr>page_Even := map bit_char sample_even\<rparr>) of
     Inr nav \<Rightarrow> nav | Inl _ \<Rightarrow> new_inav_message)"

definition stale_state :: telemetry where
  "stale_state = (galileo_make_telemetry_decoder_gs E11 plain_conf 1)\<lparr>d_stat := 2, d_first_eph_sent := True,
     d_symbol_counter := 249, d_inav_nav := sample_nav,
     d_symbol_history := replicate 11 1 @ hard_symbols (transmitted 8 30 (replicate 114 True)) @ replicate 260 1\<rparr>"

lemma sample_nav_facts:
  "inav_reachable (\<lambda>_. 0) sample_nav" "get_flag_CRC_test sample_nav"
  "(get_osnma sample_nav)\<lparr>osnma_PRN := int prn\<rparr> = osnma_of_pages prn sample_even sample_odd"
proof -
  let ?e = "new_inav_message\<lparr>page_Even := map bit_char sample_even\<rparr>"
  have se: "split_page (\<lambda>_. 0) (page_text sample_even) 0 new_inav_message = Inr ?e"
    by (simp add: split_page_def page_text_def sample_even_def bit_char_def)
  have b: "bin_string (map bit_char sample_even @ page_text sample_odd)" "length (map bit_char sample_even @ page_text sample_odd) = 234"
    using sample_lengths by (auto simp: page_text_def bin_simps)
  have hd: "hd sample_odd" by (simp add: sample_odd_def)
  obtain cs where po: "page_text sample_odd = CHR ''1'' # cs" by (simp add: sample_odd_def page_text_def bit_char_def)
  have "split_page (\<lambda>_. 0) (page_text sample_odd) 1 ?e = split_odd (\<lambda>_. 0) (map bit_char sample_even @ page_text sample_odd) ?e"
    unfolding po by (simp add: split_page_def)
  then obtain nav where nav: "split_page (\<lambda>_. 0) (page_text sample_odd) 1 ?e = Inr nav" by (simp add: split_odd_page [OF b])
  have e: "page_Even ?e = map bit_char sample_even" by simp
  have eq: "sample_nav = nav" by (simp add: sample_nav_def nav)
  show "inav_reachable (\<lambda>_. 0) sample_nav"
    unfolding eq by (rule inav_reachable.page [OF inav_reachable.page [OF inav_reachable.start se] nav])
  show "get_flag_CRC_test sample_nav" "(get_osnma sample_nav)\<lparr>osnma_PRN := int prn\<rparr> = osnma_of_pages prn sample_even sample_odd"
    unfolding eq using split_odd_osnma [OF sample_lengths hd sample_crc e nav] by blast+
qed

theorem stale_osnma_published_witness:
  "\<exists>st' m r. general_work (\<lambda>_. 0) sample_libm (symbol_with ''1B'' 1, []) stale_state = Inr (st', m, r)
     \<and> osnma_messages m = [osnma_of_pages 11 sample_even sample_odd]"
proof -
  have "tlm_inv (\<lambda>_. 0) (galileo_make_telemetry_decoder_gs E11 plain_conf 1)" by (rule made_inv) simp
  then have tr: "tracks (\<lambda>_. 0) stale_state"
    using sample_nav_facts(1)
    by (simp add: tracks_def stale_state_def sync_inv_def frame_config_def nav_inv_def galileo_make_telemetry_decoder_gs_def Let_def
        frame_numbers CRC_ERROR_LIMIT_def)
  have f: "d_CRC_error_counter stale_state < 6" "d_symbol_counter stale_state + 1 = d_preamble_index stale_state + 250" "d_enable_osnma stale_state"
    "d_flag_even_word_arrived stale_state = 0" "d_inav_nav stale_state = sample_nav" "d_satellite stale_state = E11"
    "d_flag_PLL_180_deg_phase_locked stale_state = False"
    by (simp_all add: stale_state_def galileo_make_telemetry_decoder_gs_def Let_def E11_fields)
  have s: "sync_Signal (symbol_with ''1B'' 1) = CHR ''1'' # ''B''" by (simp add: symbol_with_def)
  have o: "get_flag_CRC_test (d_inav_nav stale_state)" by (simp add: f sample_nav_facts)
  have r: "received_page 8 30 (replicate 114 True) (in_phase (d_flag_PLL_180_deg_phase_locked stale_state)
      (take 240 (drop 10 (drop 1 (d_symbol_history stale_state @ [to_float (Prompt_I (symbol_with ''1B'' 1))])))))"
    unfolding f(7) by (simp add: stale_state_def in_phase_def hard_symbols_received)
  show ?thesis
    using stale_osnma_published [OF tr f(1,2,3) s f(4) o _ _ r, where lm = sample_libm and tags = "[]"]
    by (simp add: f(5,6) E11_fields sample_nav_facts(3) del: of_nat_numeral)
qed

end
