(* ===== verification/Telemetry_Polarity.thy ===== *)
theory Telemetry_Polarity
  imports Telemetry_Properties
begin

section \<open>Carrier phase ambiguity\<close>

text \<open>
  The carrier loop locks with a phase of 0 or 180 degrees, and in the second case every symbol has the
  wrong sign. The telemetry decoder detects this at the preamble; here it is proved that it decodes the
  same messages either way. \<open>mirrored\<close> changes the two members in which the two runs differ.
\<close>

definition mirrored :: "float32 list \<Rightarrow> bool \<Rightarrow> telemetry \<Rightarrow> telemetry" where
  "mirrored h p st = st\<lparr>d_symbol_history := h, d_flag_PLL_180_deg_phase_locked := p\<rparr>"

definition on_state :: "('a \<Rightarrow> 'b) \<Rightarrow> ('a \<times> 'm) result \<Rightarrow> ('b \<times> 'm) result" where
  "on_state f r = (case r of Inl e \<Rightarrow> Inl e | Inr (st, m) \<Rightarrow> Inr (f st, m))"

definition negated :: "gnss_synchro \<Rightarrow> gnss_synchro" where
  "negated sy = sy\<lparr>Prompt_I := - Prompt_I sy\<rparr>"

named_theorems mirror

lemma on_state_simps [simp]: "on_state f (Inl e) = Inl e" "on_state f (Inr (st, m)) = Inr (f st, m)"
  by (simp_all add: on_state_def)

subsection \<open>The stages do not look at the two members\<close>

lemma mirrored_fields [simp]:
  "d_symbol_history (mirrored h p st) = h" "d_flag_PLL_180_deg_phase_locked (mirrored h p st) = p"
  "d_inav_nav (mirrored h p st) = d_inav_nav st" "d_fnav_nav (mirrored h p st) = d_fnav_nav st"
  "d_cnav_nav (mirrored h p st) = d_cnav_nav st" "d_viterbi (mirrored h p st) = d_viterbi st"
  "d_frame_type (mirrored h p st) = d_frame_type st" "d_frame_length_symbols (mirrored h p st) = d_frame_length_symbols st"
  "d_page_part_symbols (mirrored h p st) = d_page_part_symbols st" "d_samples_per_preamble (mirrored h p st) = d_samples_per_preamble st"
  "d_preamble_samples (mirrored h p st) = d_preamble_samples st" "d_required_symbols (mirrored h p st) = d_required_symbols st"
  "d_symbol_counter (mirrored h p st) = d_symbol_counter st" "d_preamble_index (mirrored h p st) = d_preamble_index st"
  "d_preamble_period_symbols (mirrored h p st) = d_preamble_period_symbols st" "d_stat (mirrored h p st) = d_stat st"
  "d_E6_TOW_set (mirrored h p st) = d_E6_TOW_set st" "d_flag_preamble (mirrored h p st) = d_flag_preamble st"
  by (simp_all add: mirrored_def)

lemma mirror_pages [mirror]:
  "monitor_page s (mirrored h p st) = mirrored h p (monitor_page s st)"
  "inav_page_part crc bits s (mirrored h p st) = on_state (mirrored h p) (inav_page_part crc bits s st)"
  "inav_push_ephemeris lm (mirrored h p st) = on_state (mirrored h p) (inav_push_ephemeris lm st)"
  "inav_push_iono (mirrored h p st) = apfst (mirrored h p) (inav_push_iono st)"
  "inav_push_utc (mirrored h p st) = apfst (mirrored h p) (inav_push_utc st)"
  "inav_push_almanac (mirrored h p st) = apfst (mirrored h p) (inav_push_almanac st)"
  "cnav_push_page (mirrored h p st) = apfst (mirrored h p) (cnav_push_page st)"
  "after_page (mirrored h p st) = apfst (mirrored h p) (after_page st)"
proof -
  show "monitor_page s (mirrored h p st) = mirrored h p (monitor_page s st)" by (simp add: monitor_page_def mirrored_def)
  show "inav_page_part crc bits s (mirrored h p st) = on_state (mirrored h p) (inav_page_part crc bits s st)"
    by (cases bits; cases "split_page crc s (d_flag_even_word_arrived st) (d_inav_nav st)") (simp_all add: inav_page_part_def mirrored_def Let_def)
  show "inav_push_iono (mirrored h p st) = apfst (mirrored h p) (inav_push_iono st)"
    by (cases "have_new_iono_and_GST (d_inav_nav st)") (simp add: inav_push_iono_def mirrored_def)
  show "inav_push_utc (mirrored h p st) = apfst (mirrored h p) (inav_push_utc st)"
    by (cases "have_new_utc_model (d_inav_nav st)") (simp add: inav_push_utc_def mirrored_def Let_def)
  show "inav_push_almanac (mirrored h p st) = apfst (mirrored h p) (inav_push_almanac st)"
    by (cases "have_new_almanac (d_inav_nav st)") (simp add: inav_push_almanac_def mirrored_def)
  show "cnav_push_page (mirrored h p st) = apfst (mirrored h p) (cnav_push_page st)"
    by (simp add: cnav_push_page_def mirrored_def Let_def)
  show "after_page (mirrored h p st) = apfst (mirrored h p) (after_page st)"
    by (simp add: after_page_def mirrored_def Let_def any_crc_ok_def tow_unknown_def)
  obtain nav new where e: "have_new_ephemeris (d_inav_nav st) = (nav, new)" by (rule prod.exhaust)
  obtain nav2 new2 where r: "have_new_reduced_ced nav = (nav2, new2)" by (rule prod.exhaust)
  show "inav_push_ephemeris lm (mirrored h p st) = on_state (mirrored h p) (inav_push_ephemeris lm st)"
    by (cases "get_reduced_ced lm nav2") (simp_all add: inav_push_ephemeris_def mirrored_def Let_def e r)
qed

lemma mirror_times [mirror]:
  "set_TOW t d (mirrored h p st) = (case set_TOW t d st of Inl e \<Rightarrow> Inl e | Inr st' \<Rightarrow> Inr (mirrored h p st'))"
  "advance_TOW period (mirrored h p st) = mirrored h p (advance_TOW period st)"
  "publish_tow sy (mirrored h p st) = publish_tow sy st" "inav_delay (mirrored h p st) = inav_delay st"
  "fnav_delay (mirrored h p st) = fnav_delay st" "publish_packet sy (mirrored h p st) = apfst (mirrored h p) (publish_packet sy st)"
  "update_delta_t (mirrored h p st) = mirrored h p (update_delta_t st)"
  "(mirrored h p st)\<lparr>d_inav_nav := n\<rparr> = mirrored h p (st\<lparr>d_inav_nav := n\<rparr>)" "(mirrored h p st)\<lparr>d_fnav_nav := f\<rparr> = mirrored h p (st\<lparr>d_fnav_nav := f\<rparr>)"
  "(mirrored h p st)\<lparr>d_cnav_nav := c\<rparr> = mirrored h p (st\<lparr>d_cnav_nav := c\<rparr>)" "(mirrored h p st)\<lparr>d_viterbi := v\<rparr> = mirrored h p (st\<lparr>d_viterbi := v\<rparr>)"
  "d_PRN_code_period_ms (mirrored h p st) = d_PRN_code_period_ms st"
proof -
  show "set_TOW t d (mirrored h p st) = (case set_TOW t d st of Inl e \<Rightarrow> Inl e | Inr st' \<Rightarrow> Inr (mirrored h p st'))"
    by (cases "double_to_uint32 (dmul (of_int t) 1000)") (simp_all add: set_TOW_def mirrored_def)
  show "publish_packet sy (mirrored h p st) = apfst (mirrored h p) (publish_packet sy st)"
    by (simp add: publish_packet_def mirrored_def Let_def)
qed (simp_all add: advance_TOW_def publish_tow_def inav_delay_def fnav_delay_def update_delta_t_def mirrored_def Let_def)

lemma mirror_tows [mirror]:
  "inav_set_TOW sy t n (mirrored h p st) = on_state (mirrored h p) (inav_set_TOW sy t n st)"
  "fnav_set_TOW sy k (mirrored h p st) = on_state (mirrored h p) (fnav_set_TOW sy k st)"
  by (cases "set_TOW t (inav_delay st) st"; simp add: inav_set_TOW_def mirror Let_def)
    (cases "set_TOW (fnav_TOW k (d_fnav_nav st)) (fnav_delay st) st"; simp add: fnav_set_TOW_def mirror Let_def)

lemma mirror_preamble [mirror]:
  "inav_TOW_at_preamble sy (mirrored h p st) = on_state (mirrored h p) (inav_TOW_at_preamble sy st)"
  "fnav_TOW_at_preamble sy (mirrored h p st) = on_state (mirrored h p) (fnav_TOW_at_preamble sy st)"
  by (simp_all add: inav_TOW_at_preamble_def fnav_TOW_at_preamble_def mirror Let_def)

lemma mirror_cnav_TOW [mirror]:
  "cnav_TOW_at_preamble sy (mirrored h p st) = (case cnav_TOW_at_preamble sy st of Inl e \<Rightarrow> Inl e | Inr st' \<Rightarrow> Inr (mirrored h p st'))"
proof (cases "sync_fs sy = 0")
  case False
  then show ?thesis
    by (cases "double_to_uint32 (ddiv (dmul (to_double (of_int (sint (Tracking_sample_counter sy - d_received_sample_counter st)))) 1000)
          (to_double (of_int (sync_fs sy))))") (simp_all add: cnav_TOW_at_preamble_def mirrored_def Let_def)
qed (simp add: cnav_TOW_at_preamble_def mirrored_def Let_def)

lemma mirror_INAV [mirror]:
  "decode_INAV_word crc lm symbols n (mirrored h p st) = on_state (mirrored h p) (decode_INAV_word crc lm symbols n st)"
proof (cases "decode_symbols 8 30 symbols n (d_viterbi st)")
  case (Inr r)
  obtain v bits page where r: "r = (v, bits, page)" by (cases r)
  let ?st = "monitor_page page (st\<lparr>d_viterbi := v\<rparr>)"
  have push: "inav_push_all lm (mirrored h p x) = on_state (mirrored h p) (inav_push_all lm x)" for x
  proof (cases "inav_push_ephemeris lm x")
    case (Inr y)
    then show ?thesis
      by (cases y; cases "inav_push_iono (fst y)"; cases "inav_push_utc (fst (inav_push_iono (fst y)))";
          cases "inav_push_almanac (fst (inav_push_utc (fst (inav_push_iono (fst y)))))") (simp add: inav_push_all_def mirror)
  qed (simp add: inav_push_all_def mirror)
  show ?thesis
  proof (cases "inav_page_part crc bits page ?st")
    case i: (Inr y)
    obtain st1 m1 where y: "y = (st1, m1)" by (rule prod.exhaust)
    show ?thesis by (cases "inav_push_all lm st1") (auto simp: decode_INAV_word_push Inr r mirror i y push)
  qed (simp add: decode_INAV_word_push Inr r mirror)
qed (simp add: decode_INAV_word_push)

lemma mirror_FNAV [mirror]:
  "decode_FNAV_word crc symbols n (mirrored h p st) = on_state (mirrored h p) (decode_FNAV_word crc symbols n st)"
proof (cases "decode_symbols GALILEO_FNAV_INTERLEAVER_ROWS GALILEO_FNAV_INTERLEAVER_COLS symbols n (d_viterbi st)")
  case (Inr r)
  obtain v bits page where r: "r = (v, bits, page)" by (cases r)
  show ?thesis
    by (cases "fnav_split_page crc page (d_fnav_nav st)")
      (simp_all add: decode_FNAV_word_def Inr r mirror Let_def split: prod.split)
qed (simp add: decode_FNAV_word_def)

lemma mirror_CNAV [mirror]:
  "decode_CNAV_word crc t symbols n (mirrored h p st) = on_state (mirrored h p) (decode_CNAV_word crc t symbols n st)"
proof (cases "decode_symbols GALILEO_CNAV_INTERLEAVER_ROWS GALILEO_CNAV_INTERLEAVER_COLS symbols n (d_viterbi st)")
  case (Inr r)
  obtain v bits page where r: "r = (v, bits, page)" by (cases r)
  show ?thesis
  proof (cases "read_HAS_page crc page (d_cnav_nav st)")
    case c: (Inr nav)
    obtain st1 m1 where "cnav_push_page ((monitor_page page (st\<lparr>d_viterbi := v\<rparr>))\<lparr>d_cnav_nav := set_time_stamp (unat t) nav\<rparr>) = (st1, m1)"
      by (rule prod.exhaust)
    then show ?thesis by (simp add: decode_CNAV_word_def Inr r mirror Let_def c)
  qed (simp add: decode_CNAV_word_def Inr r mirror Let_def)
qed (simp add: decode_CNAV_word_def)

lemma mirror_update_TOW [mirror]: "update_TOW sy (mirrored h p st) = on_state (mirrored h p) (update_TOW sy st)"
proof -
  show ?thesis
    by (cases "inav_TOW_at_preamble sy st"; cases "fnav_TOW_at_preamble sy st"; cases "cnav_TOW_at_preamble sy st")
      (auto simp: update_TOW_def mirror Let_def on_state_def split: prod.split)
qed

subsection \<open>The preamble\<close>

abbreviation nonzero :: "float32 list \<Rightarrow> bool" where
  "nonzero xs \<equiv> 0 \<notin> set xs"

lemma correlation_negated:
  assumes "nonzero (d_symbol_history st)" and "d_samples_per_preamble st \<le> length (d_symbol_history st)"
  shows "preamble_correlation (mirrored (map uminus (d_symbol_history st)) p st) = - preamble_correlation st"
proof -
  let ?h = "d_symbol_history st" and ?s = "d_preamble_samples st"
  have "fold (\<lambda>i corr. if map uminus ?h ! i < 0 then corr - ?s ! i else corr + ?s ! i) [0..<n] 0 =
      - fold (\<lambda>i corr. if ?h ! i < 0 then corr - ?s ! i else corr + ?s ! i) [0..<n] 0" if "n \<le> length ?h" for n
    using that
  proof (induction n)
    case (Suc n)
    then have "?h ! n \<noteq> 0" using assms(1) by (metis Suc_le_lessD nth_mem)
    then show ?case using Suc by auto
  qed simp
  from this [OF assms(2)] show ?thesis unfolding preamble_correlation_def mirrored_fields .
qed

text \<open>
  \<open>twin p st\<close>: the state of the run with the other sign. A synchronised channel has recorded the
  other phase.
\<close>

definition twin :: "bool \<Rightarrow> telemetry \<Rightarrow> telemetry" where
  "twin p st = mirrored (map uminus (d_symbol_history st)) p st"

definition twins :: "bool \<Rightarrow> telemetry \<Rightarrow> bool" where
  "twins p st \<longleftrightarrow> nonzero (d_symbol_history st) \<and> (d_stat st = 2 \<longrightarrow> p = (\<not> d_flag_PLL_180_deg_phase_locked st))"

lemma preamble_found_twin:
  assumes "twins p st" and "sync_inv st"
  shows "preamble_found (twin p st) = preamble_found st"
    and "preamble_found st \<Longrightarrow> preamble_correlation (twin p st) = - preamble_correlation st \<and> preamble_correlation st \<noteq> 0"
proof -
  have c: "0 < d_samples_per_preamble st" "d_samples_per_preamble st \<le> d_required_symbols st"
    using assms(2) by (auto simp: sync_inv_def frame_config_def frame_numbers)
  have neg: "preamble_correlation (twin p st) = - preamble_correlation st" if "d_required_symbols st < length (d_symbol_history st)"
    unfolding twin_def by (rule correlation_negated) (use assms(1) c that in \<open>simp_all add: twins_def\<close>)
  show "preamble_found (twin p st) = preamble_found st"
    using neg by (auto simp: preamble_found_def twin_def)
  show "preamble_correlation (twin p st) = - preamble_correlation st \<and> preamble_correlation st \<noteq> 0" if "preamble_found st"
    using neg that c(1) by (auto simp: preamble_found_def)
qed

lemma stat_0_twin:
  assumes "twins p st" and "sync_inv st"
  shows "stat_0 (twin p st) = twin p (stat_0 st)" "d_stat st = 0 \<Longrightarrow> twins p (stat_0 st)"
  using preamble_found_twin(1) [OF assms] assms(1) by (simp_all add: stat_0_def twin_def mirrored_def twins_def)

lemma stat_1_twin:
  assumes "twins p st" and "sync_inv st" and "d_stat st = 1"
  shows "\<exists>p'. stat_1 (twin p st) = twin p' (stat_1 st) \<and> twins p' (stat_1 st)"
proof (cases "preamble_found st \<and> \<bar>to_int32 (uint (d_symbol_counter st - d_preamble_index st)) - int (d_preamble_period_symbols st)\<bar> = 0")
  case True
  then have f: "preamble_found (twin p st)" "preamble_correlation (twin p st) = - preamble_correlation st" "preamble_correlation st \<noteq> 0"
    using preamble_found_twin [OF assms(1,2)] by simp_all
  define c where "c = (preamble_correlation st < 0)"
  have "(preamble_correlation (twin p st) < 0) = (\<not> c)" using f by (auto simp: c_def)
  then have "stat_1 (twin p st) = (twin p st)\<lparr>d_preamble_index := d_symbol_counter (twin p st), d_CRC_error_counter := 0,
      d_flag_PLL_180_deg_phase_locked := \<not> c, d_stat := 2\<rparr>"
    using True f(1) unfolding stat_1_def c_def twin_def by (simp add: Let_def)
  moreover have "stat_1 st = st\<lparr>d_preamble_index := d_symbol_counter st, d_CRC_error_counter := 0,
      d_flag_PLL_180_deg_phase_locked := c, d_stat := 2\<rparr>"
    using True unfolding stat_1_def c_def by (simp add: Let_def)
  ultimately have "stat_1 (twin p st) = twin (\<not> c) (stat_1 st)" "twins (\<not> c) (stat_1 st)"
    using assms(1) by (simp_all add: twin_def mirrored_def twins_def)
  then show ?thesis by blast
next
  case False
  have late: "twin p (st\<lparr>d_stat := 0\<rparr>) = (twin p st)\<lparr>d_stat := 0\<rparr>" by (simp add: twin_def mirrored_def)
  have f: "d_symbol_counter (twin p st) = d_symbol_counter st" "d_preamble_index (twin p st) = d_preamble_index st"
    "d_preamble_period_symbols (twin p st) = d_preamble_period_symbols st"
    by (simp_all add: twin_def)
  have "stat_1 st \<in> {st, st\<lparr>d_stat := 0\<rparr>}" "stat_1 (twin p st) = twin p (stat_1 st)"
    using False unfolding stat_1_def preamble_found_twin(1) [OF assms(1,2)] f by (simp_all add: Let_def late)
  moreover from this(1) have "twins p (stat_1 st)" using assms(1,3) by (elim insertE emptyE) (simp_all add: twins_def)
  ultimately show ?thesis by blast
qed

lemma fetch_page_twin:
  assumes "twins p st" and "d_stat st = 2"
  shows "fetch_page (twin p st) = (case fetch_page st of Inl e \<Rightarrow> Inl e | Inr st' \<Rightarrow> Inr (twin p st'))"
proof -
  have p: "p = (\<not> d_flag_PLL_180_deg_phase_locked st)" using assms by (simp add: twins_def)
  show ?thesis
    by (simp add: fetch_page_def p twin_def mirrored_def Let_def take_map drop_map comp_def)
qed

lemma stat_2_twin:
  assumes tw: "twins p st" and inv: "tlm_inv crc st" and st: "d_stat st = 2"
  shows "stat_2 crc lm sy (twin p st) = on_state (map_option (twin p)) (stat_2 crc lm sy st)"
    and "stat_2 crc lm sy st = Inr (Some st', m) \<Longrightarrow> twins p st'"
proof -
  let ?h = "map uminus (d_symbol_history st)"
  obtain page where page: "fetch_page st = Inr (st\<lparr>d_page_part_symbols := page\<rparr>)"
    by (rule fetch_page_ok [OF _ st]) (use inv in auto)
  have t: "fetch_page (twin p st) = Inr (mirrored ?h p (st\<lparr>d_page_part_symbols := page\<rparr>))"
    using fetch_page_twin [OF tw st] by (simp add: page twin_def)
  have ft: "d_frame_type st \<in> {1, 2, 3}" using inv by (simp add: sync_inv_def frame_config_def)
  have dec: "stat_2 crc lm sy (twin p st) = on_state (map_option (mirrored ?h p)) (stat_2 crc lm sy st)"
  proof (cases "d_symbol_counter st = d_preamble_index st + of_nat (d_preamble_period_symbols st)")
    case True
    let ?st = "st\<lparr>d_page_part_symbols := page\<rparr>"
    have T: "d_symbol_counter (twin p st) = d_preamble_index (twin p st) + of_nat (d_preamble_period_symbols (twin p st))"
      using True by (simp add: twin_def)
    have m: "decode_frame crc lm sy (mirrored ?h p ?st) = on_state (mirrored ?h p) (decode_frame crc lm sy ?st)"
      by (simp add: decode_frame_def mirror)
    have f: "stat_2 crc lm sy x = bindr (decode_frame crc lm sy y) (\<lambda>(st2, m2). Inr (Some (fst (after_page st2)), m2 @ snd (after_page st2)))"
      if "fetch_page x = Inr y" "d_frame_type y \<in> {1, 2, 3}"
        "d_symbol_counter x = d_preamble_index x + of_nat (d_preamble_period_symbols x)" for x y
      using that by (auto simp: stat_2_def decode_frame_def Let_def bindr_def split: sum.split prod.split)
    have e: "stat_2 crc lm sy st = bindr (decode_frame crc lm sy ?st) (\<lambda>(st2, m2). Inr (Some (fst (after_page st2)), m2 @ snd (after_page st2)))"
      by (rule f [OF page _ True]) (use ft in simp)
    have e': "stat_2 crc lm sy (twin p st) = bindr (decode_frame crc lm sy (mirrored ?h p ?st))
        (\<lambda>(st2, m2). Inr (Some (fst (after_page st2)), m2 @ snd (after_page st2)))"
      by (rule f [OF t _ T]) (use ft in simp)
    show ?thesis unfolding e e' m by (cases "decode_frame crc lm sy ?st") (auto simp: mirror)
  next
    case False
    then show ?thesis by (simp add: stat_2_def twin_def)
  qed
  have keep: "d_symbol_history x = d_symbol_history st \<and> d_flag_PLL_180_deg_phase_locked x = d_flag_PLL_180_deg_phase_locked st"
    if "stat_2 crc lm sy st = Inr (Some x, m)" for x m
    using stat_2_inv [OF inv st that] by auto
  show "stat_2 crc lm sy (twin p st) = on_state (map_option (twin p)) (stat_2 crc lm sy st)"
  proof (cases "stat_2 crc lm sy st")
    case (Inr r)
    obtain x m where r: "r = (x, m)" by (rule prod.exhaust)
    show ?thesis unfolding dec Inr r using keep [of _ m] Inr r by (cases x) (auto simp: twin_def)
  qed (simp add: dec)
  show "twins p st'" if "stat_2 crc lm sy st = Inr (Some st', m)"
    using keep [OF that] tw st by (simp add: twins_def)
qed

lemma frame_sync_twin:
  assumes tw: "twins p st" and inv: "tlm_inv crc st"
  shows "\<exists>p'. frame_sync crc lm sy (twin p st) = on_state (map_option (twin p')) (frame_sync crc lm sy st)
    \<and> (\<forall>st' m. frame_sync crc lm sy st = Inr (Some st', m) \<longrightarrow> twins p' st')"
proof -
  have s: "sync_inv st" using inv by blast
  have "d_stat st \<le> 2" using s by (simp add: sync_inv_def)
  then consider "d_stat st = 0" | "d_stat st = 1" | "d_stat st = 2" by linarith
  then show ?thesis
  proof cases
    case 1
    have "d_stat (twin p st) = 0" using 1 by (simp add: twin_def)
    then show ?thesis using 1 stat_0_twin [OF tw s] by (intro exI [of _ p]) (simp add: frame_sync_def)
  next
    case 2
    obtain p' where p': "stat_1 (twin p st) = twin p' (stat_1 st)" "twins p' (stat_1 st)" using stat_1_twin [OF tw s 2] by blast
    have "d_stat (twin p st) = 1" using 2 by (simp add: twin_def)
    then show ?thesis using 2 p' by (intro exI [of _ p']) (simp add: frame_sync_def)
  next
    case 3
    have "d_stat (twin p st) = 2" using 3 by (simp add: twin_def)
    then show ?thesis using 3 stat_2_twin [OF tw inv 3, of lm sy] by (intro exI [of _ p]) (simp add: frame_sync_def)
  qed
qed

subsection \<open>One call\<close>

lemma mirror_start [mirror]:
  "read_timetags tags (mirrored h p st) = mirrored h p (read_timetags tags st)"
  "check_telemetry (mirrored h p st) = apfst (mirrored h p) (check_telemetry st)"
  "(mirrored h p st)\<lparr>d_flag_preamble := b\<rparr> = mirrored h p (st\<lparr>d_flag_preamble := b\<rparr>)"
proof -
  define f :: "gnss_time option \<Rightarrow> telemetry \<Rightarrow> telemetry" where
    "f = (\<lambda>t st. case t of Some timetag \<Rightarrow> st\<lparr>d_current_timetag := timetag, d_valid_timetag := True\<rparr> | None \<Rightarrow> st)"
  have step: "f t (mirrored h p st) = mirrored h p (f t st)" for t st by (simp add: f_def mirrored_def split: option.split)
  have "fold f ts (mirrored h p st) = mirrored h p (fold f ts st)" for ts
    by (induction ts arbitrary: st) (simp_all add: step)
  then show "read_timetags tags (mirrored h p st) = mirrored h p (read_timetags tags st)"
    unfolding read_timetags_def f_def [symmetric] by (simp add: mirrored_def Let_def)
qed (simp_all add: check_telemetry_def mirrored_def)

lemma negated_fields [simp]:
  "sync_Signal (negated sy) = sync_Signal sy" "frame_sync crc lm (negated sy) st = frame_sync crc lm sy st"
  "update_TOW (negated sy) st = update_TOW sy st"
proof -
  have p: "publish_tow (negated sy) = publish_tow sy" "publish_packet (negated sy) = publish_packet sy"
    by (rule ext, simp add: publish_tow_def publish_packet_def negated_def)+
  have c: "cnav_TOW_at_preamble (negated sy) = cnav_TOW_at_preamble sy"
    by (rule ext) (simp add: cnav_TOW_at_preamble_def negated_def)
  show "update_TOW (negated sy) st = update_TOW sy st"
    unfolding update_TOW_def inav_TOW_at_preamble_def fnav_TOW_at_preamble_def inav_set_TOW_def fnav_set_TOW_def p c ..
  have n: "sync_fs (negated sy) = sync_fs sy" "Tracking_sample_counter (negated sy) = Tracking_sample_counter sy"
    by (simp_all add: negated_def)
  show "frame_sync crc lm (negated sy) st = frame_sync crc lm sy st" unfolding frame_sync_def stat_2_def n ..
qed (simp add: negated_def)

lemma push_negated: "push_symbol n (- x) (map uminus xs) = map uminus (push_symbol n x xs)"
  by (cases xs) (simp_all add: push_symbol_def)

lemma push_nonzero: "x \<noteq> 0 \<Longrightarrow> nonzero xs \<Longrightarrow> nonzero (push_symbol n x xs)"
  by (auto simp: push_symbol_def dest: in_set_dropD)

lemma to_float_minus: "to_float (- x) = - to_float x"
  by (simp add: to_float_def rnd_minus)

text \<open>\<open>follows r r'\<close>: the results of a call of the two runs.\<close>

definition follows ::
  "(telemetry \<times> tlm_message list \<times> work_result) result \<Rightarrow> (telemetry \<times> tlm_message list \<times> work_result) result \<Rightarrow> bool" where
  "follows w w' \<longleftrightarrow> (case w of Inl e \<Rightarrow> w' = Inl e
     | Inr (st', m, r) \<Rightarrow> \<exists>p r'. w' = Inr (twin p st', m, r') \<and> (r' = Finished) = (r = Finished) \<and> twins p st')"

lemma start_twin:
  assumes tw: "twins p st" and x: "to_float (Prompt_I sy) \<noteq> 0" and sig: "sync_Signal sy \<noteq> []"
  obtains st1 st3 m3 where "receive_symbol sy st = Inr st1" "receive_symbol (negated sy) (twin p st) = Inr (twin p st1)"
    "check_telemetry ((read_timetags tags st1)\<lparr>d_flag_preamble := False\<rparr>) = (st3, m3)"
    "check_telemetry ((read_timetags tags (twin p st1))\<lparr>d_flag_preamble := False\<rparr>) = (twin p st3, m3)"
    "prepared sy st st3" "twins p st3"
proof -
  obtain c cs where c: "sync_Signal sy = c # cs" using sig by (cases "sync_Signal sy") auto
  define st1 where "st1 = st\<lparr>d_band := c,
      d_symbol_history := push_symbol (d_required_symbols st + 1) (to_float (Prompt_I sy)) (d_symbol_history st),
      d_symbol_counter := d_symbol_counter st + 1\<rparr>"
  have r: "receive_symbol sy st = Inr st1" by (simp add: receive_symbol_def st1_def c)
  have "Prompt_I (negated sy) = - Prompt_I sy" by (simp add: negated_def)
  then have r': "receive_symbol (negated sy) (twin p st) = Inr (twin p st1)"
    by (simp add: receive_symbol_def c twin_def) (simp add: st1_def mirrored_def to_float_minus push_negated)
  obtain tag valid where tags: "read_timetags tags st1 = st1\<lparr>d_current_timetag := tag, d_valid_timetag := valid\<rparr>"
    using read_timetags_frame [of st1 tags] by (auto simp: timetagged_def)
  define st2 where "st2 = (read_timetags tags st1)\<lparr>d_flag_preamble := False\<rparr>"
  obtain b where b: "fst (check_telemetry st2) = st2\<lparr>d_sent_tlm_failed_msg := b\<rparr>" using check_telemetry_frame by blast
  obtain m3 where st3: "check_telemetry st2 = (st2\<lparr>d_sent_tlm_failed_msg := b\<rparr>, m3)" using b by (cases "check_telemetry st2") simp
  have h: "d_symbol_history (st2\<lparr>d_sent_tlm_failed_msg := b\<rparr>) = d_symbol_history st1" unfolding st2_def tags by simp
  show ?thesis
  proof (rule that [OF r r' st3 [unfolded st2_def]])
    show "check_telemetry ((read_timetags tags (twin p st1))\<lparr>d_flag_preamble := False\<rparr>) = (twin p ((read_timetags tags st1)\<lparr>d_flag_preamble := False, d_sent_tlm_failed_msg := b\<rparr>), m3)"
      using st3 h unfolding st2_def twin_def by (simp add: mirror)
    show "prepared sy st ((read_timetags tags st1)\<lparr>d_flag_preamble := False, d_sent_tlm_failed_msg := b\<rparr>)"
      unfolding prepared_def by (rule exI [of _ tag], rule exI [of _ valid], rule exI [of _ b]) (unfold tags, simp add: st1_def c)
    show "twins p ((read_timetags tags st1)\<lparr>d_flag_preamble := False, d_sent_tlm_failed_msg := b\<rparr>)"
      unfolding tags using tw push_nonzero [OF x] by (simp add: twins_def st1_def)
  qed
qed

lemma update_TOW_twin:
  assumes "twins p st" and "tlm_inv crc st" and "update_TOW sy st = Inr (st5, m5)"
  shows "update_TOW sy (twin p st) = Inr (twin p st5, m5)" "update_delta_t (twin p st5) = twin p (update_delta_t st5)"
    "twins p (update_delta_t st5)"
proof -
  have o: "only_times st st5" by (rule update_TOW_inv(1) [OF assms(2,3)])
  have h: "d_symbol_history st5 = d_symbol_history st" using o by (simp add: only_times_def same_sync_def)
  show "update_TOW sy (twin p st) = Inr (twin p st5, m5)" by (simp add: twin_def mirror assms(3) h)
  have d: "d_symbol_history (update_delta_t st5) = d_symbol_history st5"
    using update_delta_t_frame(1) [of st5] by (simp add: only_times_def same_sync_def)
  show "update_delta_t (twin p st5) = twin p (update_delta_t st5)" by (simp add: twin_def mirror d)
  show "twins p (update_delta_t st5)"
    using assms(1) o update_delta_t_frame(1) [of st5] by (simp add: twins_def only_times_def same_sync_def)
qed

lemma general_work_twin:
  assumes tw: "twins p st" and inv: "tlm_inv crc st" and x: "to_float (Prompt_I sy) \<noteq> 0"
  shows "follows (general_work crc lm (sy, tags) st) (general_work crc lm (negated sy, tags) (twin p st))"
proof (cases "sync_Signal sy = []")
  case True
  then show ?thesis by (simp add: general_work_def receive_symbol_def follows_def)
next
  case False
  obtain st1 st3 m3 where s: "receive_symbol sy st = Inr st1" "receive_symbol (negated sy) (twin p st) = Inr (twin p st1)"
    "check_telemetry ((read_timetags tags st1)\<lparr>d_flag_preamble := False\<rparr>) = (st3, m3)"
    "check_telemetry ((read_timetags tags (twin p st1))\<lparr>d_flag_preamble := False\<rparr>) = (twin p st3, m3)"
    "prepared sy st st3" "twins p st3"
    by (rule start_twin [OF tw x False])
  note inv3 = prepared_inv [OF s(5) inv]
  obtain p' where f: "frame_sync crc lm sy (twin p st3) = on_state (map_option (twin p')) (frame_sync crc lm sy st3)"
    "\<forall>st' m. frame_sync crc lm sy st3 = Inr (Some st', m) \<longrightarrow> twins p' st'"
    using frame_sync_twin [OF s(6) inv3] by blast
  note w = general_work_def s(1,2,3,4) f(1)
  show ?thesis
  proof (cases "frame_sync crc lm sy st3")
    case (Inl e)
    then show ?thesis by (simp add: w follows_def)
  next
    case (Inr y)
    obtain o4 m4 where y: "y = (o4, m4)" by (rule prod.exhaust)
    obtain st4 where st4: "o4 = Some st4" "tlm_inv crc st4" using frame_sync_inv [OF inv3 Inr [unfolded y]] by blast
    have tw4: "twins p' st4" using f(2) Inr y st4(1) by blast
    show ?thesis
    proof (cases "update_TOW sy st4")
      case u: (Inl e)
      have "update_TOW sy (twin p' st4) = Inl e" by (simp add: twin_def mirror u)
      then show ?thesis using u by (simp add: w Inr y st4(1) follows_def)
    next
      case u: (Inr z)
      obtain st5 m5 where z: "z = (st5, m5)" by (rule prod.exhaust)
      note t = update_TOW_twin [OF tw4 st4(2) u [unfolded z]]
      have fin: "(case q of Some out \<Rightarrow> Produced out | None \<Rightarrow> Nothing) \<noteq> Finished" for q by (simp split: option.split)
      show ?thesis using t fin by (simp add: w Inr y st4(1) u z follows_def Let_def) blast
    qed
  qed
qed

subsection \<open>Runs\<close>

lemma works_twin:
  assumes "twins p st" and "tlm_inv crc st" and "\<forall>x \<in> set xs. to_float (Prompt_I (fst x)) \<noteq> 0"
  shows "case works crc lm xs st of Inl e \<Rightarrow> works crc lm (map (apfst negated) xs) (twin p st) = Inl e
    | Inr (st', m) \<Rightarrow> \<exists>p'. works crc lm (map (apfst negated) xs) (twin p st) = Inr (twin p' st', m)"
  using assms
proof (induction xs arbitrary: p st)
  case Nil
  then show ?case by auto
next
  case (Cons x xs)
  obtain sy tags where x: "x = (sy, tags)" by (rule prod.exhaust)
  have ne: "to_float (Prompt_I sy) \<noteq> 0" using Cons.prems(3) x by simp
  note g = general_work_twin [OF Cons.prems(1,2) ne, of lm tags]
  show ?case
  proof (cases "general_work crc lm (sy, tags) st")
    case (Inl e)
    then show ?thesis using g by (simp add: x follows_def)
  next
    case (Inr w)
    obtain st1 m1 r where w: "w = (st1, m1, r)" by (cases w)
    obtain p1 r1 where t: "general_work crc lm (negated sy, tags) (twin p st) = Inr (twin p1 st1, m1, r1)"
      "(r1 = Finished) = (r = Finished)" "twins p1 st1"
      using g by (auto simp: follows_def Inr w)
    have i: "tlm_inv crc st1" "r \<noteq> Finished" using general_work_inv [OF Cons.prems(2) Inr [unfolded w]] by simp_all
    have IH: "case works crc lm xs st1 of Inl e \<Rightarrow> works crc lm (map (apfst negated) xs) (twin p1 st1) = Inl e
      | Inr (st', m) \<Rightarrow> \<exists>p'. works crc lm (map (apfst negated) xs) (twin p1 st1) = Inr (twin p' st', m)"
      by (rule Cons.IH [OF t(3) i(1)]) (use Cons.prems(3) in simp)
    show ?thesis
    proof (cases "works crc lm xs st1")
      case s: (Inl e)
      then show ?thesis using IH t i(2) by (simp add: x Inr w)
    next
      case s: (Inr y)
      obtain st2 m2 where y: "y = (st2, m2)" by (rule prod.exhaust)
      obtain p2 where "works crc lm (map (apfst negated) xs) (twin p1 st1) = Inr (twin p2 st2, m2)" using IH by (auto simp: s y)
      then show ?thesis using s y t i(2) by (auto simp: x Inr w)
    qed
  qed
qed

text \<open>
  C19: The carrier phase ambiguity does not matter. A channel that receives every symbol with the
  opposite sign publishes exactly the same messages as one that receives the right signs (ephemerides,
  almanacs, OSNMA pages, times of week, warnings to the tracking block), and fails exactly when it does;
  the symbols may be any values but zero, with any time tags, for any of the three frame types.
\<close>

theorem polarity_irrelevant:
  assumes "frame_type \<in> {1, 2, 3}" and "\<forall>x \<in> set xs. to_float (Prompt_I (fst x)) \<noteq> 0"
  shows "(case works crc lm (map (apfst negated) xs) (galileo_make_telemetry_decoder_gs sat conf frame_type) of Inl e \<Rightarrow> Inl e | Inr (st, m) \<Rightarrow> Inr m)
       = (case works crc lm xs (galileo_make_telemetry_decoder_gs sat conf frame_type) of Inl e \<Rightarrow> Inl e | Inr (st, m) \<Rightarrow> Inr m)"
proof -
  let ?st = "galileo_make_telemetry_decoder_gs sat conf frame_type"
  have fields: "d_symbol_history ?st = []" "d_stat ?st = 0" "d_flag_PLL_180_deg_phase_locked ?st = False"
    by (simp_all add: galileo_make_telemetry_decoder_gs_def Let_def)
  then have "twin False ?st = ?st" by (simp add: twin_def mirrored_def)
  moreover have "twins False ?st" using fields by (simp add: twins_def)
  ultimately show ?thesis
    using works_twin [OF _ made_inv [OF assms(1), where crc = crc and sat = sat and conf = conf] assms(2), of False lm]
    by (cases "works crc lm xs ?st") auto
qed

theorem polarity_irrelevant_witness:
  "(case works (\<lambda>_. 0) sample_libm [(symbol_with ''1B'' 7, []), (symbol_with ''1B'' (- 5), [])] (galileo_make_telemetry_decoder_gs E11 plain_conf 1)
      of Inl e \<Rightarrow> Inl e | Inr (st, m) \<Rightarrow> Inr m)
   = (case works (\<lambda>_. 0) sample_libm [(symbol_with ''1B'' (- 7), []), (symbol_with ''1B'' 5, [])] (galileo_make_telemetry_decoder_gs E11 plain_conf 1)
      of Inl e \<Rightarrow> Inl e | Inr (st, m) \<Rightarrow> Inr m)"
proof -
  have n: "map (apfst negated) [(symbol_with ''1B'' (- 7), []), (symbol_with ''1B'' 5, [])] = [(symbol_with ''1B'' 7, []), (symbol_with ''1B'' (- 5), [])]"
    by (simp add: negated_def symbol_with_def)
  have z: "\<forall>x \<in> set [(symbol_with ''1B'' (- 7), []), (symbol_with ''1B'' 5, [])]. to_float (Prompt_I (fst x)) \<noteq> 0"
    using to_float_int [of 5] to_float_int [of "- 7"] by (simp add: symbol_with_def)
  show ?thesis using polarity_irrelevant [OF _ z, of 1 "\<lambda>_. 0" sample_libm E11 plain_conf] unfolding n by simp
qed

end
