(* ===== verification/Osnma_Pipeline.thy ===== *)
theory Osnma_Pipeline
  imports Telemetry_Properties Osnma_Processor_Witness
begin

section \<open>From symbols to the verified root key\<close>

text \<open>
  The composition of the telemetry decoder of one channel with the OSNMA block: what the first
  publishes on its port \<^verbatim>\<open>telemetry_to_OSNMA\<close> is what the message handler of the second receives.
\<close>

definition osnma_pages :: "nat \<Rightarrow> (bool list \<times> bool list) list \<Rightarrow> galileo_osnma list" where
  "osnma_pages prn pairs = map (\<lambda>(pe, po). osnma_of_pages prn pe po) pairs"

definition pipeline ::
  "(byte list \<Rightarrow> nat) \<Rightarrow> libm \<Rightarrow> ('k, 'z) gnutls_scheme \<Rightarrow> (gnss_synchro \<times> gnss_time option list) list
     \<Rightarrow> telemetry \<times> 'k osnma_processor \<Rightarrow> ((telemetry \<times> 'k osnma_processor) \<times> osnma_log list) result" where
  "pipeline crc lm gt xs s = (case s of (st, os) \<Rightarrow>
     bindr (works crc lm xs st) (\<lambda>(st', m).
     bindr (run_messages gt (osnma_messages m) os) (\<lambda>(os', logs). Inr ((st', os'), logs))))"

lemma osnma_pages_concat: "osnma_pages prn (concat (map fst subs)) = concat (map (\<lambda>(p, ms, i, b). ms)
    (map (\<lambda>(ps, i, b). (int prn, osnma_pages prn ps, i, b)) subs))"
  by (induction subs) (auto simp: osnma_pages_def)

text \<open>
  C1: From symbols to the verified root key. A synchronised E1 channel receives the symbols of the
  subframes of a DSM-KROOT, thirty page parts each, coded as transmitted, with right signs up to the
  carrier phase and right CRCs, the subframes in any order; a newly constructed OSNMA block receives
  what the channel publishes. Then no call fails, and the OSNMA block reports exactly the outcome of
  verifying the concatenated blocks with its stored keys, and records it with the blocks.
\<close>

theorem kroot_from_symbols:
  assumes st: "tracks crc st" "d_symbol_counter st = d_preamble_index st" "d_CRC_error_counter st < 5" "d_enable_osnma st"
    and xs: "E1_symbols xs" "length xs = 500 * length (concat (map fst subs))"
    and pairs: "\<forall>(pe, po) \<in> set (concat (map fst subs)). good_pair crc pe po"
    and stream: "\<forall>k < length (concat (map fst subs)). carried (d_flag_PLL_180_deg_phase_locked st) (d_symbol_history st @ symbols_of xs) k
      (fst (concat (map fst subs) ! k)) (snd (concat (map fst subs) ! k))"
    and os: "new_osnma_processor env dir = Inr os"
    and blocks: "\<forall>(ps, i, b) \<in> set subs. carries (int (sat_PRN (d_satellite st))) dsm_id header i b (osnma_pages (sat_PRN (d_satellite st)) ps)"
    and bs: "bs = map (\<lambda>(ps, i, b). (i, b)) subs" "distinct (map fst bs)" "fst ` set bs = {0..<nb}"
    and nb: "0 < nb" "nb < 2 ^ 31" "announces bs nb"
    and verify: "verify_dsm_kroot gt (public_keys os) header (concat (map (block_at bs) (dsm_block_ids nb))) = Inr (ok, logs)"
  shows "\<exists>st' os'. pipeline crc lm gt xs (st, os) = Inr ((st', os'), logs) \<and> tracks crc st' \<and>
    map_of (dsm_id_dsm_message_map os') dsm_id = Some \<lparr>nb_blocks = nb, nma_header = header, id_block_map = bs, is_processed = ok\<rparr>"
proof -
  let ?prn = "sat_PRN (d_satellite st)"
  let ?subs = "map (\<lambda>(ps, i, b). (int ?prn, osnma_pages ?prn ps, i, b)) subs"
  obtain st' m where w: "works crc lm xs st = Inr (st', m)" "tracks crc st'" "osnma_messages m = osnma_pages ?prn (concat (map fst subs))"
    using pairs_run [OF st xs pairs stream, of lm] by (auto simp: osnma_pages_def)
  have c: "\<forall>(p, ms, i, b) \<in> set ?subs. carries p dsm_id header i b ms" using blocks by auto
  have b: "bs = map (\<lambda>(p, ms, i, b). (i, b)) ?subs" by (simp add: bs(1) comp_def split_def)
  obtain os' where "run_messages gt (concat (map (\<lambda>(p, ms, i, b). ms) ?subs)) os = Inr (os', logs)"
    "map_of (dsm_id_dsm_message_map os') dsm_id = Some \<lparr>nb_blocks = nb, nma_header = header, id_block_map = bs, is_processed = ok\<rparr>"
    using kroot_run [OF os c b bs(2,3) nb verify] by blast
  then show ?thesis using w by (simp add: pipeline_def osnma_pages_concat)
qed

subsection \<open>The concrete transmission, as symbols\<close>

text \<open>The page parts that carry a message for OSNMA, the fields it does not use being zero.\<close>

definition pages_with :: "galileo_osnma \<Rightarrow> bool list \<times> bool list" where
  "pages_with m = (False # False # map char_bit (take 112 (osnma_nav_data m)),
     True # False # map char_bit (drop 112 (osnma_nav_data m)) @ map char_bit (OSNMA_data m) @ replicate 56 False)"

lemma pages_with_good:
  assumes "in_place prn i m"
  shows "good_pair (\<lambda>_. 0) (fst (pages_with m)) (snd (pages_with m))"
    and "prn = int n \<Longrightarrow> osnma_of_pages n (fst (pages_with m)) (snd (pages_with m)) = m"
proof -
  have l: "length (OSNMA_data m) = 40" "length (osnma_nav_data m) = 128" "bin_string (OSNMA_data m)" "bin_string (osnma_nav_data m)" "osnma_PRN m = prn"
    using assms by (simp_all add: in_place_def)
  have "take 24 (drop 196 (map bit_char (fst (pages_with m)) @ page_text (snd (pages_with m)))) = replicate 24 (CHR ''0'')"
    using l(1,2) by (simp add: pages_with_def page_text_def drop_Cons' bit_char_def)
  then have "crc_ok (\<lambda>_. 0) (map bit_char (fst (pages_with m)) @ page_text (snd (pages_with m)))" by (simp only: crc_ok_def bin_value_zeros)
  then show "good_pair (\<lambda>_. 0) (fst (pages_with m)) (snd (pages_with m))"
    using l(1,2) by (simp add: good_pair_def) (simp add: pages_with_def)
  have id: "map (bit_char \<circ> char_bit) s = s" if "bin_string s" for s
    using that by (intro map_idI) (auto simp: list_all_iff)
  have "map bit_char (map char_bit (take 112 (osnma_nav_data m)) @ map char_bit (drop 112 (osnma_nav_data m))) = osnma_nav_data m"
    using id [OF l(4)] by (simp add: map_append [symmetric] del: map_append)
  moreover have "map bit_char (map char_bit (OSNMA_data m)) = OSNMA_data m" using id [OF l(3)] by simp
  ultimately show "osnma_of_pages n (fst (pages_with m)) (snd (pages_with m)) = m" if "prn = int n"
    using l that by (simp add: osnma_of_pages_def pages_with_def drop_Cons')
qed

definition sample_subs :: "((bool list \<times> bool list) list \<times> int \<times> string) list" where
  "sample_subs = map (\<lambda>(i, b). (map pages_with (ex_subframe 11 i b), i, b)) ex_blocks"

lemma ex_block_wf: "(i, b) \<in> set ex_blocks \<Longrightarrow> bin_string b \<and> length b = 104 \<and> 0 \<le> i \<and> i < 16"
proof -
  have "bin_string (zeros n)" for n by (simp add: zeros_def list_all_iff is_bit_char_def)
  then show "(i, b) \<in> set ex_blocks \<Longrightarrow> bin_string b \<and> length b = 104 \<and> 0 \<le> i \<and> i < 16"
    by (auto simp: ex_blocks_def ex_block0_def is_bit_char_def)
qed

lemma carries_in_place: "carries prn dsm_id header i b ms \<Longrightarrow> m \<in> set ms \<Longrightarrow> \<exists>k. in_place prn k m"
  by (auto simp: carries_def in_set_conv_nth)

lemma pages_with_carries:
  assumes "carries 11 dsm_id header i b ms"
  shows "osnma_pages 11 (map pages_with ms) = ms" "\<forall>(pe, po) \<in> set (map pages_with ms). good_pair (\<lambda>_. 0) pe po"
proof -
  have m: "\<exists>k. in_place (int 11) k m" if "m \<in> set ms" for m using carries_in_place [OF assms that] by simp
  have "osnma_of_pages 11 (fst (pages_with m)) (snd (pages_with m)) = m" if "m \<in> set ms" for m
    using m [OF that] pages_with_good(2) by blast
  then show "osnma_pages 11 (map pages_with ms) = ms" by (simp add: osnma_pages_def split_def map_idI)
  have "good_pair (\<lambda>_. 0) (fst (pages_with m)) (snd (pages_with m))" if "m \<in> set ms" for m
    using m [OF that] pages_with_good(1) by blast
  then show "\<forall>(pe, po) \<in> set (map pages_with ms). good_pair (\<lambda>_. 0) pe po" by (auto simp: split_def)
qed

lemma sample_subs_wf:
  "\<forall>(ps, i, b) \<in> set sample_subs. carries (int 11) 3 ex_header i b (osnma_pages 11 ps)"
  "\<forall>(pe, po) \<in> set (concat (map fst sample_subs)). good_pair (\<lambda>_. 0) pe po"
  "map (\<lambda>(ps, i, b). (i, b)) sample_subs = ex_blocks"
proof -
  have c: "carries 11 3 ex_header i b (ex_subframe 11 i b)" if "(i, b) \<in> set ex_blocks" for i b
    using ex_subframe_carries ex_block_wf [OF that] by blast
  show "\<forall>(ps, i, b) \<in> set sample_subs. carries (int 11) 3 ex_header i b (osnma_pages 11 ps)"
    using c pages_with_carries(1) [OF c] by (auto simp: sample_subs_def)
  show "\<forall>(pe, po) \<in> set (concat (map fst sample_subs)). good_pair (\<lambda>_. 0) pe po"
    using pages_with_carries(2) [OF c] by (fastforce simp: sample_subs_def)
  show "map (\<lambda>(ps, i, b). (i, b)) sample_subs = ex_blocks" by (simp add: sample_subs_def comp_def split_def)
qed

theorem kroot_from_symbols_witness:
  "\<exists>st' os'. pipeline (\<lambda>_. 0) sample_libm ex_gnutls (inputs_of (stream_of (concat (map fst sample_subs))))
      (channel_at (stream_of (concat (map fst sample_subs))), ex_start) =
      Inr ((st', os'), [NewDsmKroot 1 (zeros 96) (zeros 512) (zeros 16) (ex_header @ drop 8 ex_block0 @ zeros 96), PadMatches,
        KrootVerified 1 0 0]) \<and> tracks (\<lambda>_. 0) st' \<and>
    map_of (dsm_id_dsm_message_map os') 3 =
      Some \<lparr>nb_blocks = 7, nma_header = ex_header, id_block_map = ex_blocks, is_processed = True\<rparr>"
proof -
  let ?s = "stream_of (concat (map fst sample_subs))"
  have prn: "sat_PRN (d_satellite (channel_at ?s)) = 11" by (simp add: channel_fields(4) E11_fields)
  show ?thesis
    by (rule kroot_from_symbols [OF channel_tracks [OF stream_length(2)] channel_fields(1,2,3) stream_inputs(1) stream_length(1) sample_subs_wf(2)
          stream_carried ex_new sample_subs_wf(1) [folded prn] sample_subs_wf(3) [symmetric] ex_ids _ _ ex_announces ex_verify_blocks]) simp_all
qed

end
