(* ===== verification/Spec2Isabelle.thy ===== *)
theory Spec2Isabelle
  imports Osnma_Dsm_Witness Osnma_Processor_Witness Galileo_Data_Correct Galileo_Fnav_Correct Receiver_Properties
    Telemetry_Polarity Osnma_Pipeline
begin

text \<open>
  A verification library for GNSS-SDR with OSNMA, the software receiver under
  \<^verbatim>\<open>src/src\<close>. Samples go through acquisition and tracking to the telemetry decoders, which
  rebuild the navigation messages of the satellites; the observables and PVT blocks use the
  decoded data, and the OSNMA block authenticates it. The library models two parts of the receiver:
  the path of a Galileo page, from the symbols of a tracking channel over the telemetry decoder to
  the data sets handed to PVT and to the verified OSNMA root key; and the control plane, which
  starts the receiver, assigns satellites to channels and reacts to their events.

  \<^bold>\<open>Theories and sources.\<close>

  \<^item> \<open>Prelude\<close>: the result type \<open>error + 'a\<close> (every exception of the C++ library and every
    undefined behaviour the code could reach is a value of \<open>error\<close>), \<^verbatim>\<open>std::string::substr\<close>,
    \<^verbatim>\<open>std::unordered_map\<close> as an association list (\<open>umap\<close>), conversions to \<^verbatim>\<open>int32_t\<close> and
    \<^verbatim>\<open>size_t\<close>, and the lemmas on them. \<open>Ieee754\<close>: rounding of rationals to double precision,
    used wherever the code computes in \<^verbatim>\<open>double\<close>.
  \<^item> \<open>Osnma_Utils\<close>, \<open>Osnma_Constants\<close>, \<open>Osnma_Keys\<close>, \<open>Osnma_Subframe\<close>, \<open>Osnma_Dsm\<close>,
    \<open>Osnma_Processor\<close>: the directory \<^verbatim>\<open>algorithms/security\<close>, one theory per class or header
    (\<^verbatim>\<open>osnma_utils\<close>, \<^verbatim>\<open>osnma_key_utils\<close>, \<^verbatim>\<open>osnma_subframe\<close>, \<^verbatim>\<open>osnma_dsm_message\<close>,
    \<^verbatim>\<open>osnma_processor\<close>, \<^verbatim>\<open>galileo_osnma_worker\<close>) and \<^verbatim>\<open>Galileo_OSNMA.h\<close>. The record
    \<open>osnma_processor\<close> has the members of the class; \<open>feed_page\<close>, \<open>process_subframe\<close>,
    \<open>process_dsm_kroot_block\<close> are its methods with the state passed explicitly and what they
    print returned as a list of \<open>osnma_log\<close>.
  \<^item> \<open>Osnma_Dsm_Correct\<close>, \<open>Osnma_Processor_Correct\<close> and the two \<open>Witness\<close> theories: a root key
    is reported as verified only when a loaded public key verifies the signature over exactly
    the transmitted header, chain fields and key, through any sequence of pages; a correctly
    transmitted root key is verified, whatever the order of its blocks; the processor refines
    a state machine with one page list per satellite; no sequence of messages reaches undefined
    behaviour; satellites do not disturb each other.
  \<^item> \<open>Math_Constants\<close>, \<open>Galileo_INAV\<close>, \<open>Galileo_FNAV\<close>: \<^verbatim>\<open>MATH_CONSTANTS.h\<close>,
    \<^verbatim>\<open>Galileo_INAV.h\<close>, \<^verbatim>\<open>Galileo_FNAV.h\<close>. The bit slices of the fields are kept as the lists of
    pairs the headers have.
  \<^item> \<open>Nav_Bits\<close>: the readers of bit fields that the navigation messages share, with the
    locale \<open>nav_reader\<close> for the contract (size of the bit set, position of the first bit) and
    its lemmas on ranges and sign extension; \<open>Galileo_Inav_Message\<close> and
    \<open>Galileo_Fnav_Message\<close> interpret it for 128 and 214 bits.
  \<^item> \<open>Galileo_Inav_Message\<close>, \<open>Galileo_Inav_Decoder\<close>, \<open>Reed_Solomon\<close>, \<open>Galileo_Data\<close>,
    \<open>Galileo_Inav_Data\<close>: \<^verbatim>\<open>galileo_inav_message.cc/.h\<close> (state, word decoders, CRC and page
    joining, the FEC2 buffers, the \<^verbatim>\<open>have_new_\<close> methods and the getters), \<^verbatim>\<open>reed_solomon.cc\<close>,
    and the data classes it fills (\<^verbatim>\<open>galileo_ephemeris\<close>, \<^verbatim>\<open>galileo_almanac_helper\<close>,
    \<^verbatim>\<open>galileo_utc_model\<close>, \<^verbatim>\<open>galileo_reduced_ced\<close>, \<^verbatim>\<open>galileo_ism\<close>, \<^verbatim>\<open>galileo_iono\<close>).
  \<^item> \<open>Galileo_Inav_Correct\<close>: a page pair with a correct checksum delivers its word and its
    OSNMA field, one with a wrong checksum changes nothing but the flag, and the octets stored
    from words 1 to 4 regenerate exactly those words.
  \<^item> \<open>Galileo_Inav_Session\<close>: the reachable states of a message object as an inductive
    predicate over all its public operations, the invariant of these states, that the FEC2
    decoder is always called within its bounds, that an ephemeris is reported once, and the
    parity flags a change of the issue of data leaves behind.
  \<^item> \<open>Galileo_Data_Correct\<close>: the reduced clock and ephemeris data (times, and the overflow of
    its 32-bit arithmetic), the conversion of Galileo time to UTC, the second almanac.
  \<^item> \<open>Galileo_Fnav_Message\<close>, \<open>Galileo_Fnav_Correct\<close>: \<^verbatim>\<open>galileo_fnav_message.cc/.h\<close>: total
    page decoding, the equivalence of its reader of signed fields with the two's complement
    value, the right ascension lost at the end of page 6.

  \<^item> \<open>Viterbi\<close>, \<open>Galileo_CNAV\<close>, \<open>Galileo_Cnav_Message\<close>, \<open>Galileo_Telemetry\<close>:
    \<^verbatim>\<open>viterbi_decoder.cc/.h\<close>, \<^verbatim>\<open>Galileo_CNAV.h\<close>, \<^verbatim>\<open>galileo_cnav_message.cc/.h\<close> and the block
    \<^verbatim>\<open>galileo_telemetry_decoder_gs\<close> (construction, setters, the three page decoders, and
    \<open>general_work\<close>, one call per symbol: time tags, search for the preamble, pages, loss of
    synchronisation, time of week). What the block publishes on its ports is a list of
    \<open>tlm_message\<close>.
  \<^item> \<open>Viterbi_Correct\<close>: the decoder recovers the bits of a coded block in any state of use; the
    second symbol of each pair is never used. \<open>Telemetry_Symbols\<close>: the channel coding of a page
    (code, inverter, interleaver) is undone. \<open>Telemetry_Correct\<close>: the reachable states of the
    block as an inductive predicate and their invariant. \<open>Telemetry_Run\<close>: sequences of calls,
    between pages, at a page, and over any number of page pairs. \<open>Telemetry_Properties\<close>: from the
    symbols of page pairs to the messages for OSNMA, well-formed pages from any symbols, no failure of I/NAV and F/NAV channels,
    the second publication of old OSNMA data. \<open>Telemetry_Polarity\<close>: a simulation between a run
    and the run with all symbols negated, by which the carrier phase does not matter.
    \<open>Osnma_Pipeline\<close>: the telemetry decoder and the OSNMA block composed; the symbols of a root
    key lead to its verification.
  \<^item> \<open>Gnss_Signals\<close>, \<open>Channel_Fsm\<close>, \<open>Gnss_Flowgraph\<close>, \<open>Gnss_Receiver\<close>: \<^verbatim>\<open>gnss_satellite.cc\<close>,
    \<^verbatim>\<open>gnss_signal.cc\<close>, \<^verbatim>\<open>channel_fsm.cc\<close>, \<^verbatim>\<open>channel.cc\<close>, \<^verbatim>\<open>channel_msg_receiver_cc.cc\<close>, the parts of
    \<^verbatim>\<open>gnss_flowgraph.cc\<close> that handle satellites and channels, \<^verbatim>\<open>control_thread.cc\<close> (event
    dispatching) and the creation of channels in \<^verbatim>\<open>gnss_block_factory.cc\<close>. Every handler is taken
    as an atomic step, as the locks of the code make it; the build without FPGA is modelled.
  \<^item> \<open>Channel_Correct\<close>, \<open>Flowgraph_Correct\<close>, \<open>Receiver_Start\<close>, \<open>Receiver_Correct\<close>,
    \<open>Receiver_Properties\<close>: the interfaces between state machine, flow graph and control thread as
    locales and their interpretations, the interleavings of their steps as an inductive
    relation, and its invariants: no step fails, recorded and actual channel states agree (without
    standby requests), satellites are not lost; and the two ways in which the start or an assisted
    restart goes wrong.

  \<^bold>\<open>Parameters.\<close> Code outside \<^verbatim>\<open>src\<close> is an argument: the checksum of Boost (a function from the
  octets to the remainder), GnuTLS (the record \<open>gnutls\<close>: hash, encoding of the signature,
  verification), the file system and XML parser of the key loader (\<open>keys_env\<close>), the functions of
  the C mathematical library (\<open>libm\<close>), the configuration (a record of the values the code asks
  for), the PRN lists of Boost and the satellites visible from a fix. Statements that rely on them name what they rely on as
  hypotheses, and their witnesses give concrete functions.

  \<^bold>\<open>Machine arithmetic.\<close> Bit sets and octets are words; \<^verbatim>\<open>int32_t\<close> values are integers with
  \<open>to_int32\<close> at conversions and \<open>checked_int32\<close> where the code's arithmetic could overflow;
  doubles and floats are rationals rounded by \<open>to_double\<close> and \<open>to_float\<close> after each operation;
  symbol, sample and time counters that wrap around are words. All loops are structural or
  have a termination proof; no fuel is used.

  \<^bold>\<open>Not modelled.\<close> Sample processing (sources, filters, acquisition, tracking) is floating-point
  signal processing over VOLK and GNU Radio; observables and PVT compute over Armadillo and RTKLIB;
  RTKLIB and the other vendored libraries are third-party code; the printers, monitors and network
  clients are input and output, as are the dump files and the console of the modelled blocks. The
  telemetry decoders of GPS, GLONASS, BeiDou and SBAS and the decoding of HAS messages are left out.
\<close>

end
